(* ===== verification/Prelude.thy ===== *)
theory Prelude
  imports Complex_Main
begin

text \<open>
  The shared prelude: Python's string and dictionary operations as the source uses them
  (on ASCII text, a string being a list of characters), JSON values, UTC and naive
  timestamps, and database tables as lists of rows with a key. The collections
  \<open>table_simps\<close> and \<open>dict_simps\<close> hold the rewrite rules the component proofs share.
\<close>

named_theorems table_simps \<open>reading and updating the rows of a table\<close>
named_theorems dict_simps \<open>reading and updating JSON objects\<close>

section \<open>Strings\<close>

definition char_upper :: "char \<Rightarrow> char" where
  "char_upper c =
     (if 97 \<le> (of_char c :: nat) \<and> (of_char c :: nat) \<le> 122
      then char_of ((of_char c :: nat) - 32) else c)"

definition char_lower :: "char \<Rightarrow> char" where
  "char_lower c =
     (if 65 \<le> (of_char c :: nat) \<and> (of_char c :: nat) \<le> 90
      then char_of ((of_char c :: nat) + 32) else c)"

definition str_upper :: "string \<Rightarrow> string" where
  "str_upper s = map char_upper s"

definition str_lower :: "string \<Rightarrow> string" where
  "str_lower s = map char_lower s"

definition is_space :: "char \<Rightarrow> bool" where
  "is_space c \<longleftrightarrow> (let n = (of_char c :: nat) in n = 32 \<or> (9 \<le> n \<and> n \<le> 13) \<or> (28 \<le> n \<and> n \<le> 31))"

definition str_strip :: "string \<Rightarrow> string" where
  "str_strip s = rev (dropWhile is_space (rev (dropWhile is_space s)))"

definition starts_with :: "string \<Rightarrow> string \<Rightarrow> bool" where
  "starts_with s p \<longleftrightarrow> take (length p) s = p"

fun contains :: "string \<Rightarrow> string \<Rightarrow> bool" where
  "contains [] p = (p = [])"
| "contains (c # s) p = (starts_with (c # s) p \<or> contains s p)"

fun str_join :: "string \<Rightarrow> string list \<Rightarrow> string" where
  "str_join sep [] = []"
| "str_join sep [x] = x"
| "str_join sep (x # y # ys) = x @ sep @ str_join sep (y # ys)"

definition digit_char :: "nat \<Rightarrow> char" where
  "digit_char d = char_of (48 + d)"

fun str_nat :: "nat \<Rightarrow> string" where
  "str_nat n = (if n < 10 then [digit_char n] else str_nat (n div 10) @ [digit_char (n mod 10)])"

declare str_nat.simps [simp del]

definition str_int :: "int \<Rightarrow> string" where
  "str_int i = (if i < 0 then ''-'' @ str_nat (nat (- i)) else str_nat (nat i))"

text \<open>The same digits computed on integers, which evaluate in binary.\<close>

function int_digits :: "int \<Rightarrow> string" where
  "int_digits i =
     (if i < 10 then [digit_char (nat i)] else int_digits (i div 10) @ [digit_char (nat (i mod 10))])"
  by auto
termination int_digits by (relation "measure nat") auto

declare int_digits.simps [simp del]

lemma int_digits_str_nat: "int_digits (int n) = str_nat n"
proof (induction n rule: str_nat.induct)
  case (1 n)
  have "int n div 10 = int (n div 10)" "int n mod 10 = int (n mod 10)" by (simp_all add: zdiv_int zmod_int)
  with 1 show ?case by (subst int_digits.simps, subst str_nat.simps) simp
qed

lemma str_int_digits [code]: "str_int i = (if i < 0 then ''-'' @ int_digits (- i) else int_digits i)"
  using int_digits_str_nat [of "nat i"] int_digits_str_nat [of "nat (- i)"]
  by (auto simp: str_int_def max_def)

definition pad_left :: "nat \<Rightarrow> string \<Rightarrow> string" where
  "pad_left k s = replicate (k - length s) (CHR ''0'') @ s"

text \<open>The canonical text of a UUID: its 32 hexadecimal digits with four hyphens.\<close>

definition uuid_text :: "string \<Rightarrow> string" where
  "uuid_text h = take 8 h @ ''-'' @ take 4 (drop 8 h) @ ''-'' @ take 4 (drop 12 h)
     @ ''-'' @ take 4 (drop 16 h) @ ''-'' @ drop 20 h"

text \<open>Python's truth value of an optional string, and \<open>x or y\<close> on optional strings.\<close>

definition truthy_str :: "string option \<Rightarrow> bool" where
  "truthy_str x \<longleftrightarrow> (case x of None \<Rightarrow> False | Some s \<Rightarrow> s \<noteq> [])"

definition str_or :: "string option \<Rightarrow> string \<Rightarrow> string" where
  "str_or x d = (case x of None \<Rightarrow> d | Some s \<Rightarrow> if s = [] then d else s)"

lemma truthy_str_simps [simp]:
  "\<not> truthy_str None" "truthy_str (Some s) \<longleftrightarrow> s \<noteq> []"
  by (simp_all add: truthy_str_def)

lemma str_or_simps [simp]:
  "str_or None d = d" "str_or (Some s) d = (if s = [] then d else s)"
  by (simp_all add: str_or_def)

lemma starts_with_append [simp]: "starts_with (p @ s) p"
  by (simp add: starts_with_def)

lemma starts_with_iff: "starts_with s p \<longleftrightarrow> (\<exists>r. s = p @ r)"
  by (metis append_eq_conv_conj append_take_drop_id starts_with_def)

lemma uuid_text_inj:
  assumes "length h = 32" and "length h' = 32" and "uuid_text h = uuid_text h'"
  shows "h = h'"
proof -
  have split: "drop i x = take j (drop i x) @ drop (i + j) x" for i j and x :: string
    by (metis add.commute append_take_drop_id drop_drop)
  have h: "x = take 8 x @ take 4 (drop 8 x) @ take 4 (drop 12 x) @ take 4 (drop 16 x) @ drop 20 x"
    for x :: string
    using split [where i = 0 and j = 8 and x = x] split [where i = 8 and j = 4 and x = x]
      split [where i = 12 and j = 4 and x = x] split [where i = 16 and j = 4 and x = x] by simp
  from assms have "take 8 h = take 8 h'" "take 4 (drop 8 h) = take 4 (drop 8 h')"
    "take 4 (drop 12 h) = take 4 (drop 12 h')" "take 4 (drop 16 h) = take 4 (drop 16 h')"
    "drop 20 h = drop 20 h'"
    by (simp_all add: uuid_text_def)
  with h [of h] h [of h'] show ?thesis by metis
qed

section \<open>Error results\<close>

text \<open>Sequencing of results: the first error is the result, as an exception would be.\<close>

definition bindE :: "'e + 'a \<Rightarrow> ('a \<Rightarrow> 'e + 'b) \<Rightarrow> 'e + 'b" where
  "bindE m f = (case m of Inl e \<Rightarrow> Inl e | Inr x \<Rightarrow> f x)"

lemma bindE_simps [simp]: "bindE (Inl e) f = Inl e" "bindE (Inr x) f = f x"
  by (simp_all add: bindE_def)

lemma bindE_Inr_iff: "bindE m f = Inr y \<longleftrightarrow> (\<exists>x. m = Inr x \<and> f x = Inr y)"
  by (cases m) auto

section \<open>JSON values and dictionaries\<close>

datatype json =
    JNull
  | JBool bool
  | JInt int
  | JFloat rat
  | JStr string
  | JList "json list"
  | JObj "(string \<times> json) list"

type_synonym dict = "(string \<times> json) list"

text \<open>\<open>d.get(k)\<close>, \<open>d.get(k, default)\<close> and the truth value of a JSON value.\<close>

definition dget :: "dict \<Rightarrow> string \<Rightarrow> json option" where
  "dget d k = map_of d k"

definition dget_or :: "dict \<Rightarrow> string \<Rightarrow> json \<Rightarrow> json" where
  "dget_or d k v = (case dget d k of None \<Rightarrow> v | Some x \<Rightarrow> x)"

fun jtruthy :: "json \<Rightarrow> bool" where
  "jtruthy JNull = False"
| "jtruthy (JBool b) = b"
| "jtruthy (JInt i) = (i \<noteq> 0)"
| "jtruthy (JFloat r) = (r \<noteq> 0)"
| "jtruthy (JStr s) = (s \<noteq> [])"
| "jtruthy (JList xs) = (xs \<noteq> [])"
| "jtruthy (JObj d) = (d \<noteq> [])"

definition jopt_str :: "string option \<Rightarrow> json" where
  "jopt_str x = (case x of None \<Rightarrow> JNull | Some s \<Rightarrow> JStr s)"

lemma dget_simps [dict_simps]:
  "dget [] k = None"
  "dget ((k', v) # d) k = (if k' = k then Some v else dget d k)"
  by (simp_all add: dget_def)

section \<open>Timestamps\<close>

text \<open>
  A \<open>datetime\<close> is a wall-clock reading in microseconds, naive or with a UTC offset (also in
  microseconds). Aware values compare by instant; Python refuses to mix the two kinds.
\<close>

datatype datetime = Naive int | Aware int int

definition sec :: int where "sec = 1000000"

fun dt_aware :: "datetime \<Rightarrow> bool" where
  "dt_aware (Naive _) = False"
| "dt_aware (Aware _ _) = True"

fun instant :: "datetime \<Rightarrow> int" where
  "instant (Naive t) = t"
| "instant (Aware t z) = t - z"

text \<open>The civil date of a day number counted from 1970-01-01 (proleptic Gregorian).\<close>

definition civil :: "int \<Rightarrow> int \<times> int \<times> int" where
  "civil d =
     (let z = d + 719468;
          era = z div 146097;
          doe = z mod 146097;
          yoe = (doe - doe div 1460 + doe div 36524 - doe div 146096) div 365;
          doy = doe - (365 * yoe + yoe div 4 - yoe div 100);
          mp = (5 * doy + 2) div 153;
          dd = doy - (153 * mp + 2) div 5 + 1;
          mm = (if mp < 10 then mp + 3 else mp - 9);
          yy = yoe + era * 400 + (if mm \<le> 2 then 1 else 0)
      in (yy, mm, dd))"

definition pad_int :: "nat \<Rightarrow> int \<Rightarrow> string" where
  "pad_int k i = pad_left k (str_int i)"

definition iso_offset :: "int \<Rightarrow> string" where
  "iso_offset z =
     (let s = \<bar>z\<bar> div sec
      in (if z < 0 then ''-'' else ''+'') @ pad_int 2 (s div 3600) @ '':''
         @ pad_int 2 ((s div 60) mod 60)
         @ (if s mod 60 = 0 then [] else '':'' @ pad_int 2 (s mod 60)))"

definition iso_local :: "int \<Rightarrow> string" where
  "iso_local t =
     (let (y, m, d) = civil (t div (86400 * sec));
          r = t mod (86400 * sec);
          s = r div sec;
          us = r mod sec
      in pad_int 4 y @ ''-'' @ pad_int 2 m @ ''-'' @ pad_int 2 d @ ''T''
         @ pad_int 2 (s div 3600) @ '':'' @ pad_int 2 ((s div 60) mod 60) @ '':''
         @ pad_int 2 (s mod 60)
         @ (if us = 0 then [] else ''.'' @ pad_int 6 us))"

fun isoformat :: "datetime \<Rightarrow> string" where
  "isoformat (Naive t) = iso_local t"
| "isoformat (Aware t z) = iso_local t @ iso_offset z"

section \<open>Tables\<close>

text \<open>
  A table is the list of its rows in insertion order. \<open>tget\<close> is a primary-key lookup and
  \<open>tupd\<close> is \<open>UPDATE ... WHERE key = k\<close>. The order of the rows an unordered \<open>SELECT\<close> returns
  is the order of the list.
\<close>

definition tget :: "('r \<Rightarrow> 'k) \<Rightarrow> 'k \<Rightarrow> 'r list \<Rightarrow> 'r option" where
  "tget key k t = find (\<lambda>r. key r = k) t"

definition tupd :: "('r \<Rightarrow> 'k) \<Rightarrow> 'k \<Rightarrow> ('r \<Rightarrow> 'r) \<Rightarrow> 'r list \<Rightarrow> 'r list" where
  "tupd key k f t = map (\<lambda>r. if key r = k then f r else r) t"

lemma tget_Nil [table_simps]: "tget key k [] = None"
  by (simp add: tget_def)

lemma tget_Cons [table_simps]: "tget key k (r # t) = (if key r = k then Some r else tget key k t)"
  by (simp add: tget_def)

lemma tget_SomeD: "tget key k t = Some r \<Longrightarrow> r \<in> set t \<and> key r = k"
  by (induction t) (auto simp: table_simps split: if_splits)

lemma tget_SomeD_key: "tget key k t = Some r \<Longrightarrow> k \<in> key ` set t"
  by (auto dest: tget_SomeD)

lemma tget_None_iff: "tget key k t = None \<longleftrightarrow> k \<notin> key ` set t"
  by (induction t) (auto simp: table_simps)

lemma tget_in_set:
  assumes "distinct (map key t)" and "r \<in> set t"
  shows "tget key (key r) t = Some r"
  using assms by (induction t) (auto simp: table_simps)

lemma tget_append [table_simps]:
  "tget key k (t @ u) = (case tget key k t of None \<Rightarrow> tget key k u | Some r \<Rightarrow> Some r)"
  by (induction t) (auto simp: table_simps)

lemma tget_map:
  assumes "\<And>r. key (g r) = key r"
  shows "tget key k (map g t) = map_option g (tget key k t)"
  by (induction t) (auto simp: table_simps assms)

lemma tget_tupd_other:
  assumes "\<And>r. key' (f r) = key' r"
  shows "tget key' k' (tupd key k f t) = map_option (\<lambda>r. if key r = k then f r else r) (tget key' k' t)"
  unfolding tupd_def by (rule tget_map) (simp add: assms)

lemma tupd_Nil [table_simps]: "tupd key k f [] = []"
  by (simp add: tupd_def)

lemma tupd_Cons [table_simps]:
  "tupd key k f (r # t) = (if key r = k then f r else r) # tupd key k f t"
  by (simp add: tupd_def)

lemma tupd_append [table_simps]: "tupd key k f (t @ u) = tupd key k f t @ tupd key k f u"
  by (simp add: tupd_def)

lemma length_tupd [simp]: "length (tupd key k f t) = length t"
  by (simp add: tupd_def)

lemma tupd_absent: "k \<notin> key ` set t \<Longrightarrow> tupd key k f t = t"
  by (induction t) (auto simp: table_simps)

lemma tupd_id [simp]: "tupd key k (\<lambda>r. r) t = t"
  by (simp add: tupd_def)

lemma map_tupd_same:
  assumes "\<And>r. key r = k \<Longrightarrow> g (f r) = g r"
  shows "map g (tupd key k f t) = map g t"
  using assms by (auto simp: tupd_def)

lemma map_tupd_commute:
  assumes "\<And>r. key' (g r) = key r" and "\<And>r. key r = k \<Longrightarrow> g (f r) = f' (g r)"
  shows "map g (tupd key k f t) = tupd key' k f' (map g t)"
  using assms by (auto simp: tupd_def)

lemma tupd_tupd_same:
  assumes "\<And>r. key r = k \<Longrightarrow> key (f r) = k"
  shows "tupd key k g (tupd key k f t) = tupd key k (\<lambda>r. g (f r)) t"
  using assms by (auto simp: tupd_def)

text \<open>
  An update that keeps the key of the row it rewrites: what a lookup returns after it. The
  locale is interpreted for each table of the model.
\<close>

locale keyed_update =
  fixes key :: "'r \<Rightarrow> 'k" and f :: "'r \<Rightarrow> 'r"
  assumes keeps_key: "key (f r) = key r"
begin

lemma tget_tupd:
  "tget key k' (tupd key k f t) = (if k' = k then map_option f (tget key k t) else tget key k' t)"
  by (induction t) (auto simp: table_simps keeps_key)

lemma keys_tupd: "map key (tupd key k f t) = map key t"
  by (rule map_tupd_same) (simp add: keeps_key)

lemma tget_tupd_same: "tget key k t = Some r \<Longrightarrow> tget key k (tupd key k f t) = Some (f r)"
  by (simp add: tget_tupd)

end

lemma tget_tupd_key:
  assumes "\<And>r. key (f r) = key r"
  shows "tget key k' (tupd key k f t)
    = (if k' = k then map_option f (tget key k t) else tget key k' t)"
  using keyed_update.tget_tupd [of key f] assms by (simp add: keyed_update_def)

lemma keys_tupd_key:
  assumes "\<And>r. key (f r) = key r"
  shows "map key (tupd key k f t) = map key t"
  using keyed_update.keys_tupd [of key f] assms by (simp add: keyed_update_def)

text \<open>A unique column selects at most one row.\<close>

lemma filter_key_le_one:
  assumes "distinct (map key t)"
  shows "filter (\<lambda>r. key r = k) t = [] \<or> (\<exists>r. filter (\<lambda>r. key r = k) t = [r])"
  using assms
proof (induction t)
  case (Cons x t)
  then show ?case by (cases "key x = k") (auto simp: filter_empty_conv rev_image_eqI)
qed simp

section \<open>Sums over lists\<close>

lemma sum_list_tupd:
  fixes g :: "'r \<Rightarrow> int"
  assumes "distinct (map key t)" and "r \<in> set t"
  shows "sum_list (map g (tupd key (key r) f t)) = sum_list (map g t) - g r + g (f r)"
  using assms
proof (induction t)
  case Nil
  then show ?case by simp
next
  case (Cons x t)
  show ?case
  proof (cases "key x = key r")
    case True
    with Cons.prems have "x = r" and "key r \<notin> key ` set t" by auto
    then show ?thesis by (simp add: table_simps tupd_absent)
  next
    case False
    with Cons show ?thesis by (auto simp: table_simps)
  qed
qed

lemma sum_list_nonneg_ge:
  fixes g :: "'r \<Rightarrow> int"
  assumes "r \<in> set t" and "\<And>x. x \<in> set t \<Longrightarrow> 0 \<le> g x"
  shows "g r \<le> sum_list (map g t)"
  using assms
proof (induction t)
  case Nil
  then show ?case by simp
next
  case (Cons x t)
  have "0 \<le> sum_list (map g t)" using Cons.prems(2) by (intro sum_list_nonneg) auto
  with Cons show ?case by fastforce
qed

end
