(* ===== verification/Domain.thy ===== *)
theory Domain
  imports Config
begin

text \<open>
  The domain layer of \<^verbatim>\<open>packages/core\<close>: the enums of \<^verbatim>\<open>enums.py\<close>, the rows of
  \<^verbatim>\<open>models.py\<close>, the diagnostics and results the policy engine stores in an operation, the
  exceptions the program raises, the database with the other mutable state of a process
  (\<open>world\<close>) and what the program reads from outside (\<open>env\<close>).
\<close>

section \<open>Enums\<close>

datatype principal_role = Role_ADMIN | Role_DEVELOPER | Role_AUDITOR | Role_SERVICE

datatype agent_status = Agent_ACTIVE | Agent_SUSPENDED | Agent_REVOKED

fun agent_status_value :: "agent_status \<Rightarrow> string" where
  "agent_status_value Agent_ACTIVE = ''ACTIVE''"
| "agent_status_value Agent_SUSPENDED = ''SUSPENDED''"
| "agent_status_value Agent_REVOKED = ''REVOKED''"

datatype mandate_status =
    Mandate_PENDING_APPROVAL
  | Mandate_ACTIVE
  | Mandate_SUSPENDED
  | Mandate_EXPIRED
  | Mandate_EXHAUSTED
  | Mandate_REVOKED

fun mandate_status_value :: "mandate_status \<Rightarrow> string" where
  "mandate_status_value Mandate_PENDING_APPROVAL = ''PENDING_APPROVAL''"
| "mandate_status_value Mandate_ACTIVE = ''ACTIVE''"
| "mandate_status_value Mandate_SUSPENDED = ''SUSPENDED''"
| "mandate_status_value Mandate_EXPIRED = ''EXPIRED''"
| "mandate_status_value Mandate_EXHAUSTED = ''EXHAUSTED''"
| "mandate_status_value Mandate_REVOKED = ''REVOKED''"

datatype operation_type =
    CREATE_ORDER
  | CAPTURE_PAYMENT
  | CREATE_REFUND
  | CREATE_PAYMENT_LINK
  | CANCEL_PAYMENT_LINK

fun operation_type_value :: "operation_type \<Rightarrow> string" where
  "operation_type_value CREATE_ORDER = ''CREATE_ORDER''"
| "operation_type_value CAPTURE_PAYMENT = ''CAPTURE_PAYMENT''"
| "operation_type_value CREATE_REFUND = ''CREATE_REFUND''"
| "operation_type_value CREATE_PAYMENT_LINK = ''CREATE_PAYMENT_LINK''"
| "operation_type_value CANCEL_PAYMENT_LINK = ''CANCEL_PAYMENT_LINK''"

datatype policy_decision_type = ALLOW | DENY | REQUIRE_HUMAN_REVIEW

fun policy_decision_value :: "policy_decision_type \<Rightarrow> string" where
  "policy_decision_value ALLOW = ''ALLOW''"
| "policy_decision_value DENY = ''DENY''"
| "policy_decision_value REQUIRE_HUMAN_REVIEW = ''REQUIRE_HUMAN_REVIEW''"

text \<open>
  Decisions ordered by how restrictive they are, so that the outcome of an evaluation can be
  stated as a maximum.
\<close>

fun severity :: "policy_decision_type \<Rightarrow> nat" where
  "severity ALLOW = 0"
| "severity REQUIRE_HUMAN_REVIEW = 1"
| "severity DENY = 2"

instantiation policy_decision_type :: linorder
begin

definition less_eq_policy_decision_type :: "policy_decision_type \<Rightarrow> policy_decision_type \<Rightarrow> bool" where
  "less_eq_policy_decision_type a b \<longleftrightarrow> severity a \<le> severity b"

definition less_policy_decision_type :: "policy_decision_type \<Rightarrow> policy_decision_type \<Rightarrow> bool" where
  "less_policy_decision_type a b \<longleftrightarrow> severity a < severity b"

instance
proof
  fix a b c :: policy_decision_type
  show "(a < b) = (a \<le> b \<and> \<not> b \<le> a)"
    by (auto simp: less_policy_decision_type_def less_eq_policy_decision_type_def)
  show "a \<le> a" by (simp add: less_eq_policy_decision_type_def)
  show "a \<le> b \<Longrightarrow> b \<le> c \<Longrightarrow> a \<le> c" by (simp add: less_eq_policy_decision_type_def)
  show "a \<le> b \<Longrightarrow> b \<le> a \<Longrightarrow> a = b"
    by (cases a; cases b) (simp_all add: less_eq_policy_decision_type_def)
  show "a \<le> b \<or> b \<le> a" by (auto simp: less_eq_policy_decision_type_def)
qed

end

datatype operation_status =
    Op_INITIATED
  | Op_POLICY_CHECK_PENDING
  | Op_POLICY_APPROVED
  | Op_POLICY_REJECTED
  | Op_REQUIRES_APPROVAL
  | Op_RESERVED
  | Op_EXECUTING
  | Op_SUCCEEDED
  | Op_FAILED
  | Op_CANCELLED

fun operation_status_value :: "operation_status \<Rightarrow> string" where
  "operation_status_value Op_INITIATED = ''INITIATED''"
| "operation_status_value Op_POLICY_CHECK_PENDING = ''POLICY_CHECK_PENDING''"
| "operation_status_value Op_POLICY_APPROVED = ''POLICY_APPROVED''"
| "operation_status_value Op_POLICY_REJECTED = ''POLICY_REJECTED''"
| "operation_status_value Op_REQUIRES_APPROVAL = ''REQUIRES_APPROVAL''"
| "operation_status_value Op_RESERVED = ''RESERVED''"
| "operation_status_value Op_EXECUTING = ''EXECUTING''"
| "operation_status_value Op_SUCCEEDED = ''SUCCEEDED''"
| "operation_status_value Op_FAILED = ''FAILED''"
| "operation_status_value Op_CANCELLED = ''CANCELLED''"

datatype transaction_status =
    Tx_CREATED | Tx_AUTHORIZED | Tx_CAPTURED | Tx_REFUNDED | Tx_FAILED

datatype audit_action =
    PRINCIPAL_CREATED
  | AGENT_REGISTERED
  | AGENT_STATUS_CHANGED
  | MANDATE_CREATED
  | MANDATE_ISSUED
  | MANDATE_DELEGATED
  | MANDATE_STATUS_CHANGED
  | MANDATE_REVOKED
  | MANDATE_SUSPENDED
  | MANDATE_ACTIVATED
  | OPERATION_REQUESTED
  | POLICY_EVALUATED
  | BUDGET_RESERVED
  | BUDGET_COMMITTED
  | BUDGET_RELEASED
  | HUMAN_APPROVAL_GRANTED
  | HUMAN_APPROVAL_REJECTED
  | OPERATION_EXECUTED
  | TRANSACTION_RECORDED
  | WEBHOOK_RECEIVED

section \<open>Exceptions\<close>

text \<open>
  \<open>exn\<close> lists the exceptions that reach a handler of the program. The text of a library's own
  exception is the library's (\<open>lib_text\<close> below). \<open>NoReturn\<close> is not an exception: it is the
  value of a call that never returns, and a lemma shows the handlers never produce it.
\<close>

datatype exn =
    HTTPException int string
  | InvalidStateTransitionError operation_status operation_status string
  | ValueError string
  | RuntimeError string
  | TypeError
  | AttributeError
  | IndexError
  | OverflowError
  | KeyError string
  | ValidationError string
  | JSONDecodeError
  | MultipleResultsFound
  | DatabaseError
  | RedisError
  | TimeoutException
  | NetworkError
  | HTTPStatusError int
  | NoReturn

section \<open>Rows\<close>

record principal =
  p_id :: string
  p_name :: string
  p_email :: string
  p_role :: principal_role
  p_is_active :: bool
  p_created_at :: datetime

record agent =
  a_id :: string
  a_name :: string
  a_description :: "string option"
  a_owner_id :: string
  a_status :: agent_status
  a_api_key_hash :: string
  a_agent_type :: string
  a_metadata_json :: dict
  a_created_at :: datetime

record mandate =
  m_id :: string
  m_agent_id :: string
  m_granted_by_id :: string
  m_parent_mandate_id :: "string option"
  m_delegation_depth :: int
  m_max_delegation_depth :: int
  m_status :: mandate_status
  m_currency :: string
  m_max_amount_per_op :: int
  m_aggregate_spend_limit :: int
  m_current_aggregate_spend :: int
  m_reserved_spend :: int
  m_delegated_child_budget_allocated :: int
  m_review_threshold_amount :: "int option"
  m_allowed_operations :: "string list"
  m_policy_config :: dict
  m_suspension_reason :: "string option"
  m_version :: int
  m_valid_from :: datetime
  m_valid_until :: datetime
  m_created_at :: datetime

text \<open>
  What the policy engine reports (\<^verbatim>\<open>packages/policy/engine.py\<close>): one diagnostic per rule and
  the result of an evaluation, which an operation stores in \<open>policy_evaluation_details\<close>. The
  measured latencies are left out.
\<close>

record diagnostic =
  d_rule_name :: string
  d_decision :: policy_decision_type
  d_passed :: bool
  d_reason :: string
  d_context :: dict

record evaluation =
  r_decision :: policy_decision_type
  r_approved :: bool
  r_requires_human_review :: bool
  r_operation_id :: string
  r_agent_id :: string
  r_mandate_id :: string
  r_rejection_reasons :: "string list"
  r_review_reasons :: "string list"
  r_rule_diagnostics :: "diagnostic list"

record operation =
  o_id :: string
  o_operation_id :: string
  o_idempotency_key :: string
  o_agent_id :: string
  o_mandate_id :: string
  o_operation_type :: operation_type
  o_status :: operation_status
  o_amount :: int
  o_currency :: string
  o_payload :: dict
  o_policy_evaluation_details :: "evaluation option"
  o_error_message :: "string option"
  o_approved_by_id :: "string option"
  o_trace_id :: string
  o_created_at :: datetime

record transaction =
  t_id :: string
  t_operation_id :: string
  t_gateway_name :: string
  t_gateway_order_id :: "string option"
  t_gateway_payment_id :: "string option"
  t_gateway_refund_id :: "string option"
  t_gateway_payment_link_id :: "string option"
  t_gateway_payment_link_url :: "string option"
  t_amount :: int
  t_currency :: string
  t_status :: transaction_status
  t_gateway_response :: dict
  t_error_code :: "string option"
  t_error_description :: "string option"
  t_created_at :: datetime

record outbox_event =
  ob_id :: string
  ob_event_id :: string
  ob_topic :: string
  ob_event_type :: string
  ob_payload :: dict
  ob_status :: string
  ob_retry_count :: int
  ob_last_error :: "string option"
  ob_created_at :: datetime
  ob_published_at :: "datetime option"

record webhook_event =
  wh_id :: string
  wh_event_id :: string
  wh_event_type :: string
  wh_payload_hash :: string
  wh_raw_payload :: dict
  wh_signature_verified :: bool
  wh_status :: string
  wh_processed :: bool
  wh_processing_attempts :: int
  wh_max_retries :: int
  wh_error_message :: "string option"
  wh_trace_id :: "string option"
  wh_received_at :: datetime
  wh_processed_at :: "datetime option"

record reconciliation_report =
  rr_id :: string
  rr_report_id :: string
  rr_total_audited :: int
  rr_inconsistencies_detected :: int
  rr_details :: dict
  rr_created_at :: datetime

record execution_trace =
  tr_id :: string
  tr_session_id :: string
  tr_agent_id :: string
  tr_user_prompt :: string
  tr_model_provider :: string
  tr_model_name :: string
  tr_tool_name :: "string option"
  tr_tool_arguments :: dict
  tr_tool_result :: dict
  tr_operation_id :: "string option"
  tr_policy_decision :: "string option"
  tr_agent_response_text :: string
  tr_created_at :: datetime

record audit_event =
  au_id :: string
  au_event_id :: string
  au_action :: audit_action
  au_actor_id :: string
  au_actor_type :: string
  au_resource_id :: string
  au_resource_type :: string
  au_payload :: dict
  au_previous_state :: "dict option"
  au_new_state :: "dict option"
  au_trace_id :: "string option"
  au_timestamp :: datetime

section \<open>The state of a process\<close>

text \<open>
  The database is one list per table. A handler reads and writes these lists; when it raises,
  \<^verbatim>\<open>get_db_session\<close> rolls the session back (\<open>rollback\<close>), which restores the tables but not
  what happened outside the database.
\<close>

record database =
  principals :: "principal list"
  agents :: "agent list"
  mandates :: "mandate list"
  operations :: "operation list"
  transactions :: "transaction list"
  outbox_events :: "outbox_event list"
  webhook_events :: "webhook_event list"
  reconciliation_reports :: "reconciliation_report list"
  execution_traces :: "execution_trace list"
  audit_events :: "audit_event list"

text \<open>
  HTTP requests to the gateway and what comes back. \<open>HTTPStatusError\<close> is listed for the
  handlers' \<open>except\<close> clause; the client never asks httpx to raise it.
\<close>

record http_request =
  rq_method :: string
  rq_url :: string
  rq_json :: "dict option"

datatype http_outcome =
    HTTP_Timeout
  | HTTP_NetworkError
  | HTTP_StatusError int
  | HTTP_NotJson
  | HTTP_Json json

text \<open>Calls of the gateway client, in the order of its \<open>logger.info\<close> lines.\<close>

datatype gateway_call =
    Call_create_order int string
  | Call_fetch_order string
  | Call_fetch_payment string
  | Call_capture_payment string int
  | Call_create_refund string "int option"
  | Call_fetch_refund string
  | Call_create_payment_link int
  | Call_fetch_payment_link string
  | Call_cancel_payment_link string

type_synonym zset = "(string \<times> rat) list"

text \<open>The keyword arguments of a call of \<open>labels\<close>: label names with their values.\<close>

type_synonym label_args = "(string \<times> string) list"

record world = database +
  uuid_count :: nat
  http_log :: "http_request list"
  gateway_calls :: "gateway_call list"
  redis_db :: "string \<Rightarrow> zset"
  fallback_buckets :: "string \<Rightarrow> rat list"
  metric_incs :: "(string \<times> label_args) list"

text \<open>
  What the program reads from outside: its settings, the clocks, the UUIDs it draws, the hash
  functions, the JSON parser, the gateway's answers, the Redis commands it issues and the
  texts of library exceptions and floats. A handler reads the clock once: \<open>now_us\<close> is the
  instant of the request.
\<close>

record redis_api =
  redis_window :: "(string \<Rightarrow> zset) \<Rightarrow> string \<Rightarrow> rat \<Rightarrow> string \<Rightarrow> rat \<Rightarrow> int
                     \<Rightarrow> exn + (int \<times> (string \<Rightarrow> zset))"
  redis_zrem :: "(string \<Rightarrow> zset) \<Rightarrow> string \<Rightarrow> string \<Rightarrow> exn + (string \<Rightarrow> zset)"
  redis_oldest :: "(string \<Rightarrow> zset) \<Rightarrow> string \<Rightarrow> exn + (string \<times> rat) option"

record env =
  settings :: settings
  now_us :: int
  time_now :: rat
  perf_counter_ns :: int
  uuid_hex :: "nat \<Rightarrow> string"
  sha256_hex :: "string \<Rightarrow> string"
  hmac_sha256_hex :: "string \<Rightarrow> string \<Rightarrow> string"
  json_loads :: "string \<Rightarrow> json option"
  http :: "nat \<Rightarrow> http_request \<Rightarrow> http_outcome"
  redis :: redis_api
  lib_text :: "exn \<Rightarrow> string"
  float_text :: "rat \<Rightarrow> string"

definition utc_now :: "env \<Rightarrow> datetime" where
  "utc_now E = Aware (now_us E) 0"

text \<open>\<open>str(e)\<close>: the program's own messages, otherwise the library's text.\<close>

definition invalid_transition_text :: "operation_status \<Rightarrow> operation_status \<Rightarrow> string \<Rightarrow> string" where
  "invalid_transition_text cur target reason =
     str_strip (''Invalid state transition from '' @ [CHR 0x27] @ operation_status_value cur
       @ [CHR 0x27] @ '' to '' @ [CHR 0x27] @ operation_status_value target @ [CHR 0x27]
       @ ''. '' @ reason)"

definition exn_text :: "env \<Rightarrow> exn \<Rightarrow> string" where
  "exn_text E e =
     (case e of
        ValueError s \<Rightarrow> s
      | RuntimeError s \<Rightarrow> s
      | InvalidStateTransitionError c t r \<Rightarrow> invalid_transition_text c t r
      | _ \<Rightarrow> lib_text E e)"

definition quote :: "string \<Rightarrow> string" where
  "quote s = [CHR 0x27] @ s @ [CHR 0x27]"

section \<open>Drawing identifiers, writing audit events and metrics\<close>

definition draw_uuid :: "env \<Rightarrow> world \<Rightarrow> string \<times> world" where
  "draw_uuid E w = (uuid_hex E (uuid_count w), w\<lparr>uuid_count := uuid_count w + 1\<rparr>)"

definition generate_uuid :: "env \<Rightarrow> world \<Rightarrow> string \<times> world" where
  "generate_uuid E w = (let (h, w) = draw_uuid E w in (uuid_text h, w))"

definition inc_metric :: "string \<Rightarrow> label_args \<Rightarrow> world \<Rightarrow> world" where
  "inc_metric name labels w = w\<lparr>metric_incs := metric_incs w @ [(name, labels)]\<rparr>"

definition add_audit ::
    "env \<Rightarrow> audit_action \<Rightarrow> string \<Rightarrow> string \<Rightarrow> string \<Rightarrow> string \<Rightarrow> dict \<Rightarrow> dict option
       \<Rightarrow> dict option \<Rightarrow> world \<Rightarrow> world" where
  "add_audit E action actor_id actor_type resource_id resource_type payload previous new w =
     (let (h, w) = draw_uuid E w;
          (pk, w) = generate_uuid E w
      in w\<lparr>audit_events := audit_events w @
             [\<lparr>au_id = pk, au_event_id = ''aud_'' @ take 16 h, au_action = action,
               au_actor_id = actor_id, au_actor_type = actor_type, au_resource_id = resource_id,
               au_resource_type = resource_type, au_payload = payload,
               au_previous_state = previous, au_new_state = new, au_trace_id = None,
               au_timestamp = utc_now E\<rparr>]\<rparr>)"

lemma add_audit_fields [simp]:
  "mandates (add_audit E ac a b c d p q n w) = mandates w"
  "operations (add_audit E ac a b c d p q n w) = operations w"
  "transactions (add_audit E ac a b c d p q n w) = transactions w"
  "agents (add_audit E ac a b c d p q n w) = agents w"
  "principals (add_audit E ac a b c d p q n w) = principals w"
  "outbox_events (add_audit E ac a b c d p q n w) = outbox_events w"
  "webhook_events (add_audit E ac a b c d p q n w) = webhook_events w"
  "reconciliation_reports (add_audit E ac a b c d p q n w) = reconciliation_reports w"
  "execution_traces (add_audit E ac a b c d p q n w) = execution_traces w"
  "gateway_calls (add_audit E ac a b c d p q n w) = gateway_calls w"
  "http_log (add_audit E ac a b c d p q n w) = http_log w"
  by (simp_all add: add_audit_def draw_uuid_def generate_uuid_def Let_def)

definition rollback :: "world \<Rightarrow> world \<Rightarrow> world" where
  "rollback w0 w = w\<lparr>
     principals := principals w0, agents := agents w0, mandates := mandates w0,
     operations := operations w0, transactions := transactions w0,
     outbox_events := outbox_events w0, webhook_events := webhook_events w0,
     reconciliation_reports := reconciliation_reports w0,
     execution_traces := execution_traces w0, audit_events := audit_events w0\<rparr>"

section \<open>Reading and updating rows\<close>

abbreviation get_agent_row :: "world \<Rightarrow> string \<Rightarrow> agent option" where
  "get_agent_row w k \<equiv> tget a_id k (agents w)"

abbreviation get_mandate_row :: "world \<Rightarrow> string \<Rightarrow> mandate option" where
  "get_mandate_row w k \<equiv> tget m_id k (mandates w)"

abbreviation get_operation_row :: "world \<Rightarrow> string \<Rightarrow> operation option" where
  "get_operation_row w k \<equiv> tget o_id k (operations w)"

definition upd_mandate :: "string \<Rightarrow> (mandate \<Rightarrow> mandate) \<Rightarrow> world \<Rightarrow> world" where
  "upd_mandate k f w = w\<lparr>mandates := tupd m_id k f (mandates w)\<rparr>"

definition upd_operation :: "string \<Rightarrow> (operation \<Rightarrow> operation) \<Rightarrow> world \<Rightarrow> world" where
  "upd_operation k f w = w\<lparr>operations := tupd o_id k f (operations w)\<rparr>"

definition upd_transaction :: "string \<Rightarrow> (transaction \<Rightarrow> transaction) \<Rightarrow> world \<Rightarrow> world" where
  "upd_transaction k f w = w\<lparr>transactions := tupd t_id k f (transactions w)\<rparr>"

definition upd_agent :: "string \<Rightarrow> (agent \<Rightarrow> agent) \<Rightarrow> world \<Rightarrow> world" where
  "upd_agent k f w = w\<lparr>agents := tupd a_id k f (agents w)\<rparr>"

text \<open>\<open>scalar_one_or_none()\<close> of a query's rows.\<close>

definition one_or_none :: "'a list \<Rightarrow> exn + 'a option" where
  "one_or_none rows =
     (case rows of [] \<Rightarrow> Inr None | [r] \<Rightarrow> Inr (Some r) | _ \<Rightarrow> Inl MultipleResultsFound)"

lemma one_or_none_Inr_SomeD: "one_or_none rows = Inr (Some r) \<Longrightarrow> rows = [r]"
  by (auto simp: one_or_none_def split: list.splits)

lemma one_or_none_Inr_NoneD: "one_or_none rows = Inr None \<Longrightarrow> rows = []"
  by (auto simp: one_or_none_def split: list.splits)

section \<open>What an evaluation may touch\<close>

text \<open>\<open>only_meters w w'\<close>: from \<open>w\<close> to \<open>w'\<close> only rate windows and metrics changed.\<close>

definition only_meters :: "world \<Rightarrow> world \<Rightarrow> bool" where
  "only_meters w w' \<longleftrightarrow> (\<exists>r b x. w' = w\<lparr>redis_db := r, fallback_buckets := b, metric_incs := x\<rparr>)"

lemma only_metersI: "w' = w\<lparr>redis_db := r, fallback_buckets := b, metric_incs := x\<rparr> \<Longrightarrow> only_meters w w'"
  unfolding only_meters_def by blast

lemma only_meters_refl [simp]: "only_meters w w"
  by (rule only_metersI [where r = "redis_db w" and b = "fallback_buckets w" and x = "metric_incs w"]) simp

lemma only_meters_trans [trans]:
  assumes "only_meters a b" and "only_meters b c"
  shows "only_meters a c"
proof -
  from assms obtain r f x r' f' x'
    where "b = a\<lparr>redis_db := r, fallback_buckets := f, metric_incs := x\<rparr>"
      and "c = b\<lparr>redis_db := r', fallback_buckets := f', metric_incs := x'\<rparr>"
    by (auto simp: only_meters_def)
  then show ?thesis by (intro only_metersI [where r = r' and b = f' and x = x']) simp
qed

lemma only_meters_inc_metric [simp]: "only_meters w (inc_metric n l w)"
  by (rule only_metersI [where r = "redis_db w" and b = "fallback_buckets w"]) (simp add: inc_metric_def)

lemma only_meters_fields:
  assumes "only_meters w w'"
  shows "mandates w' = mandates w" and "operations w' = operations w"
    and "transactions w' = transactions w" and "agents w' = agents w"
    and "principals w' = principals w" and "webhook_events w' = webhook_events w"
    and "audit_events w' = audit_events w"
    and "reconciliation_reports w' = reconciliation_reports w"
    and "outbox_events w' = outbox_events w" and "execution_traces w' = execution_traces w"
    and "uuid_count w' = uuid_count w" and "http_log w' = http_log w"
    and "gateway_calls w' = gateway_calls w"
  using assms by (auto simp: only_meters_def)

end
