(* ===== verification/State_Machine.thy ===== *)
theory State_Machine
  imports Domain
begin

text \<open>
  The financial operation state machine of \<^verbatim>\<open>packages/core/state_machine.py\<close>: the transition
  matrix, the check and the raising validator; then the shape of the machine as a step relation:
  it never loops, a run has at most four proper steps, a terminal state has no way out, and no
  run reaches \<open>SUCCEEDED\<close> without having held a reservation.
\<close>

definition ALLOWED_TRANSITIONS :: "operation_status \<Rightarrow> operation_status list option" where
  "ALLOWED_TRANSITIONS s =
     (case s of
        Op_INITIATED \<Rightarrow>
          Some [Op_POLICY_APPROVED, Op_POLICY_REJECTED, Op_REQUIRES_APPROVAL, Op_FAILED]
      | Op_REQUIRES_APPROVAL \<Rightarrow>
          Some [Op_RESERVED, Op_POLICY_REJECTED, Op_CANCELLED, Op_FAILED]
      | Op_POLICY_APPROVED \<Rightarrow> Some [Op_RESERVED, Op_FAILED, Op_CANCELLED]
      | Op_RESERVED \<Rightarrow> Some [Op_EXECUTING, Op_SUCCEEDED, Op_FAILED, Op_CANCELLED]
      | Op_EXECUTING \<Rightarrow> Some [Op_SUCCEEDED, Op_FAILED, Op_CANCELLED]
      | Op_SUCCEEDED \<Rightarrow> Some []
      | Op_FAILED \<Rightarrow> Some []
      | Op_CANCELLED \<Rightarrow> Some []
      | Op_POLICY_REJECTED \<Rightarrow> Some []
      | Op_POLICY_CHECK_PENDING \<Rightarrow> None)"

definition can_transition :: "operation_status \<Rightarrow> operation_status \<Rightarrow> bool" where
  "can_transition current target =
     (if current = target then True
      else target \<in> set (case ALLOWED_TRANSITIONS current of None \<Rightarrow> [] | Some ts \<Rightarrow> ts))"

definition validate_transition ::
    "operation_status \<Rightarrow> operation_status \<Rightarrow> string \<Rightarrow> exn + unit" where
  "validate_transition current target context_info =
     (if \<not> can_transition current target
      then Inl (InvalidStateTransitionError current target
        (str_strip (''Transition violates formal financial state machine invariants. ''
           @ context_info)))
      else Inr ())"

definition terminal_status :: "operation_status \<Rightarrow> bool" where
  "terminal_status s \<longleftrightarrow> s \<in> {Op_SUCCEEDED, Op_FAILED, Op_CANCELLED, Op_POLICY_REJECTED}"

definition in_flight :: "operation_status \<Rightarrow> bool" where
  "in_flight s \<longleftrightarrow> s = Op_RESERVED \<or> s = Op_EXECUTING"

lemma in_flight_simps [simp]:
  "in_flight Op_RESERVED" "in_flight Op_EXECUTING" "\<not> in_flight Op_INITIATED"
  "\<not> in_flight Op_POLICY_REJECTED" "\<not> in_flight Op_REQUIRES_APPROVAL"
  "\<not> in_flight Op_SUCCEEDED" "\<not> in_flight Op_FAILED" "\<not> in_flight Op_CANCELLED"
  "\<not> in_flight Op_POLICY_APPROVED" "\<not> in_flight Op_POLICY_CHECK_PENDING"
  by (simp_all add: in_flight_def)

text \<open>The matrix as a step relation between different states.\<close>

inductive op_step :: "operation_status \<Rightarrow> operation_status \<Rightarrow> bool" where
  op_stepI: "can_transition s t \<Longrightarrow> s \<noteq> t \<Longrightarrow> op_step s t"

inductive_cases op_stepE: "op_step s t"
inductive_simps op_step_iff: "op_step s t"

fun status_rank :: "operation_status \<Rightarrow> nat" where
  "status_rank Op_INITIATED = 0"
| "status_rank Op_POLICY_CHECK_PENDING = 0"
| "status_rank Op_REQUIRES_APPROVAL = 1"
| "status_rank Op_POLICY_APPROVED = 1"
| "status_rank Op_RESERVED = 2"
| "status_rank Op_EXECUTING = 3"
| "status_rank _ = 4"

text \<open>A run is a list of states, each a proper step from the one before.\<close>

fun op_run :: "operation_status \<Rightarrow> operation_status list \<Rightarrow> bool" where
  "op_run s [] = True"
| "op_run s (t # ts) = (can_transition s t \<and> s \<noteq> t \<and> op_run t ts)"

lemma can_transition_refl [simp]: "can_transition s s"
  by (simp add: can_transition_def)

lemma can_transition_rank: "can_transition s t \<Longrightarrow> s \<noteq> t \<Longrightarrow> status_rank s < status_rank t"
  by (cases s) (auto simp: can_transition_def ALLOWED_TRANSITIONS_def)

lemma status_rank_le: "status_rank s \<le> 4"
  by (cases s) simp_all

lemma op_run_rank: "op_run s ts \<Longrightarrow> status_rank s + length ts \<le> 4"
proof (induction ts arbitrary: s)
  case Nil
  then show ?case by (simp add: status_rank_le)
next
  case (Cons t ts)
  then have "status_rank s < status_rank t" and "status_rank t + length ts \<le> 4"
    by (auto dest: can_transition_rank)
  then show ?case by simp
qed

lemma op_step_tranclp_rank: "op_step\<^sup>+\<^sup>+ s t \<Longrightarrow> status_rank s < status_rank t"
  by (induction rule: tranclp_induct) (auto elim!: op_stepE dest: can_transition_rank)

lemma can_transition_terminal: "terminal_status s \<Longrightarrow> can_transition s t \<longleftrightarrow> t = s"
  by (auto simp: terminal_status_def can_transition_def ALLOWED_TRANSITIONS_def)

lemma can_transition_to_SUCCEEDED:
  "can_transition s Op_SUCCEEDED \<longleftrightarrow> in_flight s \<or> s = Op_SUCCEEDED"
  by (cases s) (auto simp: can_transition_def ALLOWED_TRANSITIONS_def)

lemma can_transition_to_EXECUTING:
  "can_transition s Op_EXECUTING \<longleftrightarrow> s = Op_RESERVED \<or> s = Op_EXECUTING"
  by (cases s) (auto simp: can_transition_def ALLOWED_TRANSITIONS_def)

lemma op_run_held:
  "op_run s ts \<Longrightarrow> \<not> in_flight s \<Longrightarrow> s \<noteq> Op_SUCCEEDED \<Longrightarrow> Op_SUCCEEDED \<in> set ts \<Longrightarrow> Op_RESERVED \<in> set ts"
proof (induction ts arbitrary: s)
  case Nil
  then show ?case by simp
next
  case (Cons t ts)
  show ?case
  proof (cases "in_flight t")
    case True
    with Cons.prems have "t = Op_RESERVED"
      by (auto simp: in_flight_def can_transition_to_EXECUTING)
    then show ?thesis by simp
  next
    case False
    have "t \<noteq> Op_SUCCEEDED"
      using Cons.prems by (auto simp: can_transition_to_SUCCEEDED)
    with Cons False show ?thesis by auto
  qed
qed

text \<open>
  The validator accepts a transition exactly when the matrix allows it or it re-affirms the
  current state, and otherwise raises \<open>InvalidStateTransitionError\<close> for these two states.
\<close>
theorem validate_transition_spec:
  "(\<exists>u. validate_transition s t ctx = Inr u) = can_transition s t
   \<and> (\<forall>e. validate_transition s t ctx = Inl e \<longrightarrow>
        (\<exists>reason. e = InvalidStateTransitionError s t reason) \<and> s \<noteq> t)"
  by (auto simp: validate_transition_def)

theorem validate_transition_spec_witness:
  "(\<exists>reason. validate_transition Op_FAILED Op_SUCCEEDED ''x''
       = Inl (InvalidStateTransitionError Op_FAILED Op_SUCCEEDED reason))
   \<and> validate_transition Op_RESERVED Op_SUCCEEDED ''x'' = Inr ()"
  using validate_transition_spec [of Op_FAILED Op_SUCCEEDED "''x''"]
    validate_transition_spec [of Op_RESERVED Op_SUCCEEDED "''x''"]
  by (simp add: can_transition_def ALLOWED_TRANSITIONS_def validate_transition_def)

text \<open>
  C40: The operation state machine terminates: no state is reachable from itself by proper
  transitions, and a run of proper transitions from any state has at most four steps.
\<close>
theorem state_machine_terminates:
  "\<not> op_step\<^sup>+\<^sup>+ s s \<and> (op_run s ts \<longrightarrow> length ts \<le> 4)"
  using op_step_tranclp_rank [of s s] op_run_rank [of s ts] by auto

theorem state_machine_terminates_witness:
  "op_run Op_INITIATED [Op_POLICY_APPROVED, Op_RESERVED, Op_EXECUTING, Op_SUCCEEDED]
   \<and> length [Op_POLICY_APPROVED, Op_RESERVED, Op_EXECUTING, Op_SUCCEEDED] \<le> 4"
proof -
  have r: "op_run Op_INITIATED [Op_POLICY_APPROVED, Op_RESERVED, Op_EXECUTING, Op_SUCCEEDED]"
    by (simp add: can_transition_def ALLOWED_TRANSITIONS_def)
  then show ?thesis
    using state_machine_terminates
      [of Op_INITIATED "[Op_POLICY_APPROVED, Op_RESERVED, Op_EXECUTING, Op_SUCCEEDED]"] by blast
qed

text \<open>
  A terminal state (\<open>SUCCEEDED\<close>, \<open>FAILED\<close>, \<open>CANCELLED\<close>, \<open>POLICY_REJECTED\<close>) admits only its own
  re-affirmation, and a run from \<open>INITIATED\<close> that reaches \<open>SUCCEEDED\<close> has passed through
  \<open>RESERVED\<close>: the matrix never lets an operation succeed without a budget reservation.
\<close>
theorem success_needs_reservation:
  "(terminal_status s \<longrightarrow> can_transition s t = (t = s))
   \<and> (op_run Op_INITIATED ts \<and> Op_SUCCEEDED \<in> set ts \<longrightarrow> Op_RESERVED \<in> set ts)"
  using can_transition_terminal [of s t] op_run_held [of Op_INITIATED ts] by auto

theorem success_needs_reservation_witness:
  "\<not> can_transition Op_FAILED Op_SUCCEEDED
   \<and> Op_RESERVED \<in> set [Op_REQUIRES_APPROVAL, Op_RESERVED, Op_SUCCEEDED]"
proof -
  have "terminal_status Op_FAILED" by (simp add: terminal_status_def)
  moreover have "op_run Op_INITIATED [Op_REQUIRES_APPROVAL, Op_RESERVED, Op_SUCCEEDED]"
    by (simp add: can_transition_def ALLOWED_TRANSITIONS_def)
  ultimately show ?thesis
    using success_needs_reservation
      [of Op_FAILED Op_SUCCEEDED "[Op_REQUIRES_APPROVAL, Op_RESERVED, Op_SUCCEEDED]"] by auto
qed

end
