(* ===== verification/Ledger_Spec.thy ===== *)
theory Ledger_Spec
  imports Prelude
begin

text \<open>
  The abstract contract of the budget accounting, independent of the program's rows: accounts
  with a limit, a committed and a reserved amount, entries that hold part of an account's
  reservation or do not, and the moves that are allowed between two consistent ledgers. Every
  handler of the program is later shown to perform a sequence of these moves on the view of
  its database, so what is proved here about the moves holds for every handler.
\<close>

record account =
  ac_id :: string
  ac_limit :: int
  ac_committed :: int
  ac_reserved :: int

record entry =
  en_id :: string
  en_account :: string
  en_amount :: int
  en_held :: bool

type_synonym ledger = "account list \<times> entry list"

definition held_sum :: "entry list \<Rightarrow> string \<Rightarrow> int" where
  "held_sum es k = sum_list (map (\<lambda>e. if en_account e = k \<and> en_held e then en_amount e else 0) es)"

text \<open>
  A consistent ledger: identifiers are unique, every entry has its account and a positive
  amount, an account's reservation is the sum of what its entries hold, and no account has
  committed and reserved more than its limit.
\<close>

definition ledger_ok :: "ledger \<Rightarrow> bool" where
  "ledger_ok l \<longleftrightarrow> (case l of (as, es) \<Rightarrow>
     distinct (map ac_id as) \<and> distinct (map en_id es)
     \<and> (\<forall>e \<in> set es. en_account e \<in> ac_id ` set as \<and> 0 < en_amount e)
     \<and> (\<forall>a \<in> set as. ac_reserved a = held_sum es (ac_id a)
          \<and> ac_committed a + ac_reserved a \<le> ac_limit a))"

text \<open>The moves.\<close>

definition move_reserved :: "int \<Rightarrow> account \<Rightarrow> account" where
  "move_reserved d a = a\<lparr>ac_reserved := ac_reserved a + d\<rparr>"

definition move_committed :: "int \<Rightarrow> account \<Rightarrow> account" where
  "move_committed d a = a\<lparr>ac_committed := ac_committed a + d\<rparr>"

definition set_held :: "bool \<Rightarrow> entry \<Rightarrow> entry" where
  "set_held b e = e\<lparr>en_held := b\<rparr>"

inductive ledger_step :: "ledger \<Rightarrow> ledger \<Rightarrow> bool" where
  open_account:
    "\<lbrakk> k \<notin> ac_id ` set as; 0 \<le> n \<rbrakk>
     \<Longrightarrow> ledger_step (as, es)
           (as @ [\<lparr>ac_id = k, ac_limit = n, ac_committed = 0, ac_reserved = 0\<rparr>], es)"
| add_entry:
    "\<lbrakk> i \<notin> en_id ` set es; k \<in> ac_id ` set as; 0 < n \<rbrakk>
     \<Longrightarrow> ledger_step (as, es)
           (as, es @ [\<lparr>en_id = i, en_account = k, en_amount = n, en_held = False\<rparr>])"
| hold:
    "\<lbrakk> e \<in> set es; \<not> en_held e; a \<in> set as; ac_id a = en_account e;
       ac_committed a + ac_reserved a + en_amount e \<le> ac_limit a \<rbrakk>
     \<Longrightarrow> ledger_step (as, es)
           (tupd ac_id (en_account e) (move_reserved (en_amount e)) as,
            tupd en_id (en_id e) (set_held True) es)"
| settle:
    "\<lbrakk> e \<in> set es; en_held e \<rbrakk>
     \<Longrightarrow> ledger_step (as, es)
           (tupd ac_id (en_account e)
              (\<lambda>a. move_committed (en_amount e) (move_reserved (- en_amount e) a)) as,
            tupd en_id (en_id e) (set_held False) es)"
| release:
    "\<lbrakk> e \<in> set es; en_held e \<rbrakk>
     \<Longrightarrow> ledger_step (as, es)
           (tupd ac_id (en_account e) (move_reserved (- en_amount e)) as,
            tupd en_id (en_id e) (set_held False) es)"
| refund:
    "\<lbrakk> 0 \<le> n \<rbrakk>
     \<Longrightarrow> ledger_step (as, es) (tupd ac_id k (move_committed (- n)) as, es)"

inductive_cases ledger_stepE: "ledger_step l l'"

abbreviation ledger_steps :: "ledger \<Rightarrow> ledger \<Rightarrow> bool" where
  "ledger_steps \<equiv> ledger_step\<^sup>*\<^sup>*"

section \<open>Consistency is preserved\<close>

lemma ledger_okI:
  assumes "distinct (map ac_id as)" and "distinct (map en_id es)"
    and "\<And>e. e \<in> set es \<Longrightarrow> en_account e \<in> ac_id ` set as \<and> 0 < en_amount e"
    and "\<And>a. a \<in> set as \<Longrightarrow> ac_reserved a = held_sum es (ac_id a)"
    and "\<And>a. a \<in> set as \<Longrightarrow> ac_committed a + ac_reserved a \<le> ac_limit a"
  shows "ledger_ok (as, es)"
  using assms by (simp add: ledger_ok_def)

lemma ledger_okD:
  assumes "ledger_ok (as, es)"
  shows "distinct (map ac_id as)" and "distinct (map en_id es)"
    and "e \<in> set es \<Longrightarrow> en_account e \<in> ac_id ` set as"
    and "e \<in> set es \<Longrightarrow> 0 < en_amount e"
    and "a \<in> set as \<Longrightarrow> ac_reserved a = held_sum es (ac_id a)"
    and "a \<in> set as \<Longrightarrow> ac_committed a + ac_reserved a \<le> ac_limit a"
  using assms by (auto simp: ledger_ok_def)

lemma held_sum_append:
  "held_sum (es @ [e]) k = held_sum es k + (if en_account e = k \<and> en_held e then en_amount e else 0)"
  by (simp add: held_sum_def)

lemma held_sum_set_held:
  assumes "distinct (map en_id es)" and "e \<in> set es"
  shows "held_sum (tupd en_id (en_id e) (set_held b) es) k = held_sum es k
    + (if en_account e = k then (if b then en_amount e else 0) - (if en_held e then en_amount e else 0)
       else 0)"
  using sum_list_tupd
    [OF assms, of "\<lambda>e. if en_account e = k \<and> en_held e then en_amount e else 0" "set_held b"]
  by (simp add: held_sum_def set_held_def split: if_splits)

lemma held_sum_absent:
  assumes "\<And>e. e \<in> set es \<Longrightarrow> en_account e \<noteq> k"
  shows "held_sum es k = 0"
  using assms by (induction es) (auto simp: held_sum_def)

lemma held_sum_ge:
  assumes "e \<in> set es" and "en_held e" and "\<And>x. x \<in> set es \<Longrightarrow> 0 < en_amount x"
  shows "en_amount e \<le> held_sum es (en_account e)"
  unfolding held_sum_def
  using sum_list_nonneg_ge
    [of e es "\<lambda>x. if en_account x = en_account e \<and> en_held x then en_amount x else 0"] assms
  by (simp add: less_imp_le)

lemma held_sum_nonneg:
  assumes "\<And>x. x \<in> set es \<Longrightarrow> 0 < en_amount x"
  shows "0 \<le> held_sum es k"
  unfolding held_sum_def using assms by (intro sum_list_nonneg) (auto simp: less_imp_le)

text \<open>
  The one lemma behind the four moves of an existing entry: the account of the entry moves by
  the change of what the entry holds, and its total stays within the limit.
\<close>

lemma ledger_ok_move:
  assumes ok: "ledger_ok (as, es)" and e: "e \<in> set es"
    and key: "\<And>a. ac_id (f a) = ac_id a" and lim: "\<And>a. ac_limit (f a) = ac_limit a"
    and res: "\<And>a. ac_reserved (f a) = ac_reserved a
      + (if b then en_amount e else 0) - (if en_held e then en_amount e else 0)"
    and fits: "\<And>a. a \<in> set as \<Longrightarrow> ac_id a = en_account e
      \<Longrightarrow> ac_committed (f a) + ac_reserved (f a) \<le> ac_limit a"
  shows "ledger_ok (tupd ac_id (en_account e) f as, tupd en_id (en_id e) (set_held b) es)"
proof (rule ledger_okI)
  show "distinct (map ac_id (tupd ac_id (en_account e) f as))"
    using ledger_okD(1) [OF ok] by (simp add: keys_tupd_key key)
  show "distinct (map en_id (tupd en_id (en_id e) (set_held b) es))"
    using ledger_okD(2) [OF ok] by (simp add: keys_tupd_key set_held_def)
  fix x assume "x \<in> set (tupd en_id (en_id e) (set_held b) es)"
  then obtain y where "y \<in> set es" and "en_account x = en_account y" and "en_amount x = en_amount y"
    by (auto simp: tupd_def set_held_def)
  moreover have "ac_id ` set (tupd ac_id (en_account e) f as) = ac_id ` set as"
    using keys_tupd_key [of ac_id f "en_account e" as, OF key] by (metis list.set_map)
  ultimately show "en_account x \<in> ac_id ` set (tupd ac_id (en_account e) f as) \<and> 0 < en_amount x"
    using ledger_okD(3,4) [OF ok] by simp
next
  fix a assume "a \<in> set (tupd ac_id (en_account e) f as)"
  then obtain a0 where a0: "a0 \<in> set as" "a = (if ac_id a0 = en_account e then f a0 else a0)"
    by (auto simp: tupd_def)
  show "ac_reserved a = held_sum (tupd en_id (en_id e) (set_held b) es) (ac_id a)"
    using a0 ledger_okD(5) [OF ok a0(1)]
    by (auto simp: held_sum_set_held [OF ledger_okD(2) [OF ok] e] key res)
  show "ac_committed a + ac_reserved a \<le> ac_limit a"
    using a0 fits [OF a0(1)] ledger_okD(6) [OF ok a0(1)] lim by auto
qed

lemma ledger_step_ok: "ledger_step l l' \<Longrightarrow> ledger_ok l \<Longrightarrow> ledger_ok l'"
proof (induction rule: ledger_step.induct)
  case (open_account k as n es)
  have "held_sum es k = 0"
    using open_account(1) ledger_okD(3) [OF open_account(3)] by (intro held_sum_absent) force
  with open_account show ?case by (auto simp: ledger_ok_def)
next
  case (add_entry i es k as n)
  then show ?case by (auto simp: ledger_ok_def held_sum_append)
next
  case (hold e es a as)
  have "ac_committed x + ac_reserved x + en_amount e \<le> ac_limit x"
    if "x \<in> set as" and "ac_id x = en_account e" for x
  proof -
    have "x = a"
      using ledger_okD(1) [OF hold(6)] that hold(3,4) by (metis distinct_map inj_onD)
    with hold(5) show ?thesis by simp
  qed
  with hold show ?case
    by (intro ledger_ok_move) (auto simp: move_reserved_def add.assoc)
next
  case (settle e es as)
  then show ?case
    by (intro ledger_ok_move)
      (auto simp: move_reserved_def move_committed_def dest: ledger_okD(6))
next
  case (release e es as)
  have "ac_committed x + ac_reserved x - en_amount e \<le> ac_limit x" if "x \<in> set as" for x
    using ledger_okD(4,6) [OF release(3)] release(1) that by fastforce
  with release show ?case
    by (intro ledger_ok_move) (auto simp: move_reserved_def add_diff_eq)
next
  case (refund n as es k)
  let ?as = "tupd ac_id k (move_committed (- n)) as"
  have ids: "map ac_id ?as = map ac_id as"
    by (rule keys_tupd_key) (simp add: move_committed_def)
  then have ids_set: "ac_id ` set ?as = ac_id ` set as" by (metis list.set_map)
  have row: "\<exists>a0 \<in> set as. ac_id a = ac_id a0 \<and> ac_reserved a = ac_reserved a0
      \<and> ac_limit a = ac_limit a0 \<and> ac_committed a \<le> ac_committed a0" if "a \<in> set ?as" for a
    using that refund(1) by (auto simp: tupd_def move_committed_def)
  show ?case
    using refund(2) ids ids_set by (fastforce intro!: ledger_okI dest: ledger_okD row)
qed

lemma ledger_steps_ok: "ledger_steps l l' \<Longrightarrow> ledger_ok l \<Longrightarrow> ledger_ok l'"
  by (induction rule: rtranclp_induct) (auto intro: ledger_step_ok)

section \<open>Refinement by a concrete system\<close>

text \<open>
  A system whose steps are, on the view of its state, sequences of ledger moves keeps every
  account within its limit. The locale is interpreted on the control plane's system steps.
\<close>

locale ledger_system =
  fixes view :: "'w \<Rightarrow> ledger" and sys :: "'w \<Rightarrow> 'w \<Rightarrow> bool"
  assumes simulates: "sys w w' \<Longrightarrow> ledger_ok (view w) \<Longrightarrow> ledger_steps (view w) (view w')"
begin

lemma sys_ok: "sys w w' \<Longrightarrow> ledger_ok (view w) \<Longrightarrow> ledger_ok (view w')"
  using simulates ledger_steps_ok by blast

lemma run_ok: "sys\<^sup>*\<^sup>* w w' \<Longrightarrow> ledger_ok (view w) \<Longrightarrow> ledger_ok (view w')"
  by (induction rule: rtranclp_induct) (auto intro: sys_ok)

lemma run_simulates:
  "sys\<^sup>*\<^sup>* w w' \<Longrightarrow> ledger_ok (view w) \<Longrightarrow> ledger_steps (view w) (view w')"
proof (induction rule: rtranclp_induct)
  case base
  then show ?case by simp
next
  case (step w1 w2)
  then have "ledger_steps (view w1) (view w2)" by (blast intro: simulates run_ok)
  with step show ?case by simp
qed

lemma run_within_limit:
  assumes "sys\<^sup>*\<^sup>* w w'" and "ledger_ok (view w)" and "a \<in> set (fst (view w'))"
  shows "ac_committed a + ac_reserved a \<le> ac_limit a"
proof -
  have "ledger_ok (fst (view w'), snd (view w'))"
    using run_ok [OF assms(1,2)] by simp
  then show ?thesis using assms(3) by (rule ledger_okD(6))
qed

end

end
