(* ===== verification/Witness_Data.thy ===== *)
theory Witness_Data
  imports Domain
begin

text \<open>
  Concrete inputs for the witnesses: an environment with simple deterministic functions, and a
  small database with one agent of each kind, a root mandate, a child delegated from it and a
  support mandate, modelled on the demo data set of \<^verbatim>\<open>apps/api/routes/demo.py\<close>.
\<close>

definition demo_uuid :: "nat \<Rightarrow> string" where
  "demo_uuid n = take 32 (rev (str_nat n) @ replicate 32 (CHR ''f''))"

lemma demo_uuid_length [simp]: "length (demo_uuid n) = 32"
  by (simp add: demo_uuid_def)

lemma uuid_text_length: "length h = 32 \<Longrightarrow> length (uuid_text h) = 36"
  by (simp add: uuid_text_def)

lemma demo_uuid_text_new: "length s \<noteq> 36 \<Longrightarrow> uuid_text (demo_uuid n) \<noteq> s"
  using uuid_text_length [OF demo_uuid_length] by blast

definition demo_redis :: redis_api where
  "demo_redis = \<lparr>redis_window = (\<lambda>_ _ _ _ _ _. Inl RedisError),
     redis_zrem = (\<lambda>_ _ _. Inl RedisError), redis_oldest = (\<lambda>_ _. Inl RedisError)\<rparr>"

definition demo_env :: env where
  "demo_env = \<lparr>
     settings = default_settings\<lparr>RAZORPAY_MOCK_MODE := True\<rparr>,
     now_us = 1700000000000000, time_now = 1700000000, perf_counter_ns = 5,
     uuid_hex = demo_uuid,
     sha256_hex = (\<lambda>s. ''sha256:'' @ s),
     hmac_sha256_hex = (\<lambda>k m. ''hmac:'' @ m),
     json_loads = (\<lambda>s. None),
     http = (\<lambda>_ _. HTTP_Timeout),
     redis = demo_redis,
     lib_text = (\<lambda>_. ''error''),
     float_text = (\<lambda>_. ''0.0'')\<rparr>"

definition day :: int where "day = 86400 * sec"

definition demo_now :: int where "demo_now = 1700000000000000"

definition demo_agent :: "string \<Rightarrow> string \<Rightarrow> agent" where
  "demo_agent i ty = \<lparr>a_id = i, a_name = ''Agent '' @ i, a_description = None,
     a_owner_id = ''prn'', a_status = Agent_ACTIVE, a_api_key_hash = ''hash_'' @ i,
     a_agent_type = ty, a_metadata_json = [], a_created_at = Aware 0 0\<rparr>"

definition demo_root :: mandate where
  "demo_root = \<lparr>m_id = ''root'', m_agent_id = ''shop'', m_granted_by_id = ''prn'',
     m_parent_mandate_id = None, m_delegation_depth = 0, m_max_delegation_depth = 2,
     m_status = Mandate_ACTIVE, m_currency = ''INR'', m_max_amount_per_op = 2500,
     m_aggregate_spend_limit = 10000, m_current_aggregate_spend = 0, m_reserved_spend = 0,
     m_delegated_child_budget_allocated = 1500, m_review_threshold_amount = Some 2000,
     m_allowed_operations = [''CREATE_ORDER'', ''CREATE_PAYMENT_LINK''], m_policy_config = [],
     m_suspension_reason = None, m_version = 1, m_valid_from = Aware (demo_now - day) 0,
     m_valid_until = Aware (demo_now + 30 * day) 0, m_created_at = Aware (demo_now - day) 0\<rparr>"

definition demo_child :: mandate where
  "demo_child = demo_root\<lparr>m_id := ''child'', m_agent_id := ''proc'',
     m_parent_mandate_id := Some ''root'', m_delegation_depth := 1, m_max_amount_per_op := 1000,
     m_aggregate_spend_limit := 1500, m_delegated_child_budget_allocated := 0,
     m_review_threshold_amount := None, m_allowed_operations := [''CREATE_ORDER''],
     m_valid_until := Aware (demo_now + 15 * day) 0\<rparr>"

definition demo_support :: mandate where
  "demo_support = demo_root\<lparr>m_id := ''supp'', m_agent_id := ''help'',
     m_max_amount_per_op := 500, m_aggregate_spend_limit := 2500,
     m_delegated_child_budget_allocated := 0, m_review_threshold_amount := None,
     m_allowed_operations := [''CREATE_REFUND'']\<rparr>"

definition demo_world :: world where
  "demo_world = \<lparr>principals = [],
     agents = [demo_agent ''shop'' ''SHOPPING'', demo_agent ''proc'' ''PROCUREMENT'',
               demo_agent ''help'' ''SUPPORT''],
     mandates = [demo_root, demo_child, demo_support],
     operations = [], transactions = [], outbox_events = [], webhook_events = [],
     reconciliation_reports = [], execution_traces = [], audit_events = [],
     uuid_count = 0, http_log = [], gateway_calls = [], redis_db = (\<lambda>_. []),
     fallback_buckets = (\<lambda>_. []), metric_incs = []\<rparr>"

definition stuck_operation :: "string \<Rightarrow> operation" where
  "stuck_operation i = \<lparr>o_id = i, o_operation_id = ''op_'' @ i, o_idempotency_key = i, o_agent_id = ''shop'',
     o_mandate_id = ''root'', o_operation_type = CREATE_ORDER, o_status = Op_RESERVED,
     o_amount = 600, o_currency = ''INR'', o_payload = [], o_policy_evaluation_details = None,
     o_error_message = None, o_approved_by_id = None, o_trace_id = ''trc'', o_created_at = Aware 0 0\<rparr>"

definition stuck_tx :: "string option \<Rightarrow> string option \<Rightarrow> transaction" where
  "stuck_tx order_id link_id = \<lparr>t_id = ''tx'', t_operation_id = ''b'', t_gateway_name = ''RAZORPAY'',
     t_gateway_order_id = order_id, t_gateway_payment_id = None, t_gateway_refund_id = None,
     t_gateway_payment_link_id = link_id, t_gateway_payment_link_url = None, t_amount = 600,
     t_currency = ''INR'', t_status = Tx_CREATED, t_gateway_response = [], t_error_code = None,
     t_error_description = None, t_created_at = Aware 0 0\<rparr>"

text \<open>Two stuck operations: the first was never dispatched, the second has the transaction \<open>tx\<close>.\<close>

definition crashed_world :: "transaction \<Rightarrow> world" where
  "crashed_world tx = demo_world\<lparr>mandates := [demo_root\<lparr>m_reserved_spend := 1200\<rparr>],
     operations := [stuck_operation ''a'', stuck_operation ''b''], transactions := [tx]\<rparr>"

lemmas demo_defs = demo_world_def demo_root_def demo_child_def demo_support_def demo_agent_def
  demo_now_def day_def sec_def demo_env_def demo_redis_def demo_uuid_def default_settings_def

end
