(* ===== verification/Budget.thy ===== *)
theory Budget
  imports Domain State_Machine Ledger_Spec Witness_Data
begin

text \<open>
  The budget accounting of a mandate: the atomic reservation of
  \<^verbatim>\<open>packages/core/concurrency.py\<close> and the \<open>UPDATE\<close> statements by which the routes and the
  worker settle or release a reservation. \<open>lview\<close> reads a database as an abstract ledger: a
  mandate is an account, an operation an entry that holds its amount while it is RESERVED or
  EXECUTING. The lemmas say which ledger move each statement is.
\<close>

section \<open>The statements\<close>

definition add_reserved :: "int \<Rightarrow> mandate \<Rightarrow> mandate" where
  "add_reserved d m = m\<lparr>m_reserved_spend := m_reserved_spend m + d, m_version := m_version m + 1\<rparr>"

definition fits_budget :: "string \<Rightarrow> int \<Rightarrow> mandate \<Rightarrow> bool" where
  "fits_budget mandate_id amount m \<longleftrightarrow> m_id m = mandate_id
     \<and> m_current_aggregate_spend m + m_reserved_spend m + amount \<le> m_aggregate_spend_limit m"

definition reserve_budget :: "string \<Rightarrow> int \<Rightarrow> world \<Rightarrow> bool \<times> world" where
  "reserve_budget mandate_id amount w =
     (let rowcount = length (filter (fits_budget mandate_id amount) (mandates w));
          w = w\<lparr>mandates := map (\<lambda>m. if fits_budget mandate_id amount m then add_reserved amount m
                                     else m) (mandates w)\<rparr>;
          reserved = (rowcount = 1);
          w = inc_metric ''CAS_BUDGET_RESERVATIONS_TOTAL''
                [(''status'', if reserved then ''success'' else ''exhausted'')] w
      in (reserved, w))"

text \<open>
  \<open>UPDATE mandates SET reserved = reserved - amount [, current = current + amount] [, version =
  version + 1] WHERE id = ...\<close>
\<close>

definition release_budget :: "string \<Rightarrow> int \<Rightarrow> world \<Rightarrow> world" where
  "release_budget mandate_id amount w =
     upd_mandate mandate_id (\<lambda>m. m\<lparr>m_reserved_spend := m_reserved_spend m - amount,
       m_version := m_version m + 1\<rparr>) w"

definition commit_budget :: "string \<Rightarrow> int \<Rightarrow> bool \<Rightarrow> world \<Rightarrow> world" where
  "commit_budget mandate_id amount bump w =
     upd_mandate mandate_id (\<lambda>m. m\<lparr>m_reserved_spend := m_reserved_spend m - amount,
       m_current_aggregate_spend := m_current_aggregate_spend m + amount,
       m_version := (if bump then m_version m + 1 else m_version m)\<rparr>) w"

section \<open>The ledger of a database\<close>

definition account_of :: "mandate \<Rightarrow> account" where
  "account_of m = \<lparr>ac_id = m_id m, ac_limit = m_aggregate_spend_limit m,
     ac_committed = m_current_aggregate_spend m, ac_reserved = m_reserved_spend m\<rparr>"

definition entry_of :: "operation \<Rightarrow> entry" where
  "entry_of op = \<lparr>en_id = o_id op, en_account = o_mandate_id op, en_amount = o_amount op,
     en_held = in_flight (o_status op)\<rparr>"

definition lview :: "world \<Rightarrow> ledger" where
  "lview w = (map account_of (mandates w), map entry_of (operations w))"

definition books_ok :: "world \<Rightarrow> bool" where
  "books_ok w \<longleftrightarrow> ledger_ok (lview w)"

lemma ac_id_account_of [simp]: "ac_id (account_of m) = m_id m"
  by (simp add: account_of_def)

lemma en_id_entry_of [simp]: "en_id (entry_of op) = o_id op"
  by (simp add: entry_of_def)

lemma books_okD:
  assumes "books_ok w"
  shows "distinct (map m_id (mandates w))" and "distinct (map o_id (operations w))"
    and "op \<in> set (operations w) \<Longrightarrow> o_mandate_id op \<in> m_id ` set (mandates w) \<and> 0 < o_amount op"
    and "m \<in> set (mandates w) \<Longrightarrow>
      m_current_aggregate_spend m + m_reserved_spend m \<le> m_aggregate_spend_limit m"
  using assms
  by (auto simp: books_ok_def lview_def ledger_ok_def account_of_def entry_of_def comp_def image_image)

text \<open>The ledger depends on the mandates and operations tables only.\<close>

lemma lview_cong: "mandates w' = mandates w \<Longrightarrow> operations w' = operations w \<Longrightarrow> lview w' = lview w"
  by (simp add: lview_def)

lemma books_ok_steps: "ledger_steps (lview w) (lview w') \<Longrightarrow> books_ok w \<Longrightarrow> books_ok w'"
  unfolding books_ok_def by (rule ledger_steps_ok)

lemma lview_upd_mandate:
  assumes "\<And>m. m_id m = k \<Longrightarrow> account_of (f m) = g (account_of m)"
  shows "lview (upd_mandate k f w) = (tupd ac_id k g (fst (lview w)), snd (lview w))"
  unfolding lview_def upd_mandate_def
  using map_tupd_commute [of ac_id account_of m_id k f g] assms by simp

lemma lview_upd_operation:
  assumes "\<And>op. o_id op = k \<Longrightarrow> entry_of (f op) = g (entry_of op)"
  shows "lview (upd_operation k f w) = (fst (lview w), tupd en_id k g (snd (lview w)))"
  unfolding lview_def upd_operation_def
  using map_tupd_commute [of en_id entry_of o_id k f g] assms by simp

lemma lview_upd_operation_same:
  assumes "\<And>op. op \<in> set (operations w) \<Longrightarrow> o_id op = k \<Longrightarrow> entry_of (f op) = entry_of op"
  shows "lview (upd_operation k f w) = lview w"
  unfolding lview_def upd_operation_def using assms by (auto simp: tupd_def)

lemma entry_in_view: "tget o_id k (operations w) = Some op \<Longrightarrow> entry_of op \<in> set (snd (lview w))"
  by (auto simp: lview_def dest: tget_SomeD)

text \<open>In consistent books a holding operation's amount is part of its mandate's reservation.\<close>

lemma reserved_covers:
  assumes ok: "books_ok w" and op: "op \<in> set (operations w)" and held: "in_flight (o_status op)"
    and m: "tget m_id (o_mandate_id op) (mandates w) = Some m"
  shows "o_amount op \<le> m_reserved_spend m"
proof -
  let ?es = "map entry_of (operations w)" and ?as = "map account_of (mandates w)"
  have l: "ledger_ok (?as, ?es)" using ok by (simp add: books_ok_def lview_def)
  have "en_amount (entry_of op) \<le> held_sum ?es (en_account (entry_of op))"
    using op held ledger_okD(4) [OF l] by (intro held_sum_ge) (auto simp: entry_of_def)
  moreover have "ac_reserved (account_of m) = held_sum ?es (ac_id (account_of m))"
    using m by (intro ledger_okD(5) [OF l]) (auto dest: tget_SomeD)
  moreover have "m_id m = o_mandate_id op" using m by (auto dest: tget_SomeD)
  ultimately show ?thesis by (simp add: account_of_def entry_of_def)
qed

lemma mandate_present:
  assumes "books_ok w" and "op \<in> set (operations w)"
  obtains m where "tget m_id (o_mandate_id op) (mandates w) = Some m"
  using books_okD(3) [OF assms] by (metis not_Some_eq tget_None_iff)

section \<open>The statements as ledger moves\<close>

lemma reserve_budget_tables:
  "reserve_budget k n w = (b, w') \<Longrightarrow> \<exists>ms x. w' = w\<lparr>mandates := ms, metric_incs := x\<rparr>"
  by (auto simp: reserve_budget_def Let_def inc_metric_def)

lemma filter_key:
  assumes "distinct (map key t)" and "tget key k t = Some r"
  shows "filter (\<lambda>x. key x = k \<and> P x) t = (if P r then [r] else [])"
  using assms
proof (induction t)
  case Nil
  then show ?case by (simp add: table_simps)
next
  case (Cons x t)
  show ?case
  proof (cases "key x = k")
    case True
    with Cons.prems have "x = r" and "filter (\<lambda>x. key x = k \<and> P x) t = []"
      by (auto simp: table_simps filter_empty_conv) (metis image_eqI)
    with True show ?thesis by simp
  next
    case False
    with Cons show ?thesis by (simp add: table_simps)
  qed
qed

text \<open>What a reservation does to a table whose keys are unique.\<close>

lemma reserve_budget_spec:
  assumes "distinct (map m_id (mandates w))" and "tget m_id k (mandates w) = Some m"
  shows "reserve_budget k n w =
    (if fits_budget k n m
     then (True, inc_metric ''CAS_BUDGET_RESERVATIONS_TOTAL'' [(''status'', ''success'')] (upd_mandate k (add_reserved n) w))
     else (False, inc_metric ''CAS_BUDGET_RESERVATIONS_TOTAL'' [(''status'', ''exhausted'')] w))"
proof -
  have k: "m_id m = k" using assms(2) by (auto dest: tget_SomeD)
  have rows: "filter (fits_budget k n) (mandates w) = (if fits_budget k n m then [m] else [])"
    using filter_key [OF assms, of "\<lambda>m. m_current_aggregate_spend m + m_reserved_spend m + n
        \<le> m_aggregate_spend_limit m"] k by (simp add: fits_budget_def [abs_def])
  have row: "x = m" if "x \<in> set (mandates w)" and "m_id x = k" for x
    using tget_in_set [OF assms(1) that(1)] that(2) assms(2) by simp
  have "map (\<lambda>x. if fits_budget k n x then add_reserved n x else x) (mandates w)
      = (if fits_budget k n m then tupd m_id k (add_reserved n) (mandates w) else mandates w)"
  proof (cases "fits_budget k n m")
    case True
    have "fits_budget k n x \<longleftrightarrow> m_id x = k" if "x \<in> set (mandates w)" for x
      using row [OF that] True by (auto simp: fits_budget_def)
    with True show ?thesis by (auto simp: tupd_def)
  next
    case False
    have "\<not> fits_budget k n x" if "x \<in> set (mandates w)" for x
      using row [OF that] False by (auto simp: fits_budget_def)
    with False show ?thesis by (auto intro: map_idI)
  qed
  with rows show ?thesis by (simp add: reserve_budget_def Let_def upd_mandate_def)
qed

lemma reserve_budget_absent:
  "tget m_id k (mandates w) = None \<Longrightarrow>
     reserve_budget k n w = (False, inc_metric ''CAS_BUDGET_RESERVATIONS_TOTAL'' [(''status'', ''exhausted'')] w)"
proof -
  assume "tget m_id k (mandates w) = None"
  then have "\<not> fits_budget k n m" if "m \<in> set (mandates w)" for m
    using that by (auto simp: tget_None_iff fits_budget_def)
  then have "map (\<lambda>x. if fits_budget k n x then add_reserved n x else x) (mandates w) = mandates w"
    and "filter (fits_budget k n) (mandates w) = []"
    by (auto intro: map_idI simp: filter_empty_conv)
  then show ?thesis by (simp add: reserve_budget_def Let_def)
qed

interpretation reserve_row: keyed_update m_id "add_reserved n" for n
  by unfold_locales (simp add: add_reserved_def)

text \<open>
  Reserving for an entry and marking it as holding is the ledger's \<open>hold\<close>; settling and
  releasing a holding entry are the moves of those names. \<open>f\<close> is what else the handler writes
  in the operation's row.
\<close>

lemma hold_step:
  assumes ok: "books_ok w" and op: "tget o_id i (operations w) = Some op" and free: "\<not> in_flight (o_status op)"
    and res: "reserve_budget (o_mandate_id op) (o_amount op) w = (True, w1)"
    and f: "\<And>r. o_id (f r) = o_id r \<and> o_mandate_id (f r) = o_mandate_id r \<and> o_amount (f r) = o_amount r
      \<and> in_flight (o_status (f r))"
  shows "ledger_step (lview w) (lview (upd_operation i f w1))"
proof -
  let ?k = "o_mandate_id op" and ?n = "o_amount op"
  from ok op have "?k \<in> m_id ` set (mandates w)" by (auto dest: tget_SomeD books_okD(3))
  then obtain m where m: "tget m_id ?k (mandates w) = Some m"
    by (metis not_Some_eq tget_None_iff)
  with reserve_budget_spec [OF books_okD(1) [OF ok] m, of ?n] res have fits: "fits_budget ?k ?n m"
    and w1: "w1 = inc_metric ''CAS_BUDGET_RESERVATIONS_TOTAL'' [(''status'', ''success'')] (upd_mandate ?k (add_reserved ?n) w)"
    by (auto split: if_splits)
  have i: "o_id op = i" using op by (auto dest: tget_SomeD)
  have "lview w1 = (tupd ac_id ?k (move_reserved ?n) (fst (lview w)), snd (lview w))"
  proof -
    have "lview w1 = lview (upd_mandate ?k (add_reserved ?n) w)"
      unfolding w1 by (rule lview_cong) (simp_all add: inc_metric_def)
    also have "\<dots> = (tupd ac_id ?k (move_reserved ?n) (fst (lview w)), snd (lview w))"
      by (rule lview_upd_mandate) (simp add: account_of_def add_reserved_def move_reserved_def)
    finally show ?thesis .
  qed
  moreover have "lview (upd_operation i f w1) = (fst (lview w1), tupd en_id i (set_held True) (snd (lview w1)))"
    by (rule lview_upd_operation) (simp add: entry_of_def set_held_def f)
  ultimately have view: "lview (upd_operation i f w1)
      = (tupd ac_id (en_account (entry_of op)) (move_reserved (en_amount (entry_of op))) (fst (lview w)),
         tupd en_id (en_id (entry_of op)) (set_held True) (snd (lview w)))"
    by (simp add: entry_of_def i)
  have "ledger_step (fst (lview w), snd (lview w)) (lview (upd_operation i f w1))"
    unfolding view
  proof (rule ledger_step.hold [where a = "account_of m"])
    show "entry_of op \<in> set (snd (lview w))" using op by (rule entry_in_view)
    show "\<not> en_held (entry_of op)" using free by (simp add: entry_of_def)
    show "account_of m \<in> set (fst (lview w))" using m by (auto simp: lview_def dest: tget_SomeD)
    show "ac_id (account_of m) = en_account (entry_of op)"
      using fits by (simp add: entry_of_def fits_budget_def)
    show "ac_committed (account_of m) + ac_reserved (account_of m) + en_amount (entry_of op)
        \<le> ac_limit (account_of m)"
      using fits by (simp add: entry_of_def account_of_def fits_budget_def)
  qed
  then show ?thesis by simp
qed

lemma settle_step:
  assumes op: "tget o_id i (operations w) = Some op" and held: "in_flight (o_status op)"
    and f: "\<And>r. o_id (f r) = o_id r \<and> o_mandate_id (f r) = o_mandate_id r \<and> o_amount (f r) = o_amount r
      \<and> \<not> in_flight (o_status (f r))"
  shows "ledger_step (lview w) (lview (upd_operation i f (commit_budget (o_mandate_id op) (o_amount op) bump w)))"
proof -
  have i: "o_id op = i" using op by (auto dest: tget_SomeD)
  let ?w = "commit_budget (o_mandate_id op) (o_amount op) bump w"
  have "lview ?w = (tupd ac_id (o_mandate_id op)
      (\<lambda>a. move_committed (o_amount op) (move_reserved (- o_amount op) a)) (fst (lview w)), snd (lview w))"
    unfolding commit_budget_def
    by (rule lview_upd_mandate) (simp add: account_of_def move_reserved_def move_committed_def)
  moreover have "lview (upd_operation i f ?w) = (fst (lview ?w), tupd en_id i (set_held False) (snd (lview ?w)))"
    by (rule lview_upd_operation) (simp add: entry_of_def set_held_def f)
  ultimately show ?thesis
    using ledger_step.settle [OF entry_in_view [OF op], of "fst (lview w)"] held
    by (simp add: entry_of_def i)
qed

lemma release_step:
  assumes op: "tget o_id i (operations w) = Some op" and held: "in_flight (o_status op)"
    and f: "\<And>r. o_id (f r) = o_id r \<and> o_mandate_id (f r) = o_mandate_id r \<and> o_amount (f r) = o_amount r
      \<and> \<not> in_flight (o_status (f r))"
  shows "ledger_step (lview w) (lview (upd_operation i f (release_budget (o_mandate_id op) (o_amount op) w)))"
proof -
  have i: "o_id op = i" using op by (auto dest: tget_SomeD)
  let ?w = "release_budget (o_mandate_id op) (o_amount op) w"
  have "lview ?w = (tupd ac_id (o_mandate_id op) (move_reserved (- o_amount op)) (fst (lview w)), snd (lview w))"
    unfolding release_budget_def
    by (rule lview_upd_mandate) (simp add: account_of_def move_reserved_def)
  moreover have "lview (upd_operation i f ?w) = (fst (lview ?w), tupd en_id i (set_held False) (snd (lview ?w)))"
    by (rule lview_upd_operation) (simp add: entry_of_def set_held_def f)
  ultimately show ?thesis
    using ledger_step.release [OF entry_in_view [OF op], of "fst (lview w)"] held
    by (simp add: entry_of_def i)
qed

lemma add_operation_step:
  assumes "o_id op \<notin> o_id ` set (operations w)" and "o_mandate_id op \<in> m_id ` set (mandates w)"
    and "0 < o_amount op" and "\<not> in_flight (o_status op)"
  shows "ledger_step (lview w) (lview (w\<lparr>operations := operations w @ [op]\<rparr>))"
  using assms ledger_step.add_entry [of "o_id op" "map entry_of (operations w)" "o_mandate_id op"
      "map account_of (mandates w)" "o_amount op"]
  by (simp add: lview_def entry_of_def image_image)

lemma add_mandate_step:
  assumes "m_id m \<notin> m_id ` set (mandates w)" and "0 \<le> m_aggregate_spend_limit m"
    and "m_current_aggregate_spend m = 0" and "m_reserved_spend m = 0"
  shows "ledger_step (lview w) (lview (w\<lparr>mandates := mandates w @ [m]\<rparr>))"
  using assms ledger_step.open_account [of "m_id m" "map account_of (mandates w)"
      "m_aggregate_spend_limit m" "map entry_of (operations w)"]
  by (simp add: lview_def account_of_def image_image)

section \<open>Properties of the reservation\<close>

text \<open>
  C14: A reservation succeeds exactly when the amount still fits: on success the mandate's
  reservation grows by the amount and its version by one and no other row changes, on refusal
  every table is as before.
\<close>
theorem reserve_budget_exact:
  assumes "distinct (map m_id (mandates w))" and "tget m_id k (mandates w) = Some m"
  shows "(fst (reserve_budget k n w)
        \<longleftrightarrow> m_current_aggregate_spend m + m_reserved_spend m + n \<le> m_aggregate_spend_limit m)
    \<and> (\<exists>x. snd (reserve_budget k n w)
        = (if fst (reserve_budget k n w) then upd_mandate k (add_reserved n) w else w)\<lparr>metric_incs := x\<rparr>)"
proof -
  have k: "m_id m = k" using assms(2) by (auto dest: tget_SomeD)
  show ?thesis
  proof (cases "fits_budget k n m")
    case True
    then show ?thesis
      using k by (auto simp: reserve_budget_spec [OF assms] fits_budget_def inc_metric_def)
  next
    case False
    then show ?thesis
      using k by (auto simp: reserve_budget_spec [OF assms] fits_budget_def inc_metric_def)
  qed
qed

theorem reserve_budget_exact_witness:
  "fst (reserve_budget ''root'' 10000 demo_world)
   \<and> (\<exists>x. snd (reserve_budget ''root'' 10001 demo_world) = demo_world\<lparr>metric_incs := x\<rparr>)"
proof -
  have keys: "distinct (map m_id (mandates demo_world))"
    "tget m_id ''root'' (mandates demo_world) = Some demo_root"
    by (simp_all add: demo_world_def demo_root_def demo_child_def demo_support_def table_simps)
  show ?thesis
    using reserve_budget_exact [OF keys, of 10000] reserve_budget_exact [OF keys, of 10001]
    by (auto simp: demo_root_def)
qed

text \<open>A refused reservation changes no table.\<close>

lemma reserve_budget_refused:
  assumes "distinct (map m_id (mandates w))" and "reserve_budget k n w = (False, w1)"
  shows "mandates w1 = mandates w"
  using assms reserve_budget_spec [OF assms(1), of k _ n] reserve_budget_absent [of k w n]
  by (cases "tget m_id k (mandates w)") (auto simp: inc_metric_def split: if_splits)

text \<open>A sequence of reservations, in the order their statements reach the database.\<close>

fun reserve_all :: "(string \<times> int) list \<Rightarrow> world \<Rightarrow> bool list \<times> world" where
  "reserve_all [] w = ([], w)"
| "reserve_all ((k, n) # rs) w =
     (let (b, w) = reserve_budget k n w; (bs, w) = reserve_all rs w in (b # bs, w))"

definition granted :: "string \<Rightarrow> (string \<times> int) list \<Rightarrow> bool list \<Rightarrow> int" where
  "granted k rs bs = sum_list (map (\<lambda>((k', n), b). if b \<and> k' = k then n else 0) (zip rs bs))"

definition within_limits :: "world \<Rightarrow> bool" where
  "within_limits w \<longleftrightarrow> distinct (map m_id (mandates w)) \<and> (\<forall>m \<in> set (mandates w).
     m_current_aggregate_spend m + m_reserved_spend m \<le> m_aggregate_spend_limit m)"

lemma reserve_budget_step:
  assumes "within_limits w" and "reserve_budget k n w = (b, w1)"
  shows "within_limits w1"
    and "tget m_id k' (mandates w1)
      = (if b \<and> k' = k then map_option (add_reserved n) (tget m_id k' (mandates w))
         else tget m_id k' (mandates w))"
proof -
  have d: "distinct (map m_id (mandates w))" using assms(1) by (simp add: within_limits_def)
  have "within_limits w1 \<and> (tget m_id k' (mandates w1)
      = (if b \<and> k' = k then map_option (add_reserved n) (tget m_id k' (mandates w))
         else tget m_id k' (mandates w)))"
  proof (cases "tget m_id k (mandates w)")
    case None
    with assms reserve_budget_absent [OF None, of n] show ?thesis
      by (auto simp: within_limits_def inc_metric_def)
  next
    case (Some m)
    show ?thesis
    proof (cases "fits_budget k n m")
      case False
      with assms reserve_budget_spec [OF d Some, of n] show ?thesis
        by (auto simp: within_limits_def inc_metric_def)
    next
      case True
      with assms(2) reserve_budget_spec [OF d Some, of n] have b: "b"
        and ms: "mandates w1 = tupd m_id k (add_reserved n) (mandates w)"
        by (auto simp: inc_metric_def upd_mandate_def)
      have "x = m" if "x \<in> set (mandates w)" and "m_id x = k" for x
        using tget_in_set [OF d that(1)] that(2) Some by simp
      have "m_current_aggregate_spend y + m_reserved_spend y \<le> m_aggregate_spend_limit y"
        if y: "y \<in> set (mandates w1)" for y
      proof -
        from y obtain x where x: "x \<in> set (mandates w)" "y = (if m_id x = k then add_reserved n x else x)"
          by (auto simp: ms tupd_def)
        with True \<open>\<And>x. x \<in> set (mandates w) \<Longrightarrow> m_id x = k \<Longrightarrow> x = m\<close> assms(1) show ?thesis
          by (cases "m_id x = k") (auto simp: within_limits_def add_reserved_def fits_budget_def add.assoc)
      qed
      moreover have "distinct (map m_id (mandates w1))" using d by (simp add: ms reserve_row.keys_tupd)
      ultimately have "within_limits w1" by (simp add: within_limits_def)
      with b ms show ?thesis by (simp add: reserve_row.tget_tupd)
    qed
  qed
  then show "within_limits w1" and "tget m_id k' (mandates w1)
      = (if b \<and> k' = k then map_option (add_reserved n) (tget m_id k' (mandates w))
         else tget m_id k' (mandates w))" by blast+
qed

lemma reserve_all_spec:
  "within_limits w \<Longrightarrow> reserve_all rs w = (bs, w') \<Longrightarrow> length bs = length rs \<and> within_limits w'
     \<and> (tget m_id k (mandates w) = Some m \<longrightarrow> (\<exists>m'. tget m_id k (mandates w') = Some m'
        \<and> m_reserved_spend m' = m_reserved_spend m + granted k rs bs))"
proof (induction rs arbitrary: w bs m)
  case Nil
  then show ?case by (simp add: granted_def)
next
  case (Cons r rs)
  obtain k1 n where r: "r = (k1, n)" by (cases r)
  obtain b w1 where b: "reserve_budget k1 n w = (b, w1)" by (cases "reserve_budget k1 n w")
  obtain bs' where bs: "reserve_all rs w1 = (bs', w')" "bs = b # bs'"
    using Cons.prems(2) r b by (auto split: prod.splits)
  note step = reserve_budget_step [OF Cons.prems(1) b]
  show ?case
  proof (intro conjI impI)
    show "length bs = length (r # rs)" and "within_limits w'" using Cons.IH [OF step(1) bs(1)] bs(2) by auto
    assume m: "tget m_id k (mandates w) = Some m"
    let ?m = "if b \<and> k = k1 then add_reserved n m else m"
    have "tget m_id k (mandates w1) = Some ?m" using step(2) [of k] m by auto
    with Cons.IH [OF step(1) bs(1), of ?m] obtain m' where "tget m_id k (mandates w') = Some m'"
      and "m_reserved_spend m' = m_reserved_spend ?m + granted k rs bs'" by auto
    then show "\<exists>m'. tget m_id k (mandates w') = Some m'
        \<and> m_reserved_spend m' = m_reserved_spend m + granted k (r # rs) bs"
      by (auto simp: granted_def r bs(2) add_reserved_def)
  qed
qed

text \<open>
  C4: No sequence of reservations overspends, in whatever order concurrent requests reach the
  database: if every mandate is within its limit at the start, it is so after any list of
  reservations on any mandates, and a mandate's reservation has grown by exactly the sum of the
  amounts granted on it.
\<close>
theorem reservations_never_overspend:
  assumes "within_limits w" and "reserve_all rs w = (bs, w')" and "tget m_id k (mandates w) = Some m"
  shows "\<exists>m'. tget m_id k (mandates w') = Some m'
    \<and> m_reserved_spend m' = m_reserved_spend m + granted k rs bs
    \<and> m_current_aggregate_spend m' + m_reserved_spend m' \<le> m_aggregate_spend_limit m'"
  using reserve_all_spec [OF assms(1,2), of k m] assms(3)
  by (auto simp: within_limits_def dest: tget_SomeD)

theorem reservations_never_overspend_witness:
  "fst (reserve_all [(''root'', 6000), (''root'', 6000), (''root'', 4000), (''supp'', 1)] demo_world)
     = [True, False, True, True]
   \<and> (\<exists>m'. tget m_id ''root'' (mandates (snd (reserve_all
        [(''root'', 6000), (''root'', 6000), (''root'', 4000), (''supp'', 1)] demo_world))) = Some m'
      \<and> m_current_aggregate_spend m' + m_reserved_spend m' \<le> m_aggregate_spend_limit m')"
proof -
  let ?rs = "[(''root'', 6000), (''root'', 6000), (''root'', 4000), (''supp'', 1)]"
  have w: "within_limits demo_world" and m: "tget m_id ''root'' (mandates demo_world) = Some demo_root"
    by (simp_all add: within_limits_def demo_world_def demo_root_def demo_child_def
        demo_support_def table_simps)
  have "fst (reserve_all ?rs demo_world) = [True, False, True, True]"
    by (simp add: reserve_budget_def Let_def fits_budget_def add_reserved_def inc_metric_def
        demo_world_def demo_root_def demo_child_def demo_support_def)
  with reservations_never_overspend [OF w prod.collapse [symmetric] m, of ?rs] show ?thesis by auto
qed

end
