(* ===== verification/Rate_Limiter.thy ===== *)
theory Rate_Limiter
  imports Domain Witness_Data
begin

text \<open>
  The per-agent sliding-window limiter of \<^verbatim>\<open>packages/shared/rate_limiter.py\<close>: one call of
  \<open>check_rate_limit\<close> with the Redis pipeline (a parameter, \<open>redis_api\<close>), the refusal that takes
  the new member back, and the local deque used when Redis raises. Python floats are rationals
  here and \<open>round(x, 2)\<close> rounds half to even. The locale \<open>window_store\<close> states what a window of
  timestamps promises; the deque of the module is its instance.
\<close>

section \<open>The limiter\<close>

record rate_limiter =
  default_rate_limit :: int
  default_window_seconds :: int
  burst_limit :: int

record rate_limit_result =
  rl_allowed :: bool
  rl_limit :: int
  rl_remaining :: int
  rl_reset_epoch_seconds :: int
  rl_retry_after_seconds :: rat
  rl_agent_id :: string
  rl_tier :: string
  rl_rejection_reason :: "string option"

text \<open>\<open>int(x)\<close> and \<open>round(x, 2)\<close> on floats.\<close>

definition py_trunc :: "rat \<Rightarrow> int" where
  "py_trunc r = (if 0 \<le> r then \<lfloor>r\<rfloor> else \<lceil>r\<rceil>)"

definition round2 :: "rat \<Rightarrow> rat" where
  "round2 r =
     (let x = r * 100; f = \<lfloor>x\<rfloor>; d = x - of_int f
      in of_int (if d < 1 / 2 then f else if 1 / 2 < d then f + 1
                 else if even f then f else f + 1) / 100)"

definition RedisRateLimiter_init :: "int \<Rightarrow> int \<Rightarrow> rat \<Rightarrow> rate_limiter" where
  "RedisRateLimiter_init limit window burst_multiplier =
     \<lparr>default_rate_limit = limit, default_window_seconds = window,
      burst_limit = py_trunc (of_int limit * burst_multiplier)\<rparr>"

definition default_limiter :: rate_limiter where
  "default_limiter = RedisRateLimiter_init 60 60 (3 / 2)"

definition get_key :: "string \<Rightarrow> string \<Rightarrow> string" where
  "get_key agent_id tier = ''ratelimit:agent:'' @ agent_id @ '':'' @ tier"

definition int_or :: "int option \<Rightarrow> int \<Rightarrow> int" where
  "int_or x d = (case x of None \<Rightarrow> d | Some i \<Rightarrow> if i = 0 then d else i)"

text \<open>
  The local deque: old timestamps leave at the front, admitted ones join at the back.
\<close>

definition deque_purge :: "rat \<Rightarrow> rat list \<Rightarrow> rat list" where
  "deque_purge clear_before bucket = dropWhile (\<lambda>t. t \<le> clear_before) bucket"

definition deque_extend :: "rat \<Rightarrow> int \<Rightarrow> rat list \<Rightarrow> rat list" where
  "deque_extend t cost bucket = bucket @ replicate (nat cost) t"

definition local_rate_limit ::
    "env \<Rightarrow> string \<Rightarrow> int \<Rightarrow> int \<Rightarrow> int \<Rightarrow> string \<Rightarrow> world \<Rightarrow> rate_limit_result \<times> world" where
  "local_rate_limit E agent_id cost limit window tier w =
     (let now = time_now E;
          clear_before = now - of_int window;
          key = get_key agent_id tier
      in if str_lower (ENVIRONMENT (settings E)) = ''production'' then
           (\<lparr>rl_allowed = False, rl_limit = limit, rl_remaining = 0,
             rl_reset_epoch_seconds = py_trunc (now + of_int window),
             rl_retry_after_seconds = 1, rl_agent_id = agent_id, rl_tier = tier,
             rl_rejection_reason = Some ''Rate limiter unavailable; request denied safely.''\<rparr>, w)
         else
           let bucket = deque_purge clear_before (fallback_buckets w key)
           in if limit < int (length bucket) + cost then
                let retry_after = (case bucket of [] \<Rightarrow> of_int window
                      | b # _ \<Rightarrow> max (1 / 10) (b + of_int window - now))
                in (\<lparr>rl_allowed = False, rl_limit = limit, rl_remaining = 0,
                     rl_reset_epoch_seconds = py_trunc (now + retry_after),
                     rl_retry_after_seconds = round2 retry_after, rl_agent_id = agent_id,
                     rl_tier = tier @ ''_local'',
                     rl_rejection_reason =
                       Some (''Agent '' @ quote agent_id @ '' rate limit exceeded.'')\<rparr>,
                    w\<lparr>fallback_buckets := (fallback_buckets w)(key := bucket)\<rparr>)
              else
                let bucket = deque_extend now cost bucket
                in (\<lparr>rl_allowed = True, rl_limit = limit,
                     rl_remaining = limit - int (length bucket),
                     rl_reset_epoch_seconds = py_trunc (now + of_int window),
                     rl_retry_after_seconds = 0, rl_agent_id = agent_id,
                     rl_tier = tier @ ''_local'', rl_rejection_reason = None\<rparr>,
                    w\<lparr>fallback_buckets := (fallback_buckets w)(key := bucket)\<rparr>))"

text \<open>
  The whole call. An exception of any Redis command, also of the two that follow a refusal, is
  caught and leads to the local limiter.
\<close>

definition check_rate_limit ::
    "env \<Rightarrow> rate_limiter \<Rightarrow> string \<Rightarrow> int \<Rightarrow> int option \<Rightarrow> int option \<Rightarrow> string \<Rightarrow> world
       \<Rightarrow> rate_limit_result \<times> world" where
  "check_rate_limit E rl agent_id cost custom_limit custom_window_seconds tier w =
     (let limit = int_or custom_limit (default_rate_limit rl);
          window = int_or custom_window_seconds (default_window_seconds rl);
          now = time_now E;
          clear_before = now - of_int window;
          key = get_key agent_id tier;
          member_id = float_text E now @ '':'' @ str_int cost @ '':'' @ str_int (perf_counter_ns E);
          fallback = local_rate_limit E agent_id cost limit window tier
      in case redis_window (redis E) (redis_db w) key clear_before member_id now (window + 10) of
           Inl _ \<Rightarrow> fallback w
         | Inr (current_count, db) \<Rightarrow>
             let w = w\<lparr>redis_db := db\<rparr> in
             if limit < current_count + cost then
               (case redis_zrem (redis E) db key member_id of
                  Inl _ \<Rightarrow> fallback w
                | Inr db \<Rightarrow>
                    let w = w\<lparr>redis_db := db\<rparr> in
                    (case redis_oldest (redis E) db key of
                       Inl _ \<Rightarrow> fallback w
                     | Inr oldest \<Rightarrow>
                         let reset_time = (case oldest of
                               Some (_, s) \<Rightarrow> py_trunc (s + of_int window)
                             | None \<Rightarrow> py_trunc (now + of_int window));
                             retry_after = max (1 / 10) (round2 (of_int reset_time - now))
                         in (\<lparr>rl_allowed = False, rl_limit = limit, rl_remaining = 0,
                              rl_reset_epoch_seconds = reset_time,
                              rl_retry_after_seconds = retry_after, rl_agent_id = agent_id,
                              rl_tier = tier,
                              rl_rejection_reason = Some (''Agent '' @ quote agent_id
                                @ '' rate limit exceeded ('' @ str_int current_count @ ''/''
                                @ str_int limit @ '' in '' @ str_int window
                                @ ''s window). Retry after '' @ float_text E retry_after @ ''s.'')\<rparr>,
                             w)))
             else
               (\<lparr>rl_allowed = True, rl_limit = limit,
                 rl_remaining = max 0 (limit - (current_count + cost)),
                 rl_reset_epoch_seconds = py_trunc (now + of_int window),
                 rl_retry_after_seconds = 0, rl_agent_id = agent_id, rl_tier = tier,
                 rl_rejection_reason = None\<rparr>, w))"

section \<open>A window of timestamps\<close>

text \<open>
  \<open>in_window t W xs\<close>: the timestamps of \<open>xs\<close> in the window \<open>(t - W, t]\<close>.
\<close>

definition in_window :: "rat \<Rightarrow> rat \<Rightarrow> rat list \<Rightarrow> rat list" where
  "in_window t W xs = filter (\<lambda>x. t - W < x \<and> x \<le> t) xs"

lemma in_window_Nil [simp]: "in_window t W [] = []"
  by (simp add: in_window_def)

lemma in_window_append: "in_window t W (xs @ ys) = in_window t W xs @ in_window t W ys"
  by (simp add: in_window_def)

lemma in_window_replicate: "length (in_window t W (replicate n x)) \<le> n"
  unfolding in_window_def by (metis length_filter_le length_replicate)

lemma in_window_later:
  assumes "\<And>x. x \<in> set xs \<Longrightarrow> x \<le> s" and "s \<le> t"
  shows "length (in_window t W xs) \<le> length (in_window s W xs)"
  using assms by (induction xs) (force simp: in_window_def)+

locale window_store =
  fixes purge :: "rat \<Rightarrow> 's \<Rightarrow> 's" and size_of :: "'s \<Rightarrow> int" and add :: "rat \<Rightarrow> int \<Rightarrow> 's \<Rightarrow> 's"
    and stamps :: "'s \<Rightarrow> rat list" and ok :: "'s \<Rightarrow> bool"
  assumes stamps_purge: "ok s \<Longrightarrow> stamps (purge c s) = filter (\<lambda>t. c < t) (stamps s)"
    and ok_purge: "ok s \<Longrightarrow> ok (purge c s)"
    and size_stamps: "size_of s = int (length (stamps s))"
    and stamps_add: "stamps (add t n s) = stamps s @ replicate (nat n) t"
    and ok_add: "ok s \<Longrightarrow> \<forall>x \<in> set (stamps s). x \<le> t \<Longrightarrow> ok (add t n s)"
begin

text \<open>One decision of a limiter over the store, and what it guarantees over any run.\<close>

definition admit :: "int \<Rightarrow> rat \<Rightarrow> int \<Rightarrow> rat \<Rightarrow> 's \<Rightarrow> bool \<times> 's" where
  "admit limit W cost t s =
     (let s = purge (t - W) s
      in if limit < size_of s + cost then (False, s) else (True, add t cost s))"

fun admitted :: "int \<Rightarrow> rat \<Rightarrow> int \<Rightarrow> rat list \<Rightarrow> 's \<Rightarrow> rat list" where
  "admitted limit W cost [] s = []"
| "admitted limit W cost (t # ts) s =
     (let (b, s') = admit limit W cost t s
      in (if b then replicate (nat cost) t else []) @ admitted limit W cost ts s')"

lemma admitted_le: "x \<in> set (admitted limit W cost ts s) \<Longrightarrow> x \<in> set ts"
  by (induction ts arbitrary: s) (auto simp: Let_def split: prod.splits if_splits)

text \<open>
  \<open>covers hist s now\<close>: the store still holds every timestamp admitted so far that a window
  ending now or later can contain.
\<close>

definition covers :: "rat \<Rightarrow> rat list \<Rightarrow> 's \<Rightarrow> rat \<Rightarrow> bool" where
  "covers W hist s now \<longleftrightarrow> ok s \<and> (\<forall>x \<in> set hist. x \<le> now) \<and> set (stamps s) \<subseteq> set hist
     \<and> (\<forall>c \<ge> now - W. filter (\<lambda>t. c < t) (stamps s) = filter (\<lambda>t. c < t) hist)"

lemma admit_bound:
  assumes cov: "covers W hist s now" and "now \<le> t" and "0 \<le> cost"
    and old: "\<And>u. int (length (in_window u W hist)) \<le> limit" and adm: "admit limit W cost t s = (b, s')"
  defines "hist' \<equiv> hist @ (if b then replicate (nat cost) t else [])"
  shows "covers W hist' s' t" and "int (length (in_window u W hist')) \<le> limit"
proof -
  let ?p = "purge (t - W) s"
  have ok_s: "ok s" and ok_p: "ok ?p" and le: "\<forall>x \<in> set hist. x \<le> t"
    using cov \<open>now \<le> t\<close> ok_purge by (fastforce simp: covers_def)+
  have stamps_p: "stamps ?p = filter (\<lambda>x. t - W < x) hist"
    using cov \<open>now \<le> t\<close> stamps_purge [OF ok_s] by (simp add: covers_def)
  have hist_t: "stamps ?p = in_window t W hist"
    using le stamps_p by (auto simp: in_window_def intro!: filter_cong)
  have keep: "filter (\<lambda>x. c < x) (stamps ?p) = filter (\<lambda>x. c < x) hist" if "t - W \<le> c" for c
    using that stamps_p by (auto simp: intro!: filter_cong)
  have b: "b \<longleftrightarrow> \<not> limit < size_of ?p + cost" and s': "s' = (if b then add t cost ?p else ?p)"
    using adm by (auto simp: admit_def Let_def split: if_splits)
  have ok_s': "ok s'" using s' ok_p ok_add le stamps_p by auto
  show "covers W hist' s' t"
    using ok_s' le s' stamps_p keep stamps_add unfolding covers_def hist'_def by auto
  show "int (length (in_window u W hist')) \<le> limit"
  proof (cases "b \<and> t \<le> u")
    case False
    then have "in_window u W hist' = in_window u W hist" by (auto simp: hist'_def in_window_def)
    with old show ?thesis by simp
  next
    case True
    then have "length (in_window u W hist') \<le> length (in_window t W hist')"
      using le by (intro in_window_later) (auto simp: hist'_def)
    also have "\<dots> \<le> length (stamps ?p) + nat cost"
      using in_window_replicate [of t W "nat cost" t]
      by (simp add: hist'_def in_window_append hist_t)
    finally show ?thesis using b True size_stamps \<open>0 \<le> cost\<close> by auto
  qed
qed

lemma admitted_bound_from:
  assumes "covers W hist s now" and "sorted (now # ts)" and "0 \<le> cost"
    and "\<And>u. int (length (in_window u W hist)) \<le> limit"
  shows "int (length (in_window u W (hist @ admitted limit W cost ts s))) \<le> limit"
  using assms
proof (induction ts arbitrary: hist s now)
  case Nil
  then show ?case by simp
next
  case (Cons t ts)
  obtain b s' where adm: "admit limit W cost t s = (b, s')" by (cases "admit limit W cost t s")
  let ?hist = "hist @ (if b then replicate (nat cost) t else [])"
  have "now \<le> t" and "sorted (t # ts)" using Cons.prems(2) by auto
  with admit_bound [OF Cons.prems(1) _ Cons.prems(3,4) adm] Cons.prems(3)
  have "int (length (in_window u W (?hist @ admitted limit W cost ts s'))) \<le> limit"
    by (intro Cons.IH) auto
  with adm show ?case by (simp add: Let_def split: if_splits)
qed

lemma admitted_bound:
  assumes "ok s" and "stamps s = []" and "sorted ts" and "0 \<le> cost" and "0 \<le> limit"
  shows "int (length (in_window u W (admitted limit W cost ts s))) \<le> limit"
proof (cases ts)
  case Nil
  with assms show ?thesis by (simp add: in_window_def)
next
  case (Cons t ts')
  with assms have "covers W [] s t" and "sorted (t # ts)" by (auto simp: covers_def)
  from admitted_bound_from [OF this] assms show ?thesis by (simp add: in_window_def)
qed

end

lemma dropWhile_sorted: "sorted xs \<Longrightarrow> dropWhile (\<lambda>t. t \<le> c) xs = filter (\<lambda>t. c < (t::rat)) xs"
proof (induction xs)
  case Nil
  then show ?case by simp
next
  case (Cons x xs)
  then show ?case
  proof (cases "x \<le> c")
    case True
    with Cons show ?thesis by auto
  next
    case False
    with Cons.prems have "\<forall>t \<in> set (x # xs). c < t" by auto
    with False show ?thesis by (simp add: filter_id_conv)
  qed
qed

interpretation deque_window: window_store deque_purge "\<lambda>b. int (length b)" deque_extend "\<lambda>b. b" sorted
  by unfold_locales
    (auto simp: deque_purge_def deque_extend_def dropWhile_sorted sorted_append sorted_wrt_filter
      sorted_replicate)

section \<open>Properties of the limiter\<close>

text \<open>What Redis is relied on for: a command on one key leaves the other keys alone.\<close>

definition redis_isolated :: "redis_api \<Rightarrow> bool" where
  "redis_isolated R \<longleftrightarrow>
     (\<forall>db k c m t ttl n db'. redis_window R db k c m t ttl = Inr (n, db') \<longrightarrow> (\<forall>k'. k' \<noteq> k \<longrightarrow> db' k' = db k'))
     \<and> (\<forall>db k m db'. redis_zrem R db k m = Inr db' \<longrightarrow> (\<forall>k'. k' \<noteq> k \<longrightarrow> db' k' = db k'))"

text \<open>
  \<open>touches R k w w'\<close>: only the two windows of key \<open>k\<close> changed from \<open>w\<close> to \<open>w'\<close>, provided Redis
  keeps keys apart.
\<close>

definition touches :: "redis_api \<Rightarrow> string \<Rightarrow> world \<Rightarrow> world \<Rightarrow> bool" where
  "touches R k w w' \<longleftrightarrow> (\<exists>r b. w' = w\<lparr>redis_db := r, fallback_buckets := b\<rparr>
     \<and> (\<forall>k'. k' \<noteq> k \<longrightarrow> b k' = fallback_buckets w k')
     \<and> (redis_isolated R \<longrightarrow> (\<forall>k'. k' \<noteq> k \<longrightarrow> r k' = redis_db w k')))"

lemma touchesI:
  assumes "w' = w\<lparr>redis_db := r, fallback_buckets := b\<rparr>"
    and "\<And>k'. k' \<noteq> k \<Longrightarrow> b k' = fallback_buckets w k'"
    and "\<And>k'. redis_isolated R \<Longrightarrow> k' \<noteq> k \<Longrightarrow> r k' = redis_db w k'"
  shows "touches R k w w'"
  unfolding touches_def using assms by blast

lemma touches_refl: "touches R k w w"
  by (rule touchesI [where r = "redis_db w" and b = "fallback_buckets w"]) auto

lemma touches_bucket:
  assumes "touches R k w v"
  shows "touches R k w (v\<lparr>fallback_buckets := (fallback_buckets v)(k := b)\<rparr>)"
proof -
  from assms obtain r b' where v: "v = w\<lparr>redis_db := r, fallback_buckets := b'\<rparr>"
    and "\<forall>k'. k' \<noteq> k \<longrightarrow> b' k' = fallback_buckets w k'"
    and "redis_isolated R \<longrightarrow> (\<forall>k'. k' \<noteq> k \<longrightarrow> r k' = redis_db w k')"
    by (auto simp: touches_def)
  then show ?thesis by (intro touchesI [where r = r and b = "b'(k := b)"]) auto
qed

lemma touches_db:
  assumes "touches R k w v" and "\<And>k'. redis_isolated R \<Longrightarrow> k' \<noteq> k \<Longrightarrow> db k' = redis_db v k'"
  shows "touches R k w (v\<lparr>redis_db := db\<rparr>)"
proof -
  from assms(1) obtain r b where v: "v = w\<lparr>redis_db := r, fallback_buckets := b\<rparr>"
    and "\<forall>k'. k' \<noteq> k \<longrightarrow> b k' = fallback_buckets w k'"
    and "redis_isolated R \<longrightarrow> (\<forall>k'. k' \<noteq> k \<longrightarrow> r k' = redis_db w k')"
    by (auto simp: touches_def)
  with assms(2) show ?thesis by (intro touchesI [where r = db and b = b]) auto
qed

lemma touches_window:
  "touches R k w v \<Longrightarrow> redis_window R (redis_db v) k c m t ttl = Inr (n, db)
     \<Longrightarrow> touches R k w (v\<lparr>redis_db := db\<rparr>)"
  "touches R k w v \<Longrightarrow> redis_zrem R (redis_db v) k m = Inr db \<Longrightarrow> touches R k w (v\<lparr>redis_db := db\<rparr>)"
  by (auto intro!: touches_db simp: redis_isolated_def)

lemma touches_local:
  "touches R (get_key a tier) w v
     \<Longrightarrow> touches R (get_key a tier) w (snd (local_rate_limit E a cost limit window tier v))"
  by (simp add: local_rate_limit_def Let_def touches_bucket)

lemma check_rate_limit_touches:
  "touches (redis E) (get_key a tier) w (snd (check_rate_limit E rl a cost cl cw tier w))"
proof -
  define limit where "limit = int_or cl (default_rate_limit rl)"
  define window where "window = int_or cw (default_window_seconds rl)"
  define m where "m = float_text E (time_now E) @ '':'' @ str_int cost @ '':'' @ str_int (perf_counter_ns E)"
  let ?k = "get_key a tier"
  show ?thesis
  proof (cases "redis_window (redis E) (redis_db w) ?k (time_now E - of_int window) m (time_now E) (window + 10)")
    case (Inl e)
    then show ?thesis unfolding check_rate_limit_def Let_def
      by (simp add: limit_def window_def m_def touches_local touches_refl)
  next
    case (Inr p)
    obtain n db where p: "p = (n, db)" by (cases p)
    let ?v = "w\<lparr>redis_db := db\<rparr>"
    have v: "touches (redis E) ?k w ?v"
      using touches_window(1) [OF touches_refl] Inr p by blast
    show ?thesis
    proof (cases "limit < n + cost")
      case False
      with Inr p v show ?thesis unfolding check_rate_limit_def Let_def
        by (simp add: limit_def window_def m_def)
    next
      case over: True
      show ?thesis
      proof (cases "redis_zrem (redis E) db ?k m")
        case (Inl e)
        with Inr p over v show ?thesis unfolding check_rate_limit_def Let_def
          by (simp add: limit_def window_def m_def touches_local)
      next
        case rem: (Inr db')
        then have "touches (redis E) ?k w (?v\<lparr>redis_db := db'\<rparr>)"
          using touches_window(2) [OF v] by simp
        with Inr p over rem show ?thesis unfolding check_rate_limit_def Let_def
          by (cases "redis_oldest (redis E) db' ?k") (simp_all add: limit_def window_def m_def touches_local)
      qed
    qed
  qed
qed

lemma get_key_eq_iff: "get_key a tier = get_key b tier \<longleftrightarrow> a = b"
  by (simp add: get_key_def)

text \<open>
  Agents do not share quota: a call for one agent changes neither the Redis window nor the
  local window of another agent in the same tier (given that a Redis command on one key leaves
  the others alone), and it changes nothing else of the state.
\<close>
theorem rate_limit_isolation:
  assumes "redis_isolated (redis E)" and "a \<noteq> b"
  shows "let w' = snd (check_rate_limit E rl a cost cl cw tier w) in
    redis_db w' (get_key b tier) = redis_db w (get_key b tier)
    \<and> fallback_buckets w' (get_key b tier) = fallback_buckets w (get_key b tier)
    \<and> w' = w\<lparr>redis_db := redis_db w', fallback_buckets := fallback_buckets w'\<rparr>"
  using check_rate_limit_touches [of E a tier w rl cost cl cw] assms
  by (auto simp: Let_def get_key_eq_iff touches_def)

text \<open>A Redis that keeps every window as a sorted set, for the witness.\<close>

definition zset_redis :: redis_api where
  "zset_redis = \<lparr>
     redis_window = (\<lambda>db k c m t ttl. let z = filter (\<lambda>(_, s). c < s) (db k)
        in Inr (int (length z), db(k := z @ [(m, t)]))),
     redis_zrem = (\<lambda>db k m. Inr (db(k := filter (\<lambda>(n, _). n \<noteq> m) (db k)))),
     redis_oldest = (\<lambda>db k. Inr (case db k of [] \<Rightarrow> None | x # _ \<Rightarrow> Some x))\<rparr>"

theorem rate_limit_isolation_witness:
  "fallback_buckets (snd (check_rate_limit (demo_env\<lparr>redis := zset_redis\<rparr>) default_limiter
     ''shop'' 1 None None ''standard'' demo_world)) (get_key ''proc'' ''standard'') = []"
proof -
  have "redis_isolated (redis (demo_env\<lparr>redis := zset_redis\<rparr>))"
    by (auto simp: redis_isolated_def zset_redis_def Let_def)
  then show ?thesis
    using rate_limit_isolation [of "demo_env\<lparr>redis := zset_redis\<rparr>" "''shop''" "''proc''"
        default_limiter 1 None None "''standard''" demo_world]
    by (simp add: Let_def demo_world_def)
qed

text \<open>
  In production an unreachable Redis means refusal: no request passes and no window changes.
\<close>
theorem rate_limit_fails_closed:
  assumes "str_lower (ENVIRONMENT (settings E)) = ''production''"
    and "\<And>k c m t ttl. redis_window (redis E) (redis_db w) k c m t ttl = Inl RedisError"
  shows "\<not> rl_allowed (fst (check_rate_limit E rl a cost cl cw tier w))
    \<and> snd (check_rate_limit E rl a cost cl cw tier w) = w"
  using assms by (simp add: check_rate_limit_def local_rate_limit_def Let_def)

theorem rate_limit_fails_closed_witness:
  "\<not> rl_allowed (fst (check_rate_limit
      (demo_env\<lparr>settings := default_settings\<lparr>ENVIRONMENT := ''Production''\<rparr>\<rparr>) default_limiter
      ''shop'' 1 None None ''standard'' demo_world))"
proof -
  have "str_lower ''Production'' = ''production''" by code_simp
  then show ?thesis
    using rate_limit_fails_closed
      [of "demo_env\<lparr>settings := default_settings\<lparr>ENVIRONMENT := ''Production''\<rparr>\<rparr>" demo_world
        default_limiter "''shop''" 1 None None "''standard''"]
    by (simp add: demo_env_def demo_redis_def)
qed

text \<open>A verdict depends on the rate windows only.\<close>

lemma local_rate_limit_cong:
  "fallback_buckets v = fallback_buckets w
     \<Longrightarrow> fst (local_rate_limit E a cost limit window tier v) = fst (local_rate_limit E a cost limit window tier w)"
  by (simp add: local_rate_limit_def Let_def)

lemma check_rate_limit_cong:
  assumes "redis_db v = redis_db w" and "fallback_buckets v = fallback_buckets w"
  shows "fst (check_rate_limit E rl a cost cl cw tier v) = fst (check_rate_limit E rl a cost cl cw tier w)"
proof -
  have up: "fst (local_rate_limit E a cost limit window tier (v\<lparr>redis_db := db\<rparr>))
      = fst (local_rate_limit E a cost limit window tier (w\<lparr>redis_db := db\<rparr>))" for limit window db
    using assms(2) by (intro local_rate_limit_cong) simp
  show ?thesis
    unfolding check_rate_limit_def Let_def assms(1)
    using up local_rate_limit_cong [OF assms(2)]
    by (simp split: sum.split prod.split)
qed

text \<open>
  A run of requests of one agent at the given times: the timestamps of the admitted ones.
\<close>

fun rate_run :: "env \<Rightarrow> rate_limiter \<Rightarrow> string \<Rightarrow> int \<Rightarrow> string \<Rightarrow> rat list \<Rightarrow> world \<Rightarrow> rat list" where
  "rate_run E rl a cost tier [] w = []"
| "rate_run E rl a cost tier (t # ts) w =
     (let (res, w') = check_rate_limit (E\<lparr>time_now := t\<rparr>) rl a cost None None tier w
      in (if rl_allowed res then replicate (nat cost) t else []) @ rate_run E rl a cost tier ts w')"

definition redis_down :: "redis_api \<Rightarrow> bool" where
  "redis_down R \<longleftrightarrow> (\<forall>db k c m t ttl. redis_window R db k c m t ttl = Inl RedisError)"

lemma check_rate_limit_local:
  assumes "redis_down (redis E)" and "str_lower (ENVIRONMENT (settings E)) \<noteq> ''production''"
  shows "let (res, w') = check_rate_limit (E\<lparr>time_now := t\<rparr>) rl a cost None None tier w;
      (b, s) = deque_window.admit (default_rate_limit rl) (of_int (default_window_seconds rl)) cost t
        (fallback_buckets w (get_key a tier))
    in rl_allowed res = b \<and> fallback_buckets w' (get_key a tier) = s"
  using assms
  by (simp add: check_rate_limit_def local_rate_limit_def deque_window.admit_def Let_def
      redis_down_def int_or_def)

lemma rate_run_admitted:
  assumes "redis_down (redis E)" and "str_lower (ENVIRONMENT (settings E)) \<noteq> ''production''"
  shows "rate_run E rl a cost tier ts w
    = deque_window.admitted (default_rate_limit rl) (of_int (default_window_seconds rl)) cost ts
        (fallback_buckets w (get_key a tier))"
proof (induction ts arbitrary: w)
  case Nil
  then show ?case by simp
next
  case (Cons t ts)
  then show ?case
    using check_rate_limit_local [OF assms, of t rl a cost tier w]
    by (auto simp: Let_def split: prod.splits)
qed

text \<open>
  C16: The local window enforces the quota over any history: starting empty, with requests of one
  agent at non-decreasing times, no interval of \<open>default_window_seconds\<close> ever contains more
  admitted cost than \<open>default_rate_limit\<close>.
\<close>
theorem rate_limit_bound:
  assumes "redis_down (redis E)" and "str_lower (ENVIRONMENT (settings E)) \<noteq> ''production''"
    and "fallback_buckets w (get_key a tier) = []" and "sorted ts"
    and "0 \<le> cost" and "0 \<le> default_rate_limit rl"
  shows "int (length (in_window u (of_int (default_window_seconds rl)) (rate_run E rl a cost tier ts w)))
    \<le> default_rate_limit rl"
  unfolding rate_run_admitted [OF assms(1,2)]
  using assms by (intro deque_window.admitted_bound) auto

theorem rate_limit_bound_witness:
  "int (length (in_window 70 60 (rate_run demo_env (RedisRateLimiter_init 2 60 1) ''shop'' 1 ''standard''
      [1, 5, 30, 62, 70] demo_world))) \<le> 2
   \<and> rate_run demo_env (RedisRateLimiter_init 2 60 1) ''shop'' 1 ''standard'' [1, 5, 30, 62, 70] demo_world
     = [1, 5, 62, 70]"
proof -
  have env: "redis_down (redis demo_env)" "str_lower (ENVIRONMENT (settings demo_env)) \<noteq> ''production''"
    by (simp add: redis_down_def demo_env_def demo_redis_def)
      (simp add: demo_env_def default_settings_def str_lower_def char_lower_def)
  have run: "rate_run demo_env (RedisRateLimiter_init 2 60 1) ''shop'' 1 ''standard'' [1, 5, 30, 62, 70]
      demo_world = [1, 5, 62, 70]"
    unfolding rate_run_admitted [OF env]
    by (simp add: deque_window.admit_def deque_purge_def deque_extend_def Let_def demo_world_def
        RedisRateLimiter_init_def)
  from rate_limit_bound [OF env, of demo_world "''shop''" "''standard''" "[1, 5, 30, 62, 70]" 1
      "RedisRateLimiter_init 2 60 1" 70] run
  show ?thesis by (simp add: demo_world_def RedisRateLimiter_init_def)
qed

end
