(* ===== verification/Policy_Engine.thy ===== *)
theory Policy_Engine
  imports Rate_Limiter
begin

text \<open>
  The policy engine of \<^verbatim>\<open>packages/policy/engine.py\<close>: the nine rules, each with the diagnostic it
  returns on every branch, and the evaluation loop over a list of rules. The walk over the
  ancestor mandates may not end when the parent links form a cycle: it is a partial function
  whose value None is a call that does not return, and a lemma shows that it ends whenever
  the delegation depths decrease towards the root. Latencies are left out.
\<close>

section \<open>The rules\<close>

definition ensure_utc :: "datetime option \<Rightarrow> datetime option" where
  "ensure_utc dt =
     (case dt of
        None \<Rightarrow> None
      | Some (Naive t) \<Rightarrow> Some (Aware t 0)
      | Some (Aware t z) \<Rightarrow> Some (Aware (t - z) 0))"

definition diag :: "string \<Rightarrow> policy_decision_type \<Rightarrow> string \<Rightarrow> dict \<Rightarrow> diagnostic" where
  "diag rule_name decision reason context =
     \<lparr>d_rule_name = rule_name, d_decision = decision, d_passed = (decision = ALLOW),
      d_reason = reason, d_context = context\<rparr>"

definition AgentStatusRule_evaluate :: "agent \<Rightarrow> diagnostic" where
  "AgentStatusRule_evaluate a =
     (if a_status a \<noteq> Agent_ACTIVE then
        diag ''AGENT_STATUS_CHECK'' DENY (''Agent '' @ quote (a_id a) @ '' is in status ''
            @ agent_status_value (a_status a) @ ''; must be ACTIVE'')
          [(''agent_status'', JStr (agent_status_value (a_status a)))]
      else diag ''AGENT_STATUS_CHECK'' ALLOW ''Agent is active and verified'' [])"

definition MandateLifecycleRule_evaluate :: "env \<Rightarrow> mandate \<Rightarrow> diagnostic" where
  "MandateLifecycleRule_evaluate E m =
     (let n = ''MANDATE_LIFECYCLE_CHECK'';
          now = utc_now E;
          valid_from = ensure_utc (Some (m_valid_from m));
          valid_until = ensure_utc (Some (m_valid_until m))
      in if m_status m \<noteq> Mandate_ACTIVE then
           diag n DENY (''Mandate status is '' @ mandate_status_value (m_status m)
               @ ''; expected ACTIVE'')
             [(''mandate_status'', JStr (mandate_status_value (m_status m)))]
         else if (case valid_from of None \<Rightarrow> False | Some vf \<Rightarrow> instant now < instant vf) then
           diag n DENY (''Mandate is not yet effective (valid from '' @ isoformat (the valid_from)
             @ '')'') []
         else if (case valid_until of None \<Rightarrow> False | Some vu \<Rightarrow> instant vu < instant now) then
           diag n DENY (''Mandate has expired (valid until '' @ isoformat (the valid_until)
             @ '')'') []
         else diag n ALLOW ''Mandate is active and within validity window'' [])"

text \<open>The walk from a mandate to its root; None when it never ends.\<close>

partial_function (option) ancestor_walk :: "mandate list \<Rightarrow> string option \<Rightarrow> diagnostic option" where
  "ancestor_walk ms curr_parent_id =
     (if \<not> truthy_str curr_parent_id then
        Some (diag ''HIERARCHICAL_DELEGATION_CHECK'' ALLOW
          ''Delegation hierarchy validated and active'' [])
      else (case tget m_id (str_or curr_parent_id []) ms of
          None \<Rightarrow> Some (diag ''HIERARCHICAL_DELEGATION_CHECK'' DENY
            (''Ancestor parent mandate '' @ quote (str_or curr_parent_id []) @ '' not found'') [])
        | Some parent \<Rightarrow>
            if m_status parent \<noteq> Mandate_ACTIVE then
              Some (diag ''HIERARCHICAL_DELEGATION_CHECK'' DENY
                (''Parent mandate '' @ quote (m_id parent) @ '' in delegation tree is ''
                  @ mandate_status_value (m_status parent) @ ''; authority invalidated'')
                [(''parent_id'', JStr (m_id parent)),
                 (''parent_status'', JStr (mandate_status_value (m_status parent)))])
            else ancestor_walk ms (m_parent_mandate_id parent)))"

declare ancestor_walk.simps [code]

text \<open>\<open>with_db\<close>: the context the caller passes holds a session.\<close>

definition HierarchicalDelegationRule_evaluate ::
    "bool \<Rightarrow> mandate list \<Rightarrow> mandate \<Rightarrow> diagnostic option" where
  "HierarchicalDelegationRule_evaluate with_db ms m =
     (if \<not> truthy_str (m_parent_mandate_id m) then
        Some (diag ''HIERARCHICAL_DELEGATION_CHECK'' ALLOW
          ''Root mandate has no parent dependencies'' [])
      else if with_db then ancestor_walk ms (m_parent_mandate_id m)
      else Some (diag ''HIERARCHICAL_DELEGATION_CHECK'' ALLOW
        ''Delegation hierarchy validated and active'' []))"

definition CurrencyMatchRule_evaluate :: "mandate \<Rightarrow> operation \<Rightarrow> diagnostic" where
  "CurrencyMatchRule_evaluate m op =
     (if str_upper (o_currency op) \<noteq> str_upper (m_currency m) then
        diag ''CURRENCY_MATCH_CHECK'' DENY (''Requested currency '' @ quote (o_currency op)
            @ '' does not match mandate bound '' @ quote (m_currency m))
          [(''requested_currency'', JStr (o_currency op)),
           (''mandate_currency'', JStr (m_currency m))]
      else diag ''CURRENCY_MATCH_CHECK'' ALLOW ''Currency restriction satisfied'' [])"

definition AllowedOperationTypeRule_evaluate :: "mandate \<Rightarrow> operation \<Rightarrow> diagnostic" where
  "AllowedOperationTypeRule_evaluate m op =
     (let op_type = operation_type_value (o_operation_type op) in
      if m_allowed_operations m \<noteq> [] \<and> op_type \<notin> set (m_allowed_operations m) then
        diag ''OPERATION_TYPE_CHECK'' DENY (''Operation type '' @ quote op_type
            @ '' is not authorized in mandate whitelist'')
          [(''allowed_operations'', JList (map JStr (m_allowed_operations m))),
           (''requested'', JStr op_type)]
      else diag ''OPERATION_TYPE_CHECK'' ALLOW
        (''Operation type '' @ quote op_type @ '' is authorized'') [])"

definition PerTransactionLimitRule_evaluate :: "mandate \<Rightarrow> operation \<Rightarrow> diagnostic" where
  "PerTransactionLimitRule_evaluate m op =
     (if m_max_amount_per_op m < o_amount op then
        diag ''PER_TRANSACTION_LIMIT_CHECK'' DENY (''Requested amount '' @ str_int (o_amount op)
            @ '' exceeds per-transaction limit '' @ str_int (m_max_amount_per_op m))
          [(''requested_amount'', JInt (o_amount op)), (''limit'', JInt (m_max_amount_per_op m))]
      else diag ''PER_TRANSACTION_LIMIT_CHECK'' ALLOW
        ''Amount is within per-transaction ceiling'' [])"

definition AggregateSpendLimitRule_evaluate :: "mandate \<Rightarrow> operation \<Rightarrow> diagnostic" where
  "AggregateSpendLimitRule_evaluate m op =
     (let reserved = m_reserved_spend m;
          current = m_current_aggregate_spend m;
          projected_total = current + reserved + o_amount op
      in if m_aggregate_spend_limit m < projected_total then
           let remaining = max 0 (m_aggregate_spend_limit m - (current + reserved))
           in diag ''AGGREGATE_SPEND_LIMIT_CHECK'' DENY (''Operation amount ''
                @ str_int (o_amount op) @ '' exceeds remaining aggregate mandate budget (''
                @ str_int remaining @ '')'')
              [(''committed_spend'', JInt current), (''reserved_spend'', JInt reserved),
               (''aggregate_limit'', JInt (m_aggregate_spend_limit m)),
               (''remaining_budget'', JInt remaining)]
         else diag ''AGGREGATE_SPEND_LIMIT_CHECK'' ALLOW ''Aggregate spend budget available'' [])"

definition HumanReviewThresholdRule_evaluate :: "mandate \<Rightarrow> operation \<Rightarrow> diagnostic" where
  "HumanReviewThresholdRule_evaluate m op =
     (let n = ''HUMAN_REVIEW_THRESHOLD_CHECK'' in
      if truthy_str (o_approved_by_id op) then
        diag n ALLOW (''Human signoff granted by principal '' @ quote (str_or (o_approved_by_id op) []))
          []
      else (case m_review_threshold_amount m of
          None \<Rightarrow> diag n ALLOW ''Under human review threshold'' []
        | Some threshold \<Rightarrow>
            if threshold \<noteq> 0 \<and> threshold \<le> o_amount op then
              diag n REQUIRE_HUMAN_REVIEW (''Operation amount '' @ str_int (o_amount op)
                  @ '' reaches review threshold '' @ str_int threshold)
                [(''amount'', JInt (o_amount op)), (''threshold'', JInt threshold)]
            else diag n ALLOW ''Under human review threshold'' []))"

definition RateLimitRule_evaluate :: "env \<Rightarrow> agent \<Rightarrow> world \<Rightarrow> diagnostic \<times> world" where
  "RateLimitRule_evaluate E a w =
     (let (limit_res, w) = check_rate_limit E default_limiter (a_id a) 1 None None ''standard'' w
      in if \<not> rl_allowed limit_res then
           (diag ''RATE_LIMIT_CHECK'' DENY
              (str_or (rl_rejection_reason limit_res) ''Rate limit exceeded'')
              [(''limit'', JInt (rl_limit limit_res)), (''remaining'', JInt (rl_remaining limit_res)),
               (''retry_after_seconds'', JFloat (rl_retry_after_seconds limit_res))],
            inc_metric ''RATE_LIMIT_REJECTIONS_TOTAL'' [(''agent_id'', a_id a), (''tier'', rl_tier limit_res)] w)
         else
           (diag ''RATE_LIMIT_CHECK'' ALLOW ''Within rate limit quota''
              [(''remaining'', JInt (rl_remaining limit_res))], w))"

section \<open>The engine\<close>

datatype policy_rule =
    AgentStatusRule
  | MandateLifecycleRule
  | HierarchicalDelegationRule
  | CurrencyMatchRule
  | AllowedOperationTypeRule
  | PerTransactionLimitRule
  | AggregateSpendLimitRule
  | HumanReviewThresholdRule
  | RateLimitRule

definition default_rules :: "policy_rule list" where
  "default_rules = [AgentStatusRule, MandateLifecycleRule, HierarchicalDelegationRule,
     CurrencyMatchRule, AllowedOperationTypeRule, PerTransactionLimitRule,
     AggregateSpendLimitRule, HumanReviewThresholdRule, RateLimitRule]"

fun rule_evaluate ::
    "env \<Rightarrow> bool \<Rightarrow> agent \<Rightarrow> mandate \<Rightarrow> operation \<Rightarrow> world \<Rightarrow> policy_rule \<Rightarrow> diagnostic option \<times> world"
where
  "rule_evaluate E ctx a m op w AgentStatusRule = (Some (AgentStatusRule_evaluate a), w)"
| "rule_evaluate E ctx a m op w MandateLifecycleRule = (Some (MandateLifecycleRule_evaluate E m), w)"
| "rule_evaluate E ctx a m op w HierarchicalDelegationRule =
     (HierarchicalDelegationRule_evaluate ctx (mandates w) m, w)"
| "rule_evaluate E ctx a m op w CurrencyMatchRule = (Some (CurrencyMatchRule_evaluate m op), w)"
| "rule_evaluate E ctx a m op w AllowedOperationTypeRule =
     (Some (AllowedOperationTypeRule_evaluate m op), w)"
| "rule_evaluate E ctx a m op w PerTransactionLimitRule =
     (Some (PerTransactionLimitRule_evaluate m op), w)"
| "rule_evaluate E ctx a m op w AggregateSpendLimitRule =
     (Some (AggregateSpendLimitRule_evaluate m op), w)"
| "rule_evaluate E ctx a m op w HumanReviewThresholdRule =
     (Some (HumanReviewThresholdRule_evaluate m op), w)"
| "rule_evaluate E ctx a m op w RateLimitRule =
     (let (d, w) = RateLimitRule_evaluate E a w in (Some d, w))"

record verdict =
  v_decision :: policy_decision_type
  v_rejections :: "string list"
  v_reviews :: "string list"
  v_diagnostics :: "diagnostic list"

definition tagged :: "diagnostic \<Rightarrow> string" where
  "tagged d = ''['' @ d_rule_name d @ ''] '' @ d_reason d"

definition add_diagnostic :: "diagnostic \<Rightarrow> verdict \<Rightarrow> verdict" where
  "add_diagnostic d v =
     (let v = v\<lparr>v_diagnostics := v_diagnostics v @ [d]\<rparr> in
      if d_decision d = DENY then
        v\<lparr>v_rejections := v_rejections v @ [tagged d], v_decision := DENY\<rparr>
      else if d_decision d = REQUIRE_HUMAN_REVIEW \<and> v_decision v \<noteq> DENY then
        v\<lparr>v_reviews := v_reviews v @ [tagged d], v_decision := REQUIRE_HUMAN_REVIEW\<rparr>
      else v)"

definition str_bool :: "bool \<Rightarrow> string" where
  "str_bool b = (if b then ''True'' else ''False'')"

fun evaluate_rules ::
    "env \<Rightarrow> bool \<Rightarrow> agent \<Rightarrow> mandate \<Rightarrow> operation \<Rightarrow> policy_rule list \<Rightarrow> verdict \<Rightarrow> world
       \<Rightarrow> (verdict \<times> world) option" where
  "evaluate_rules E ctx a m op [] v w = Some (v, w)"
| "evaluate_rules E ctx a m op (r # rs) v w =
     (case rule_evaluate E ctx a m op w r of
        (None, _) \<Rightarrow> None
      | (Some d, w) \<Rightarrow>
          evaluate_rules E ctx a m op rs (add_diagnostic d v)
            (inc_metric ''POLICY_RULE_EVALUATIONS_TOTAL''
              [(''rule_name'', d_rule_name d), (''decision'', policy_decision_value (d_decision d)),
               (''passed'', str_bool (d_passed d))] w))"

definition engine_evaluate ::
    "policy_rule list \<Rightarrow> env \<Rightarrow> bool \<Rightarrow> agent \<Rightarrow> mandate \<Rightarrow> operation \<Rightarrow> world
       \<Rightarrow> (evaluation \<times> world) option" where
  "engine_evaluate rules E ctx a m op w =
     map_option (\<lambda>(v, w).
       (\<lparr>r_decision = v_decision v, r_approved = (v_decision v = ALLOW),
         r_requires_human_review = (v_decision v = REQUIRE_HUMAN_REVIEW),
         r_operation_id = o_operation_id op, r_agent_id = a_id a, r_mandate_id = m_id m,
         r_rejection_reasons = v_rejections v, r_review_reasons = v_reviews v,
         r_rule_diagnostics = v_diagnostics v\<rparr>, w))
       (evaluate_rules E ctx a m op rules
         \<lparr>v_decision = ALLOW, v_rejections = [], v_reviews = [], v_diagnostics = []\<rparr> w)"

definition policy_evaluate ::
    "env \<Rightarrow> bool \<Rightarrow> agent \<Rightarrow> mandate \<Rightarrow> operation \<Rightarrow> world \<Rightarrow> (evaluation \<times> world) option" where
  "policy_evaluate = engine_evaluate default_rules"

section \<open>The ancestor walk\<close>

text \<open>\<open>ancestor ms c k\<close>: \<open>k\<close> is \<open>c\<close> or one of the parents above it.\<close>

inductive ancestor :: "mandate list \<Rightarrow> string option \<Rightarrow> string \<Rightarrow> bool" for ms where
  here: "truthy_str (Some k) \<Longrightarrow> ancestor ms (Some k) k"
| up: "truthy_str (Some c) \<Longrightarrow> tget m_id c ms = Some p \<Longrightarrow> ancestor ms (m_parent_mandate_id p) k
        \<Longrightarrow> ancestor ms (Some c) k"

inductive_cases ancestor_NoneE: "ancestor ms None k"
inductive_cases ancestor_SomeE: "ancestor ms (Some c) k"

definition row_active :: "mandate list \<Rightarrow> string \<Rightarrow> bool" where
  "row_active ms k \<longleftrightarrow> (case tget m_id k ms of None \<Rightarrow> False | Some p \<Rightarrow> m_status p = Mandate_ACTIVE)"

definition ancestors_active :: "mandate list \<Rightarrow> string option \<Rightarrow> bool" where
  "ancestors_active ms c \<longleftrightarrow> (\<forall>k. ancestor ms c k \<longrightarrow> row_active ms k)"

lemma ancestors_active_None [simp]: "ancestors_active ms None" "ancestors_active ms (Some [])"
  by (auto simp: ancestors_active_def elim: ancestor_NoneE ancestor_SomeE)

lemma ancestors_active_Some:
  assumes "c \<noteq> []"
  shows "ancestors_active ms (Some c) \<longleftrightarrow>
    (case tget m_id c ms of None \<Rightarrow> False
     | Some p \<Rightarrow> m_status p = Mandate_ACTIVE \<and> ancestors_active ms (m_parent_mandate_id p))"
proof (cases "tget m_id c ms")
  case None
  with assms show ?thesis
    by (auto simp: ancestors_active_def row_active_def intro!: exI [of _ c] ancestor.here)
next
  case (Some p)
  have "ancestor ms (Some c) k \<longleftrightarrow> k = c \<or> ancestor ms (m_parent_mandate_id p) k" for k
    using assms Some by (auto elim: ancestor_SomeE intro: ancestor.intros)
  with Some show ?thesis by (auto simp: ancestors_active_def row_active_def)
qed

text \<open>
  Delegation depths that grow by one along each parent link: what \<open>create\<close> and \<open>delegate\<close>
  establish, and what makes the walk end.
\<close>

definition depths_ok :: "mandate list \<Rightarrow> bool" where
  "depths_ok ms \<longleftrightarrow> (\<forall>m \<in> set ms. 0 \<le> m_delegation_depth m \<and>
     (\<forall>c p. m_parent_mandate_id m = Some c \<longrightarrow> tget m_id c ms = Some p
        \<longrightarrow> m_delegation_depth p < m_delegation_depth m))"

lemma no_parent: "\<not> truthy_str c \<longleftrightarrow> c = None \<or> c = Some []"
  by (cases c) auto

lemma ancestor_walk_stop [simp]:
  "\<not> truthy_str c \<Longrightarrow> ancestor_walk ms c = Some (diag ''HIERARCHICAL_DELEGATION_CHECK'' ALLOW
      ''Delegation hierarchy validated and active'' [])"
  by (subst ancestor_walk.simps) simp

lemma ancestor_walk_missing:
  "k \<noteq> [] \<Longrightarrow> tget m_id k ms = None \<Longrightarrow>
     ancestor_walk ms (Some k) = Some (diag ''HIERARCHICAL_DELEGATION_CHECK'' DENY
       (''Ancestor parent mandate '' @ quote k @ '' not found'') [])"
  by (subst ancestor_walk.simps) simp

lemma ancestor_walk_inactive:
  "k \<noteq> [] \<Longrightarrow> tget m_id k ms = Some p \<Longrightarrow> m_status p \<noteq> Mandate_ACTIVE \<Longrightarrow>
     \<exists>reason ctx. ancestor_walk ms (Some k) = Some (diag ''HIERARCHICAL_DELEGATION_CHECK'' DENY reason ctx)"
  by (subst ancestor_walk.simps, intro exI) simp

lemma ancestor_walk_up:
  "k \<noteq> [] \<Longrightarrow> tget m_id k ms = Some p \<Longrightarrow> m_status p = Mandate_ACTIVE \<Longrightarrow>
     ancestor_walk ms (Some k) = ancestor_walk ms (m_parent_mandate_id p)"
  by (subst ancestor_walk.simps) simp

text \<open>\<open>walk_decides ms c\<close>: the walk from \<open>c\<close> ends, with the right decision.\<close>

definition walk_decides :: "mandate list \<Rightarrow> string option \<Rightarrow> bool" where
  "walk_decides ms c \<longleftrightarrow> (\<exists>reason ctx. ancestor_walk ms c =
     Some (diag ''HIERARCHICAL_DELEGATION_CHECK'' (if ancestors_active ms c then ALLOW else DENY) reason ctx))"

lemma walk_decidesI:
  assumes "ancestor_walk ms c = Some (diag ''HIERARCHICAL_DELEGATION_CHECK'' dec reason ctx)"
    and "dec = (if ancestors_active ms c then ALLOW else DENY)"
  shows "walk_decides ms c"
  unfolding walk_decides_def using assms by blast

lemma walk_decides_stop: "\<not> truthy_str c \<Longrightarrow> walk_decides ms c"
  by (rule walk_decidesI [OF ancestor_walk_stop]) (auto simp: no_parent)

lemma walk_decides_step:
  assumes "k \<noteq> []" and "\<And>p. tget m_id k ms = Some p \<Longrightarrow> walk_decides ms (m_parent_mandate_id p)"
  shows "walk_decides ms (Some k)"
proof (cases "tget m_id k ms")
  case None
  with assms show ?thesis
    by (intro walk_decidesI [OF ancestor_walk_missing]) (simp_all add: ancestors_active_Some)
next
  case (Some p)
  show ?thesis
  proof (cases "m_status p = Mandate_ACTIVE")
    case True
    with assms Some show ?thesis
      by (simp add: walk_decides_def ancestor_walk_up ancestors_active_Some)
  next
    case False
    with ancestor_walk_inactive [OF assms(1) Some False] assms(1) Some show ?thesis
      by (elim exE, intro walk_decidesI) (assumption, simp add: ancestors_active_Some)
  qed
qed

lemma walk_decides_below:
  assumes "depths_ok ms"
  shows "p \<in> set ms \<Longrightarrow> m_delegation_depth p < int n \<Longrightarrow> walk_decides ms (m_parent_mandate_id p)"
proof (induction n arbitrary: p)
  case 0
  with assms show ?case by (force simp: depths_ok_def)
next
  case (Suc n)
  show ?case
  proof (cases "truthy_str (m_parent_mandate_id p)")
    case True
    then obtain k where k: "m_parent_mandate_id p = Some k" "k \<noteq> []"
      by (cases "m_parent_mandate_id p") auto
    have "walk_decides ms (m_parent_mandate_id q)" if "tget m_id k ms = Some q" for q
    proof (rule Suc.IH)
      show "q \<in> set ms" using that by (auto dest: tget_SomeD)
      have "m_delegation_depth q < m_delegation_depth p"
        using assms Suc.prems(1) k(1) that by (auto simp: depths_ok_def)
      with Suc.prems(2) show "m_delegation_depth q < int n" by simp
    qed
    with k show ?thesis by (simp add: walk_decides_step)
  qed (rule walk_decides_stop)
qed

lemma ancestor_walk_decides:
  assumes "depths_ok ms"
  shows "walk_decides ms c"
proof (cases "truthy_str c")
  case True
  then obtain k where "c = Some k" "k \<noteq> []" by (cases c) auto
  moreover have "walk_decides ms (m_parent_mandate_id p)" if "tget m_id k ms = Some p" for p
    using walk_decides_below [OF assms, of p "Suc (nat (m_delegation_depth p))"] that
    by (auto dest: tget_SomeD)
  ultimately show ?thesis by (simp add: walk_decides_step)
qed (rule walk_decides_stop)

lemma hierarchical_spec:
  assumes "\<not> ctx \<or> depths_ok ms"
  shows "\<exists>reason c. HierarchicalDelegationRule_evaluate ctx ms m
    = Some (diag ''HIERARCHICAL_DELEGATION_CHECK''
        (if \<not> ctx \<or> ancestors_active ms (m_parent_mandate_id m) then ALLOW else DENY) reason c)"
proof (cases "truthy_str (m_parent_mandate_id m) \<and> ctx")
  case True
  with assms have "walk_decides ms (m_parent_mandate_id m)"
    by (auto intro: ancestor_walk_decides)
  with True show ?thesis
    by (auto simp: HierarchicalDelegationRule_evaluate_def walk_decides_def)
next
  case False
  then consider "\<not> truthy_str (m_parent_mandate_id m)" | "\<not> ctx" by blast
  then show ?thesis
  proof cases
    case 1
    then have "ancestors_active ms (m_parent_mandate_id m)" by (auto simp: no_parent)
    with 1 show ?thesis unfolding HierarchicalDelegationRule_evaluate_def by auto
  next
    case 2
    then show ?thesis unfolding HierarchicalDelegationRule_evaluate_def by auto
  qed
qed

section \<open>The evaluation loop\<close>

lemma add_diagnostic_simps [simp]:
  "v_decision (add_diagnostic d v) = max (v_decision v) (d_decision d)"
  "v_diagnostics (add_diagnostic d v) = v_diagnostics v @ [d]"
  "v_rejections (add_diagnostic d v) = v_rejections v @ (if d_decision d = DENY then [tagged d] else [])"
  by (cases "d_decision d"; cases "v_decision v";
      simp add: add_diagnostic_def Let_def max_def less_eq_policy_decision_type_def)+

lemma check_rate_limit_meters:
  "only_meters w (snd (check_rate_limit E rl a cost cl cw tier w))"
proof -
  from check_rate_limit_touches [of E a tier w rl cost cl cw] obtain r b where
    "snd (check_rate_limit E rl a cost cl cw tier w) = w\<lparr>redis_db := r, fallback_buckets := b\<rparr>"
    by (auto simp: touches_def)
  then show ?thesis
    by (intro only_metersI [where r = r and b = b and x = "metric_incs w"]) simp
qed

lemma RateLimitRule_meters: "only_meters w (snd (RateLimitRule_evaluate E a w))"
  using check_rate_limit_meters [of w E default_limiter "a_id a" 1 None None "''standard''"]
  by (auto simp: RateLimitRule_evaluate_def Let_def case_prod_unfold
      intro: only_meters_trans only_meters_inc_metric)

lemma rule_evaluate_meters:
  "rule_evaluate E ctx a m op w r = (d, w') \<Longrightarrow> only_meters w w'"
  using RateLimitRule_meters [of w E a] by (cases r) (auto simp: Let_def case_prod_unfold)

lemma evaluate_rules_spec:
  "evaluate_rules E ctx a m op rs v w = Some (v', w') \<Longrightarrow>
     \<exists>ds. v_diagnostics v' = v_diagnostics v @ ds \<and> length ds = length rs
        \<and> v_decision v' = foldl max (v_decision v) (map d_decision ds)
        \<and> v_rejections v' = v_rejections v @ map tagged (filter (\<lambda>d. d_decision d = DENY) ds)
        \<and> only_meters w w'"
proof (induction rs arbitrary: v w)
  case Nil
  then show ?case by simp
next
  case (Cons r rs)
  obtain d w1 where r: "rule_evaluate E ctx a m op w r = (d, w1)"
    by (cases "rule_evaluate E ctx a m op w r")
  from Cons.prems r obtain d' where d: "d = Some d'" by (cases d) auto
  let ?w = "inc_metric ''POLICY_RULE_EVALUATIONS_TOTAL''
      [(''rule_name'', d_rule_name d'), (''decision'', policy_decision_value (d_decision d')),
       (''passed'', str_bool (d_passed d'))] w1"
  from Cons.prems r d have "evaluate_rules E ctx a m op rs (add_diagnostic d' v) ?w = Some (v', w')"
    by simp
  from Cons.IH [OF this] obtain ds where ds:
    "v_diagnostics v' = v_diagnostics (add_diagnostic d' v) @ ds" "length ds = length rs"
    "v_decision v' = foldl max (v_decision (add_diagnostic d' v)) (map d_decision ds)"
    "v_rejections v' = v_rejections (add_diagnostic d' v) @ map tagged (filter (\<lambda>d. d_decision d = DENY) ds)"
    "only_meters ?w w'" by blast
  have "only_meters w w'"
    using rule_evaluate_meters [OF r] only_meters_inc_metric ds(5) only_meters_trans by blast
  with ds show ?case by (intro exI [of _ "d' # ds"]) simp
qed

lemma policy_evaluate_spec:
  assumes "policy_evaluate E ctx a m op w = Some (r, w')"
  shows "length (r_rule_diagnostics r) = 9"
    and "r_decision r = foldl max ALLOW (map d_decision (r_rule_diagnostics r))"
    and "r_rejection_reasons r = map tagged (filter (\<lambda>d. d_decision d = DENY) (r_rule_diagnostics r))"
    and "only_meters w w'" and "r_approved r \<longleftrightarrow> r_decision r = ALLOW"
    and "r_requires_human_review r \<longleftrightarrow> r_decision r = REQUIRE_HUMAN_REVIEW"
    and "r_agent_id r = a_id a" and "r_mandate_id r = m_id m"
proof -
  let ?v = "\<lparr>v_decision = ALLOW, v_rejections = [], v_reviews = [], v_diagnostics = []\<rparr>"
  from assms obtain v' where ev: "evaluate_rules E ctx a m op default_rules ?v w = Some (v', w')"
    and r: "r_rule_diagnostics r = v_diagnostics v'" "r_decision r = v_decision v'"
      "r_rejection_reasons r = v_rejections v'" "r_approved r \<longleftrightarrow> v_decision v' = ALLOW"
      "r_requires_human_review r \<longleftrightarrow> v_decision v' = REQUIRE_HUMAN_REVIEW"
      "r_agent_id r = a_id a" "r_mandate_id r = m_id m"
    by (auto simp: policy_evaluate_def engine_evaluate_def)
  from evaluate_rules_spec [OF ev] obtain ds where "v_diagnostics v' = ds"
    "length ds = length default_rules" "v_decision v' = foldl max ALLOW (map d_decision ds)"
    "v_rejections v' = map tagged (filter (\<lambda>d. d_decision d = DENY) ds)" "only_meters w w'"
    by auto
  with r show "length (r_rule_diagnostics r) = 9"
    and "r_decision r = foldl max ALLOW (map d_decision (r_rule_diagnostics r))"
    and "r_rejection_reasons r = map tagged (filter (\<lambda>d. d_decision d = DENY) (r_rule_diagnostics r))"
    and "only_meters w w'" and "r_approved r \<longleftrightarrow> r_decision r = ALLOW"
    and "r_requires_human_review r \<longleftrightarrow> r_decision r = REQUIRE_HUMAN_REVIEW"
    and "r_agent_id r = a_id a" and "r_mandate_id r = m_id m"
    by (simp_all add: default_rules_def)
qed

lemma foldl_max_Max:
  fixes x :: "'a::linorder"
  shows "foldl max x xs = Max (insert x (set xs))"
proof (induction xs arbitrary: x)
  case Nil
  then show ?case by simp
next
  case (Cons y ys)
  have "foldl max x (y # ys) = Max (insert (max x y) (set ys))" using Cons by simp
  also have "\<dots> = Max (insert x (insert y (set ys)))"
    by (cases "set ys = {}") (simp_all add: max.assoc)
  finally show ?case by simp
qed

lemma ALLOW_least [simp]: "ALLOW \<le> d"
  by (simp add: less_eq_policy_decision_type_def)

section \<open>What each rule decides\<close>

lemma instant_ensure_utc [simp]:
  "(case ensure_utc (Some t) of None \<Rightarrow> False | Some u \<Rightarrow> now < instant u) \<longleftrightarrow> now < instant t"
  "(case ensure_utc (Some t) of None \<Rightarrow> False | Some u \<Rightarrow> instant u < now) \<longleftrightarrow> instant t < now"
  by (cases t; simp add: ensure_utc_def)+

lemma diag_decision [simp]: "d_decision (diag n d r c) = d" "d_rule_name (diag n d r c) = n"
  by (simp_all add: diag_def)

definition needs_review :: "mandate \<Rightarrow> operation \<Rightarrow> bool" where
  "needs_review m op \<longleftrightarrow> \<not> truthy_str (o_approved_by_id op)
     \<and> (case m_review_threshold_amount m of None \<Rightarrow> False | Some t \<Rightarrow> t \<noteq> 0 \<and> t \<le> o_amount op)"

definition rate_admitted :: "env \<Rightarrow> agent \<Rightarrow> world \<Rightarrow> bool" where
  "rate_admitted E a w \<longleftrightarrow>
     rl_allowed (fst (check_rate_limit E default_limiter (a_id a) 1 None None ''standard'' w))"

lemma rate_admitted_inc_metric [simp]: "rate_admitted E a (inc_metric n l w) = rate_admitted E a w"
  unfolding rate_admitted_def
  by (rule arg_cong [of _ _ rl_allowed], rule check_rate_limit_cong) (simp_all add: inc_metric_def)

lemma rule_decisions:
  "d_decision (AgentStatusRule_evaluate a) = (if a_status a = Agent_ACTIVE then ALLOW else DENY)"
  "d_decision (MandateLifecycleRule_evaluate E m)
     = (if m_status m = Mandate_ACTIVE \<and> instant (m_valid_from m) \<le> now_us E
          \<and> now_us E \<le> instant (m_valid_until m) then ALLOW else DENY)"
  "d_decision (CurrencyMatchRule_evaluate m op)
     = (if str_upper (o_currency op) = str_upper (m_currency m) then ALLOW else DENY)"
  "d_decision (AllowedOperationTypeRule_evaluate m op)
     = (if m_allowed_operations m = []
          \<or> operation_type_value (o_operation_type op) \<in> set (m_allowed_operations m)
        then ALLOW else DENY)"
  "d_decision (PerTransactionLimitRule_evaluate m op)
     = (if o_amount op \<le> m_max_amount_per_op m then ALLOW else DENY)"
  "d_decision (AggregateSpendLimitRule_evaluate m op)
     = (if m_current_aggregate_spend m + m_reserved_spend m + o_amount op \<le> m_aggregate_spend_limit m
        then ALLOW else DENY)"
  "d_decision (HumanReviewThresholdRule_evaluate m op)
     = (if needs_review m op then REQUIRE_HUMAN_REVIEW else ALLOW)"
  "d_decision (fst (RateLimitRule_evaluate E a w)) = (if rate_admitted E a w then ALLOW else DENY)"
  by (auto simp: AgentStatusRule_evaluate_def MandateLifecycleRule_evaluate_def utc_now_def Let_def
      CurrencyMatchRule_evaluate_def AllowedOperationTypeRule_evaluate_def
      PerTransactionLimitRule_evaluate_def AggregateSpendLimitRule_evaluate_def
      HumanReviewThresholdRule_evaluate_def RateLimitRule_evaluate_def rate_admitted_def
      needs_review_def case_prod_unfold split: option.splits)

text \<open>The hard constraints of the nine rules, as one predicate.\<close>

definition hard_checks :: "env \<Rightarrow> bool \<Rightarrow> agent \<Rightarrow> mandate \<Rightarrow> operation \<Rightarrow> world \<Rightarrow> bool" where
  "hard_checks E ctx a m op w \<longleftrightarrow>
     a_status a = Agent_ACTIVE
     \<and> m_status m = Mandate_ACTIVE
     \<and> instant (m_valid_from m) \<le> now_us E \<and> now_us E \<le> instant (m_valid_until m)
     \<and> (ctx \<longrightarrow> ancestors_active (mandates w) (m_parent_mandate_id m))
     \<and> str_upper (o_currency op) = str_upper (m_currency m)
     \<and> (m_allowed_operations m = []
        \<or> operation_type_value (o_operation_type op) \<in> set (m_allowed_operations m))
     \<and> o_amount op \<le> m_max_amount_per_op m
     \<and> m_current_aggregate_spend m + m_reserved_spend m + o_amount op \<le> m_aggregate_spend_limit m
     \<and> rate_admitted E a w"

lemma max_decision [simp]:
  "max DENY d = DENY" "max d DENY = DENY" "max ALLOW d = d" "max d ALLOW = d"
  "max REQUIRE_HUMAN_REVIEW REQUIRE_HUMAN_REVIEW = REQUIRE_HUMAN_REVIEW"
  by (cases d; simp add: max_def less_eq_policy_decision_type_def)+

lemma mandates_inc_metric [simp]: "mandates (inc_metric n l w) = mandates w"
  by (simp add: inc_metric_def)

text \<open>The decision of each rule, and the evaluation as their maximum.\<close>

fun rule_decision ::
    "env \<Rightarrow> bool \<Rightarrow> agent \<Rightarrow> mandate \<Rightarrow> operation \<Rightarrow> world \<Rightarrow> policy_rule \<Rightarrow> policy_decision_type" where
  "rule_decision E ctx a m op w AgentStatusRule = d_decision (AgentStatusRule_evaluate a)"
| "rule_decision E ctx a m op w MandateLifecycleRule = d_decision (MandateLifecycleRule_evaluate E m)"
| "rule_decision E ctx a m op w HierarchicalDelegationRule =
     d_decision (the (HierarchicalDelegationRule_evaluate ctx (mandates w) m))"
| "rule_decision E ctx a m op w CurrencyMatchRule = d_decision (CurrencyMatchRule_evaluate m op)"
| "rule_decision E ctx a m op w AllowedOperationTypeRule =
     d_decision (AllowedOperationTypeRule_evaluate m op)"
| "rule_decision E ctx a m op w PerTransactionLimitRule =
     d_decision (PerTransactionLimitRule_evaluate m op)"
| "rule_decision E ctx a m op w AggregateSpendLimitRule =
     d_decision (AggregateSpendLimitRule_evaluate m op)"
| "rule_decision E ctx a m op w HumanReviewThresholdRule =
     d_decision (HumanReviewThresholdRule_evaluate m op)"
| "rule_decision E ctx a m op w RateLimitRule = d_decision (fst (RateLimitRule_evaluate E a w))"

definition same_meters :: "world \<Rightarrow> world \<Rightarrow> bool" where
  "same_meters w w' \<longleftrightarrow> mandates w' = mandates w \<and> redis_db w' = redis_db w
     \<and> fallback_buckets w' = fallback_buckets w"

lemma rule_evaluate_decides:
  assumes "\<not> ctx \<or> depths_ok (mandates w)" and "same_meters w0 w"
  shows "\<exists>d w'. rule_evaluate E ctx a m op w r = (Some d, w')
    \<and> d_decision d = rule_decision E ctx a m op w0 r \<and> (r \<noteq> RateLimitRule \<longrightarrow> w' = w)"
proof (cases r)
  case HierarchicalDelegationRule
  with assms hierarchical_spec [of ctx "mandates w" m] show ?thesis by (auto simp: same_meters_def)
next
  case RateLimitRule
  moreover have "rate_admitted E a w = rate_admitted E a w0"
    using assms(2) check_rate_limit_cong [of w w0] by (simp add: rate_admitted_def same_meters_def)
  ultimately show ?thesis by (simp add: rule_decisions case_prod_unfold Let_def)
qed simp_all

lemma evaluate_rules_decides:
  assumes "\<not> ctx \<or> depths_ok (mandates w0)"
  shows "RateLimitRule \<notin> set (butlast rs) \<Longrightarrow> same_meters w0 w \<Longrightarrow>
    \<exists>v' w'. evaluate_rules E ctx a m op rs v w = Some (v', w')
      \<and> v_decision v' = foldl max (v_decision v) (map (rule_decision E ctx a m op w0) rs)"
proof (induction rs arbitrary: v w)
  case Nil
  then show ?case by simp
next
  case (Cons r rs)
  have "\<not> ctx \<or> depths_ok (mandates w)" using assms Cons.prems by (simp add: same_meters_def)
  from rule_evaluate_decides [OF this Cons.prems(2), of E a m op r] obtain d w1 where
    r: "rule_evaluate E ctx a m op w r = (Some d, w1)"
    and d: "d_decision d = rule_decision E ctx a m op w0 r" and w1: "r \<noteq> RateLimitRule \<longrightarrow> w1 = w"
    by blast
  show ?case
  proof (cases rs)
    case Nil
    with r d show ?thesis by simp
  next
    case (Cons r' rs')
    let ?w = "inc_metric ''POLICY_RULE_EVALUATIONS_TOTAL''
      [(''rule_name'', d_rule_name d), (''decision'', policy_decision_value (d_decision d)),
       (''passed'', str_bool (d_passed d))] w1"
    from Cons Cons.prems w1 have "same_meters w0 ?w"
      by (auto simp: same_meters_def inc_metric_def)
    moreover have "RateLimitRule \<notin> set (butlast rs)" using Cons Cons.prems by simp
    ultimately obtain v' w' where
      "evaluate_rules E ctx a m op rs (add_diagnostic d v) ?w = Some (v', w')"
      "v_decision v' = foldl max (v_decision (add_diagnostic d v)) (map (rule_decision E ctx a m op w0) rs)"
      using Cons.IH by blast
    with r d show ?thesis by simp
  qed
qed

lemma foldl_max_decisions:
  "foldl max d ds = (if DENY \<in> set (d # ds) then DENY
     else if REQUIRE_HUMAN_REVIEW \<in> set (d # ds) then REQUIRE_HUMAN_REVIEW else ALLOW)"
proof (induction ds arbitrary: d)
  case Nil
  then show ?case by (cases d) simp_all
next
  case (Cons e ds)
  then show ?case by (cases d; cases e) simp_all
qed

lemma foldl_max_ALLOW: "foldl max ALLOW ds = ALLOW \<longleftrightarrow> (\<forall>d \<in> set ds. d = ALLOW)"
proof (induction ds)
  case Nil
  then show ?case by simp
next
  case (Cons e ds)
  then show ?case by (cases e) (simp_all add: foldl_max_decisions [of DENY]
      foldl_max_decisions [of REQUIRE_HUMAN_REVIEW])
qed

lemma decision_if [simp]:
  "DENY = (if c then ALLOW else DENY) \<longleftrightarrow> \<not> c"
  "REQUIRE_HUMAN_REVIEW \<noteq> (if c then ALLOW else DENY)"
  "DENY \<noteq> (if c then REQUIRE_HUMAN_REVIEW else ALLOW)"
  "REQUIRE_HUMAN_REVIEW = (if c then REQUIRE_HUMAN_REVIEW else ALLOW) \<longleftrightarrow> c"
  by simp_all

lemma hierarchical_decision:
  assumes "\<not> ctx \<or> depths_ok ms"
  shows "d_decision (the (HierarchicalDelegationRule_evaluate ctx ms m))
    = (if ctx \<longrightarrow> ancestors_active ms (m_parent_mandate_id m) then ALLOW else DENY)"
  using hierarchical_spec [OF assms, of m] by auto

lemma policy_evaluate_total:
  assumes "\<not> ctx \<or> depths_ok (mandates w)"
  shows "\<exists>r w'. policy_evaluate E ctx a m op w = Some (r, w')
    \<and> r_decision r = (if \<not> hard_checks E ctx a m op w then DENY
                      else if needs_review m op then REQUIRE_HUMAN_REVIEW else ALLOW)"
proof -
  let ?v = "\<lparr>v_decision = ALLOW, v_rejections = [], v_reviews = [], v_diagnostics = []\<rparr>"
  have "RateLimitRule \<notin> set (butlast default_rules)" "same_meters w w"
    by (simp_all add: default_rules_def same_meters_def)
  from evaluate_rules_decides [OF assms this, of E a m op ?v] obtain v' w' where
    ev: "evaluate_rules E ctx a m op default_rules ?v w = Some (v', w')"
    and dec: "v_decision v' = foldl max ALLOW (map (rule_decision E ctx a m op w) default_rules)"
    by auto
  have "v_decision v' = (if \<not> hard_checks E ctx a m op w then DENY
      else if needs_review m op then REQUIRE_HUMAN_REVIEW else ALLOW)"
  proof -
    have "DENY \<in> set (map (rule_decision E ctx a m op w) default_rules)
        \<longleftrightarrow> \<not> hard_checks E ctx a m op w"
      by (simp add: default_rules_def hard_checks_def rule_decisions hierarchical_decision [OF assms]
          split del: if_split) blast
    moreover have "REQUIRE_HUMAN_REVIEW \<in> set (map (rule_decision E ctx a m op w) default_rules)
        \<longleftrightarrow> needs_review m op"
      by (simp add: default_rules_def rule_decisions hierarchical_decision [OF assms]
          split del: if_split)
    ultimately show ?thesis unfolding dec foldl_max_decisions by simp
  qed
  with ev show ?thesis by (simp add: policy_evaluate_def engine_evaluate_def)
qed

lemma hard_checks_no_context:
  "hard_checks E False a m op (w\<lparr>mandates := ms\<rparr>) = hard_checks E False a m op w"
proof -
  have "rate_admitted E a (w\<lparr>mandates := ms\<rparr>) = rate_admitted E a w"
    unfolding rate_admitted_def
    by (rule arg_cong [of _ _ rl_allowed], rule check_rate_limit_cong) simp_all
  then show ?thesis by (simp add: hard_checks_def)
qed

section \<open>Properties of the engine\<close>

text \<open>
  C5: The engine decides exactly what its rules mean: an evaluation returns (also the walk over
  the ancestors, when delegation depths decrease towards the root), and its decision is DENY when
  any hard check fails, otherwise REQUIRE_HUMAN_REVIEW when the amount reaches the threshold of
  an operation nobody approved, otherwise ALLOW.
\<close>
theorem policy_decision_exact:
  assumes "\<not> ctx \<or> depths_ok (mandates w)"
  shows "\<exists>r w'. policy_evaluate E ctx a m op w = Some (r, w')
    \<and> r_decision r = (if \<not> hard_checks E ctx a m op w then DENY
                      else if needs_review m op then REQUIRE_HUMAN_REVIEW else ALLOW)"
  using assms by (rule policy_evaluate_total)

definition demo_op :: "int \<Rightarrow> operation" where
  "demo_op amount = \<lparr>o_id = ''op'', o_operation_id = ''op_1'', o_idempotency_key = ''k1'',
     o_agent_id = ''shop'', o_mandate_id = ''root'', o_operation_type = CREATE_ORDER,
     o_status = Op_POLICY_CHECK_PENDING, o_amount = amount, o_currency = ''inr'', o_payload = [],
     o_policy_evaluation_details = None, o_error_message = None, o_approved_by_id = None,
     o_trace_id = ''t'', o_created_at = Aware 0 0\<rparr>"

lemma demo_rate_admitted: "rate_admitted demo_env a demo_world"
proof -
  have "str_lower (ENVIRONMENT (settings demo_env)) \<noteq> ''production''"
    by (simp add: demo_env_def default_settings_def str_lower_def char_lower_def)
  then show ?thesis
    by (simp add: rate_admitted_def check_rate_limit_def local_rate_limit_def Let_def
        demo_world_def deque_purge_def default_limiter_def RedisRateLimiter_init_def int_or_def
        demo_env_def demo_redis_def)
qed

lemma demo_hard_checks:
  "hard_checks demo_env True (demo_agent ''shop'' ''SHOPPING'') demo_root (demo_op a) demo_world
     \<longleftrightarrow> a \<le> 2500"
proof -
  have "str_upper ''inr'' = str_upper ''INR''" by code_simp
  then show ?thesis
    using demo_rate_admitted
    by (auto simp: hard_checks_def demo_op_def demo_root_def demo_agent_def demo_env_def
        demo_now_def day_def sec_def)
qed

lemma demo_depths: "depths_ok (mandates demo_world)"
  by (simp add: depths_ok_def demo_world_def demo_root_def demo_child_def demo_support_def
      table_simps)

theorem policy_decision_exact_witness:
  "\<exists>r w'. policy_evaluate demo_env True (demo_agent ''shop'' ''SHOPPING'') demo_root (demo_op 2100)
      demo_world = Some (r, w') \<and> r_decision r = REQUIRE_HUMAN_REVIEW"
proof -
  have "needs_review demo_root (demo_op 2100)"
    by (simp add: needs_review_def demo_op_def demo_root_def)
  with policy_decision_exact [of True demo_world demo_env "demo_agent ''shop'' ''SHOPPING''" demo_root
      "demo_op 2100"] demo_depths demo_hard_checks [of 2100]
  show ?thesis by simp
qed

text \<open>
  DENY dominates: a result holds the diagnostics of all nine rules, its decision is the most
  restrictive of them in whatever order the rules ran, it is approved exactly when every rule
  passed with ALLOW, its rejection reasons are those of the denying rules, and evaluating changed
  nothing but rate windows and metrics.
\<close>
theorem policy_deny_dominates:
  assumes "policy_evaluate E ctx a m op w = Some (r, w')"
  shows "length (r_rule_diagnostics r) = 9
    \<and> r_decision r = Max (insert ALLOW (d_decision ` set (r_rule_diagnostics r)))
    \<and> (r_approved r \<longleftrightarrow> (\<forall>d \<in> set (r_rule_diagnostics r). d_decision d = ALLOW))
    \<and> r_rejection_reasons r = map tagged (filter (\<lambda>d. d_decision d = DENY) (r_rule_diagnostics r))
    \<and> only_meters w w'"
proof -
  note spec = policy_evaluate_spec [OF assms]
  have "(r_approved r \<longleftrightarrow> (\<forall>d \<in> set (r_rule_diagnostics r). d_decision d = ALLOW))"
    unfolding spec(5) spec(2) by (simp add: foldl_max_ALLOW)
  moreover have "r_decision r = Max (insert ALLOW (d_decision ` set (r_rule_diagnostics r)))"
    unfolding spec(2) foldl_max_Max by simp
  ultimately show ?thesis using spec(1,3,4) by blast
qed

theorem policy_deny_dominates_witness:
  "\<exists>r w'. policy_evaluate demo_env True (demo_agent ''shop'' ''SHOPPING'') demo_root (demo_op 2600)
      demo_world = Some (r, w') \<and> r_decision r = DENY \<and> length (r_rule_diagnostics r) = 9"
proof -
  obtain r w' where r: "policy_evaluate demo_env True (demo_agent ''shop'' ''SHOPPING'') demo_root
      (demo_op 2600) demo_world = Some (r, w')" "r_decision r = DENY"
    using policy_evaluate_total [of True demo_world demo_env "demo_agent ''shop'' ''SHOPPING''"
        demo_root "demo_op 2600"] demo_depths demo_hard_checks [of 2600] by auto
  with policy_deny_dominates [OF r(1)] show ?thesis by blast
qed

text \<open>
  Without a session in its context the engine never looks at the delegation tree: the
  decision is the same whatever the mandates table holds, so a revoked parent does not stop its
  children.
\<close>
theorem no_context_ignores_ancestors:
  "map_option (\<lambda>(r, _). r_decision r) (policy_evaluate E False a m op (w\<lparr>mandates := ms\<rparr>))
     = map_option (\<lambda>(r, _). r_decision r) (policy_evaluate E False a m op w)"
  using policy_evaluate_total [of False "w\<lparr>mandates := ms\<rparr>" E a m op]
    policy_evaluate_total [of False w E a m op]
  by (auto simp: hard_checks_no_context)

end
