(* ===== verification/Razorpay_Client.thy ===== *)
theory Razorpay_Client
  imports Domain Witness_Data
begin

text \<open>
  The typed gateway client of \<^verbatim>\<open>packages/razorpay/client.py\<close>: its request and response models,
  the retry loop around the HTTP transport (a parameter of the model, \<open>http\<close>), one function per
  method with its mock and its live branch, and the two signature checks over the HMAC
  parameter. pydantic's models are read as exact types: a field of another JSON type is a
  \<open>ValidationError\<close> (its coercions of numeric text are left out).
\<close>

section \<open>Requests and responses\<close>

record order_request =
  orq_amount :: int
  orq_currency :: string
  orq_receipt :: "string option"
  orq_notes :: "(string \<times> string) list"
  orq_partial_payment :: bool

record order_response =
  ors_id :: string
  ors_entity :: string
  ors_amount :: int
  ors_amount_paid :: int
  ors_amount_due :: int
  ors_currency :: string
  ors_receipt :: "string option"
  ors_status :: string
  ors_attempts :: int
  ors_notes :: "(string \<times> string) list"
  ors_created_at :: int

record payment_response =
  prs_id :: string
  prs_entity :: string
  prs_amount :: int
  prs_currency :: string
  prs_status :: string
  prs_order_id :: "string option"
  prs_method :: "string option"
  prs_captured :: bool
  prs_description :: "string option"
  prs_created_at :: int

record refund_request =
  rrq_payment_id :: string
  rrq_amount :: "int option"
  rrq_notes :: "(string \<times> string) list"
  rrq_speed :: string

record refund_response =
  rrs_id :: string
  rrs_entity :: string
  rrs_amount :: int
  rrs_currency :: string
  rrs_payment_id :: string
  rrs_status :: string
  rrs_notes :: "(string \<times> string) list"
  rrs_created_at :: int

record payment_link_request =
  lrq_amount :: int
  lrq_currency :: string
  lrq_description :: string
  lrq_customer_name :: "string option"
  lrq_customer_email :: "string option"
  lrq_customer_contact :: "string option"
  lrq_notes :: "(string \<times> string) list"

record payment_link_response =
  lrs_id :: string
  lrs_short_url :: string
  lrs_status :: string
  lrs_amount :: int
  lrs_currency :: string
  lrs_description :: string
  lrs_created_at :: int

definition mk_order_request ::
    "int \<Rightarrow> string \<Rightarrow> string option \<Rightarrow> (string \<times> string) list \<Rightarrow> exn + order_request" where
  "mk_order_request amount currency receipt notes =
     (if 0 < amount
      then Inr \<lparr>orq_amount = amount, orq_currency = currency, orq_receipt = receipt,
                orq_notes = notes, orq_partial_payment = False\<rparr>
      else Inl (ValidationError ''amount''))"

text \<open>Reading a field of a JSON object with its type, required or with a default.\<close>

definition need_str :: "dict \<Rightarrow> string \<Rightarrow> exn + string" where
  "need_str d k = (case dget d k of Some (JStr s) \<Rightarrow> Inr s | _ \<Rightarrow> Inl (ValidationError k))"

definition need_int :: "dict \<Rightarrow> string \<Rightarrow> exn + int" where
  "need_int d k = (case dget d k of Some (JInt i) \<Rightarrow> Inr i | _ \<Rightarrow> Inl (ValidationError k))"

definition str_default :: "dict \<Rightarrow> string \<Rightarrow> string \<Rightarrow> exn + string" where
  "str_default d k v =
     (case dget d k of None \<Rightarrow> Inr v | Some (JStr s) \<Rightarrow> Inr s | _ \<Rightarrow> Inl (ValidationError k))"

definition int_default :: "dict \<Rightarrow> string \<Rightarrow> int \<Rightarrow> exn + int" where
  "int_default d k v =
     (case dget d k of None \<Rightarrow> Inr v | Some (JInt i) \<Rightarrow> Inr i | _ \<Rightarrow> Inl (ValidationError k))"

definition bool_default :: "dict \<Rightarrow> string \<Rightarrow> bool \<Rightarrow> exn + bool" where
  "bool_default d k v =
     (case dget d k of None \<Rightarrow> Inr v | Some (JBool b) \<Rightarrow> Inr b | _ \<Rightarrow> Inl (ValidationError k))"

definition opt_str_default :: "dict \<Rightarrow> string \<Rightarrow> string option \<Rightarrow> exn + string option" where
  "opt_str_default d k v =
     (case dget d k of
        None \<Rightarrow> Inr v | Some JNull \<Rightarrow> Inr None | Some (JStr s) \<Rightarrow> Inr (Some s)
      | _ \<Rightarrow> Inl (ValidationError k))"

fun str_values :: "dict \<Rightarrow> (string \<times> string) list option" where
  "str_values [] = Some []"
| "str_values ((k, JStr s) # d) = map_option (\<lambda>r. (k, s) # r) (str_values d)"
| "str_values _ = None"

definition notes_default :: "dict \<Rightarrow> exn + (string \<times> string) list" where
  "notes_default d =
     (case dget d ''notes'' of
        None \<Rightarrow> Inr []
      | Some (JObj n) \<Rightarrow>
          (case str_values n of Some r \<Rightarrow> Inr r | None \<Rightarrow> Inl (ValidationError ''notes''))
      | _ \<Rightarrow> Inl (ValidationError ''notes''))"

definition notes_json :: "(string \<times> string) list \<Rightarrow> json" where
  "notes_json n = JObj (map (\<lambda>(k, s). (k, JStr s)) n)"

definition parse_order :: "dict \<Rightarrow> exn + order_response" where
  "parse_order d =
     bindE (need_str d ''id'') (\<lambda>i.
     bindE (str_default d ''entity'' ''order'') (\<lambda>entity.
     bindE (need_int d ''amount'') (\<lambda>amount.
     bindE (int_default d ''amount_paid'' 0) (\<lambda>paid.
     bindE (need_int d ''amount_due'') (\<lambda>due.
     bindE (need_str d ''currency'') (\<lambda>currency.
     bindE (opt_str_default d ''receipt'' None) (\<lambda>receipt.
     bindE (need_str d ''status'') (\<lambda>status.
     bindE (int_default d ''attempts'' 0) (\<lambda>attempts.
     bindE (notes_default d) (\<lambda>notes.
     bindE (need_int d ''created_at'') (\<lambda>created.
       Inr \<lparr>ors_id = i, ors_entity = entity, ors_amount = amount, ors_amount_paid = paid,
            ors_amount_due = due, ors_currency = currency, ors_receipt = receipt,
            ors_status = status, ors_attempts = attempts, ors_notes = notes,
            ors_created_at = created\<rparr>)))))))))))"

definition parse_payment :: "dict \<Rightarrow> exn + payment_response" where
  "parse_payment d =
     bindE (need_str d ''id'') (\<lambda>i.
     bindE (str_default d ''entity'' ''payment'') (\<lambda>entity.
     bindE (need_int d ''amount'') (\<lambda>amount.
     bindE (need_str d ''currency'') (\<lambda>currency.
     bindE (need_str d ''status'') (\<lambda>status.
     bindE (opt_str_default d ''order_id'' None) (\<lambda>order_id.
     bindE (opt_str_default d ''method'' (Some ''card'')) (\<lambda>method.
     bindE (bool_default d ''captured'' True) (\<lambda>captured.
     bindE (opt_str_default d ''description'' None) (\<lambda>description.
     bindE (need_int d ''created_at'') (\<lambda>created.
       Inr \<lparr>prs_id = i, prs_entity = entity, prs_amount = amount, prs_currency = currency,
            prs_status = status, prs_order_id = order_id, prs_method = method,
            prs_captured = captured, prs_description = description,
            prs_created_at = created\<rparr>))))))))))"

definition parse_refund :: "dict \<Rightarrow> exn + refund_response" where
  "parse_refund d =
     bindE (need_str d ''id'') (\<lambda>i.
     bindE (str_default d ''entity'' ''refund'') (\<lambda>entity.
     bindE (need_int d ''amount'') (\<lambda>amount.
     bindE (need_str d ''currency'') (\<lambda>currency.
     bindE (need_str d ''payment_id'') (\<lambda>payment_id.
     bindE (need_str d ''status'') (\<lambda>status.
     bindE (notes_default d) (\<lambda>notes.
     bindE (need_int d ''created_at'') (\<lambda>created.
       Inr \<lparr>rrs_id = i, rrs_entity = entity, rrs_amount = amount, rrs_currency = currency,
            rrs_payment_id = payment_id, rrs_status = status, rrs_notes = notes,
            rrs_created_at = created\<rparr>))))))))"

text \<open>\<open>model_dump()\<close> of the responses an operation stores.\<close>

definition order_dump :: "order_response \<Rightarrow> dict" where
  "order_dump r =
     [(''id'', JStr (ors_id r)), (''entity'', JStr (ors_entity r)),
      (''amount'', JInt (ors_amount r)), (''amount_paid'', JInt (ors_amount_paid r)),
      (''amount_due'', JInt (ors_amount_due r)), (''currency'', JStr (ors_currency r)),
      (''receipt'', jopt_str (ors_receipt r)), (''status'', JStr (ors_status r)),
      (''attempts'', JInt (ors_attempts r)), (''notes'', notes_json (ors_notes r)),
      (''created_at'', JInt (ors_created_at r))]"

definition refund_dump :: "refund_response \<Rightarrow> dict" where
  "refund_dump r =
     [(''id'', JStr (rrs_id r)), (''entity'', JStr (rrs_entity r)),
      (''amount'', JInt (rrs_amount r)), (''currency'', JStr (rrs_currency r)),
      (''payment_id'', JStr (rrs_payment_id r)), (''status'', JStr (rrs_status r)),
      (''notes'', notes_json (rrs_notes r)), (''created_at'', JInt (rrs_created_at r))]"

definition payment_link_dump :: "payment_link_response \<Rightarrow> dict" where
  "payment_link_dump r =
     [(''id'', JStr (lrs_id r)), (''short_url'', JStr (lrs_short_url r)),
      (''status'', JStr (lrs_status r)), (''amount'', JInt (lrs_amount r)),
      (''currency'', JStr (lrs_currency r)), (''description'', JStr (lrs_description r)),
      (''created_at'', JInt (lrs_created_at r))]"

section \<open>The client\<close>

record rzp_client =
  c_key_id :: string
  c_key_secret :: string
  c_base_url :: string
  c_mock_mode :: bool
  c_webhook_secret :: string

definition RazorpayClient_init ::
    "settings \<Rightarrow> string option \<Rightarrow> string option \<Rightarrow> string option \<Rightarrow> bool option \<Rightarrow> rzp_client"
where
  "RazorpayClient_init s key_id key_secret base_url mock_mode =
     \<lparr>c_key_id = str_or key_id (RAZORPAY_KEY_ID s),
      c_key_secret = str_or key_secret (RAZORPAY_KEY_SECRET s),
      c_base_url = rstrip_char (CHR ''/'') (str_or base_url (RAZORPAY_BASE_URL s)),
      c_mock_mode = (case mock_mode of Some b \<Rightarrow> b | None \<Rightarrow> RAZORPAY_MOCK_MODE s),
      c_webhook_secret = RAZORPAY_WEBHOOK_SECRET s\<rparr>"

text \<open>The module-level client of the API routes and the worker.\<close>

definition razorpay_client :: "env \<Rightarrow> rzp_client" where
  "razorpay_client E = RazorpayClient_init (settings E) None None None None"

definition log_call :: "gateway_call \<Rightarrow> world \<Rightarrow> world" where
  "log_call c w = w\<lparr>gateway_calls := gateway_calls w @ [c]\<rparr>"

definition send :: "env \<Rightarrow> http_request \<Rightarrow> world \<Rightarrow> http_outcome \<times> world" where
  "send E rq w = (http E (length (http_log w)) rq, w\<lparr>http_log := http_log w @ [rq]\<rparr>)"

definition retryable_status :: "int \<Rightarrow> bool" where
  "retryable_status code \<longleftrightarrow> code \<in> {429, 500, 502, 503, 504}"

text \<open>
  The attempts of one request: the list holds the attempt numbers still to come. The back-off
  sleep between attempts changes no state.
\<close>

fun rzp_attempts ::
    "env \<Rightarrow> http_request \<Rightarrow> string \<Rightarrow> bool \<Rightarrow> nat \<Rightarrow> nat list \<Rightarrow> world \<Rightarrow> (exn + dict) \<times> world"
where
  "rzp_attempts E rq path is_idempotent attempts [] w =
     (Inl (RuntimeError (''Failed all '' @ str_nat attempts @ '' attempts for ''
        @ rq_method rq @ '' '' @ path)), w)"
| "rzp_attempts E rq path is_idempotent attempts (attempt # later) w =
     (let (out, w) = send E rq w in
      case out of
        HTTP_Json (JObj d) \<Rightarrow> (Inr d, w)
      | HTTP_Json j \<Rightarrow> (Inr [(''data'', j)], w)
      | HTTP_NotJson \<Rightarrow> (Inl JSONDecodeError, w)
      | HTTP_Timeout \<Rightarrow>
          if is_idempotent \<and> attempt < attempts
          then rzp_attempts E rq path is_idempotent attempts later w
          else (Inl TimeoutException, w)
      | HTTP_NetworkError \<Rightarrow>
          if is_idempotent \<and> attempt < attempts
          then rzp_attempts E rq path is_idempotent attempts later w
          else (Inl NetworkError, w)
      | HTTP_StatusError code \<Rightarrow>
          if is_idempotent \<and> attempt < attempts \<and> retryable_status code
          then rzp_attempts E rq path is_idempotent attempts later w
          else (Inl (HTTPStatusError code), w))"

definition request_with_retry ::
    "env \<Rightarrow> rzp_client \<Rightarrow> string \<Rightarrow> string \<Rightarrow> dict option \<Rightarrow> bool \<Rightarrow> nat \<Rightarrow> world
       \<Rightarrow> (exn + dict) \<times> world"
where
  "request_with_retry E c method path json_data is_idempotent max_retries w =
     (let attempts = (if is_idempotent then max_retries else 1);
          rq = \<lparr>rq_method = method, rq_url = c_base_url c @ path,
                rq_json = (if str_upper method = ''GET'' then None else json_data)\<rparr>
      in rzp_attempts E rq path is_idempotent attempts [1..<Suc attempts] w)"

definition int_time :: "env \<Rightarrow> int" where
  "int_time E = \<lfloor>time_now E\<rfloor>"

definition create_order ::
    "env \<Rightarrow> rzp_client \<Rightarrow> order_request \<Rightarrow> world \<Rightarrow> (exn + order_response) \<times> world" where
  "create_order E c req w =
     (let w = log_call (Call_create_order (orq_amount req) (orq_currency req)) w;
          (receipt_key, w) =
            (if truthy_str (orq_receipt req) then (str_or (orq_receipt req) [], w)
             else let (h, w) = draw_uuid E w in (''rcpt_'' @ take 8 h, w))
      in if c_mock_mode c then
           let (h, w) = draw_uuid E w in
           (Inr \<lparr>ors_id = ''order_mock_'' @ take 14 h, ors_entity = ''order'',
                 ors_amount = orq_amount req, ors_amount_paid = 0, ors_amount_due = orq_amount req,
                 ors_currency = orq_currency req, ors_receipt = Some receipt_key,
                 ors_status = ''created'', ors_attempts = 0, ors_notes = orq_notes req,
                 ors_created_at = int_time E\<rparr>, w)
         else
           let payload = [(''amount'', JInt (orq_amount req)),
                          (''currency'', JStr (orq_currency req)),
                          (''receipt'', JStr receipt_key),
                          (''notes'', notes_json (orq_notes req)),
                          (''partial_payment'', JBool (orq_partial_payment req))];
               (r, w) = request_with_retry E c ''POST'' ''/orders'' (Some payload) False 3 w
           in (bindE r parse_order, w))"

definition fetch_order ::
    "env \<Rightarrow> rzp_client \<Rightarrow> string \<Rightarrow> world \<Rightarrow> (exn + order_response) \<times> world" where
  "fetch_order E c order_id w =
     (let w = log_call (Call_fetch_order order_id) w in
      if c_mock_mode c then
        (Inr \<lparr>ors_id = order_id, ors_entity = ''order'', ors_amount = 50000,
              ors_amount_paid = 50000, ors_amount_due = 0, ors_currency = ''INR'',
              ors_receipt = None, ors_status = ''paid'', ors_attempts = 0, ors_notes = [],
              ors_created_at = int_time E\<rparr>, w)
      else
        let (r, w) = request_with_retry E c ''GET'' (''/orders/'' @ order_id) None True 3 w
        in (bindE r parse_order, w))"

definition fetch_payment ::
    "env \<Rightarrow> rzp_client \<Rightarrow> string \<Rightarrow> world \<Rightarrow> (exn + payment_response) \<times> world" where
  "fetch_payment E c payment_id w =
     (let w = log_call (Call_fetch_payment payment_id) w in
      if c_mock_mode c then
        (Inr \<lparr>prs_id = payment_id, prs_entity = ''payment'', prs_amount = 50000,
              prs_currency = ''INR'', prs_status = ''captured'', prs_order_id = None,
              prs_method = Some ''card'', prs_captured = True, prs_description = None,
              prs_created_at = int_time E\<rparr>, w)
      else
        let (r, w) = request_with_retry E c ''GET'' (''/payments/'' @ payment_id) None True 3 w
        in (bindE r parse_payment, w))"

definition capture_payment ::
    "env \<Rightarrow> rzp_client \<Rightarrow> string \<Rightarrow> int \<Rightarrow> string \<Rightarrow> world \<Rightarrow> (exn + payment_response) \<times> world"
where
  "capture_payment E c payment_id amount currency w =
     (let w = log_call (Call_capture_payment payment_id amount) w in
      if c_mock_mode c then
        (Inr \<lparr>prs_id = payment_id, prs_entity = ''payment'', prs_amount = amount,
              prs_currency = currency, prs_status = ''captured'', prs_order_id = None,
              prs_method = Some ''card'', prs_captured = True, prs_description = None,
              prs_created_at = int_time E\<rparr>, w)
      else
        let (r, w) = request_with_retry E c ''POST'' (''/payments/'' @ payment_id @ ''/capture'')
              (Some [(''amount'', JInt amount), (''currency'', JStr currency)]) False 3 w
        in (bindE r parse_payment, w))"

definition create_refund ::
    "env \<Rightarrow> rzp_client \<Rightarrow> refund_request \<Rightarrow> world \<Rightarrow> (exn + refund_response) \<times> world" where
  "create_refund E c req w =
     (let w = log_call (Call_create_refund (rrq_payment_id req) (rrq_amount req)) w in
      if c_mock_mode c then
        let (h, w) = draw_uuid E w in
        (Inr \<lparr>rrs_id = ''rfnd_mock_'' @ take 14 h, rrs_entity = ''refund'',
              rrs_amount = (case rrq_amount req of None \<Rightarrow> 50000
                            | Some a \<Rightarrow> if a = 0 then 50000 else a),
              rrs_currency = ''INR'', rrs_payment_id = rrq_payment_id req,
              rrs_status = ''processed'', rrs_notes = rrq_notes req,
              rrs_created_at = int_time E\<rparr>, w)
      else
        let payload = [(''notes'', notes_json (rrq_notes req)), (''speed'', JStr (rrq_speed req))]
              @ (case rrq_amount req of None \<Rightarrow> [] | Some a \<Rightarrow> [(''amount'', JInt a)]);
            (r, w) = request_with_retry E c ''POST''
              (''/payments/'' @ rrq_payment_id req @ ''/refund'') (Some payload) False 3 w
        in (bindE r parse_refund, w))"

definition fetch_refund ::
    "env \<Rightarrow> rzp_client \<Rightarrow> string \<Rightarrow> world \<Rightarrow> (exn + refund_response) \<times> world" where
  "fetch_refund E c refund_id w =
     (let w = log_call (Call_fetch_refund refund_id) w in
      if c_mock_mode c then
        (Inr \<lparr>rrs_id = refund_id, rrs_entity = ''refund'', rrs_amount = 50000,
              rrs_currency = ''INR'', rrs_payment_id = ''pay_mock_default'',
              rrs_status = ''processed'', rrs_notes = [], rrs_created_at = int_time E\<rparr>, w)
      else
        let (r, w) = request_with_retry E c ''GET'' (''/refunds/'' @ refund_id) None True 3 w
        in (bindE r parse_refund, w))"

text \<open>
  Payment links read the answer field by field: \<open>data["id"]\<close> raises \<open>KeyError\<close>, the others have
  the given defaults.
\<close>

definition link_from_data ::
    "env \<Rightarrow> dict \<Rightarrow> string \<Rightarrow> int \<Rightarrow> string \<Rightarrow> string \<Rightarrow> exn + payment_link_response" where
  "link_from_data E data status amount currency description =
     (if dget data ''id'' = None then Inl (KeyError ''id'') else
      bindE (need_str data ''id'') (\<lambda>i.
      bindE (str_default data ''short_url'' (''https://rzp.io/i/'' @ i)) (\<lambda>url.
      bindE (str_default data ''status'' status) (\<lambda>st.
      bindE (int_default data ''amount'' amount) (\<lambda>am.
      bindE (str_default data ''currency'' currency) (\<lambda>cur.
      bindE (str_default data ''description'' description) (\<lambda>desc.
      bindE (int_default data ''created_at'' (int_time E)) (\<lambda>created.
        Inr \<lparr>lrs_id = i, lrs_short_url = url, lrs_status = st, lrs_amount = am,
             lrs_currency = cur, lrs_description = desc, lrs_created_at = created\<rparr>))))))))"

definition create_payment_link ::
    "env \<Rightarrow> rzp_client \<Rightarrow> payment_link_request \<Rightarrow> world \<Rightarrow> (exn + payment_link_response) \<times> world"
where
  "create_payment_link E c req w =
     (let w = log_call (Call_create_payment_link (lrq_amount req)) w in
      if c_mock_mode c then
        let (h, w) = draw_uuid E w;
            plink_id = ''plink_mock_'' @ take 14 h
        in (Inr \<lparr>lrs_id = plink_id, lrs_short_url = ''https://rzp.io/i/'' @ plink_id,
                 lrs_status = ''created'', lrs_amount = lrq_amount req,
                 lrs_currency = lrq_currency req, lrs_description = lrq_description req,
                 lrs_created_at = int_time E\<rparr>, w)
      else
        let payload = [(''amount'', JInt (lrq_amount req)), (''currency'', JStr (lrq_currency req)),
                       (''description'', JStr (lrq_description req)),
                       (''notes'', notes_json (lrq_notes req))]
              @ (if truthy_str (lrq_customer_name req) \<or> truthy_str (lrq_customer_email req)
                    \<or> truthy_str (lrq_customer_contact req)
                 then [(''customer'', JObj
                        [(''name'', JStr (str_or (lrq_customer_name req) [])),
                         (''email'', JStr (str_or (lrq_customer_email req) [])),
                         (''contact'', JStr (str_or (lrq_customer_contact req) []))])]
                 else []);
            (r, w) = request_with_retry E c ''POST'' ''/payment_links'' (Some payload) False 3 w
        in (bindE r (\<lambda>data. link_from_data E data ''created'' (lrq_amount req)
              (lrq_currency req) (lrq_description req)), w))"

definition fetch_payment_link ::
    "env \<Rightarrow> rzp_client \<Rightarrow> string \<Rightarrow> world \<Rightarrow> (exn + payment_link_response) \<times> world" where
  "fetch_payment_link E c link_id w =
     (let w = log_call (Call_fetch_payment_link link_id) w in
      if c_mock_mode c then
        (Inr \<lparr>lrs_id = link_id, lrs_short_url = ''https://rzp.io/i/'' @ link_id,
              lrs_status = ''paid'', lrs_amount = 50000, lrs_currency = ''INR'',
              lrs_description = ''Fetched Payment Link'', lrs_created_at = int_time E\<rparr>, w)
      else
        let (r, w) = request_with_retry E c ''GET'' (''/payment_links/'' @ link_id) None True 3 w
        in (bindE r (\<lambda>data. link_from_data E data ''created'' 0 ''INR'' []), w))"

definition cancel_payment_link ::
    "env \<Rightarrow> rzp_client \<Rightarrow> string \<Rightarrow> world \<Rightarrow> (exn + payment_link_response) \<times> world" where
  "cancel_payment_link E c link_id w =
     (let w = log_call (Call_cancel_payment_link link_id) w in
      if c_mock_mode c then
        (Inr \<lparr>lrs_id = link_id, lrs_short_url = ''https://rzp.io/i/'' @ link_id,
              lrs_status = ''cancelled'', lrs_amount = 50000, lrs_currency = ''INR'',
              lrs_description = ''Cancelled link'', lrs_created_at = int_time E\<rparr>, w)
      else
        let (r, w) = request_with_retry E c ''POST'' (''/payment_links/'' @ link_id @ ''/cancel'')
              None True 3 w
        in (bindE r (\<lambda>data. link_from_data E data ''cancelled'' 0 ''INR'' []), w))"

definition verify_payment_signature ::
    "env \<Rightarrow> rzp_client \<Rightarrow> string \<Rightarrow> string \<Rightarrow> string \<Rightarrow> string option \<Rightarrow> bool" where
  "verify_payment_signature E c razorpay_order_id razorpay_payment_id razorpay_signature secret =
     (let active_secret = str_or secret (c_key_secret c) in
      if active_secret = [] \<or> razorpay_signature = [] then False
      else hmac_sha256_hex E active_secret (razorpay_order_id @ ''|'' @ razorpay_payment_id)
             = razorpay_signature)"

definition verify_webhook_signature ::
    "env \<Rightarrow> rzp_client \<Rightarrow> string \<Rightarrow> string \<Rightarrow> string option \<Rightarrow> bool" where
  "verify_webhook_signature E c body signature secret =
     (let active_secret = str_or secret (c_webhook_secret c) in
      if active_secret = [] \<or> signature = [] then False
      else hmac_sha256_hex E active_secret body = signature)"

section \<open>What a call leaves behind\<close>

text \<open>
  \<open>sends k rq w w'\<close>: from \<open>w\<close> to \<open>w'\<close> only the transport log changed, by \<open>k\<close> copies of \<open>rq\<close>.
\<close>

definition sends :: "nat \<Rightarrow> http_request \<Rightarrow> world \<Rightarrow> world \<Rightarrow> bool" where
  "sends k rq w w' \<longleftrightarrow> w' = w\<lparr>http_log := http_log w @ replicate k rq\<rparr>"

lemma sends_one: "sends 1 rq w (snd (send E rq w))"
  by (simp add: sends_def send_def)

lemma sends_Suc: "sends k rq (w\<lparr>http_log := http_log w @ [rq]\<rparr>) w' \<Longrightarrow> sends (Suc k) rq w w'"
  by (simp add: sends_def)

lemma rzp_attempts_effect:
  "\<exists>k. sends k rq w (snd (rzp_attempts E rq path idem n atts w)) \<and> k \<le> length atts
     \<and> (\<not> idem \<longrightarrow> k \<le> 1)"
proof (induction atts arbitrary: w)
  case Nil
  show ?case by (intro exI [of _ 0]) (simp add: sends_def)
next
  case (Cons att atts)
  let ?w = "w\<lparr>http_log := http_log w @ [rq]\<rparr>"
  have stop: "\<exists>k. sends k rq w ?w \<and> k \<le> length (att # atts) \<and> (\<not> idem \<longrightarrow> k \<le> 1)"
    by (intro exI [of _ 1]) (simp add: sends_def)
  have go: "\<exists>k. sends k rq w (snd (rzp_attempts E rq path idem n atts ?w))
      \<and> k \<le> length (att # atts) \<and> (\<not> idem \<longrightarrow> k \<le> 1)" if idem
  proof -
    from Cons.IH [of ?w] obtain k where
      "sends k rq ?w (snd (rzp_attempts E rq path idem n atts ?w))" and "k \<le> length atts"
      by blast
    with that show ?thesis by (intro exI [of _ "Suc k"]) (simp add: sends_Suc)
  qed
  show ?case
  proof (cases "http E (length (http_log w)) rq")
    case (HTTP_Json j)
    with stop show ?thesis by (cases j) (simp_all add: send_def)
  qed (use stop go in \<open>simp_all add: send_def del: One_nat_def\<close>)
qed

lemma request_with_retry_snd:
  "\<exists>k rq. snd (request_with_retry E c meth path js idem m w)
       = w\<lparr>http_log := http_log w @ replicate k rq\<rparr> \<and> k \<le> (if idem then m else 1)
       \<and> rq_method rq = meth"
proof -
  let ?rq = "\<lparr>rq_method = meth, rq_url = c_base_url c @ path,
      rq_json = (if str_upper meth = ''GET'' then None else js)\<rparr>"
  let ?n = "if idem then m else 1"
  have "length [1..<Suc ?n] = ?n" by (simp only: length_upt)
  with rzp_attempts_effect [of ?rq w E path idem ?n "[1..<Suc ?n]"]
  obtain k where "snd (request_with_retry E c meth path js idem m w) = w\<lparr>http_log := http_log w @ replicate k ?rq\<rparr>"
    and "k \<le> ?n"
    unfolding request_with_retry_def Let_def sends_def by metis
  then show ?thesis by (intro exI [of _ k] exI [of _ ?rq]) simp
qed

text \<open>
  The interface the handlers rely on: a method of the client leaves the database alone, appends
  one call to the call log and at most \<open>tries\<close> HTTP requests to the transport log.
\<close>

definition same_tables :: "world \<Rightarrow> world \<Rightarrow> bool" where
  "same_tables w w' \<longleftrightarrow> database.truncate w' = database.truncate w
     \<and> fallback_buckets w' = fallback_buckets w \<and> redis_db w' = redis_db w
     \<and> metric_incs w' = metric_incs w"

lemma same_tables_fields:
  assumes "same_tables w w'"
  shows "mandates w' = mandates w" and "operations w' = operations w"
    and "transactions w' = transactions w" and "agents w' = agents w"
    and "principals w' = principals w" and "webhook_events w' = webhook_events w"
    and "audit_events w' = audit_events w"
    and "reconciliation_reports w' = reconciliation_reports w"
    and "outbox_events w' = outbox_events w" and "execution_traces w' = execution_traces w"
  using assms by (simp_all add: same_tables_def database.truncate_def)

lemma same_tables_refl [simp]: "same_tables w w"
  by (simp add: same_tables_def)

lemma same_tables_trans: "same_tables a b \<Longrightarrow> same_tables b c \<Longrightarrow> same_tables a c"
  by (simp add: same_tables_def)

lemma same_tables_log_call [simp]: "same_tables w (log_call x w)"
  by (simp add: same_tables_def log_call_def database.truncate_def)

lemma same_tables_draw [simp]: "same_tables w (snd (draw_uuid E w))"
  by (simp add: same_tables_def draw_uuid_def database.truncate_def)

lemma same_tables_request [simp]: "same_tables w (snd (request_with_retry E c meth path js idem m w))"
  using request_with_retry_snd [of E c meth path js idem m w]
  by (auto simp: same_tables_def database.truncate_def)

lemma request_keeps [simp]:
  "gateway_calls (snd (request_with_retry E c meth path js idem m w)) = gateway_calls w"
  "uuid_count (snd (request_with_retry E c meth path js idem m w)) = uuid_count w"
  using request_with_retry_snd [of E c meth path js idem m w] by auto

lemma request_http_bound:
  "length (http_log (snd (request_with_retry E c meth path js idem m w)))
     \<le> length (http_log w) + (if idem then m else 1)"
  using request_with_retry_snd [of E c meth path js idem m w] by auto

locale gateway_method =
  fixes call :: "'req \<Rightarrow> world \<Rightarrow> (exn + 'resp) \<times> world"
    and entry_of :: "'req \<Rightarrow> gateway_call" and tries :: nat
  assumes keeps_db: "same_tables w (snd (call rq w))"
    and logs_call: "gateway_calls (snd (call rq w)) = gateway_calls w @ [entry_of rq]"
    and http_bound: "length (http_log (snd (call rq w))) \<le> length (http_log w) + tries"
    and uuid_mono: "uuid_count w \<le> uuid_count (snd (call rq w))"
begin

lemma keeps_tables:
  assumes "call rq w = (r, w')"
  shows "same_tables w w'"
  using keeps_db [of w rq] assms by simp

lemma one_call: "call rq w = (r, w') \<Longrightarrow> gateway_calls w' = gateway_calls w @ [entry_of rq]"
  using logs_call [of rq w] by simp

lemma uuid_count_le: "call rq w = (r, w') \<Longrightarrow> uuid_count w \<le> uuid_count w'"
  using uuid_mono [of w rq] by simp

end

lemma same_tables_then:
  "same_tables w v \<Longrightarrow> same_tables w (snd (request_with_retry E c meth path js idem m v))"
  "same_tables w v \<Longrightarrow> same_tables w (snd (draw_uuid E v))"
  using same_tables_trans same_tables_request same_tables_draw by blast+

lemma draw_uuid_counts [simp]:
  "gateway_calls (snd (draw_uuid E w)) = gateway_calls w"
  "http_log (snd (draw_uuid E w)) = http_log w"
  "uuid_count (snd (draw_uuid E w)) = Suc (uuid_count w)"
  by (simp_all add: draw_uuid_def)

lemma log_call_counts [simp]:
  "gateway_calls (log_call x w) = gateway_calls w @ [x]"
  "http_log (log_call x w) = http_log w"
  "uuid_count (log_call x w) = uuid_count w"
  by (simp_all add: log_call_def)

lemma post_bound [simp]:
  "length (http_log (snd (request_with_retry E c meth path js False m w))) \<le> Suc (length (http_log w))"
  using request_http_bound [of E c meth path js False m w] by simp

lemma get_bound [simp]:
  "length (http_log (snd (request_with_retry E c meth path js True m w))) \<le> length (http_log w) + m"
  using request_http_bound [of E c meth path js True m w] by simp

interpretation order_api: gateway_method "create_order E c"
    "\<lambda>rq. Call_create_order (orq_amount rq) (orq_currency rq)" 1 for E c
  by unfold_locales
    (auto simp: create_order_def Let_def case_prod_unfold same_tables_then
      intro: le_trans [OF post_bound])

interpretation fetch_api: gateway_method "fetch_order E c"
    "Call_fetch_order" 3 for E c
  by unfold_locales
    (auto simp: fetch_order_def Let_def case_prod_unfold same_tables_then
      intro: le_trans [OF get_bound])

interpretation refund_api: gateway_method "create_refund E c"
    "\<lambda>rq. Call_create_refund (rrq_payment_id rq) (rrq_amount rq)" 1 for E c
  by unfold_locales
    (auto simp: create_refund_def Let_def case_prod_unfold same_tables_then
      intro: le_trans [OF post_bound])

interpretation link_api: gateway_method "create_payment_link E c"
    "\<lambda>rq. Call_create_payment_link (lrq_amount rq)" 1 for E c
  by unfold_locales
    (auto simp: create_payment_link_def Let_def case_prod_unfold same_tables_then
      intro: le_trans [OF post_bound])

interpretation cancel_api: gateway_method "cancel_payment_link E c"
    "Call_cancel_payment_link" 3 for E c
  by unfold_locales
    (auto simp: cancel_payment_link_def Let_def case_prod_unfold same_tables_then
      intro: le_trans [OF get_bound])

section \<open>How often a request is sent, and which answer counts\<close>

lemma mock_sends_nothing:
  assumes "c_mock_mode c"
  shows "http_log (snd (create_order E c oq w)) = http_log w"
    and "http_log (snd (create_refund E c rq w)) = http_log w"
    and "http_log (snd (create_payment_link E c lq w)) = http_log w"
    and "http_log (snd (capture_payment E c i a cur w)) = http_log w"
  using assms by (simp_all add: create_order_def create_refund_def create_payment_link_def
      capture_payment_def Let_def case_prod_unfold)

lemma capture_payment_bound:
  "length (http_log (snd (capture_payment E c i a cur w))) \<le> Suc (length (http_log w))"
  by (auto simp: capture_payment_def Let_def case_prod_unfold intro: le_trans [OF post_bound])

text \<open>
  C18: A gateway mutation is never sent twice: creating an order, a refund or a payment link and
  capturing a payment issue at most one HTTP request whatever the transport answers (timeouts and
  network errors included), and none at all in mock mode.
\<close>
theorem mutation_sent_at_most_once:
  "let sent = (\<lambda>w'. length (http_log w') - length (http_log w)); most = (if c_mock_mode c then 0 else 1)
   in sent (snd (create_order E c oq w)) \<le> most
      \<and> sent (snd (create_refund E c rq w)) \<le> most
      \<and> sent (snd (create_payment_link E c lq w)) \<le> most
      \<and> sent (snd (capture_payment E c i a cur w)) \<le> most"
  using mock_sends_nothing [where c = c and E = E and w = w] order_api.http_bound [of E c oq w]
    refund_api.http_bound [of E c rq w] link_api.http_bound [of E c lq w]
    capture_payment_bound [of E c i a cur w]
  by (auto simp: Let_def)

text \<open>What one answer of the transport means, and which answers are retried.\<close>

fun http_answer :: "http_outcome \<Rightarrow> exn + dict" where
  "http_answer HTTP_Timeout = Inl TimeoutException"
| "http_answer HTTP_NetworkError = Inl NetworkError"
| "http_answer (HTTP_StatusError code) = Inl (HTTPStatusError code)"
| "http_answer HTTP_NotJson = Inl JSONDecodeError"
| "http_answer (HTTP_Json (JObj d)) = Inr d"
| "http_answer (HTTP_Json j) = Inr [(''data'', j)]"

fun transient :: "http_outcome \<Rightarrow> bool" where
  "transient HTTP_Timeout = True"
| "transient HTTP_NetworkError = True"
| "transient (HTTP_StatusError code) = retryable_status code"
| "transient _ = False"

lemma attempt_stops:
  assumes "\<not> transient (http E (length (http_log w)) rq) \<or> \<not> idem \<or> n \<le> a"
  shows "rzp_attempts E rq path idem n (a # atts) w
    = (http_answer (http E (length (http_log w)) rq), w\<lparr>http_log := http_log w @ [rq]\<rparr>)"
proof (cases "http E (length (http_log w)) rq")
  case (HTTP_Json j)
  with assms show ?thesis by (cases j) (simp_all add: send_def)
qed (use assms in \<open>auto simp: send_def\<close>)

lemma attempt_retries:
  assumes "transient (http E (length (http_log w)) rq)" and "a < n"
  shows "rzp_attempts E rq path True n (a # atts) w
    = rzp_attempts E rq path True n atts (w\<lparr>http_log := http_log w @ [rq]\<rparr>)"
  using assms by (cases "http E (length (http_log w)) rq") (auto simp: send_def)

lemma rzp_attempts_first_answer:
  assumes "\<forall>k<i. transient (http E (length (http_log w) + k) rq)"
    and "\<not> transient (http E (length (http_log w) + i) rq) \<or> n = a + i" and "a + i \<le> n"
  shows "rzp_attempts E rq path True n [a..<Suc n] w
    = (http_answer (http E (length (http_log w) + i) rq),
       w\<lparr>http_log := http_log w @ replicate (Suc i) rq\<rparr>)"
  using assms
proof (induction i arbitrary: a w)
  case 0
  then have cons: "[a..<Suc n] = a # [Suc a..<Suc n]" by (simp add: upt_conv_Cons)
  show ?case unfolding cons using 0 by (subst attempt_stops) auto
next
  case (Suc i)
  let ?w = "w\<lparr>http_log := http_log w @ [rq]\<rparr>"
  from Suc.prems have cons: "[a..<Suc n] = a # [Suc a..<Suc n]" by (simp add: upt_conv_Cons)
  have "rzp_attempts E rq path True n [a..<Suc n] w = rzp_attempts E rq path True n [Suc a..<Suc n] ?w"
    unfolding cons using Suc.prems by (subst attempt_retries) auto
  also have "\<dots> = (http_answer (http E (length (http_log ?w) + i) rq),
      ?w\<lparr>http_log := http_log ?w @ replicate (Suc i) rq\<rparr>)"
    using Suc.prems by (intro Suc.IH) auto
  finally show ?case by simp
qed

text \<open>
  A read is retried exactly until the transport gives an answer that is not transient, or the
  three attempts are used up: with \<open>i\<close> transient answers first (\<open>i < 3\<close>), the caller gets the
  answer of attempt \<open>i + 1\<close>, which is final or the last one, and \<open>i + 1\<close> requests were sent.
\<close>
theorem read_returns_first_final_answer:
  fixes E c path w
  defines "rq \<equiv> \<lparr>rq_method = ''GET'', rq_url = c_base_url c @ path, rq_json = None\<rparr>"
  assumes "\<forall>k<i. transient (http E (length (http_log w) + k) rq)"
    and "\<not> transient (http E (length (http_log w) + i) rq) \<or> i = 2" and "i < 3"
  shows "request_with_retry E c ''GET'' path None True 3 w
    = (http_answer (http E (length (http_log w) + i) rq),
       w\<lparr>http_log := http_log w @ replicate (Suc i) rq\<rparr>)"
proof -
  have "str_upper ''GET'' = ''GET''" by code_simp
  then show ?thesis
    using rzp_attempts_first_answer [of i E w rq 3 1 path] assms
    by (simp add: request_with_retry_def Let_def del: upt_Suc)
qed

text \<open>A transport that times out once and then answers.\<close>

definition flaky_http :: "nat \<Rightarrow> http_request \<Rightarrow> http_outcome" where
  "flaky_http n rq = (if n = 0 then HTTP_Timeout else HTTP_Json (JObj [(''id'', JStr ''o1'')]))"

theorem read_returns_first_final_answer_witness:
  "fst (request_with_retry (demo_env\<lparr>http := flaky_http\<rparr>)
      (razorpay_client demo_env) ''GET'' ''/orders/o1'' None True 3 demo_world)
   = Inr [(''id'', JStr ''o1'')]"
  using read_returns_first_final_answer [of 1 "demo_env\<lparr>http := flaky_http\<rparr>" demo_world
      "razorpay_client demo_env" "''/orders/o1''"]
  by (simp add: flaky_http_def demo_world_def)

end
