(* ===== verification/Auth.thy ===== *)
theory Auth
  imports Domain Witness_Data
begin

text \<open>
  Agent authentication, \<^verbatim>\<open>packages/shared/auth.py\<close>: which agent a request with given headers
  speaks for, and the HTTP error otherwise. A header argument of a handler called as a plain
  function may be the \<open>Header\<close> default object instead of a string.
\<close>

datatype hdr = HNone | HStr string | HDefault

text \<open>\<open>x if isinstance(x, str) and x else None\<close>\<close>

fun hdr_str :: "hdr \<Rightarrow> string option" where
  "hdr_str (HStr s) = (if s = [] then None else Some s)"
| "hdr_str HNone = None"
| "hdr_str HDefault = None"

definition bearer_of :: "string \<Rightarrow> string" where
  "bearer_of raw_auth =
     (if starts_with raw_auth ''Bearer '' then str_strip (drop 7 raw_auth) else raw_auth)"

definition key_matches :: "env \<Rightarrow> string \<Rightarrow> agent \<Rightarrow> bool" where
  "key_matches E active_key a \<longleftrightarrow>
     a_api_key_hash a = active_key \<or> a_api_key_hash a = ''hash_'' @ active_key
     \<or> a_api_key_hash a = sha256_hex E active_key \<or> a_id a = active_key"

definition active_key_of :: "hdr \<Rightarrow> hdr \<Rightarrow> string option" where
  "active_key_of x_agent_key authorization =
     (case hdr_str x_agent_key of
        Some k \<Rightarrow> Some k
      | None \<Rightarrow> map_option bearer_of (hdr_str authorization))"

definition authenticate_agent_caller ::
    "env \<Rightarrow> world \<Rightarrow> hdr \<Rightarrow> hdr \<Rightarrow> hdr \<Rightarrow> bool \<Rightarrow> exn + agent option" where
  "authenticate_agent_caller E w x_agent_key authorization x_agent_id required =
     (let active_agent_id = hdr_str x_agent_id;
          active_key = active_key_of x_agent_key authorization
      in if truthy_str active_key then
           (case find (key_matches E (the active_key)) (agents w) of
              None \<Rightarrow> Inl (HTTPException 401 ''Invalid or unauthorized Agent API Key.'')
            | Some agent \<Rightarrow>
                if a_status agent \<noteq> Agent_ACTIVE then
                  Inl (HTTPException 403 (''Agent '' @ quote (a_name agent) @ '' is currently ''
                    @ agent_status_value (a_status agent) @ '' and cannot execute operations.''))
                else (case active_agent_id of
                    Some i \<Rightarrow>
                      if a_id agent \<noteq> i then
                        Inl (HTTPException 403 (''Agent identity mismatch: Authenticated credential ''
                          @ ''belongs to '' @ quote (a_id agent) @ '', not '' @ quote i @ ''.''))
                      else Inr (Some agent)
                  | None \<Rightarrow> Inr (Some agent)))
         else (case active_agent_id of
             Some i \<Rightarrow>
               if str_lower (ENVIRONMENT (settings E)) \<noteq> ''production'' then
                 (case get_agent_row w i of
                    None \<Rightarrow> Inl (HTTPException 401 (''Agent '' @ quote i @ '' not found.''))
                  | Some agent \<Rightarrow>
                      if a_status agent \<noteq> Agent_ACTIVE then
                        Inl (HTTPException 403 (''Agent '' @ quote (a_name agent)
                          @ '' is currently '' @ agent_status_value (a_status agent) @ ''.''))
                      else Inr (Some agent))
               else if required then
                 Inl (HTTPException 401 (''Missing authentication: Provide X-Agent-Key or ''
                   @ ''Authorization Bearer token header.''))
               else Inr None
           | None \<Rightarrow>
               if required then
                 Inl (HTTPException 401 (''Missing authentication: Provide X-Agent-Key or ''
                   @ ''Authorization Bearer token header.''))
               else Inr None))"

definition get_authenticated_agent ::
    "env \<Rightarrow> world \<Rightarrow> hdr \<Rightarrow> hdr \<Rightarrow> hdr \<Rightarrow> exn + agent" where
  "get_authenticated_agent E w x_agent_key authorization x_agent_id =
     bindE (authenticate_agent_caller E w x_agent_key authorization x_agent_id True)
       (\<lambda>agent. case agent of
          None \<Rightarrow> Inl (HTTPException 401 ''Unauthorized'')
        | Some a \<Rightarrow> Inr a)"

section \<open>Properties\<close>

lemma find_SomeD: "find P xs = Some x \<Longrightarrow> x \<in> set xs \<and> P x"
  by (induction xs) (auto split: if_splits)

lemma authenticate_SomeD:
  assumes "authenticate_agent_caller E w k au i req = Inr (Some a)"
  shows "a \<in> set (agents w) \<and> a_status a = Agent_ACTIVE \<and> (\<forall>x. hdr_str i = Some x \<longrightarrow> a_id a = x)
    \<and> (if truthy_str (active_key_of k au) then key_matches E (the (active_key_of k au)) a
       else str_lower (ENVIRONMENT (settings E)) \<noteq> ''production'' \<and> hdr_str i = Some (a_id a))"
  using assms
  by (auto simp: authenticate_agent_caller_def Let_def split: if_splits option.splits
      dest: find_SomeD tget_SomeD)

lemma authenticate_required:
  "authenticate_agent_caller E w k au i True \<noteq> Inr None"
  by (auto simp: authenticate_agent_caller_def Let_def split: if_splits option.splits)

text \<open>
  The credential of a request, read off its headers: the key header when it is a non-empty string,
  otherwise the authorization header, without a leading \<open>Bearer \<close> and the blanks around it. And
  what the code lets it match: the stored text itself, the stored text with \<open>hash_\<close> before it, the
  SHA-256 digest, or the public identifier of the agent.
\<close>

inductive presented :: "hdr \<Rightarrow> hdr \<Rightarrow> string \<Rightarrow> bool" where
  key: "k \<noteq> [] \<Longrightarrow> presented (HStr k) au k"
| bearer: "hdr_str k = None \<Longrightarrow> str_strip t \<noteq> [] \<Longrightarrow> presented k (HStr (''Bearer '' @ t)) (str_strip t)"
| plain: "hdr_str k = None \<Longrightarrow> c \<noteq> [] \<Longrightarrow> take 7 c \<noteq> ''Bearer '' \<Longrightarrow> presented k (HStr c) c"

inductive_simps presented_iff: "presented k au c"

definition credential_of :: "env \<Rightarrow> string \<Rightarrow> agent \<Rightarrow> bool" where
  "credential_of E c a \<longleftrightarrow> a_api_key_hash a \<in> {c, ''hash_'' @ c, sha256_hex E c} \<or> a_id a = c"

lemma hdr_str_Some: "hdr_str h = Some s \<longleftrightarrow> h = HStr s \<and> s \<noteq> []"
  by (cases h) auto

lemma bearer_text: "take 7 s = ''Bearer '' \<longleftrightarrow> (\<exists>t. s = ''Bearer '' @ t)"
proof
  assume "take 7 s = ''Bearer ''"
  then have "s = ''Bearer '' @ drop 7 s" by (metis append_take_drop_id)
  then show "\<exists>t. s = ''Bearer '' @ t" by blast
qed auto

lemma presented_bearer:
  assumes "hdr_str k = None"
  shows "presented k (HStr s) c \<longleftrightarrow> (if s = [] then False else c = bearer_of s \<and> c \<noteq> [])"
proof (cases "\<exists>t. s = ''Bearer '' @ t")
  case True
  then obtain t where t: "s = ''Bearer '' @ t" by blast
  have "presented k (HStr s) c \<longleftrightarrow> c = str_strip t \<and> c \<noteq> []"
    using assms by (auto simp: presented_iff t)
  moreover have "bearer_of s = str_strip t" by (simp add: bearer_of_def starts_with_def t)
  ultimately show ?thesis by (simp add: t)
next
  case False
  then have no: "take 7 s \<noteq> ''Bearer ''" by (simp only: bearer_text not_False_eq_True)
  have "presented k (HStr s) c \<longleftrightarrow> c = s \<and> s \<noteq> []"
    using assms False [simplified] no [simplified] by (auto simp: presented_iff split: if_splits)
  moreover have "length ''Bearer '' = 7" by simp
  then have "bearer_of s = s" using no by (simp only: bearer_of_def starts_with_def if_False)
  ultimately show ?thesis by auto
qed

lemma presented_active_key:
  "presented k au c \<longleftrightarrow> active_key_of k au = Some c \<and> c \<noteq> []"
proof (cases "hdr_str k")
  case None
  show ?thesis
  proof (cases au)
    case (HStr s)
    with presented_bearer [OF None, of s c] None show ?thesis by (auto simp: active_key_of_def)
  qed (use None in \<open>auto simp: presented_iff active_key_of_def split: if_splits\<close>)
next
  case (Some s)
  then show ?thesis by (auto simp: presented_iff active_key_of_def hdr_str_Some)
qed

lemma credential_key_matches: "key_matches E c a \<longleftrightarrow> credential_of E c a"
  by (auto simp: key_matches_def credential_of_def)

lemma find_first:
  "find P xs = Some x \<longleftrightarrow> (\<exists>before after. xs = before @ x # after \<and> P x \<and> (\<forall>y \<in> set before. \<not> P y))"
proof (induction xs)
  case (Cons y ys)
  show ?case
  proof (cases "P y")
    case True
    then show ?thesis by (auto simp: Cons_eq_append_conv)
  next
    case False
    have "(\<exists>before after. y # ys = before @ x # after \<and> P x \<and> (\<forall>y \<in> set before. \<not> P y))
        \<longleftrightarrow> (\<exists>before after. ys = before @ x # after \<and> P x \<and> (\<forall>y \<in> set before. \<not> P y))" (is "?l \<longleftrightarrow> ?r")
    proof
      assume ?l
      with False show ?r by (auto simp: Cons_eq_append_conv)
    next
      assume ?r
      then obtain before after where "y # ys = (y # before) @ x # after" "P x"
        "\<forall>z \<in> set (y # before). \<not> P z" using False by auto
      then show ?l by blast
    qed
    with Cons False show ?thesis by simp
  qed
qed simp

text \<open>
  C29: Whom a request speaks for, exactly. A request is resolved to agent \<open>a\<close> if and only if \<open>a\<close> is
  ACTIVE and one of two things holds: a credential was presented and \<open>a\<close> is the first row of the
  agents table it matches, named by \<open>X-Agent-Id\<close> if that header is given; or no credential was
  presented, the deployment is not production, and \<open>X-Agent-Id\<close> is the id of \<open>a\<close>. So outside
  production the id header alone is enough, and in every deployment the public identifier and
  the stored hash are accepted as credentials.
\<close>
theorem authenticated_agent_sound:
  "get_authenticated_agent E w k au i = Inr a \<longleftrightarrow> a_status a = Agent_ACTIVE \<and>
     ((\<exists>c before after. presented k au c \<and> agents w = before @ a # after \<and> credential_of E c a
         \<and> (\<forall>b \<in> set before. \<not> credential_of E c b) \<and> (hdr_str i = None \<or> i = HStr (a_id a)))
      \<or> (\<nexists>c. presented k au c) \<and> str_lower (ENVIRONMENT (settings E)) \<noteq> ''production''
         \<and> a_id a \<noteq> [] \<and> i = HStr (a_id a) \<and> get_agent_row w (a_id a) = Some a)"
proof (cases "truthy_str (active_key_of k au)")
  case True
  then obtain c where c: "active_key_of k au = Some c" "c \<noteq> []" by (cases "active_key_of k au") auto
  have "get_authenticated_agent E w k au i = Inr a \<longleftrightarrow> a_status a = Agent_ACTIVE
      \<and> find (credential_of E c) (agents w) = Some a \<and> (hdr_str i = None \<or> hdr_str i = Some (a_id a))"
    using c by (auto simp: get_authenticated_agent_def authenticate_agent_caller_def Let_def
        credential_key_matches [abs_def] split: option.splits)
  moreover have "(hdr_str i = None \<or> hdr_str i = Some (a_id a)) \<longleftrightarrow> (hdr_str i = None \<or> i = HStr (a_id a))"
    by (cases i) auto
  ultimately show ?thesis using c by (auto simp: presented_active_key find_first)
next
  case False
  then have no: "\<not> presented k au c" for c by (auto simp: presented_active_key)
  have "get_authenticated_agent E w k au i = Inr a \<longleftrightarrow> a_status a = Agent_ACTIVE
      \<and> str_lower (ENVIRONMENT (settings E)) \<noteq> ''production''
      \<and> hdr_str i = Some (a_id a) \<and> get_agent_row w (a_id a) = Some a"
    using False by (auto simp: get_authenticated_agent_def authenticate_agent_caller_def Let_def
        split: option.splits dest: tget_SomeD)
  with no show ?thesis by (auto simp: hdr_str_Some)
qed

theorem authenticated_agent_sound_witness:
  "get_authenticated_agent demo_env demo_world HNone (HStr ''Bearer shop '') HNone
      = Inr (demo_agent ''shop'' ''SHOPPING'')
   \<and> get_authenticated_agent demo_env demo_world HNone HNone (HStr ''proc'')
      = Inr (demo_agent ''proc'' ''PROCUREMENT'')"
proof -
  have "str_strip ''shop '' = ''shop''" by code_simp
  then have cred: "presented HNone (HStr ''Bearer shop '') ''shop''"
    using presented.bearer [of HNone "''shop ''"] by simp
  have none: "\<not> presented HNone HNone c" for c by (simp add: presented_iff)
  have "get_authenticated_agent demo_env demo_world HNone (HStr ''Bearer shop '') HNone
      = Inr (demo_agent ''shop'' ''SHOPPING'')"
    unfolding authenticated_agent_sound
    by (intro conjI disjI1 exI [of _ "''shop''"] exI [of _ "[]"] exI)
      (use cred in \<open>auto simp: demo_world_def demo_agent_def credential_of_def\<close>)
  moreover have "get_authenticated_agent demo_env demo_world HNone HNone (HStr ''proc'')
      = Inr (demo_agent ''proc'' ''PROCUREMENT'')"
    unfolding authenticated_agent_sound
    by (intro conjI disjI2)
      (use none in \<open>auto simp: demo_world_def demo_agent_def demo_env_def default_settings_def
        table_simps str_lower_def\<close>)
  ultimately show ?thesis by blast
qed

lemma find_unique:
  assumes "x \<in> set xs" and "P x" and "\<And>y. y \<in> set xs \<Longrightarrow> P y \<Longrightarrow> y = x"
  shows "find P xs = Some x"
proof (cases "find P xs")
  case None
  with assms(1,2) show ?thesis by (auto simp: find_None_iff)
next
  case (Some y)
  then have "y \<in> set xs" and "P y" by (auto dest: find_SomeD)
  with assms(3) Some show ?thesis by blast
qed

text \<open>
  The public identifier of an agent is by itself a valid credential: a request with the
  agent's id in \<open>X-Agent-Key\<close> and no other header is authenticated as that agent, whatever key
  hash is stored, in every environment.
\<close>
theorem agent_id_is_a_credential:
  assumes "a \<in> set (agents w)" and "a_status a = Agent_ACTIVE" and "a_id a \<noteq> []"
    and "\<And>b. b \<in> set (agents w) \<Longrightarrow> key_matches E (a_id a) b \<Longrightarrow> b = a"
  shows "get_authenticated_agent E w (HStr (a_id a)) HNone HNone = Inr a"
proof -
  have "find (key_matches E (a_id a)) (agents w) = Some a"
    using assms by (intro find_unique) (auto simp: key_matches_def)
  with assms show ?thesis
    by (simp add: get_authenticated_agent_def authenticate_agent_caller_def active_key_of_def Let_def)
qed

theorem agent_id_is_a_credential_witness:
  "get_authenticated_agent (demo_env\<lparr>settings := default_settings\<lparr>ENVIRONMENT := ''production''\<rparr>\<rparr>)
     demo_world (HStr ''proc'') HNone HNone = Inr (demo_agent ''proc'' ''PROCUREMENT'')"
proof -
  let ?E = "demo_env\<lparr>settings := default_settings\<lparr>ENVIRONMENT := ''production''\<rparr>\<rparr>"
  let ?a = "demo_agent ''proc'' ''PROCUREMENT''"
  have "?a \<in> set (agents demo_world)" by (simp add: demo_world_def)
  moreover have "b = ?a" if "b \<in> set (agents demo_world)" and "key_matches ?E (a_id ?a) b" for b
    using that by (auto simp: demo_world_def key_matches_def demo_agent_def demo_env_def)
  ultimately have "get_authenticated_agent ?E demo_world (HStr (a_id ?a)) HNone HNone = Inr ?a"
    by (intro agent_id_is_a_credential) (auto simp: demo_agent_def)
  then show ?thesis by (simp add: demo_agent_def)
qed

end
