(* ===== verification/Mandates.thy ===== *)
theory Mandates
  imports Budget Policy_Engine
begin

text \<open>
  The mandate routes of \<^verbatim>\<open>apps/api/routes/mandates.py\<close>: issuing a root mandate (with its lookup
  of the agent by id, extracted id or \<open>ILIKE\<close>), delegating a child under the non-escalation
  checks, reading, suspending, activating and revoking with the cascade over the descendants,
  and the delegation tree. Foreign keys and column widths are not checked here; a primary key
  that is already taken is the database's error.
\<close>

section \<open>Requests\<close>

record mandate_create =
  mc_agent_id :: string
  mc_granted_by_id :: string
  mc_currency :: string
  mc_max_amount_per_op :: int
  mc_aggregate_spend_limit :: int
  mc_review_threshold_amount :: "int option"
  mc_allowed_operations :: "string list"
  mc_policy_config :: dict
  mc_valid_until :: datetime

record mandate_delegate_request =
  md_target_agent_id :: string
  md_currency :: "string option"
  md_max_amount_per_op :: int
  md_aggregate_spend_limit :: int
  md_review_threshold_amount :: "int option"
  md_allowed_operations :: "string list"
  md_valid_until :: datetime

text \<open>The bounds pydantic enforces on the two requests.\<close>

definition valid_mandate_create :: "mandate_create \<Rightarrow> bool" where
  "valid_mandate_create p \<longleftrightarrow> 0 < mc_max_amount_per_op p \<and> 0 < mc_aggregate_spend_limit p
     \<and> (case mc_review_threshold_amount p of None \<Rightarrow> True | Some t \<Rightarrow> 0 < t)"

definition valid_delegate_request :: "mandate_delegate_request \<Rightarrow> bool" where
  "valid_delegate_request p \<longleftrightarrow> 0 < md_max_amount_per_op p \<and> 0 < md_aggregate_spend_limit p"

section \<open>Looking an agent up\<close>

definition is_word_char :: "char \<Rightarrow> bool" where
  "is_word_char c \<longleftrightarrow> (let n = (of_char c :: nat) in
     (97 \<le> n \<and> n \<le> 122) \<or> (65 \<le> n \<and> n \<le> 90) \<or> (48 \<le> n \<and> n \<le> 57) \<or> n = 95)"

text \<open>\<open>re.search(r"(agt_[a-zA-Z0-9_]+)", s)\<close>: the leftmost match, as long as possible.\<close>

fun search_agt :: "string \<Rightarrow> string option" where
  "search_agt [] = None"
| "search_agt (c # s) =
     (let rest = takeWhile is_word_char (drop 4 (c # s)) in
      if starts_with (c # s) ''agt_'' \<and> rest \<noteq> [] then Some (''agt_'' @ rest) else search_agt s)"

text \<open>SQL's \<open>LIKE\<close>, where \<open>%\<close> stands for any text and \<open>_\<close> for any character.\<close>

fun sql_like :: "string \<Rightarrow> string \<Rightarrow> bool" where
  "sql_like [] s = (s = [])"
| "sql_like (c # p) s =
     (if c = CHR ''%'' then sql_like p s \<or> (case s of [] \<Rightarrow> False | _ # s' \<Rightarrow> sql_like (c # p) s')
      else (case s of [] \<Rightarrow> False
        | d # s' \<Rightarrow> (c = CHR ''_'' \<or> c = d) \<and> sql_like p s'))"

definition ilike_sub :: "string \<Rightarrow> string \<Rightarrow> bool" where
  "ilike_sub column x = sql_like (str_lower (''%'' @ x @ ''%'')) (str_lower column)"

definition resolve_agent :: "string \<Rightarrow> world \<Rightarrow> exn + agent option" where
  "resolve_agent agent_id w =
     (let cleaned_id = str_strip agent_id;
          target_lookup = (case search_agt cleaned_id of Some x \<Rightarrow> x | None \<Rightarrow> cleaned_id)
      in case get_agent_row w target_lookup of
           Some agent \<Rightarrow> Inr (Some agent)
         | None \<Rightarrow> one_or_none (filter (\<lambda>a. ilike_sub (a_name a) target_lookup
             \<or> ilike_sub (a_id a) target_lookup \<or> ilike_sub (a_agent_type a) target_lookup) (agents w)))"

section \<open>Issuing and delegating\<close>

text \<open>\<open>db.add(mandate)\<close> and the flush: the primary key is drawn and must be new.\<close>

definition flush_mandate :: "env \<Rightarrow> mandate \<Rightarrow> world \<Rightarrow> (exn + mandate) \<times> world" where
  "flush_mandate E m w =
     (let (i, w) = generate_uuid E w; m = m\<lparr>m_id := i\<rparr> in
      if get_mandate_row w i \<noteq> None then (Inl DatabaseError, w)
      else (Inr m, w\<lparr>mandates := mandates w @ [m]\<rparr>))"

definition create_mandate :: "env \<Rightarrow> mandate_create \<Rightarrow> world \<Rightarrow> (exn + mandate) \<times> world" where
  "create_mandate E payload w =
     (case resolve_agent (mc_agent_id payload) w of
        Inl e \<Rightarrow> (Inl e, w)
      | Inr None \<Rightarrow>
          let existing_names = map (\<lambda>a. quote (a_name a) @ '' ('' @ a_id a @ '')'') (agents w);
              avail_str = (if existing_names \<noteq> [] then str_join '', '' existing_names else ''None'')
          in (Inl (HTTPException 404 (''Agent '' @ quote (mc_agent_id payload)
                @ '' not found. Available agents: '' @ avail_str
                @ ''. Please select an existing agent or create one on the Agents page.'')), w)
      | Inr (Some agent) \<Rightarrow>
          let mandate = \<lparr>m_id = [], m_agent_id = a_id agent,
                m_granted_by_id = mc_granted_by_id payload, m_parent_mandate_id = None,
                m_delegation_depth = 0, m_max_delegation_depth = 2, m_status = Mandate_ACTIVE,
                m_currency = str_upper (mc_currency payload),
                m_max_amount_per_op = mc_max_amount_per_op payload,
                m_aggregate_spend_limit = mc_aggregate_spend_limit payload,
                m_current_aggregate_spend = 0, m_reserved_spend = 0,
                m_delegated_child_budget_allocated = 0,
                m_review_threshold_amount = mc_review_threshold_amount payload,
                m_allowed_operations = mc_allowed_operations payload,
                m_policy_config = mc_policy_config payload, m_suspension_reason = None,
                m_version = 1, m_valid_from = utc_now E, m_valid_until = mc_valid_until payload,
                m_created_at = utc_now E\<rparr>
          in case flush_mandate E mandate w of
               (Inl e, w') \<Rightarrow> (Inl e, rollback w w')
             | (Inr mandate, w) \<Rightarrow>
                 (Inr mandate,
                  add_audit E MANDATE_CREATED (mc_granted_by_id payload) ''PRINCIPAL'' (m_id mandate)
                    ''MANDATE''
                    [(''agent_id'', JStr (m_agent_id mandate)),
                     (''currency'', JStr (m_currency mandate)),
                     (''max_amount_per_op'', JInt (m_max_amount_per_op mandate)),
                     (''aggregate_spend_limit'', JInt (m_aggregate_spend_limit mandate))]
                    None (Some [(''status'', JStr (mandate_status_value (m_status mandate)))]) w))"

definition as_utc :: "datetime \<Rightarrow> datetime" where
  "as_utc dt = (case dt of Naive t \<Rightarrow> Aware t 0 | Aware t z \<Rightarrow> Aware t z)"

definition escalation :: "string \<Rightarrow> exn" where
  "escalation s = HTTPException 400 (''Privilege escalation: '' @ s)"

definition validate_delegation_invariants :: "mandate \<Rightarrow> mandate_delegate_request \<Rightarrow> exn + string" where
  "validate_delegation_invariants parent payload =
     (let child_currency = str_upper (str_or (md_currency payload) (m_currency parent));
          parent_until = as_utc (m_valid_until parent);
          child_until = as_utc (md_valid_until payload);
          parent_available = max 0 (m_aggregate_spend_limit parent
            - (m_current_aggregate_spend parent + m_reserved_spend parent
               + m_delegated_child_budget_allocated parent))
      in if m_max_delegation_depth parent \<le> m_delegation_depth parent then
           Inl (HTTPException 400 (''Max delegation depth ('' @ str_int (m_max_delegation_depth parent)
             @ '') reached for this mandate tree''))
         else if child_currency \<noteq> str_upper (m_currency parent) then
           Inl (escalation (''Child currency '' @ quote child_currency
             @ '' does not match parent bound '' @ quote (m_currency parent)))
         else if m_max_amount_per_op parent < md_max_amount_per_op payload then
           Inl (escalation (''Requested max_amount_per_op ('' @ str_int (md_max_amount_per_op payload)
             @ '') exceeds parent ceiling ('' @ str_int (m_max_amount_per_op parent) @ '')''))
         else (case (if m_allowed_operations parent \<noteq> []
                     then find (\<lambda>op_type. op_type \<notin> set (m_allowed_operations parent))
                            (md_allowed_operations payload)
                     else None) of
             Some op_type \<Rightarrow> Inl (escalation (''Operation '' @ quote op_type
               @ '' is not authorized in parent mandate whitelist''))
           | None \<Rightarrow>
               if instant parent_until < instant child_until then
                 Inl (escalation (''Child validity ('' @ isoformat child_until
                   @ '') exceeds parent expiration ('' @ isoformat parent_until @ '')''))
               else if parent_available < md_aggregate_spend_limit payload then
                 Inl (escalation (''Requested aggregate limit (''
                   @ str_int (md_aggregate_spend_limit payload)
                   @ '') exceeds parent remaining unallocated budget (''
                   @ str_int parent_available @ '')''))
               else Inr child_currency))"

definition opt_int_or :: "int option \<Rightarrow> int option \<Rightarrow> int option" where
  "opt_int_or x y = (case x of None \<Rightarrow> y | Some i \<Rightarrow> if i = 0 then y else x)"

definition list_or :: "'a list \<Rightarrow> 'a list \<Rightarrow> 'a list" where
  "list_or x y = (if x = [] then y else x)"

definition allocate_child :: "int \<Rightarrow> mandate \<Rightarrow> mandate" where
  "allocate_child n m =
     m\<lparr>m_delegated_child_budget_allocated := m_delegated_child_budget_allocated m + n,
       m_version := m_version m + 1\<rparr>"

definition delegate_child_mandate ::
    "env \<Rightarrow> string \<Rightarrow> mandate_delegate_request \<Rightarrow> world \<Rightarrow> (exn + mandate) \<times> world" where
  "delegate_child_mandate E parent_id payload w =
     (case get_mandate_row w parent_id of
        None \<Rightarrow> (Inl (HTTPException 404 ''Parent mandate not found''), w)
      | Some parent \<Rightarrow>
          if m_status parent \<noteq> Mandate_ACTIVE then
            (Inl (HTTPException 400 (''Cannot delegate from parent mandate in status ''
               @ quote (mandate_status_value (m_status parent)))), w)
          else if get_agent_row w (md_target_agent_id payload) = None then
            (Inl (HTTPException 404 ''Target child agent not found''), w)
          else (case validate_delegation_invariants parent payload of
              Inl e \<Rightarrow> (Inl e, w)
            | Inr child_currency \<Rightarrow>
                let child_mandate = \<lparr>m_id = [], m_agent_id = md_target_agent_id payload,
                      m_granted_by_id = m_granted_by_id parent,
                      m_parent_mandate_id = Some (m_id parent),
                      m_delegation_depth = m_delegation_depth parent + 1,
                      m_max_delegation_depth = m_max_delegation_depth parent,
                      m_status = Mandate_ACTIVE, m_currency = child_currency,
                      m_max_amount_per_op = md_max_amount_per_op payload,
                      m_aggregate_spend_limit = md_aggregate_spend_limit payload,
                      m_current_aggregate_spend = 0, m_reserved_spend = 0,
                      m_delegated_child_budget_allocated = 0,
                      m_review_threshold_amount = opt_int_or (md_review_threshold_amount payload)
                        (m_review_threshold_amount parent),
                      m_allowed_operations = list_or (md_allowed_operations payload)
                        (m_allowed_operations parent),
                      m_policy_config = m_policy_config parent, m_suspension_reason = None,
                      m_version = 1, m_valid_from = utc_now E,
                      m_valid_until = md_valid_until payload, m_created_at = utc_now E\<rparr>;
                    w1 = upd_mandate (m_id parent) (allocate_child (md_aggregate_spend_limit payload)) w
                in case flush_mandate E child_mandate w1 of
                     (Inl e, w') \<Rightarrow> (Inl e, rollback w w')
                   | (Inr child, w') \<Rightarrow>
                       (Inr child,
                        add_audit E MANDATE_CREATED (m_agent_id parent) ''AGENT'' (m_id child)
                          ''MANDATE''
                          [(''parent_mandate_id'', JStr (m_id parent)),
                           (''target_agent_id'', JStr (md_target_agent_id payload)),
                           (''delegation_depth'', JInt (m_delegation_depth child)),
                           (''allocated_budget'', JInt (m_aggregate_spend_limit child))]
                          None (Some [(''status'', JStr (mandate_status_value (m_status child)))]) w')))"

section \<open>Reading\<close>

definition newest_first :: "('r \<Rightarrow> datetime) \<Rightarrow> 'r list \<Rightarrow> 'r list" where
  "newest_first created rows = sort_key (\<lambda>r. - instant (created r)) rows"

definition list_mandates :: "string option \<Rightarrow> mandate_status option \<Rightarrow> world \<Rightarrow> mandate list" where
  "list_mandates agent_id status_filter w =
     (let rows = newest_first m_created_at (mandates w);
          rows = (if truthy_str agent_id then filter (\<lambda>m. m_agent_id m = str_or agent_id []) rows
                  else rows)
      in case status_filter of None \<Rightarrow> rows | Some s \<Rightarrow> filter (\<lambda>m. m_status m = s) rows)"

definition get_mandate :: "string \<Rightarrow> world \<Rightarrow> exn + mandate" where
  "get_mandate mandate_id w =
     (case get_mandate_row w mandate_id of
        None \<Rightarrow> Inl (HTTPException 404 ''Mandate not found'')
      | Some m \<Rightarrow> Inr m)"

definition tree_node :: "world \<Rightarrow> mandate \<Rightarrow> dict" where
  "tree_node w m =
     (let agent = get_agent_row w (m_agent_id m) in
      [(''id'', JStr (m_id m)),
       (''parent_id'', jopt_str (m_parent_mandate_id m)),
       (''agent_id'', JStr (m_agent_id m)),
       (''agent_name'', JStr (case agent of Some a \<Rightarrow> a_name a | None \<Rightarrow> ''Unknown'')),
       (''agent_type'', JStr (case agent of Some a \<Rightarrow> a_agent_type a | None \<Rightarrow> ''CUSTOM'')),
       (''status'', JStr (mandate_status_value (m_status m))),
       (''currency'', JStr (m_currency m)),
       (''max_amount_per_op'', JInt (m_max_amount_per_op m)),
       (''aggregate_spend_limit'', JInt (m_aggregate_spend_limit m)),
       (''current_spend'', JInt (m_current_aggregate_spend m)),
       (''reserved_spend'', JInt (m_reserved_spend m)),
       (''delegated_budget'', JInt (m_delegated_child_budget_allocated m)),
       (''depth'', JInt (m_delegation_depth m)),
       (''valid_until'', JStr (isoformat (m_valid_until m)))])"

definition get_delegation_tree :: "world \<Rightarrow> dict list" where
  "get_delegation_tree w =
     map (tree_node w) (sort_key m_delegation_depth (newest_first m_created_at (mandates w)))"

section \<open>Suspending, activating and revoking\<close>

definition mark_mandate :: "mandate_status \<Rightarrow> string \<Rightarrow> mandate \<Rightarrow> mandate" where
  "mark_mandate target reason m =
     m\<lparr>m_status := target, m_suspension_reason := Some reason, m_version := m_version m + 1\<rparr>"

text \<open>One turn of the cascade for the identifier at the head of the queue.\<close>

definition cascade_one ::
    "env \<Rightarrow> string \<Rightarrow> mandate_status \<Rightarrow> string \<Rightarrow> string \<Rightarrow> world \<Rightarrow> world" where
  "cascade_one E root_mandate_id target_status reason curr_id w =
     (case get_mandate_row w curr_id of
        None \<Rightarrow> w
      | Some m \<Rightarrow>
          add_audit E (if target_status = Mandate_REVOKED then MANDATE_REVOKED else MANDATE_SUSPENDED)
            ''SYSTEM'' ''SYSTEM'' (m_id m) ''MANDATE''
            [(''reason'', JStr reason), (''cascaded_from'', JStr root_mandate_id)]
            None (Some [(''status'', JStr (mandate_status_value target_status))])
            (upd_mandate curr_id (mark_mandate target_status reason) w))"

definition child_ids :: "string \<Rightarrow> mandate list \<Rightarrow> string list" where
  "child_ids p ms = map m_id (filter (\<lambda>m. m_parent_mandate_id m = Some p) ms)"

interpretation mark_row: keyed_update m_id "mark_mandate t r" for t r
  by unfold_locales (simp add: mark_mandate_def)

interpretation allocate_row: keyed_update m_id "allocate_child n" for n
  by unfold_locales (simp add: allocate_child_def)

text \<open>Identifier and parent of every row: what the cascade reads and never changes.\<close>

definition links :: "mandate list \<Rightarrow> (string \<times> string option) list" where
  "links ms = map (\<lambda>m. (m_id m, m_parent_mandate_id m)) ms"

lemma links_cascade_one [simp]: "links (mandates (cascade_one E r t re c w)) = links (mandates w)"
  by (auto simp: cascade_one_def links_def upd_mandate_def tupd_def mark_mandate_def
      split: option.splits)

lemma child_ids_links: "child_ids p ms = map fst (filter (\<lambda>l. snd l = Some p) (links ms))"
  by (simp add: child_ids_def links_def filter_map comp_def)

lemma ids_links: "m_id ` set ms = fst ` set (links ms)"
  by (simp add: links_def image_image)

lemma child_ids_subset: "set (child_ids p ms) \<subseteq> m_id ` set ms"
  by (auto simp: child_ids_def)

text \<open>
  The loop. It ends for every table, also one whose parent links form a cycle: each turn either
  visits an identifier for the first time or removes one that was visited already.
\<close>

function cascade_loop ::
    "env \<Rightarrow> string \<Rightarrow> mandate_status \<Rightarrow> string \<Rightarrow> string set \<Rightarrow> string list \<Rightarrow> world \<Rightarrow> world" where
  "cascade_loop E root_mandate_id target reason visited [] w = w"
| "cascade_loop E root_mandate_id target reason visited (curr_id # queue) w =
     (let visited = insert curr_id visited;
          w = cascade_one E root_mandate_id target reason curr_id w;
          queue = queue @ filter (\<lambda>c. c \<notin> visited) (child_ids curr_id (mandates w))
      in cascade_loop E root_mandate_id target reason visited queue w)"
  by pat_completeness auto

definition pending :: "string set \<Rightarrow> string list \<Rightarrow> world \<Rightarrow> string set" where
  "pending visited queue w = (set queue \<union> m_id ` set (mandates w)) - visited"

lemma finite_pending [simp]: "finite (pending V q w)"
  by (simp add: pending_def)

lemma pending_step:
  assumes "links (mandates w') = links (mandates w)"
    and "q' = q @ filter (\<lambda>x. x \<notin> insert c V) (child_ids c (mandates w'))"
  shows "card (pending (insert c V) q' w') < card (pending V (c # q) w)
    \<or> card (pending (insert c V) q' w') \<le> card (pending V (c # q) w)
      \<and> length (filter (\<lambda>x. x \<in> insert c V) q') < length (filter (\<lambda>x. x \<in> V) (c # q))"
proof -
  have "m_id ` set (mandates w') = m_id ` set (mandates w)" by (simp add: assms(1) ids_links)
  moreover have "set (child_ids c (mandates w')) \<subseteq> m_id ` set (mandates w')" by (rule child_ids_subset)
  ultimately have sub: "pending (insert c V) q' w' \<subseteq> pending V (c # q) w - {c}"
    by (auto simp: pending_def assms(2))
  show ?thesis
  proof (cases "c \<in> V")
    case False
    then have "c \<in> pending V (c # q) w" by (simp add: pending_def)
    with sub have "pending (insert c V) q' w' \<subset> pending V (c # q) w" by blast
    then show ?thesis by (simp add: psubset_card_mono)
  next
    case True
    then have V: "insert c V = V" by blast
    have "filter (\<lambda>x. x \<in> V) q' = filter (\<lambda>x. x \<in> V) q"
      by (simp add: assms(2) V filter_empty_conv)
    then have "length (filter (\<lambda>x. x \<in> insert c V) q') < length (filter (\<lambda>x. x \<in> V) (c # q))"
      using True by (simp add: V)
    moreover have "card (pending (insert c V) q' w') \<le> card (pending V (c # q) w)"
      using sub by (intro card_mono) auto
    ultimately show ?thesis by blast
  qed
qed

termination cascade_loop
proof (relation "measures [\<lambda>(E, r, t, re, V, q, w). card (pending V q w),
    \<lambda>(E, r, t, re, V, q, w). length (filter (\<lambda>x. x \<in> V) q)]", goal_cases)
  case 1
  show ?case by simp
next
  case (2 E root_mandate_id target reason visited curr_id queue w V w' q')
  with pending_step [of w' w q' queue curr_id visited] show ?case by auto
qed

definition cascade_mandate_status ::
    "env \<Rightarrow> string \<Rightarrow> mandate_status \<Rightarrow> string \<Rightarrow> world \<Rightarrow> world" where
  "cascade_mandate_status E root_mandate_id target_status reason w =
     cascade_loop E root_mandate_id target_status reason {} [root_mandate_id] w"

definition change_with_cascade ::
    "env \<Rightarrow> mandate_status \<Rightarrow> string \<Rightarrow> string \<Rightarrow> string option \<Rightarrow> world \<Rightarrow> (exn + mandate) \<times> world" where
  "change_with_cascade E target default_reason mandate_id reason w =
     (case get_mandate_row w mandate_id of
        None \<Rightarrow> (Inl (HTTPException 404 ''Mandate not found''), w)
      | Some mandate \<Rightarrow>
          let w' = cascade_mandate_status E (m_id mandate) target (str_or reason default_reason) w
          in (Inr (the (get_mandate_row w' mandate_id)), w'))"

definition suspend_mandate_cascade ::
    "env \<Rightarrow> string \<Rightarrow> string option \<Rightarrow> world \<Rightarrow> (exn + mandate) \<times> world" where
  "suspend_mandate_cascade E = change_with_cascade E Mandate_SUSPENDED ''Parent mandate suspended''"

definition revoke_mandate_cascade ::
    "env \<Rightarrow> string \<Rightarrow> string option \<Rightarrow> world \<Rightarrow> (exn + mandate) \<times> world" where
  "revoke_mandate_cascade E =
     change_with_cascade E Mandate_REVOKED ''Parent mandate permanently revoked''"

definition reactivate :: "mandate \<Rightarrow> mandate" where
  "reactivate m =
     m\<lparr>m_status := Mandate_ACTIVE, m_suspension_reason := None, m_version := m_version m + 1\<rparr>"

definition activate_mandate :: "string \<Rightarrow> world \<Rightarrow> (exn + mandate) \<times> world" where
  "activate_mandate mandate_id w =
     (case get_mandate_row w mandate_id of
        None \<Rightarrow> (Inl (HTTPException 404 ''Mandate not found''), w)
      | Some mandate \<Rightarrow>
          if truthy_str (m_parent_mandate_id mandate)
             \<and> (case get_mandate_row w (str_or (m_parent_mandate_id mandate) []) of
                  None \<Rightarrow> False | Some parent \<Rightarrow> m_status parent \<noteq> Mandate_ACTIVE) then
            (Inl (HTTPException 400 (''Cannot activate child mandate while parent mandate is ''
               @ ''suspended or revoked'')), w)
          else (Inr (reactivate mandate), upd_mandate mandate_id reactivate w))"

section \<open>What the cascade reaches\<close>

inductive descendant :: "(string \<times> string option) list \<Rightarrow> string \<Rightarrow> string \<Rightarrow> bool" for L where
  self: "descendant L r r"
| child: "descendant L r p \<Longrightarrow> (k, Some p) \<in> set L \<Longrightarrow> descendant L r k"

lemma descendant_trans: "descendant L b c \<Longrightarrow> descendant L a b \<Longrightarrow> descendant L a c"
  by (induction rule: descendant.induct) (auto intro: descendant.intros)

lemma child_ids_iff: "k \<in> set (child_ids p ms) \<longleftrightarrow> (k, Some p) \<in> set (links ms)"
  by (force simp: child_ids_links)

lemma tget_cascade_one:
  "tget m_id k (mandates (cascade_one E r t re c w))
     = (if k = c then map_option (mark_mandate t re) (tget m_id k (mandates w))
        else tget m_id k (mandates w))"
  by (auto simp: cascade_one_def upd_mandate_def mark_row.tget_tupd split: option.splits)

lemma cascade_loop_links [simp]:
  "links (mandates (cascade_loop E r t re V q w)) = links (mandates w)"
  by (induction E r t re V q w rule: cascade_loop.induct) (simp_all add: Let_def)

text \<open>Nothing but descendants of the queue is touched.\<close>

lemma cascade_loop_frame:
  "(\<And>c. c \<in> set q \<Longrightarrow> \<not> descendant (links (mandates w)) c k) \<Longrightarrow>
     tget m_id k (mandates (cascade_loop E r t re V q w)) = tget m_id k (mandates w)"
proof (induction E r t re V q w rule: cascade_loop.induct)
  case (1 E r t re V w)
  then show ?case by simp
next
  case (2 E r t re V c q w)
  let ?w = "cascade_one E r t re c w"
  let ?q = "q @ filter (\<lambda>x. x \<notin> insert c V) (child_ids c (mandates ?w))"
  have "\<not> descendant (links (mandates ?w)) x k" if "x \<in> set ?q" for x
  proof
    assume d: "descendant (links (mandates ?w)) x k"
    show False
    proof (cases "x \<in> set q")
      case True
      with d 2(2) show False by simp
    next
      case False
      with that have "(x, Some c) \<in> set (links (mandates w))" by (auto simp: child_ids_iff)
      then have "descendant (links (mandates w)) c x" by (blast intro: descendant.intros)
      with d have "descendant (links (mandates w)) c k" using descendant_trans by fastforce
      with 2(2) show False by simp
    qed
  qed
  then have "tget m_id k (mandates (cascade_loop E r t re (insert c V) ?q ?w)) = tget m_id k (mandates ?w)"
    by (rule 2(1) [OF refl refl refl])
  moreover have "k \<noteq> c" using 2(2) by (auto intro: descendant.self)
  ultimately show ?case by (simp add: Let_def tget_cascade_one)
qed

text \<open>
  Everything the loop visited carries the target status, and its children are visited or queued;
  with an empty queue the visited identifiers are closed under children.
\<close>

definition cascaded :: "mandate_status \<Rightarrow> string set \<Rightarrow> string list \<Rightarrow> world \<Rightarrow> bool" where
  "cascaded t V q w \<longleftrightarrow> (\<forall>v \<in> V. (\<forall>m. tget m_id v (mandates w) = Some m \<longrightarrow> m_status m = t)
     \<and> (\<forall>k. (k, Some v) \<in> set (links (mandates w)) \<longrightarrow> k \<in> V \<union> set q))"

lemma cascaded_step:
  assumes "cascaded t V (c # q) w"
  shows "cascaded t (insert c V)
    (q @ filter (\<lambda>x. x \<notin> insert c V) (child_ids c (mandates (cascade_one E r t re c w))))
    (cascade_one E r t re c w)"
  using assms unfolding cascaded_def
  by (auto simp: tget_cascade_one child_ids_iff mark_mandate_def split: if_splits)

lemma cascade_loop_reaches:
  "cascaded t V q w \<Longrightarrow> \<exists>V'. V \<union> set q \<subseteq> V' \<and> cascaded t V' [] (cascade_loop E r t re V q w)"
proof (induction E r t re V q w rule: cascade_loop.induct)
  case (1 E r t re V w)
  then show ?case by auto
next
  case (2 E r t re V c q w)
  let ?w = "cascade_one E r t re c w"
  let ?q = "q @ filter (\<lambda>x. x \<notin> insert c V) (child_ids c (mandates ?w))"
  from 2(1) [OF refl refl refl cascaded_step [OF 2(2)]] obtain V'
    where "insert c V \<union> set ?q \<subseteq> V'" and "cascaded t V' [] (cascade_loop E r t re (insert c V) ?q ?w)"
    by blast
  then show ?case by (auto simp: Let_def)
qed

lemma cascaded_descendant:
  assumes "cascaded t V [] w" and "r \<in> V" and "descendant (links (mandates w)) r k"
  shows "k \<in> V"
  using assms(3,1,2)
proof (induction rule: descendant.induct)
  case (child r p k)
  then show ?case by (auto simp: cascaded_def)
qed

lemma cascade_spec:
  fixes E r t re w
  defines "w' \<equiv> cascade_mandate_status E r t re w"
  shows "descendant (links (mandates w)) r k \<Longrightarrow> tget m_id k (mandates w') = Some m \<Longrightarrow> m_status m = t"
    and "\<not> descendant (links (mandates w)) r k \<Longrightarrow> tget m_id k (mandates w') = tget m_id k (mandates w)"
    and "links (mandates w') = links (mandates w)"
proof -
  show links: "links (mandates w') = links (mandates w)" 
    by (simp add: w'_def cascade_mandate_status_def del: cascade_loop.simps)
  have "cascaded t {} [r] w" by (simp add: cascaded_def)
  from cascade_loop_reaches [OF this, of E r re] obtain V
    where V: "r \<in> V" "cascaded t V [] w'"
    by (auto simp: w'_def cascade_mandate_status_def simp del: cascade_loop.simps)
  show "m_status m = t"
    if "descendant (links (mandates w)) r k" and "tget m_id k (mandates w') = Some m"
    using cascaded_descendant [OF V(2,1), of k] that V(2) links by (auto simp: cascaded_def)
  show "tget m_id k (mandates w') = tget m_id k (mandates w)"
    if "\<not> descendant (links (mandates w)) r k"
    unfolding w'_def cascade_mandate_status_def using that by (intro cascade_loop_frame) simp
qed

section \<open>The delegation tree stays well formed\<close>

definition children_total :: "mandate list \<Rightarrow> string \<Rightarrow> int" where
  "children_total ms k =
     sum_list (map (\<lambda>m. if m_parent_mandate_id m = Some k then m_aggregate_spend_limit m else 0) ms)"

text \<open>
  Identifiers are unique, every parent is a row one level up, and what a mandate records as
  delegated is the sum of its children's limits.
\<close>

definition delegation_ok :: "mandate list \<Rightarrow> bool" where
  "delegation_ok ms \<longleftrightarrow> distinct (map m_id ms) \<and> (\<forall>m \<in> set ms. 0 \<le> m_delegation_depth m
     \<and> (\<forall>c. m_parent_mandate_id m = Some c \<longrightarrow>
          (\<exists>p \<in> set ms. m_id p = c \<and> m_delegation_depth m = m_delegation_depth p + 1))
     \<and> m_delegated_child_budget_allocated m = children_total ms (m_id m))"

lemma delegation_ok_depths: "delegation_ok ms \<Longrightarrow> depths_ok ms"
proof (unfold depths_ok_def, intro ballI conjI allI impI)
  fix m c p
  assume ok: "delegation_ok ms" and m: "m \<in> set ms"
  then show "0 \<le> m_delegation_depth m" by (simp add: delegation_ok_def)
  assume "m_parent_mandate_id m = Some c" and p: "tget m_id c ms = Some p"
  with ok m obtain q where "q \<in> set ms" "m_id q = c" "m_delegation_depth m = m_delegation_depth q + 1"
    by (fastforce simp: delegation_ok_def)
  moreover from this ok p have "q = p"
    using tget_in_set [of m_id ms q] by (simp add: delegation_ok_def)
  ultimately show "m_delegation_depth p < m_delegation_depth m" by simp
qed

lemma delegation_ok_map:
  assumes "\<And>m. m_id (f m) = m_id m \<and> m_parent_mandate_id (f m) = m_parent_mandate_id m
    \<and> m_delegation_depth (f m) = m_delegation_depth m
    \<and> m_aggregate_spend_limit (f m) = m_aggregate_spend_limit m
    \<and> m_delegated_child_budget_allocated (f m) = m_delegated_child_budget_allocated m"
  shows "delegation_ok (map f ms) = delegation_ok ms"
proof -
  have "children_total (map f ms) k = children_total ms k" for k
    by (simp add: children_total_def comp_def assms cong: if_cong)
  then show ?thesis by (simp add: delegation_ok_def comp_def assms)
qed

text \<open>The row without the fields a status change writes.\<close>

definition grant_of :: "mandate \<Rightarrow> mandate" where
  "grant_of m = m\<lparr>m_status := Mandate_ACTIVE, m_suspension_reason := None, m_version := 0\<rparr>"

lemma delegation_ok_grants:
  assumes "map grant_of ms' = map grant_of ms"
  shows "delegation_ok ms' = delegation_ok ms"
proof -
  have "delegation_ok (map grant_of x) = delegation_ok x" for x
    by (rule delegation_ok_map) (simp add: grant_of_def)
  with assms show ?thesis by metis
qed

lemma grants_cascade_loop: "map grant_of (mandates (cascade_loop E r t re V q w)) = map grant_of (mandates w)"
proof (induction E r t re V q w rule: cascade_loop.induct)
  case (2 E r t re V c q w)
  have "map grant_of (mandates (cascade_one E r t re c w)) = map grant_of (mandates w)"
    by (auto simp: cascade_one_def upd_mandate_def mark_mandate_def grant_of_def
        split: option.splits intro!: map_tupd_same)
  with 2 show ?case by (simp add: Let_def)
qed simp

lemma tget_grants: "map_option grant_of (tget m_id k ms) = tget m_id k (map grant_of ms)"
  by (induction ms) (auto simp: table_simps grant_of_def)

lemma grants_cascade:
  "map grant_of (mandates (cascade_mandate_status E r t re w)) = map grant_of (mandates w)"
  unfolding cascade_mandate_status_def by (rule grants_cascade_loop)

lemma children_total_append:
  "children_total (ms @ [m]) k = children_total ms k
     + (if m_parent_mandate_id m = Some k then m_aggregate_spend_limit m else 0)"
  by (simp add: children_total_def)

lemma children_total_allocate: "children_total (tupd m_id p (allocate_child n) ms) k = children_total ms k"
  unfolding children_total_def
  by (subst map_tupd_same) (simp_all add: allocate_child_def)

lemma children_total_fresh:
  assumes "delegation_ok ms" and "k \<notin> m_id ` set ms"
  shows "children_total ms k = 0"
proof -
  have "m_parent_mandate_id m \<noteq> Some k" if "m \<in> set ms" for m
    using assms that by (force simp: delegation_ok_def)
  then have "map (\<lambda>m. if m_parent_mandate_id m = Some k then m_aggregate_spend_limit m else 0) ms
      = map (\<lambda>_. 0) ms" by simp
  then show ?thesis unfolding children_total_def by (simp only: sum_list_0)
qed

lemma delegation_ok_add_child:
  assumes ok: "delegation_ok ms" and p: "p \<in> set ms" and new: "m_id c \<notin> m_id ` set ms"
    and c: "m_parent_mandate_id c = Some (m_id p)" "m_delegation_depth c = m_delegation_depth p + 1"
      "m_delegated_child_budget_allocated c = 0" "m_aggregate_spend_limit c = n"
  shows "delegation_ok (tupd m_id (m_id p) (allocate_child n) ms @ [c])"
proof -
  let ?ms = "tupd m_id (m_id p) (allocate_child n) ms"
  have total: "children_total (?ms @ [c]) k = children_total ms k + (if k = m_id p then n else 0)" for k
    using c by (auto simp: children_total_append children_total_allocate)
  have row: "\<exists>y \<in> set ms. m_id x = m_id y \<and> m_parent_mandate_id x = m_parent_mandate_id y
      \<and> m_delegation_depth x = m_delegation_depth y \<and> m_delegated_child_budget_allocated x
        = m_delegated_child_budget_allocated y + (if m_id y = m_id p then n else 0)"
    if "x \<in> set ?ms" for x
    using that by (auto simp: tupd_def allocate_child_def)
  have up: "\<exists>x \<in> set ?ms. m_id x = m_id y \<and> m_delegation_depth x = m_delegation_depth y"
    if "y \<in> set ms" for y
    using that by (intro bexI [of _ "if m_id y = m_id p then allocate_child n y else y"])
      (auto simp: tupd_def allocate_child_def)
  have ids: "m_id ` set ?ms = m_id ` set ms" by (metis allocate_row.keys_tupd list.set_map)
  show ?thesis unfolding delegation_ok_def
  proof (intro conjI ballI allI impI)
    show "distinct (map m_id (?ms @ [c]))"
      using ok new ids by (simp add: delegation_ok_def allocate_row.keys_tupd)
    fix x assume x: "x \<in> set (?ms @ [c])"
    show "0 \<le> m_delegation_depth x"
      using x ok p c(2) row by (fastforce simp: delegation_ok_def)
    show "m_delegated_child_budget_allocated x = children_total (?ms @ [c]) (m_id x)"
    proof (cases "x \<in> set ?ms")
      case True
      with row [OF True] ok show ?thesis by (auto simp: total delegation_ok_def)
    next
      case False
      with x have "x = c" by simp
      moreover have "m_id c \<noteq> m_id p" using new p by auto
      ultimately show ?thesis using c(3) children_total_fresh [OF ok new] by (simp add: total)
    qed
    fix k assume k: "m_parent_mandate_id x = Some k"
    show "\<exists>q \<in> set (?ms @ [c]). m_id q = k \<and> m_delegation_depth x = m_delegation_depth q + 1"
    proof (cases "x \<in> set ?ms")
      case True
      with row [OF True] k ok obtain q where "q \<in> set ms" "m_id q = k"
        "m_delegation_depth x = m_delegation_depth q + 1" by (fastforce simp: delegation_ok_def)
      with up [of q] show ?thesis by fastforce
    next
      case False
      with x k c up [OF p] show ?thesis by fastforce
    qed
  qed
qed

lemma delegation_ok_add_root:
  assumes ok: "delegation_ok ms" and new: "m_id c \<notin> m_id ` set ms"
    and c: "m_parent_mandate_id c = None" "m_delegation_depth c = 0" "m_delegated_child_budget_allocated c = 0"
  shows "delegation_ok (ms @ [c])"
proof -
  have "children_total (ms @ [c]) k = children_total ms k" for k
    using c by (simp add: children_total_append)
  with assms children_total_fresh [OF ok new] show ?thesis
    by (fastforce simp: delegation_ok_def)
qed

section \<open>What issuing and delegating do\<close>

lemma flush_mandate_Inr:
  assumes "flush_mandate E m w = (Inr m', w')"
  shows "\<exists>i n. m' = m\<lparr>m_id := i\<rparr> \<and> i \<notin> m_id ` set (mandates w)
    \<and> w' = w\<lparr>uuid_count := n, mandates := mandates w @ [m']\<rparr>"
  using assms
  by (auto simp: flush_mandate_def generate_uuid_def draw_uuid_def Let_def tget_None_iff
      split: if_splits)

lemma rollback_fields [simp]:
  "mandates (rollback w0 w) = mandates w0" "operations (rollback w0 w) = operations w0"
  "transactions (rollback w0 w) = transactions w0" "agents (rollback w0 w) = agents w0"
  "gateway_calls (rollback w0 w) = gateway_calls w" "http_log (rollback w0 w) = http_log w"
  by (simp_all add: rollback_def)

lemma create_mandate_result:
  "(\<exists>e. fst (create_mandate E p w) = Inl e \<and> mandates (snd (create_mandate E p w)) = mandates w)
   \<or> (\<exists>m. fst (create_mandate E p w) = Inr m \<and> mandates (snd (create_mandate E p w)) = mandates w @ [m]
        \<and> m_id m \<notin> m_id ` set (mandates w) \<and> m_parent_mandate_id m = None \<and> m_delegation_depth m = 0
        \<and> m_delegated_child_budget_allocated m = 0 \<and> m_current_aggregate_spend m = 0
        \<and> m_reserved_spend m = 0 \<and> m_aggregate_spend_limit m = mc_aggregate_spend_limit p
        \<and> m_status m = Mandate_ACTIVE)"
  unfolding create_mandate_def Let_def
  by (auto split: sum.split option.split prod.split dest!: flush_mandate_Inr)

lemma validate_delegation_Inr:
  assumes "validate_delegation_invariants parent p = Inr cur"
  shows "m_delegation_depth parent < m_max_delegation_depth parent"
    and "cur = str_upper (m_currency parent)"
    and "md_max_amount_per_op p \<le> m_max_amount_per_op parent"
    and "m_allowed_operations parent \<noteq> [] \<Longrightarrow> set (md_allowed_operations p) \<subseteq> set (m_allowed_operations parent)"
    and "instant (md_valid_until p) \<le> instant (m_valid_until parent)"
    and "md_aggregate_spend_limit p \<le> max 0 (m_aggregate_spend_limit parent
      - (m_current_aggregate_spend parent + m_reserved_spend parent
         + m_delegated_child_budget_allocated parent))"
proof -
  have as_utc: "instant (as_utc t) = instant t" for t by (cases t) (simp_all add: as_utc_def)
  note v = assms [unfolded validate_delegation_invariants_def Let_def]
  show "m_delegation_depth parent < m_max_delegation_depth parent"
    and "cur = str_upper (m_currency parent)"
    and "md_max_amount_per_op p \<le> m_max_amount_per_op parent"
    and "instant (md_valid_until p) \<le> instant (m_valid_until parent)"
    and "md_aggregate_spend_limit p \<le> max 0 (m_aggregate_spend_limit parent
      - (m_current_aggregate_spend parent + m_reserved_spend parent
         + m_delegated_child_budget_allocated parent))"
    using v by (auto simp: as_utc split: if_splits option.splits)
  show "set (md_allowed_operations p) \<subseteq> set (m_allowed_operations parent)"
    if "m_allowed_operations parent \<noteq> []"
    using v that by (auto simp: find_None_iff split: if_splits option.splits)
qed

lemma delegate_Inr:
  assumes "delegate_child_mandate E pid p w = (Inr child, w')"
  shows "\<exists>parent cur. tget m_id pid (mandates w) = Some parent \<and> m_status parent = Mandate_ACTIVE
    \<and> validate_delegation_invariants parent p = Inr cur
    \<and> mandates w' = tupd m_id pid (allocate_child (md_aggregate_spend_limit p)) (mandates w) @ [child]
    \<and> m_id child \<notin> m_id ` set (mandates w) \<and> operations w' = operations w
    \<and> m_parent_mandate_id child = Some pid \<and> m_delegation_depth child = m_delegation_depth parent + 1
    \<and> m_max_delegation_depth child = m_max_delegation_depth parent
    \<and> m_currency child = cur \<and> m_max_amount_per_op child = md_max_amount_per_op p
    \<and> m_aggregate_spend_limit child = md_aggregate_spend_limit p
    \<and> m_current_aggregate_spend child = 0 \<and> m_reserved_spend child = 0
    \<and> m_delegated_child_budget_allocated child = 0
    \<and> m_allowed_operations child = list_or (md_allowed_operations p) (m_allowed_operations parent)
    \<and> m_valid_until child = md_valid_until p"
proof -
  have ids: "m_id ` set (tupd m_id k (allocate_child n) ms) = m_id ` set ms" for k n ms
    by (metis allocate_row.keys_tupd list.set_map)
  show ?thesis
    using assms unfolding delegate_child_mandate_def Let_def
    by (auto split: option.splits if_splits sum.splits prod.splits dest!: flush_mandate_Inr
        dest: tget_SomeD simp: upd_mandate_def ids)
qed

lemma delegate_Inl: "fst (delegate_child_mandate E pid p w) = Inl e \<Longrightarrow>
    mandates (snd (delegate_child_mandate E pid p w)) = mandates w
    \<and> operations (snd (delegate_child_mandate E pid p w)) = operations w"
  unfolding delegate_child_mandate_def Let_def
  by (auto split: option.splits if_splits sum.splits prod.splits)

section \<open>Properties\<close>

text \<open>
  C7: Delegation never escalates: a child mandate is created only from an ACTIVE parent below its
  maximal depth, in the parent's currency, with at most its per-operation ceiling, its operations
  and its expiry, and the parent's spend, reservations and delegated allocations including this
  child stay within the parent's limit; the parent's row records the allocation.
\<close>
theorem delegation_never_escalates:
  assumes "delegate_child_mandate E pid p w = (Inr child, w')" and "valid_delegate_request p"
  shows "\<exists>parent. tget m_id pid (mandates w) = Some parent \<and> m_status parent = Mandate_ACTIVE
    \<and> m_parent_mandate_id child = Some pid
    \<and> m_delegation_depth child = m_delegation_depth parent + 1
    \<and> m_delegation_depth child \<le> m_max_delegation_depth parent
    \<and> m_currency child = str_upper (m_currency parent)
    \<and> m_max_amount_per_op child \<le> m_max_amount_per_op parent
    \<and> (m_allowed_operations parent \<noteq> [] \<longrightarrow> m_allowed_operations child \<noteq> []
         \<and> set (m_allowed_operations child) \<subseteq> set (m_allowed_operations parent))
    \<and> instant (m_valid_until child) \<le> instant (m_valid_until parent)
    \<and> m_current_aggregate_spend parent + m_reserved_spend parent
        + m_delegated_child_budget_allocated parent + m_aggregate_spend_limit child
        \<le> m_aggregate_spend_limit parent
    \<and> tget m_id pid (mandates w') = Some (allocate_child (m_aggregate_spend_limit child) parent)"
proof -
  from delegate_Inr [OF assms(1)] obtain parent cur where
    parent: "tget m_id pid (mandates w) = Some parent" "m_status parent = Mandate_ACTIVE"
    and valid: "validate_delegation_invariants parent p = Inr cur"
    and ms: "mandates w' = tupd m_id pid (allocate_child (md_aggregate_spend_limit p)) (mandates w) @ [child]"
    and child: "m_parent_mandate_id child = Some pid" "m_delegation_depth child = m_delegation_depth parent + 1"
      "m_currency child = cur" "m_max_amount_per_op child = md_max_amount_per_op p"
      "m_aggregate_spend_limit child = md_aggregate_spend_limit p"
      "m_allowed_operations child = list_or (md_allowed_operations p) (m_allowed_operations parent)"
      "m_valid_until child = md_valid_until p" by blast
  have "tget m_id pid (mandates w') = Some (allocate_child (m_aggregate_spend_limit child) parent)"
    using parent(1) by (simp add: ms child(5) tget_append allocate_row.tget_tupd)
  moreover have "m_current_aggregate_spend parent + m_reserved_spend parent
      + m_delegated_child_budget_allocated parent + m_aggregate_spend_limit child
      \<le> m_aggregate_spend_limit parent"
    using validate_delegation_Inr(6) [OF valid] assms(2) child(5) by (auto simp: valid_delegate_request_def)
  moreover have "m_allowed_operations parent \<noteq> [] \<longrightarrow> m_allowed_operations child \<noteq> []
      \<and> set (m_allowed_operations child) \<subseteq> set (m_allowed_operations parent)"
    using validate_delegation_Inr(4) [OF valid] child(6) by (auto simp: list_or_def)
  ultimately show ?thesis
    using parent child validate_delegation_Inr(1-3,5) [OF valid] by auto
qed

definition demo_delegate :: mandate_delegate_request where
  "demo_delegate = \<lparr>md_target_agent_id = ''help'', md_currency = None, md_max_amount_per_op = 300,
     md_aggregate_spend_limit = 700, md_review_threshold_amount = None, md_allowed_operations = [],
     md_valid_until = Naive demo_now\<rparr>"

lemma demo_delegate_runs:
  "\<exists>child w'. delegate_child_mandate demo_env ''root'' demo_delegate demo_world = (Inr child, w')"
proof -
  have "validate_delegation_invariants demo_root demo_delegate = Inr (str_upper ''INR'')"
    by (simp add: validate_delegation_invariants_def Let_def demo_delegate_def demo_root_def
        as_utc_def demo_now_def day_def sec_def)
  moreover have "uuid_text (uuid_hex demo_env 0) \<notin> {''root'', ''child'', ''supp''}"
    by (simp add: demo_env_def demo_uuid_text_new)
  ultimately show ?thesis
    by (auto simp: delegate_child_mandate_def Let_def demo_world_def demo_root_def [of]
        demo_child_def demo_support_def demo_agent_def table_simps flush_mandate_def
        generate_uuid_def draw_uuid_def demo_delegate_def upd_mandate_def allocate_child_def
        tget_None_iff)
qed

theorem delegation_never_escalates_witness:
  "\<exists>child w'. delegate_child_mandate demo_env ''root'' demo_delegate demo_world = (Inr child, w')
     \<and> m_max_amount_per_op child \<le> m_max_amount_per_op demo_root"
proof -
  obtain child w' where r: "delegate_child_mandate demo_env ''root'' demo_delegate demo_world = (Inr child, w')"
    using demo_delegate_runs by blast
  have "valid_delegate_request demo_delegate"
    by (simp add: valid_delegate_request_def demo_delegate_def)
  moreover have "tget m_id ''root'' (mandates demo_world) = Some demo_root"
    by (simp add: demo_world_def demo_root_def table_simps)
  ultimately show ?thesis using delegation_never_escalates [OF r] r by auto
qed

text \<open>
  C17: Every mandate route keeps the delegation tree well formed: identifiers unique, each parent
  present and one level up, and each mandate's delegated total equal to the sum of its children's
  limits; with \<open>depths_ok\<close> as a consequence, the engine's walk over ancestors always ends.
\<close>
theorem mandate_routes_keep_delegation_ok:
  assumes "delegation_ok (mandates w)"
  shows "delegation_ok (mandates (snd (create_mandate E cp w)))
    \<and> delegation_ok (mandates (snd (delegate_child_mandate E pid dp w)))
    \<and> delegation_ok (mandates (snd (suspend_mandate_cascade E i r w)))
    \<and> delegation_ok (mandates (snd (revoke_mandate_cascade E i r w)))
    \<and> delegation_ok (mandates (snd (activate_mandate i w)))
    \<and> depths_ok (mandates w)"
proof -
  have create: "delegation_ok (mandates (snd (create_mandate E cp w)))"
    using create_mandate_result [of E cp w] assms by (auto intro: delegation_ok_add_root)
  have delegate: "delegation_ok (mandates (snd (delegate_child_mandate E pid dp w)))"
  proof (cases "fst (delegate_child_mandate E pid dp w)")
    case (Inl e)
    then show ?thesis using delegate_Inl [of E pid dp w e] assms by simp
  next
    case (Inr child)
    then have "delegate_child_mandate E pid dp w = (Inr child, snd (delegate_child_mandate E pid dp w))"
      by (simp add: prod_eq_iff)
    from delegate_Inr [OF this] show ?thesis
      using delegation_ok_add_child [OF assms] by (auto dest: tget_SomeD)
  qed
  have "map grant_of (mandates (snd (change_with_cascade E t d i r w))) = map grant_of (mandates w)" for t d
    unfolding change_with_cascade_def Let_def by (simp add: grants_cascade split: option.split)
  then have cascade: "delegation_ok (mandates (snd (change_with_cascade E t d i r w)))" for t d
    using delegation_ok_grants assms by blast
  have "map grant_of (mandates (snd (activate_mandate i w))) = map grant_of (mandates w)"
    by (auto simp: activate_mandate_def upd_mandate_def reactivate_def grant_of_def
        split: option.splits intro!: map_tupd_same)
  then have "delegation_ok (mandates (snd (activate_mandate i w)))"
    using delegation_ok_grants assms by blast
  with create delegate cascade delegation_ok_depths [OF assms] show ?thesis
    by (simp add: suspend_mandate_cascade_def revoke_mandate_cascade_def)
qed

lemma demo_delegation_ok: "delegation_ok (mandates demo_world)"
  by (simp add: delegation_ok_def children_total_def demo_world_def demo_root_def demo_child_def
      demo_support_def)

theorem mandate_routes_keep_delegation_ok_witness:
  "delegation_ok (mandates (snd (delegate_child_mandate demo_env ''root'' demo_delegate demo_world)))"
  using mandate_routes_keep_delegation_ok [OF demo_delegation_ok, of demo_env _ "''root''" demo_delegate]
  by blast

text \<open>
  What a cascade promises, over the answer of the route and the table it leaves: the answer is the
  stored row; every row keeps its identifier and its grant; the rows of the descendants carry the
  target status, and every other row is what it was.
\<close>

definition cascaded_to ::
    "mandate_status \<Rightarrow> string \<Rightarrow> world \<Rightarrow> (exn + mandate) \<times> world \<Rightarrow> bool" where
  "cascaded_to t i w out \<longleftrightarrow>
     (\<exists>m0. fst out = Inr m0 \<and> tget m_id i (mandates (snd out)) = Some m0 \<and> m_status m0 = t)
     \<and> map m_id (mandates (snd out)) = map m_id (mandates w)
     \<and> (\<forall>k m. tget m_id k (mandates w) = Some m \<longrightarrow>
          (\<exists>m'. tget m_id k (mandates (snd out)) = Some m'
             \<and> m' = m\<lparr>m_status := m_status m', m_suspension_reason := m_suspension_reason m',
                       m_version := m_version m'\<rparr>
             \<and> (if descendant (links (mandates w)) i k then m_status m' = t else m' = m)))"

lemma grant_of_eqD:
  assumes "grant_of m' = grant_of m"
  shows "m' = m\<lparr>m_status := m_status m', m_suspension_reason := m_suspension_reason m',
    m_version := m_version m'\<rparr>"
proof -
  have restore: "x = (grant_of x)\<lparr>m_status := m_status x, m_suspension_reason := m_suspension_reason x,
      m_version := m_version x\<rparr>" for x
    by (simp add: grant_of_def)
  have "m' = (grant_of m)\<lparr>m_status := m_status m', m_suspension_reason := m_suspension_reason m',
      m_version := m_version m'\<rparr>"
    using restore [of m'] assms by simp
  then show ?thesis by (simp add: grant_of_def)
qed

lemma change_with_cascade_cascades:
  assumes "tget m_id i (mandates w) = Some m"
  shows "cascaded_to t i w (change_with_cascade E t d i r w)"
proof -
  define w' where "w' = cascade_mandate_status E i t (str_or r d) w"
  have out: "change_with_cascade E t d i r w = (Inr (the (tget m_id i (mandates w'))), w')"
    using assms tget_SomeD [OF assms] by (simp add: change_with_cascade_def w'_def Let_def)
  note spec = cascade_spec [where w = w and E = E and r = i and t = t and re = "str_or r d", folded w'_def]
  have row: "\<exists>m'. tget m_id k (mandates w') = Some m'
      \<and> m' = m\<lparr>m_status := m_status m', m_suspension_reason := m_suspension_reason m',
                m_version := m_version m'\<rparr>
      \<and> (if descendant (links (mandates w)) i k then m_status m' = t else m' = m)"
    if m: "tget m_id k (mandates w) = Some m" for k m
  proof -
    have "map_option grant_of (tget m_id k (mandates w')) = map_option grant_of (tget m_id k (mandates w))"
      by (simp add: tget_grants w'_def grants_cascade)
    with m obtain m' where m': "tget m_id k (mandates w') = Some m'" "grant_of m' = grant_of m" by auto
    moreover from m' m spec(2) have "m' = m" if "\<not> descendant (links (mandates w)) i k"
      using that by simp
    moreover from m' spec(1) have "m_status m' = t" if "descendant (links (mandates w)) i k"
      using that by simp
    ultimately show ?thesis using grant_of_eqD by metis
  qed
  have "map m_id (mandates w') = map m_id (mandates w)"
    using arg_cong [OF spec(3), of "map fst"] by (simp add: links_def comp_def)
  moreover from row [OF assms] obtain m0 where "tget m_id i (mandates w') = Some m0" "m_status m0 = t"
    using descendant.self [of "links (mandates w)" i] by auto
  ultimately show ?thesis unfolding cascaded_to_def out using row by simp
qed

text \<open>
  C11: Suspension and revocation cascade: both routes, on a mandate that is stored, return its row;
  afterwards the mandate and every descendant of it carry SUSPENDED or REVOKED, nothing else of
  their grant changed, and no other mandate is touched, even when parent links form a cycle.
\<close>
theorem cascade_reaches_all_descendants:
  assumes "tget m_id i (mandates w) = Some m"
  shows "cascaded_to Mandate_SUSPENDED i w (suspend_mandate_cascade E i r w)
    \<and> cascaded_to Mandate_REVOKED i w (revoke_mandate_cascade E i r w)"
  using change_with_cascade_cascades [OF assms]
  by (simp add: suspend_mandate_cascade_def revoke_mandate_cascade_def)

theorem cascade_reaches_all_descendants_witness:
  "\<exists>m m' m''. tget m_id ''child'' (mandates (snd (suspend_mandate_cascade demo_env ''root'' None demo_world)))
        = Some m \<and> m_status m = Mandate_SUSPENDED \<and> m_aggregate_spend_limit m = 1500
     \<and> tget m_id ''child'' (mandates (snd (revoke_mandate_cascade demo_env ''root'' None demo_world)))
        = Some m' \<and> m_status m' = Mandate_REVOKED
     \<and> tget m_id ''supp'' (mandates (snd (revoke_mandate_cascade demo_env ''root'' None demo_world)))
        = Some m'' \<and> m'' = demo_support"
proof -
  have row: "tget m_id ''root'' (mandates demo_world) = Some demo_root"
    and child: "tget m_id ''child'' (mandates demo_world) = Some demo_child"
    and supp: "tget m_id ''supp'' (mandates demo_world) = Some demo_support"
    by (auto simp: demo_world_def demo_root_def demo_child_def demo_support_def table_simps)
  have L: "links (mandates demo_world) = [(''root'', None), (''child'', Some ''root''), (''supp'', None)]"
    by (simp add: links_def demo_world_def demo_root_def demo_child_def demo_support_def)
  have below: "descendant (links (mandates demo_world)) ''root'' ''child''"
    by (rule descendant.child [OF descendant.self]) (simp add: L)
  have no: "\<not> descendant (links (mandates demo_world)) ''root'' ''supp''"
    by (auto simp: L elim: descendant.cases)
  note both = cascade_reaches_all_descendants [OF row, of demo_env None, unfolded cascaded_to_def]
  have suspended: "\<exists>m. tget m_id ''child''
        (mandates (snd (suspend_mandate_cascade demo_env ''root'' None demo_world))) = Some m
      \<and> m = demo_child\<lparr>m_status := m_status m, m_suspension_reason := m_suspension_reason m,
                m_version := m_version m\<rparr> \<and> m_status m = Mandate_SUSPENDED"
    using both [THEN conjunct1, THEN conjunct2, THEN conjunct2, rule_format, OF child] below by simp
  then obtain m where m: "tget m_id ''child''
        (mandates (snd (suspend_mandate_cascade demo_env ''root'' None demo_world))) = Some m"
      "m = demo_child\<lparr>m_status := m_status m, m_suspension_reason := m_suspension_reason m,
                m_version := m_version m\<rparr>" "m_status m = Mandate_SUSPENDED" by blast
  have limit: "m_aggregate_spend_limit m = 1500"
    using arg_cong [OF m(2), of m_aggregate_spend_limit] by (simp add: demo_child_def)
  note revoked = both [THEN conjunct2, THEN conjunct2, THEN conjunct2, rule_format]
  show ?thesis using m(1,3) limit revoked [OF child] revoked [OF supp] below no by auto
qed

text \<open>
  Revocation is not permanent: activating a REVOKED root mandate succeeds and makes it ACTIVE
  again, because \<open>activate_mandate\<close> looks at the parent's status only.
\<close>
theorem revoked_mandate_can_be_reactivated:
  assumes "tget m_id i (mandates w) = Some m" and "m_status m = Mandate_REVOKED"
    and "m_parent_mandate_id m = None"
  shows "\<exists>m'. fst (activate_mandate i w) = Inr m' \<and> m_status m' = Mandate_ACTIVE
    \<and> tget m_id i (mandates (snd (activate_mandate i w))) = Some m'"
proof -
  have "m_id (reactivate m) = m_id m" for m by (simp add: reactivate_def)
  with assms show ?thesis
    by (simp add: activate_mandate_def upd_mandate_def tget_tupd_key) (simp add: reactivate_def)
qed

theorem revoked_mandate_can_be_reactivated_witness:
  "\<exists>m'. fst (activate_mandate ''root''
      (demo_world\<lparr>mandates := [demo_root\<lparr>m_status := Mandate_REVOKED\<rparr>]\<rparr>)) = Inr m'
     \<and> m_status m' = Mandate_ACTIVE"
  using revoked_mandate_can_be_reactivated [of "''root''"
      "demo_world\<lparr>mandates := [demo_root\<lparr>m_status := Mandate_REVOKED\<rparr>]\<rparr>"
      "demo_root\<lparr>m_status := Mandate_REVOKED\<rparr>"]
  by (auto simp: demo_root_def table_simps)

end
