(* ===== verification/Operations.thy ===== *)
theory Operations
  imports Budget Policy_Engine Razorpay_Client Auth Mandates
begin

text \<open>
  The financial operation routes of \<^verbatim>\<open>apps/api/routes/operations.py\<close>. A request runs in three
  phases: admission (authentication, idempotency, the new row, the policy decision), the atomic
  reservation, and the gateway dispatch with its commit or release; \<open>request_financial_operation\<close>
  composes them as the handler does, and the phases are separate definitions because requests
  interleave between them. Then human approval and payment verification. An exception rolls the
  tables back, not what was sent to the gateway.
\<close>

section \<open>Requests\<close>

record operation_create =
  oc_idempotency_key :: string
  oc_agent_id :: string
  oc_mandate_id :: string
  oc_operation_type :: operation_type
  oc_amount :: int
  oc_currency :: string
  oc_payload :: dict

record human_approval =
  ha_approved_by_id :: string
  ha_approved :: bool
  ha_reason :: "string option"

record payment_verify =
  pv_razorpay_order_id :: string
  pv_razorpay_payment_id :: string
  pv_razorpay_signature :: string

definition valid_operation_create :: "operation_create \<Rightarrow> bool" where
  "valid_operation_create p \<longleftrightarrow> 0 < oc_amount p
     \<and> 8 \<le> length (oc_idempotency_key p) \<and> length (oc_idempotency_key p) \<le> 128"

section \<open>Reading\<close>

definition list_operations :: "world \<Rightarrow> operation list" where
  "list_operations w = newest_first o_created_at (operations w)"

text \<open>The column \<open>operation_id\<close> is unique, so the query has at most one row.\<close>

abbreviation operation_by_id :: "world \<Rightarrow> string \<Rightarrow> operation option" where
  "operation_by_id w i \<equiv> tget o_operation_id i (operations w)"

definition get_operation :: "string \<Rightarrow> world \<Rightarrow> exn + operation" where
  "get_operation operation_id w =
     (case operation_by_id w operation_id of
        None \<Rightarrow> Inl (HTTPException 404 ''Operation not found'')
      | Some op \<Rightarrow> Inr op)"

section \<open>Admission\<close>

definition hdr_truthy :: "hdr \<Rightarrow> bool" where
  "hdr_truthy h \<longleftrightarrow> (case h of HNone \<Rightarrow> False | HStr s \<Rightarrow> s \<noteq> [] | HDefault \<Rightarrow> True)"

text \<open>
  \<open>db.add(operation)\<close> and the flush: key and trace id are drawn, and the unique columns must
  not hold the new values yet.
\<close>

definition flush_operation :: "env \<Rightarrow> operation \<Rightarrow> world \<Rightarrow> (exn + operation) \<times> world" where
  "flush_operation E op w =
     (let (i, w) = generate_uuid E w;
          (h, w) = draw_uuid E w;
          op = op\<lparr>o_id := i, o_trace_id := ''tr_'' @ take 16 h\<rparr>
      in if get_operation_row w i \<noteq> None \<or> operation_by_id w (o_operation_id op) \<noteq> None
            \<or> tget o_idempotency_key (o_idempotency_key op) (operations w) \<noteq> None
         then (Inl DatabaseError, w)
         else (Inr op, w\<lparr>operations := operations w @ [op]\<rparr>))"

definition set_status :: "operation_status \<Rightarrow> operation \<Rightarrow> operation" where
  "set_status s op = op\<lparr>o_status := s\<rparr>"

definition finish_with :: "operation_status \<Rightarrow> string \<Rightarrow> operation \<Rightarrow> operation" where
  "finish_with s message op = op\<lparr>o_status := s, o_error_message := Some message\<rparr>"

definition set_details :: "evaluation \<Rightarrow> operation \<Rightarrow> operation" where
  "set_details r op = op\<lparr>o_policy_evaluation_details := Some r\<rparr>"

text \<open>
  \<open>Finished pk\<close>: the handler returns the operation of this key. \<open>Allowed pk m r\<close>: it goes on to
  reserve on mandate \<open>m\<close>, with the policy result \<open>r\<close>.
\<close>

datatype admission = Finished string | Allowed string string evaluation

definition new_operation :: "env \<Rightarrow> operation_create \<Rightarrow> string \<Rightarrow> operation" where
  "new_operation E payload op_id =
     \<lparr>o_id = [], o_operation_id = op_id, o_idempotency_key = oc_idempotency_key payload,
      o_agent_id = oc_agent_id payload, o_mandate_id = oc_mandate_id payload,
      o_operation_type = oc_operation_type payload, o_status = Op_INITIATED,
      o_amount = oc_amount payload, o_currency = str_upper (oc_currency payload),
      o_payload = oc_payload payload, o_policy_evaluation_details = None, o_error_message = None,
      o_approved_by_id = None, o_trace_id = [], o_created_at = utc_now E\<rparr>"

definition request_caller ::
    "env \<Rightarrow> operation_create \<Rightarrow> hdr \<Rightarrow> hdr \<Rightarrow> hdr \<Rightarrow> world \<Rightarrow> exn + agent option" where
  "request_caller E payload x_agent_key authorization x_agent_id w =
     (if hdr_truthy x_agent_key \<or> hdr_truthy authorization
      then authenticate_agent_caller E w x_agent_key authorization
             (if hdr_truthy x_agent_id then x_agent_id else HStr (oc_agent_id payload)) False
      else Inr None)"

text \<open>What follows the flush: the decision, its audit event and its consequences.\<close>

definition decide_operation ::
    "env \<Rightarrow> operation_create \<Rightarrow> agent \<Rightarrow> mandate \<Rightarrow> operation \<Rightarrow> world \<Rightarrow> (exn + admission) \<times> world"
where
  "decide_operation E payload agent mandate op w =
     (case policy_evaluate E False agent mandate op w of
        None \<Rightarrow> (Inl NoReturn, w)
      | Some (policy_result, w) \<Rightarrow>
          let w = upd_operation (o_id op) (set_details policy_result) w;
              w = add_audit E POLICY_EVALUATED (oc_agent_id payload) ''AGENT'' (o_operation_id op)
                    ''FINANCIAL_OPERATION''
                    [(''amount'', JInt (o_amount op)),
                     (''decision'', JStr (policy_decision_value (r_decision policy_result))),
                     (''reasons'', JList (map JStr (if \<not> r_approved policy_result
                        then r_rejection_reasons policy_result
                        else r_review_reasons policy_result)))]
                    None (Some [(''status'', JStr (operation_status_value (o_status op)))]) w
          in (case r_decision policy_result of
                DENY \<Rightarrow> (Inr (Finished (o_id op)),
                  upd_operation (o_id op) (finish_with Op_POLICY_REJECTED
                    (str_join ''; '' (r_rejection_reasons policy_result))) w)
              | REQUIRE_HUMAN_REVIEW \<Rightarrow> (Inr (Finished (o_id op)),
                  upd_operation (o_id op) (finish_with Op_REQUIRES_APPROVAL
                    (str_join ''; '' (r_review_reasons policy_result))) w)
              | ALLOW \<Rightarrow> (Inr (Allowed (o_id op) (m_id mandate) policy_result), w)))"

definition admit_operation ::
    "env \<Rightarrow> operation_create \<Rightarrow> hdr \<Rightarrow> hdr \<Rightarrow> hdr \<Rightarrow> world \<Rightarrow> (exn + admission) \<times> world" where
  "admit_operation E payload x_agent_key authorization x_agent_id w =
     (case request_caller E payload x_agent_key authorization x_agent_id w of
        Inl e \<Rightarrow> (Inl e, w)
      | Inr active_agent \<Rightarrow>
          if (case active_agent of None \<Rightarrow> False | Some a \<Rightarrow> a_id a \<noteq> oc_agent_id payload) then
            (Inl (HTTPException 403 (''Agent identity mismatch: Authenticated as ''
               @ quote (a_id (the active_agent)) @ '', but payload requested ''
               @ quote (oc_agent_id payload))), w)
          else (case tget o_idempotency_key (oc_idempotency_key payload) (operations w) of
              Some existing_op \<Rightarrow> (Inr (Finished (o_id existing_op)), w)
            | None \<Rightarrow>
                (case get_mandate_row w (oc_mandate_id payload) of
                   None \<Rightarrow> (Inl (HTTPException 404 ''Mandate not found''), w)
                 | Some mandate \<Rightarrow>
                     (case get_agent_row w (oc_agent_id payload) of
                        None \<Rightarrow> (Inl (HTTPException 404 ''Agent not found''), w)
                      | Some agent \<Rightarrow>
                          let (h, w1) = draw_uuid E w;
                              op_id = ''op_'' @ take 16 h
                          in (case flush_operation E (new_operation E payload op_id) w1 of
                                (Inl e, w2) \<Rightarrow> (Inl e, w2)
                              | (Inr op, w2) \<Rightarrow> decide_operation E payload agent mandate op w2)))))"

section \<open>Reservation\<close>

definition exhausted_text :: string where
  "exhausted_text = ''Mandate aggregate budget limit exhausted during concurrent reservation''"

text \<open>
  The reservation of an allowed request. The audit event's new state adds the amount to a
  \<open>reserved_spend\<close> that the session has already updated.
\<close>

definition reserve_operation ::
    "env \<Rightarrow> operation_create \<Rightarrow> string \<Rightarrow> string \<Rightarrow> evaluation \<Rightarrow> world \<Rightarrow> bool \<times> world" where
  "reserve_operation E payload op_pk mandate_id policy_result w =
     (let (reserved, w) = reserve_budget mandate_id (oc_amount payload) w in
      if \<not> reserved then
        let policy_result = policy_result\<lparr>r_decision := DENY, r_approved := False,
              r_rejection_reasons := r_rejection_reasons policy_result @ [exhausted_text]\<rparr>
        in (False, upd_operation op_pk (\<lambda>op. set_details policy_result
              (finish_with Op_POLICY_REJECTED exhausted_text op)) w)
      else
        let w = upd_operation op_pk (set_status Op_RESERVED) w;
            op_id = (case get_operation_row w op_pk of None \<Rightarrow> [] | Some op \<Rightarrow> o_operation_id op);
            reserved_spend = (case get_mandate_row w mandate_id of None \<Rightarrow> 0
              | Some m \<Rightarrow> m_reserved_spend m)
        in (True, add_audit E BUDGET_RESERVED ''POLICY_ENGINE'' ''SYSTEM'' mandate_id ''MANDATE''
              [(''reserved_amount'', JInt (oc_amount payload)), (''operation_id'', JStr op_id)]
              None (Some [(''reserved_spend'', JInt (reserved_spend + oc_amount payload))]) w))"

section \<open>Gateway dispatch\<close>

definition gateway_transaction :: "env \<Rightarrow> operation \<Rightarrow> int \<Rightarrow> string \<Rightarrow> transaction" where
  "gateway_transaction E op amount currency =
     \<lparr>t_id = [], t_operation_id = o_id op, t_gateway_name = ''RAZORPAY'',
      t_gateway_order_id = None, t_gateway_payment_id = None, t_gateway_refund_id = None,
      t_gateway_payment_link_id = None, t_gateway_payment_link_url = None, t_amount = amount,
      t_currency = currency, t_status = Tx_CREATED, t_gateway_response = [],
      t_error_code = None, t_error_description = None, t_created_at = utc_now E\<rparr>"

text \<open>\<open>db.add(tx)\<close>: the key is drawn when the session is flushed.\<close>

definition add_transaction :: "env \<Rightarrow> transaction \<Rightarrow> world \<Rightarrow> world" where
  "add_transaction E tx w =
     (let (i, w) = generate_uuid E w
      in w\<lparr>transactions := transactions w @ [tx\<lparr>t_id := i\<rparr>]\<rparr>)"

definition order_request_of :: "operation \<Rightarrow> dict \<Rightarrow> exn + order_request" where
  "order_request_of op payload =
     bindE (opt_str_default payload ''receipt'' (Some (''rcpt_'' @ take 10 (o_operation_id op))))
       (\<lambda>receipt. mk_order_request (o_amount op) (o_currency op) receipt
          [(''operation_id'', o_operation_id op), (''agent_id'', o_agent_id op)])"

definition link_request_of :: "operation \<Rightarrow> dict \<Rightarrow> exn + payment_link_request" where
  "link_request_of op payload =
     bindE (str_default payload ''description'' (''Mandate Link for '' @ o_agent_id op))
       (\<lambda>description.
     bindE (opt_str_default payload ''customer_name'' None) (\<lambda>name.
     bindE (opt_str_default payload ''customer_email'' None) (\<lambda>email.
     bindE (opt_str_default payload ''customer_contact'' None) (\<lambda>contact.
       Inr \<lparr>lrq_amount = o_amount op, lrq_currency = o_currency op, lrq_description = description,
            lrq_customer_name = name, lrq_customer_email = email, lrq_customer_contact = contact,
            lrq_notes = [(''operation_id'', o_operation_id op)]\<rparr>))))"

definition refund_request_of :: "operation \<Rightarrow> dict \<Rightarrow> exn + refund_request" where
  "refund_request_of op payload =
     (case dget payload ''payment_id'' of
        None \<Rightarrow> Inl (ValueError ''Refund requires payment_id in payload'')
      | Some j \<Rightarrow>
          if \<not> jtruthy j then Inl (ValueError ''Refund requires payment_id in payload'')
          else (case j of
              JStr payment_id \<Rightarrow>
                Inr \<lparr>rrq_payment_id = payment_id, rrq_amount = Some (o_amount op),
                     rrq_notes = [(''operation_id'', o_operation_id op)], rrq_speed = ''normal''\<rparr>
            | _ \<Rightarrow> Inl (ValidationError ''payment_id'')))"

text \<open>The \<open>try\<close> block up to the commit: the gateway's answer as a transaction, or the exception.\<close>

definition dispatch_order ::
    "env \<Rightarrow> operation \<Rightarrow> dict \<Rightarrow> world \<Rightarrow> (exn + unit) \<times> world" where
  "dispatch_order E op payload w =
     (case order_request_of op payload of
        Inl e \<Rightarrow> (Inl e, w)
      | Inr order_req \<Rightarrow>
          (case create_order E (razorpay_client E) order_req w of
             (Inl e, w) \<Rightarrow> (Inl e, w)
           | (Inr rzp_order, w) \<Rightarrow>
               (Inr (), upd_operation (o_id op) (set_status Op_EXECUTING)
                 (add_transaction E ((gateway_transaction E op (ors_amount rzp_order)
                    (ors_currency rzp_order))
                    \<lparr>t_gateway_order_id := Some (ors_id rzp_order),
                     t_gateway_response := order_dump rzp_order\<rparr>) w))))"

definition dispatch_link ::
    "env \<Rightarrow> operation \<Rightarrow> dict \<Rightarrow> world \<Rightarrow> (exn + unit) \<times> world" where
  "dispatch_link E op payload w =
     (case link_request_of op payload of
        Inl e \<Rightarrow> (Inl e, w)
      | Inr plink_req \<Rightarrow>
          (case create_payment_link E (razorpay_client E) plink_req w of
             (Inl e, w) \<Rightarrow> (Inl e, w)
           | (Inr rzp_link, w) \<Rightarrow>
               (Inr (), upd_operation (o_id op) (set_status Op_EXECUTING)
                 (add_transaction E ((gateway_transaction E op (lrs_amount rzp_link)
                    (lrs_currency rzp_link))
                    \<lparr>t_gateway_payment_link_id := Some (lrs_id rzp_link),
                     t_gateway_payment_link_url := Some (lrs_short_url rzp_link),
                     t_gateway_response := payment_link_dump rzp_link\<rparr>) w))))"

definition dispatch_refund ::
    "env \<Rightarrow> string \<Rightarrow> operation \<Rightarrow> dict \<Rightarrow> world \<Rightarrow> (exn + unit) \<times> world" where
  "dispatch_refund E mandate_id op payload w =
     (case refund_request_of op payload of
        Inl e \<Rightarrow> (Inl e, w)
      | Inr refund_req \<Rightarrow>
          (case create_refund E (razorpay_client E) refund_req w of
             (Inl e, w) \<Rightarrow> (Inl e, w)
           | (Inr rzp_refund, w) \<Rightarrow>
               let tx = (gateway_transaction E op (rrs_amount rzp_refund) (rrs_currency rzp_refund))
                     \<lparr>t_gateway_payment_id := Some (rrq_payment_id refund_req),
                      t_gateway_refund_id := Some (rrs_id rzp_refund),
                      t_status := (if rrs_status rzp_refund = ''processed'' then Tx_REFUNDED
                                   else Tx_CREATED),
                      t_gateway_response := refund_dump rzp_refund\<rparr>;
                   w = add_transaction E tx w;
                   w = upd_operation (o_id op) (set_status Op_SUCCEEDED) w
               in (Inr (), commit_budget mandate_id (o_amount op) False w)))"

definition dispatch ::
    "env \<Rightarrow> string \<Rightarrow> operation \<Rightarrow> dict \<Rightarrow> world \<Rightarrow> (exn + unit) \<times> world" where
  "dispatch E mandate_id op payload w =
     (case o_operation_type op of
        CREATE_ORDER \<Rightarrow> dispatch_order E op payload w
      | CREATE_PAYMENT_LINK \<Rightarrow> dispatch_link E op payload w
      | CREATE_REFUND \<Rightarrow> dispatch_refund E mandate_id op payload w
      | CAPTURE_PAYMENT \<Rightarrow> (Inr (), w)
      | CANCEL_PAYMENT_LINK \<Rightarrow> (Inr (), w))"

definition execute_gateway_operation ::
    "env \<Rightarrow> string \<Rightarrow> operation \<Rightarrow> dict \<Rightarrow> world \<Rightarrow> world" where
  "execute_gateway_operation E mandate_id op payload w =
     (case dispatch E mandate_id op payload w of
        (Inr _, w) \<Rightarrow> w
      | (Inl e, w) \<Rightarrow>
          let w = release_budget mandate_id (o_amount op) w;
              w = upd_operation (o_id op) (finish_with Op_FAILED (exn_text E e)) w
          in add_audit E BUDGET_RELEASED ''POLICY_ENGINE'' ''SYSTEM'' mandate_id ''MANDATE''
               [(''released_amount'', JInt (o_amount op)),
                (''reason'', JStr ''Gateway dispatch failure'')] None None w)"

section \<open>The request handler\<close>

definition operation_row :: "string \<Rightarrow> world \<Rightarrow> (exn + operation) \<times> world" where
  "operation_row op_pk w =
     (case get_operation_row w op_pk of
        None \<Rightarrow> (Inl DatabaseError, w)
      | Some op \<Rightarrow> (Inr op, w))"

definition dispatch_reserved ::
    "env \<Rightarrow> string \<Rightarrow> string \<Rightarrow> dict \<Rightarrow> world \<Rightarrow> world" where
  "dispatch_reserved E op_pk mandate_id payload w =
     (case get_operation_row w op_pk of
        None \<Rightarrow> w
      | Some op \<Rightarrow> execute_gateway_operation E mandate_id op payload w)"

definition request_financial_operation ::
    "env \<Rightarrow> operation_create \<Rightarrow> hdr \<Rightarrow> hdr \<Rightarrow> hdr \<Rightarrow> world \<Rightarrow> (exn + operation) \<times> world" where
  "request_financial_operation E payload x_agent_key authorization x_agent_id w =
     (case admit_operation E payload x_agent_key authorization x_agent_id w of
        (Inl e, w') \<Rightarrow> (Inl e, rollback w w')
      | (Inr (Finished op_pk), w') \<Rightarrow> operation_row op_pk w'
      | (Inr (Allowed op_pk mandate_id policy_result), w') \<Rightarrow>
          let (reserved, w') = reserve_operation E payload op_pk mandate_id policy_result w' in
          if \<not> reserved then operation_row op_pk w'
          else operation_row op_pk (dispatch_reserved E op_pk mandate_id (oc_payload payload) w'))"

section \<open>Human approval\<close>

definition approve_with :: "string \<Rightarrow> operation \<Rightarrow> operation" where
  "approve_with principal_id op = op\<lparr>o_approved_by_id := Some principal_id, o_status := Op_RESERVED\<rparr>"

definition human_approve_operation ::
    "env \<Rightarrow> string \<Rightarrow> human_approval \<Rightarrow> world \<Rightarrow> (exn + operation) \<times> world" where
  "human_approve_operation E operation_id approval w =
     (case operation_by_id w operation_id of
        None \<Rightarrow> (Inl (HTTPException 404 ''Operation not found''), w)
      | Some op \<Rightarrow>
          if o_status op \<noteq> Op_REQUIRES_APPROVAL then
            (Inl (HTTPException 400 (''Operation is in status ''
               @ operation_status_value (o_status op) @ '', cannot approve'')), w)
          else if get_mandate_row w (o_mandate_id op) = None then
            (Inl (HTTPException 404 ''Mandate not found''), w)
          else if \<not> ha_approved approval then
            let message = str_or (ha_reason approval) ''Human review rejected operation'';
                w = upd_operation (o_id op) (finish_with Op_POLICY_REJECTED message) w
            in operation_row (o_id op)
                 (add_audit E HUMAN_APPROVAL_REJECTED (ha_approved_by_id approval) ''PRINCIPAL''
                   operation_id ''FINANCIAL_OPERATION'' [(''reason'', JStr message)] None
                   (Some [(''status'', JStr (operation_status_value Op_POLICY_REJECTED))]) w)
          else
            let (reserved, w) = reserve_budget (o_mandate_id op) (o_amount op) w in
            if \<not> reserved then
              operation_row (o_id op) (upd_operation (o_id op) (finish_with Op_POLICY_REJECTED
                ''Budget limit exhausted before approval could reserve funds'') w)
            else
              let w = upd_operation (o_id op) (approve_with (ha_approved_by_id approval)) w;
                  w = add_audit E HUMAN_APPROVAL_GRANTED (ha_approved_by_id approval) ''PRINCIPAL''
                    operation_id ''FINANCIAL_OPERATION''
                    [(''approved_by'', JStr (ha_approved_by_id approval)),
                     (''amount'', JInt (o_amount op))] None
                    (Some [(''status'', JStr (operation_status_value Op_RESERVED))]) w
              in operation_row (o_id op)
                   (dispatch_reserved E (o_id op) (o_mandate_id op) (o_payload op) w))"

section \<open>Payment verification\<close>

definition capture_tx :: "string \<Rightarrow> transaction \<Rightarrow> transaction" where
  "capture_tx payment_id tx = tx\<lparr>t_gateway_payment_id := Some payment_id, t_status := Tx_CAPTURED\<rparr>"

definition verify_payment ::
    "env \<Rightarrow> string \<Rightarrow> payment_verify \<Rightarrow> world \<Rightarrow> (exn + dict) \<times> world" where
  "verify_payment E operation_id payload w0 =
     (case operation_by_id w0 operation_id of
        None \<Rightarrow> (Inl (HTTPException 404 ''Financial operation not found''), w0)
      | Some op \<Rightarrow>
          if \<not> verify_payment_signature E (razorpay_client E) (pv_razorpay_order_id payload)
               (pv_razorpay_payment_id payload) (pv_razorpay_signature payload) None then
            (Inl (HTTPException 400 ''Invalid Razorpay signature''), w0)
          else
            let w = commit_budget (o_mandate_id op) (o_amount op) True w0;
                w = add_audit E BUDGET_COMMITTED ''SYSTEM'' ''SYSTEM'' (o_mandate_id op) ''MANDATE''
                  [(''committed_amount'', JInt (o_amount op)), (''operation_id'', JStr operation_id)]
                  None None w
            in (case one_or_none (filter (\<lambda>t. t_operation_id t = o_id op) (transactions w)) of
                  Inl e \<Rightarrow> (Inl e, rollback w0 w)
                | Inr tx \<Rightarrow>
                    let w = (case tx of None \<Rightarrow> w | Some t \<Rightarrow>
                               upd_transaction (t_id t) (capture_tx (pv_razorpay_payment_id payload)) w);
                        w = upd_operation (o_id op) (set_status Op_SUCCEEDED) w;
                        w = add_audit E TRANSACTION_RECORDED (o_agent_id op) ''AGENT'' operation_id
                          ''FINANCIAL_OPERATION''
                          [(''order_id'', JStr (pv_razorpay_order_id payload)),
                           (''payment_id'', JStr (pv_razorpay_payment_id payload)),
                           (''verified'', JBool True)] None
                          (Some [(''status'', JStr (operation_status_value Op_SUCCEEDED))]) w
                    in (Inr [(''verified'', JBool True), (''operation_id'', JStr operation_id),
                             (''status'', JStr ''SUCCEEDED''),
                             (''payment_id'', JStr (pv_razorpay_payment_id payload))], w)))"

section \<open>What each step changes\<close>

lemma add_transaction_fields [simp]:
  "mandates (add_transaction E t w) = mandates w" "operations (add_transaction E t w) = operations w"
  "agents (add_transaction E t w) = agents w"
  "gateway_calls (add_transaction E t w) = gateway_calls w"
  "http_log (add_transaction E t w) = http_log w"
  by (simp_all add: add_transaction_def generate_uuid_def draw_uuid_def Let_def)

lemma upd_fields [simp]:
  "mandates (upd_operation i f w) = mandates w" "transactions (upd_operation i f w) = transactions w"
  "agents (upd_operation i f w) = agents w"
  "gateway_calls (upd_operation i f w) = gateway_calls w" "http_log (upd_operation i f w) = http_log w"
  "operations (upd_mandate k g w) = operations w" "transactions (upd_mandate k g w) = transactions w"
  "agents (upd_mandate k g w) = agents w"
  "gateway_calls (upd_mandate k g w) = gateway_calls w" "http_log (upd_mandate k g w) = http_log w"
  "mandates (upd_transaction j h w) = mandates w" "operations (upd_transaction j h w) = operations w"
  "gateway_calls (upd_transaction j h w) = gateway_calls w"
  "operations (commit_budget k n b w) = operations w" "operations (release_budget k n w) = operations w"
  by (simp_all add: upd_operation_def upd_mandate_def upd_transaction_def commit_budget_def
      release_budget_def)

lemma commit_budget_commute:
  "commit_budget k n b (upd_operation i f w) = upd_operation i f (commit_budget k n b w)"
  by (simp add: commit_budget_def upd_mandate_def upd_operation_def)

lemma lview_simps [simp]:
  "lview (add_audit E ac a b c d p q n w) = lview w"
  "lview (add_transaction E t w) = lview w"
  "lview (upd_transaction i h w) = lview w"
  by (rule lview_cong; simp)+

lemma lview_only_meters: "only_meters w w' \<Longrightarrow> lview w' = lview w"
  by (rule lview_cong) (simp_all add: only_meters_fields)

lemma lview_same_tables: "same_tables w w' \<Longrightarrow> lview w' = lview w"
  by (rule lview_cong) (simp_all add: same_tables_fields)

text \<open>The row functions keep the key, the mandate and the amount of an operation.\<close>

definition keeps_entry :: "(operation \<Rightarrow> operation) \<Rightarrow> bool" where
  "keeps_entry f \<longleftrightarrow> (\<forall>r. o_id (f r) = o_id r \<and> o_mandate_id (f r) = o_mandate_id r
     \<and> o_amount (f r) = o_amount r \<and> o_idempotency_key (f r) = o_idempotency_key r
     \<and> o_agent_id (f r) = o_agent_id r \<and> o_operation_type (f r) = o_operation_type r
     \<and> o_operation_id (f r) = o_operation_id r)"

lemma keeps_entry_simps [simp]:
  "keeps_entry (set_status s)" "keeps_entry (finish_with s t)" "keeps_entry (set_details r)"
  "keeps_entry (approve_with p)" "keeps_entry (\<lambda>op. set_details r (finish_with s t op))"
  by (simp_all add: keeps_entry_def set_status_def finish_with_def set_details_def approve_with_def)

lemma row_status [simp]:
  "o_status (set_status s op) = s" "o_status (finish_with s t op) = s"
  "o_status (set_details r op) = o_status op" "o_status (approve_with p op) = Op_RESERVED"
  by (simp_all add: set_status_def finish_with_def set_details_def approve_with_def)

lemma tget_upd_operation:
  "keeps_entry f \<Longrightarrow> tget o_id k (operations (upd_operation i f w))
     = (if k = i then map_option f (tget o_id k (operations w)) else tget o_id k (operations w))"
  unfolding upd_operation_def by (simp add: keeps_entry_def tget_tupd_key)

interpretation status_row: keyed_update o_id "set_status s" for s
  by unfold_locales (simp add: set_status_def)

interpretation finish_row: keyed_update o_id "finish_with s t" for s t
  by unfold_locales (simp add: finish_with_def)

text \<open>A change of a row that holds nothing before and after leaves the ledger alone.\<close>

lemma lview_upd_free:
  assumes "keeps_entry f" and "tget o_id i (operations w) = Some op" and "distinct (map o_id (operations w))"
    and "in_flight (o_status (f op)) = in_flight (o_status op)"
  shows "lview (upd_operation i f w) = lview w"
proof (rule lview_upd_operation_same)
  fix x assume "x \<in> set (operations w)" and "o_id x = i"
  then have "x = op" using tget_in_set [OF assms(3)] assms(2) by fastforce
  then show "entry_of (f x) = entry_of x"
    using assms(1,4) by (simp add: entry_of_def keeps_entry_def)
qed

section \<open>Admission in detail\<close>

text \<open>\<open>quiet w w'\<close>: no budget, transaction, agent or gateway traffic changed.\<close>

definition quiet :: "world \<Rightarrow> world \<Rightarrow> bool" where
  "quiet w w' \<longleftrightarrow> mandates w' = mandates w \<and> transactions w' = transactions w
     \<and> agents w' = agents w \<and> gateway_calls w' = gateway_calls w \<and> http_log w' = http_log w"

lemma quiet_refl [simp]: "quiet w w"
  by (simp add: quiet_def)

lemma quiet_trans: "quiet a b \<Longrightarrow> quiet b c \<Longrightarrow> quiet a c"
  by (simp add: quiet_def)

lemma quiet_only_meters: "only_meters w w' \<Longrightarrow> quiet w w'"
  by (simp add: quiet_def only_meters_fields)

lemma quiet_upd [simp]:
  "quiet w (upd_operation i f v) = quiet w v"
  "quiet w (add_audit E ac a b c d p q n v) = quiet w v"
  by (simp_all add: quiet_def)

lemma quiet_draw [simp]: "quiet w (snd (draw_uuid E w))" "quiet w (snd (generate_uuid E w))"
  by (simp_all add: quiet_def draw_uuid_def generate_uuid_def Let_def)

lemma decide_operation_result:
  assumes "decide_operation E p a m op w = (r, w')"
  shows "\<exists>res f. quiet w w' \<and> operations w' = tupd o_id (o_id op) f (operations w) \<and> keeps_entry f
    \<and> ((\<exists>s. r = Inr (Finished (o_id op)) \<and> (s = Op_POLICY_REJECTED \<or> s = Op_REQUIRES_APPROVAL)
          \<and> (\<forall>x. o_status (f x) = s))
       \<or> r = Inr (Allowed (o_id op) (m_id m) res) \<and> (\<forall>x. o_status (f x) = o_status x)
          \<and> hard_checks E False a m op w \<and> \<not> needs_review m op)"
proof -
  obtain res w1 where ev: "policy_evaluate E False a m op w = Some (res, w1)"
    and dec: "r_decision res = (if \<not> hard_checks E False a m op w then DENY
                      else if needs_review m op then REQUIRE_HUMAN_REVIEW else ALLOW)"
    using policy_evaluate_total [of False w E a m op] by auto
  note meters = policy_evaluate_spec(4) [OF ev]
  let ?u = "upd_operation (o_id op) (set_details res) w1"
  have q: "quiet w w1" using meters by (rule quiet_only_meters)
  have two: "tupd o_id (o_id op) g (tupd o_id (o_id op) (set_details res) (operations w))
      = tupd o_id (o_id op) (\<lambda>x. g (set_details res x)) (operations w)" for g
    by (rule tupd_tupd_same) (simp add: set_details_def)
  have fin: ?thesis if "r = Inr (Finished (o_id op))"
    and "w' = upd_operation (o_id op) (finish_with s t) (add_audit E ac b c d e pl q' n ?u)"
    and "s = Op_POLICY_REJECTED \<or> s = Op_REQUIRES_APPROVAL" for s t ac b c d e pl q' n
  proof (intro exI [of _ res] exI [of _ "\<lambda>x. finish_with s t (set_details res x)"] conjI disjI1)
    show "quiet w w'" using that(2) q by simp
    show "operations w' = tupd o_id (o_id op) (\<lambda>x. finish_with s t (set_details res x)) (operations w)"
      using that(2) two by (simp add: upd_operation_def only_meters_fields [OF meters])
    show "keeps_entry (\<lambda>x. finish_with s t (set_details res x))"
      by (simp add: keeps_entry_def finish_with_def set_details_def)
    show "\<exists>s'. r = Inr (Finished (o_id op)) \<and> (s' = Op_POLICY_REJECTED \<or> s' = Op_REQUIRES_APPROVAL)
        \<and> (\<forall>x. o_status (finish_with s t (set_details res x)) = s')"
      using that(1,3) by simp
  qed
  show ?thesis
  proof (cases "r_decision res")
    case DENY
    with assms ev show ?thesis by (intro fin) (auto simp: decide_operation_def Let_def)
  next
    case REQUIRE_HUMAN_REVIEW
    with assms ev show ?thesis by (intro fin) (auto simp: decide_operation_def Let_def)
  next
    case ALLOW
    show ?thesis
    proof (intro exI [of _ res] exI [of _ "set_details res"] conjI disjI2)
      show "quiet w w'" and "operations w' = tupd o_id (o_id op) (set_details res) (operations w)"
        and "r = Inr (Allowed (o_id op) (m_id m) res)"
        using assms ev ALLOW q
        by (auto simp: decide_operation_def Let_def upd_operation_def only_meters_fields [OF meters]
            quiet_def)
      show "hard_checks E False a m op w" and "\<not> needs_review m op"
        using dec ALLOW by (auto split: if_splits)
    qed simp_all
  qed
qed

lemma flush_operation_Inr:
  assumes "flush_operation E op w = (Inr op', w')"
  shows "\<exists>i t n. op' = op\<lparr>o_id := i, o_trace_id := t\<rparr> \<and> i \<notin> o_id ` set (operations w)
    \<and> operation_by_id w (o_operation_id op) = None
    \<and> tget o_idempotency_key (o_idempotency_key op) (operations w) = None
    \<and> w' = w\<lparr>uuid_count := n, operations := operations w @ [op']\<rparr>"
  using assms
  by (auto simp: flush_operation_def generate_uuid_def draw_uuid_def Let_def tget_None_iff
      split: if_splits)

lemma flush_operation_Inl:
  "flush_operation E op w = (Inl e, w') \<Longrightarrow> quiet w w' \<and> operations w' = operations w"
  by (auto simp: flush_operation_def generate_uuid_def draw_uuid_def Let_def quiet_def split: if_splits)

text \<open>How an admission ends.\<close>

definition admitted_new ::
    "env \<Rightarrow> operation_create \<Rightarrow> world \<Rightarrow> (exn + admission) \<Rightarrow> world \<Rightarrow> operation \<Rightarrow> bool" where
  "admitted_new E p w r w' op \<longleftrightarrow> operations w' = operations w @ [op]
     \<and> o_id op \<notin> o_id ` set (operations w) \<and> o_mandate_id op = oc_mandate_id p
     \<and> o_amount op = oc_amount p \<and> o_idempotency_key op = oc_idempotency_key p
     \<and> o_agent_id op = oc_agent_id p \<and> o_operation_type op = oc_operation_type p
     \<and> (\<exists>m a. get_mandate_row w (oc_mandate_id p) = Some m \<and> get_agent_row w (oc_agent_id p) = Some a
         \<and> (r = Inr (Finished (o_id op))
              \<and> (o_status op = Op_POLICY_REJECTED \<or> o_status op = Op_REQUIRES_APPROVAL)
            \<or> (\<exists>res. r = Inr (Allowed (o_id op) (oc_mandate_id p) res)) \<and> o_status op = Op_INITIATED
              \<and> a_status a = Agent_ACTIVE \<and> m_status m = Mandate_ACTIVE
              \<and> oc_amount p \<le> m_max_amount_per_op m
              \<and> m_current_aggregate_spend m + m_reserved_spend m + oc_amount p
                  \<le> m_aggregate_spend_limit m))"

lemma admit_flushed:
  assumes m: "get_mandate_row w (oc_mandate_id p) = Some m" and a: "get_agent_row w (oc_agent_id p) = Some a"
    and w1: "quiet w w1" "operations w1 = operations w"
    and fl: "flush_operation E (new_operation E p i) w1 = (Inr op, w2)"
    and dec: "decide_operation E p a m op w2 = (r, w')"
  shows "quiet w w' \<and> (\<exists>op. admitted_new E p w r w' op)"
proof -
  from flush_operation_Inr [OF fl] obtain j t n where
    op: "op = (new_operation E p i)\<lparr>o_id := j, o_trace_id := t\<rparr>" "j \<notin> o_id ` set (operations w)"
    and w2: "w2 = w1\<lparr>uuid_count := n, operations := operations w @ [op]\<rparr>"
    using w1(2) by auto
  from decide_operation_result [OF dec] obtain res f where
    q: "quiet w2 w'" and ops: "operations w' = tupd o_id (o_id op) f (operations w2)" and keep: "keeps_entry f"
    and br: "(\<exists>s. r = Inr (Finished (o_id op)) \<and> (s = Op_POLICY_REJECTED \<or> s = Op_REQUIRES_APPROVAL)
          \<and> (\<forall>x. o_status (f x) = s))
       \<or> r = Inr (Allowed (o_id op) (m_id m) res) \<and> (\<forall>x. o_status (f x) = o_status x)
          \<and> hard_checks E False a m op w2 \<and> \<not> needs_review m op" by blast
  have "quiet w w'" using w1(1) q by (auto simp: quiet_def w2)
  moreover have ops': "operations w' = operations w @ [f op]"
    using op by (simp add: ops w2 table_simps tupd_absent)
  have row: "o_id (f op) = j" "o_mandate_id (f op) = oc_mandate_id p" "o_amount (f op) = oc_amount p"
    "o_idempotency_key (f op) = oc_idempotency_key p" "o_agent_id (f op) = oc_agent_id p"
    "o_operation_type (f op) = oc_operation_type p" "o_amount op = oc_amount p"
    "o_status op = Op_INITIATED" "o_id op = j"
    using keep by (simp_all add: op(1) keeps_entry_def new_operation_def)
  have mid: "m_id m = oc_mandate_id p" using m by (auto dest: tget_SomeD)
  have "admitted_new E p w r w' (f op)"
    using br row ops' op(2) m a mid by (auto simp: admitted_new_def hard_checks_def)
  ultimately show ?thesis by blast
qed

lemma admit_operation_cases:
  assumes "admit_operation E p k au i w = (r, w')"
  shows "quiet w w' \<and>
    ((\<exists>e. r = Inl e) \<and> operations w' = operations w
     \<or> (\<exists>op. tget o_idempotency_key (oc_idempotency_key p) (operations w) = Some op
          \<and> r = Inr (Finished (o_id op)) \<and> w' = w)
     \<or> (\<exists>op. admitted_new E p w r w' op))"
proof (cases "(\<exists>e. r = Inl e) \<and> w' = w
    \<or> (\<exists>op. tget o_idempotency_key (oc_idempotency_key p) (operations w) = Some op
          \<and> r = Inr (Finished (o_id op)) \<and> w' = w)")
  case True
  then show ?thesis by auto
next
  case False
  with assms obtain m a where m: "get_mandate_row w (oc_mandate_id p) = Some m"
    and a: "get_agent_row w (oc_agent_id p) = Some a"
    and run: "(let (h, w1) = draw_uuid E w; op_id = ''op_'' @ take 16 h
      in (case flush_operation E (new_operation E p op_id) w1 of
            (Inl e, w2) \<Rightarrow> (Inl e, w2)
          | (Inr op, w2) \<Rightarrow> decide_operation E p a m op w2)) = (r, w')"
    by (auto simp: admit_operation_def split: sum.splits option.splits if_splits)
  obtain h w1 where h: "draw_uuid E w = (h, w1)" by (cases "draw_uuid E w")
  have w1: "quiet w w1" "operations w1 = operations w"
    using h by (auto simp: draw_uuid_def quiet_def)
  obtain fr w2 where fr: "flush_operation E (new_operation E p (''op_'' @ take 16 h)) w1 = (fr, w2)"
    by (cases "flush_operation E (new_operation E p (''op_'' @ take 16 h)) w1")
  show ?thesis
  proof (cases fr)
    case (Inl e)
    with run h fr have "r = Inl e" "w' = w2" by auto
    with flush_operation_Inl [OF fr [unfolded Inl]] w1 show ?thesis by (auto intro: quiet_trans)
  next
    case (Inr op)
    with run h fr have "decide_operation E p a m op w2 = (r, w')" by simp
    with admit_flushed [OF m a w1 fr [unfolded Inr]] show ?thesis by blast
  qed
qed

section \<open>Dispatch in detail\<close>

text \<open>
  \<open>dispatched f b w w'\<close>: one gateway call at most; the operation's row changed by \<open>f\<close> (when
  given), and the mandate's budget was committed when \<open>b\<close> holds.
\<close>

definition dispatched ::
    "string \<Rightarrow> operation \<Rightarrow> operation_status option \<Rightarrow> bool \<Rightarrow> world \<Rightarrow> world \<Rightarrow> bool" where
  "dispatched k op s b w w' \<longleftrightarrow>
     operations w' = (case s of None \<Rightarrow> operations w
        | Some s \<Rightarrow> tupd o_id (o_id op) (set_status s) (operations w))
     \<and> mandates w' = (if b then mandates (commit_budget k (o_amount op) False w) else mandates w)
     \<and> agents w' = agents w
     \<and> (\<exists>cs. gateway_calls w' = gateway_calls w @ cs \<and> length cs \<le> 1)
     \<and> length (http_log w') \<le> Suc (length (http_log w))"

lemma dispatched_none: "dispatched k op None False w w"
  by (simp add: dispatched_def)

lemma dispatched_call:
  assumes "same_tables w v" and "gateway_calls v = gateway_calls w @ [c]"
    and "length (http_log v) \<le> length (http_log w) + 1"
  shows "dispatched k op None False w v"
    and "dispatched k op (Some s) False w (upd_operation (o_id op) (set_status s) (add_transaction E t v))"
    and "dispatched k op (Some s) True w
      (commit_budget k (o_amount op) False (upd_operation (o_id op) (set_status s) (add_transaction E t v)))"
  using assms
  by (simp_all add: dispatched_def same_tables_fields commit_budget_commute upd_operation_def)
    (simp_all add: commit_budget_def upd_mandate_def same_tables_fields)

lemma dispatch_order_result:
  assumes "dispatch_order E op p w = (r, w')"
  shows "(\<exists>e. r = Inl e) \<and> dispatched k op None False w w'
    \<or> r = Inr () \<and> dispatched k op (Some Op_EXECUTING) False w w'"
proof (cases "order_request_of op p")
  case (Inl e)
  with assms show ?thesis by (auto simp: dispatch_order_def dispatched_none)
next
  case (Inr rq)
  obtain x v where x: "create_order E (razorpay_client E) rq w = (x, v)"
    by (cases "create_order E (razorpay_client E) rq w")
  note call = order_api.keeps_tables [OF x] order_api.one_call [OF x]
    order_api.http_bound [of E "razorpay_client E" rq w, unfolded x, simplified]
  show ?thesis
    using assms Inr x dispatched_call [OF call(1,2)] call(3)
    by (cases x) (auto simp: dispatch_order_def)
qed

lemma dispatch_link_result:
  assumes "dispatch_link E op p w = (r, w')"
  shows "(\<exists>e. r = Inl e) \<and> dispatched k op None False w w'
    \<or> r = Inr () \<and> dispatched k op (Some Op_EXECUTING) False w w'"
proof (cases "link_request_of op p")
  case (Inl e)
  with assms show ?thesis by (auto simp: dispatch_link_def dispatched_none)
next
  case (Inr rq)
  obtain x v where x: "create_payment_link E (razorpay_client E) rq w = (x, v)"
    by (cases "create_payment_link E (razorpay_client E) rq w")
  note call = link_api.keeps_tables [OF x] link_api.one_call [OF x]
    link_api.http_bound [of E "razorpay_client E" rq w, unfolded x, simplified]
  show ?thesis
    using assms Inr x dispatched_call [OF call(1,2)] call(3)
    by (cases x) (auto simp: dispatch_link_def)
qed

lemma dispatch_refund_result:
  assumes "dispatch_refund E k op p w = (r, w')"
  shows "(\<exists>e. r = Inl e) \<and> dispatched k op None False w w'
    \<or> r = Inr () \<and> dispatched k op (Some Op_SUCCEEDED) True w w'"
proof (cases "refund_request_of op p")
  case (Inl e)
  with assms show ?thesis by (auto simp: dispatch_refund_def dispatched_none)
next
  case (Inr rq)
  obtain x v where x: "create_refund E (razorpay_client E) rq w = (x, v)"
    by (cases "create_refund E (razorpay_client E) rq w")
  note call = refund_api.keeps_tables [OF x] refund_api.one_call [OF x]
    refund_api.http_bound [of E "razorpay_client E" rq w, unfolded x, simplified]
  show ?thesis
    using assms Inr x dispatched_call [OF call(1,2)] call(3)
    by (cases x) (auto simp: dispatch_refund_def Let_def)
qed

lemma dispatch_result:
  assumes "dispatch E k op p w = (r, w')"
  shows "(\<exists>e. r = Inl e) \<and> dispatched k op None False w w'
    \<or> r = Inr () \<and> (dispatched k op None False w w' \<or> dispatched k op (Some Op_EXECUTING) False w w'
        \<or> dispatched k op (Some Op_SUCCEEDED) True w w' \<and> o_operation_type op = CREATE_REFUND)"
  using assms dispatch_order_result [of E op p w r w' k] dispatch_link_result [of E op p w r w' k]
    dispatch_refund_result [of E k op p w r w'] dispatched_none [of k op w]
  by (cases "o_operation_type op") (auto simp: dispatch_def)

section \<open>The ledger moves of the handlers\<close>

lemma lview_dispatched:
  "dispatched k op s b w w' \<Longrightarrow> lview w'
     = lview (let v = (if b then commit_budget k (o_amount op) False w else w)
        in case s of None \<Rightarrow> v | Some s \<Rightarrow> upd_operation (o_id op) (set_status s) v)"
  unfolding Let_def
  by (rule lview_cong) (auto simp: dispatched_def upd_operation_def split: option.splits)

lemma execute_ledger:
  assumes op: "tget o_id (o_id op) (operations w) = Some op" and held: "in_flight (o_status op)"
    and keys: "distinct (map o_id (operations w))" and k: "k = o_mandate_id op"
  shows "ledger_steps (lview w) (lview (execute_gateway_operation E k op p w))"
proof -
  obtain r w1 where r: "dispatch E k op p w = (r, w1)" by (cases "dispatch E k op p w")
  from dispatch_result [OF r] consider
      (raised) e where "r = Inl e" "dispatched k op None False w w1"
    | (idle) "r = Inr ()" "dispatched k op None False w w1"
    | (sent) "r = Inr ()" "dispatched k op (Some Op_EXECUTING) False w w1"
    | (paid) "r = Inr ()" "dispatched k op (Some Op_SUCCEEDED) True w w1" by blast
  then show ?thesis
  proof cases
    case (raised e)
    have tables: "operations w1 = operations w" "mandates w1 = mandates w"
      using raised(2) by (simp_all add: dispatched_def)
    then have op1: "tget o_id (o_id op) (operations w1) = Some op" using op by simp
    have "lview w1 = lview w" using tables by (intro lview_cong)
    moreover have "ledger_step (lview w1) (lview (upd_operation (o_id op)
        (finish_with Op_FAILED (exn_text E e)) (release_budget (o_mandate_id op) (o_amount op) w1)))"
      by (rule release_step [OF op1 held]) (simp add: finish_with_def)
    ultimately show ?thesis
      using r raised(1) k by (simp add: execute_gateway_operation_def Let_def r_into_rtranclp)
  next
    case idle
    then show ?thesis using r lview_dispatched [OF idle(2)] by (simp add: execute_gateway_operation_def)
  next
    case sent
    have "lview w1 = lview (upd_operation (o_id op) (set_status Op_EXECUTING) w)"
      using lview_dispatched [OF sent(2)] by simp
    also have "\<dots> = lview w" using op keys held by (intro lview_upd_free) auto
    finally show ?thesis using r sent(1) by (simp add: execute_gateway_operation_def)
  next
    case paid
    have "lview w1 = lview (upd_operation (o_id op) (set_status Op_SUCCEEDED)
        (commit_budget (o_mandate_id op) (o_amount op) False w))"
      using lview_dispatched [OF paid(2)] k by simp
    moreover have "ledger_step (lview w) (lview (upd_operation (o_id op) (set_status Op_SUCCEEDED)
        (commit_budget (o_mandate_id op) (o_amount op) False w)))"
      by (rule settle_step [OF op held]) (simp add: set_status_def)
    ultimately show ?thesis using r paid(1) by (simp add: execute_gateway_operation_def r_into_rtranclp)
  qed
qed

lemma operation_row_snd [simp]: "snd (operation_row i w) = w"
  by (simp add: operation_row_def split: option.split)

lemma operation_row_eq: "(r, w') = operation_row i w \<Longrightarrow> w' = w"
  by (metis operation_row_snd snd_conv)

text \<open>The three phases, each a sequence of ledger moves.\<close>

lemma admit_ledger:
  assumes "books_ok w" and "0 < oc_amount p" and "admit_operation E p k au i w = (r, w')"
  shows "ledger_steps (lview w) (lview w')"
proof -
  from admit_operation_cases [OF assms(3)] have q: "mandates w' = mandates w"
    and c: "(\<exists>e. r = Inl e) \<and> operations w' = operations w \<or> w' = w \<or> (\<exists>op. admitted_new E p w r w' op)"
    by (auto simp: quiet_def)
  show ?thesis
  proof (cases "\<exists>op. admitted_new E p w r w' op")
    case False
    with q c have "lview w' = lview w" by (auto intro: lview_cong)
    then show ?thesis by simp
  next
    case True
    then obtain op m where op: "operations w' = operations w @ [op]" "o_id op \<notin> o_id ` set (operations w)"
      "o_mandate_id op = oc_mandate_id p" "o_amount op = oc_amount p"
      "get_mandate_row w (oc_mandate_id p) = Some m" "\<not> in_flight (o_status op)"
      by (auto simp: admitted_new_def)
    have "ledger_step (lview w) (lview (w\<lparr>operations := operations w @ [op]\<rparr>))"
      using op assms(2) by (intro add_operation_step) (auto dest: tget_SomeD_key)
    moreover have "lview (w\<lparr>operations := operations w @ [op]\<rparr>) = lview w'"
      using op(1) q by (intro lview_cong) simp_all
    ultimately show ?thesis by (simp add: r_into_rtranclp)
  qed
qed

lemma reserve_budget_frame:
  "reserve_budget k n w = (b, w1) \<Longrightarrow> operations w1 = operations w \<and> transactions w1 = transactions w
     \<and> agents w1 = agents w \<and> gateway_calls w1 = gateway_calls w \<and> http_log w1 = http_log w"
  by (auto dest!: reserve_budget_tables)

lemma reserve_operation_cases:
  assumes "reserve_operation E p i k r w = (b, w')"
  shows "\<exists>w1 f. reserve_budget k (oc_amount p) w = (b, w1) \<and> keeps_entry f
    \<and> (\<forall>x. o_status (f x) = (if b then Op_RESERVED else Op_POLICY_REJECTED))
    \<and> quiet (upd_operation i f w1) w' \<and> operations w' = operations (upd_operation i f w1)"
proof -
  obtain ok w1 where ok: "reserve_budget k (oc_amount p) w = (ok, w1)"
    by (cases "reserve_budget k (oc_amount p) w")
  show ?thesis
  proof (cases ok)
    case True
    with assms ok show ?thesis
      by (intro exI [of _ w1] exI [of _ "set_status Op_RESERVED"])
        (auto simp: reserve_operation_def Let_def)
  next
    case False
    let ?r = "r\<lparr>r_decision := DENY, r_approved := False,
        r_rejection_reasons := r_rejection_reasons r @ [exhausted_text]\<rparr>"
    from False assms ok show ?thesis
      by (intro exI [of _ w1] exI [of _ "\<lambda>op. set_details ?r (finish_with Op_POLICY_REJECTED exhausted_text op)"])
        (auto simp: reserve_operation_def Let_def)
  qed
qed

lemma reserve_operation_ledger:
  assumes ok: "books_ok w" and op: "tget o_id i (operations w) = Some op" and free: "\<not> in_flight (o_status op)"
    and k: "o_mandate_id op = k" and n: "o_amount op = oc_amount p"
    and res: "reserve_operation E p i k r w = (b, w')"
  shows "ledger_steps (lview w) (lview w')"
proof -
  from reserve_operation_cases [OF res] obtain w1 f where
    r: "reserve_budget k (oc_amount p) w = (b, w1)" and f: "keeps_entry f"
      "\<And>x. o_status (f x) = (if b then Op_RESERVED else Op_POLICY_REJECTED)"
    and w': "mandates w' = mandates w1" "operations w' = operations (upd_operation i f w1)"
    by (auto simp: quiet_def)
  have view: "lview w' = lview (upd_operation i f w1)" using w' by (intro lview_cong) simp_all
  show ?thesis
  proof (cases b)
    case True
    with r k n have "reserve_budget (o_mandate_id op) (o_amount op) w = (True, w1)" by simp
    from hold_step [OF ok op free this, of f] f True show ?thesis
      unfolding view by (auto simp: keeps_entry_def)
  next
    case False
    with r have m: "mandates w1 = mandates w" using reserve_budget_refused [OF books_okD(1) [OF ok]] by simp
    have o1: "operations w1 = operations w" using reserve_budget_frame [OF r] by simp
    have "lview (upd_operation i f w1) = lview w1"
      using f False op free books_okD(2) [OF ok] by (intro lview_upd_free) (auto simp: o1)
    also have "\<dots> = lview w" using m o1 by (rule lview_cong)
    finally show ?thesis by (simp add: view)
  qed
qed

lemma reserve_operation_row:
  assumes op: "tget o_id i (operations w) = Some op" and res: "reserve_operation E p i k r w = (b, w')"
  shows "\<exists>op'. tget o_id i (operations w') = Some op' \<and> o_id op' = o_id op
    \<and> o_mandate_id op' = o_mandate_id op \<and> o_amount op' = o_amount op
    \<and> o_operation_type op' = o_operation_type op
    \<and> o_status op' = (if b then Op_RESERVED else Op_POLICY_REJECTED)"
proof -
  from reserve_operation_cases [OF res] obtain w1 f where
    r: "reserve_budget k (oc_amount p) w = (b, w1)" and f: "keeps_entry f"
      "\<And>x. o_status (f x) = (if b then Op_RESERVED else Op_POLICY_REJECTED)"
    and w': "operations w' = operations (upd_operation i f w1)" by blast
  have "tget o_id i (operations w') = Some (f op)"
    using op reserve_budget_frame [OF r] f(1) by (simp add: w' tget_upd_operation)
  with f show ?thesis by (auto simp: keeps_entry_def)
qed

lemma dispatch_reserved_ledger:
  assumes "books_ok w" and "tget o_id i (operations w) = Some op" and "in_flight (o_status op)"
    and "o_mandate_id op = k"
  shows "ledger_steps (lview w) (lview (dispatch_reserved E i k p w))"
proof -
  have "o_id op = i" using assms(2) by (auto dest: tget_SomeD)
  with assms show ?thesis
    by (auto simp: dispatch_reserved_def intro!: execute_ledger books_okD(2))
qed

lemma admitted_row:
  assumes "admit_operation E p k au i w = (Inr (Allowed pk mid r), w')"
  shows "\<exists>op. tget o_id pk (operations w') = Some op \<and> o_status op = Op_INITIATED
    \<and> o_mandate_id op = mid \<and> o_amount op = oc_amount p \<and> mid = oc_mandate_id p
    \<and> o_operation_type op = oc_operation_type p"
proof -
  from admit_operation_cases [OF assms] obtain op where "admitted_new E p w (Inr (Allowed pk mid r)) w' op"
    by auto
  then have "operations w' = operations w @ [op]" "o_id op = pk" "o_id op \<notin> o_id ` set (operations w)"
    "o_status op = Op_INITIATED" "o_mandate_id op = mid" "o_amount op = oc_amount p" "mid = oc_mandate_id p"
    "o_operation_type op = oc_operation_type p"
    by (auto simp: admitted_new_def)
  moreover from this have "tget o_id pk (operations w) = None" by (simp add: tget_None_iff)
  ultimately show ?thesis by (simp add: tget_append table_simps)
qed

text \<open>
  The request handler as a whole: its ledger moves.
\<close>

lemma request_ledger:
  assumes ok: "books_ok w" and n: "0 < oc_amount p"
  shows "ledger_steps (lview w) (lview (snd (request_financial_operation E p k au i w)))"
proof -
  obtain r w1 where adm: "admit_operation E p k au i w = (r, w1)" by (cases "admit_operation E p k au i w")
  have s1: "ledger_steps (lview w) (lview w1)" using admit_ledger [OF ok n adm] .
  note ok1 = books_ok_steps [OF s1 ok]
  show ?thesis
  proof (cases r)
    case (Inl e)
    have "lview (rollback w w1) = lview w" by (rule lview_cong) simp_all
    with Inl adm show ?thesis by (simp add: request_financial_operation_def)
  next
    case (Inr a)
    show ?thesis
    proof (cases a)
      case (Finished pk)
      with Inr adm s1 show ?thesis by (simp add: request_financial_operation_def)
    next
      case (Allowed pk mid res)
      from admitted_row [OF adm [unfolded Inr Allowed]] obtain op where
        op: "tget o_id pk (operations w1) = Some op" "o_status op = Op_INITIATED" "o_mandate_id op = mid"
          "o_amount op = oc_amount p" by blast
      obtain b w2 where res: "reserve_operation E p pk mid res w1 = (b, w2)"
        by (cases "reserve_operation E p pk mid res w1")
      have s2: "ledger_steps (lview w1) (lview w2)"
        using op by (intro reserve_operation_ledger [OF ok1 op(1) _ op(3,4) res]) simp
      from reserve_operation_row [OF op(1) res] obtain op' where
        op': "tget o_id pk (operations w2) = Some op'" "o_mandate_id op' = mid"
          "o_status op' = (if b then Op_RESERVED else Op_POLICY_REJECTED)"
        using op(3) by auto
      have "ledger_steps (lview w2) (lview (dispatch_reserved E pk mid (oc_payload p) w2))" if b
        using op' that by (intro dispatch_reserved_ledger [OF books_ok_steps [OF s2 ok1] op'(1)]) auto
      with s1 s2 Inr Allowed adm res show ?thesis
        by (auto simp: request_financial_operation_def Let_def)
    qed
  qed
qed

section \<open>What a request leaves behind\<close>

lemma execute_row:
  assumes "tget o_id (o_id op) (operations w) = Some op"
  shows "\<exists>op'. tget o_id (o_id op) (operations (execute_gateway_operation E k op p w)) = Some op'
    \<and> (o_status op' = o_status op \<or> o_status op' = Op_EXECUTING \<or> o_status op' = Op_SUCCEEDED
       \<or> o_status op' = Op_FAILED)"
    and "\<exists>cs. gateway_calls (execute_gateway_operation E k op p w) = gateway_calls w @ cs \<and> length cs \<le> 1"
    and "length (http_log (execute_gateway_operation E k op p w)) \<le> Suc (length (http_log w))"
proof -
  obtain r w1 where r: "dispatch E k op p w = (r, w1)" by (cases "dispatch E k op p w")
  from dispatch_result [OF r] obtain s b where d: "dispatched k op s b w w1"
    and s: "s = None \<or> s = Some Op_EXECUTING \<or> s = Some Op_SUCCEEDED" by blast
  have row: "tget o_id (o_id op) (operations w1) = Some (case s of None \<Rightarrow> op | Some s \<Rightarrow> set_status s op)"
    using d assms by (auto simp: dispatched_def status_row.tget_tupd split: option.splits)
  show "\<exists>op'. tget o_id (o_id op) (operations (execute_gateway_operation E k op p w)) = Some op'
    \<and> (o_status op' = o_status op \<or> o_status op' = Op_EXECUTING \<or> o_status op' = Op_SUCCEEDED
       \<or> o_status op' = Op_FAILED)"
    using r row s
    by (cases r) (auto simp: execute_gateway_operation_def Let_def tget_upd_operation)
  show "\<exists>cs. gateway_calls (execute_gateway_operation E k op p w) = gateway_calls w @ cs \<and> length cs \<le> 1"
    and "length (http_log (execute_gateway_operation E k op p w)) \<le> Suc (length (http_log w))"
    using r d
    by (cases r; auto simp: execute_gateway_operation_def Let_def dispatched_def release_budget_def)+
qed

text \<open>The four ways a request that does not raise can end.\<close>

lemma request_cases:
  assumes "request_financial_operation E p k au i w = (r, w')"
  obtains
    (raised) e where "r = Inl e" "quiet w w'" "operations w' = operations w"
  | (replay) op where "tget o_idempotency_key (oc_idempotency_key p) (operations w) = Some op"
      "w' = w" "(r, w') = operation_row (o_id op) w"
  | (stopped) op where "admitted_new E p w (Inr (Finished (o_id op))) w' op"
      "(r, w') = operation_row (o_id op) w'" "quiet w w'"
  | (went_on) op res w1 b w2 where "admit_operation E p k au i w = (Inr (Allowed (o_id op) (oc_mandate_id p) res), w1)"
      "admitted_new E p w (Inr (Allowed (o_id op) (oc_mandate_id p) res)) w1 op" "quiet w w1"
      "reserve_operation E p (o_id op) (oc_mandate_id p) res w1 = (b, w2)"
      "w' = (if b then dispatch_reserved E (o_id op) (oc_mandate_id p) (oc_payload p) w2 else w2)"
      "(r, w') = operation_row (o_id op) w'"
proof -
  obtain a w1 where adm: "admit_operation E p k au i w = (a, w1)" by (cases "admit_operation E p k au i w")
  from admit_operation_cases [OF adm] have q: "quiet w w1" by blast
  from admit_operation_cases [OF adm] consider
      (err) e where "a = Inl e" "operations w1 = operations w"
    | (old) op where "tget o_idempotency_key (oc_idempotency_key p) (operations w) = Some op"
        "a = Inr (Finished (o_id op))" "w1 = w"
    | (new) op where "admitted_new E p w a w1 op" by blast
  then show ?thesis
  proof cases
    case err
    with adm assms q show ?thesis
      by (intro raised) (auto simp: request_financial_operation_def quiet_def)
  next
    case old
    then have "(r, w') = operation_row (o_id op) w"
      using adm assms by (simp add: request_financial_operation_def)
    with old show ?thesis by (intro replay [of op]) (auto dest: operation_row_eq)
  next
    case new
    then consider "a = Inr (Finished (o_id op))" | res where "a = Inr (Allowed (o_id op) (oc_mandate_id p) res)"
      by (auto simp: admitted_new_def)
    then show ?thesis
    proof cases
      case 1
      then have row: "(r, w') = operation_row (o_id op) w1"
        using adm assms by (simp add: request_financial_operation_def)
      with operation_row_eq [OF row] 1 new q show ?thesis by (intro stopped [of op]) auto
    next
      case (2 res)
      obtain b w2 where b: "reserve_operation E p (o_id op) (oc_mandate_id p) res w1 = (b, w2)"
        by (cases "reserve_operation E p (o_id op) (oc_mandate_id p) res w1")
      from assms adm 2 b have row: "(r, w') = operation_row (o_id op)
          (if b then dispatch_reserved E (o_id op) (oc_mandate_id p) (oc_payload p) w2 else w2)"
        by (auto simp: request_financial_operation_def Let_def)
      note eq = operation_row_eq [OF row]
      show ?thesis
        by (rule went_on [of op res w1 b w2]) (use adm 2 new q b row eq in simp_all)
    qed
  qed
qed

lemma operation_row_Inr: "operation_row i w = (Inr op, w') \<Longrightarrow> w' = w \<and> tget o_id i (operations w) = Some op"
  by (auto simp: operation_row_def split: option.splits)

text \<open>After a granted reservation the row is RESERVED, so dispatch leaves one of four states.\<close>

lemma dispatched_row:
  assumes "reserve_operation E p i k res w = (b, w2)" and "tget o_id i (operations w) = Some op0"
    and "w' = (if b then dispatch_reserved E i k pl w2 else w2)"
  shows "\<exists>op. tget o_id i (operations w') = Some op
    \<and> (if b then o_status op = Op_RESERVED \<or> o_status op = Op_EXECUTING \<or> o_status op = Op_SUCCEEDED
            \<or> o_status op = Op_FAILED
       else o_status op = Op_POLICY_REJECTED)"
proof -
  from reserve_operation_row [OF assms(2,1)] obtain op' where
    op': "tget o_id i (operations w2) = Some op'" "o_status op' = (if b then Op_RESERVED else Op_POLICY_REJECTED)"
    by blast
  have i: "o_id op' = i" using op'(1) by (auto dest: tget_SomeD)
  show ?thesis
  proof (cases b)
    case False
    with assms(3) op' show ?thesis by simp
  next
    case True
    with assms(3) op'(1) have "w' = execute_gateway_operation E k op' pl w2"
      by (simp add: dispatch_reserved_def)
    with execute_row(1) [of op' w2 E k pl] op' i True show ?thesis by auto
  qed
qed

section \<open>Properties of the request handler\<close>

text \<open>
  C15: A replayed request is answered from the table: when the caller is accepted and an operation
  with its idempotency key exists, the handler returns that operation, and neither the database,
  the budget nor the gateway is touched.
\<close>
theorem idempotent_replay:
  assumes "request_caller E p k au i w = Inr c" and "\<forall>a. c = Some a \<longrightarrow> a_id a = oc_agent_id p"
    and "tget o_idempotency_key (oc_idempotency_key p) (operations w) = Some op"
    and "distinct (map o_id (operations w))"
  shows "request_financial_operation E p k au i w = (Inr op, w)"
proof -
  have "tget o_id (o_id op) (operations w) = Some op"
    using assms(3,4) by (auto intro: tget_in_set dest: tget_SomeD)
  with assms show ?thesis
    by (cases c) (auto simp: request_financial_operation_def admit_operation_def operation_row_def)
qed

definition demo_request :: "operation_type \<Rightarrow> int \<Rightarrow> operation_create" where
  "demo_request ty amount = \<lparr>oc_idempotency_key = ''key-0001'', oc_agent_id = ''shop'',
     oc_mandate_id = ''root'', oc_operation_type = ty, oc_amount = amount, oc_currency = ''inr'',
     oc_payload = []\<rparr>"

definition demo_known :: operation where
  "demo_known = (demo_op 100)\<lparr>o_idempotency_key := ''key-0001'', o_status := Op_EXECUTING\<rparr>"

theorem idempotent_replay_witness:
  "request_financial_operation demo_env (demo_request CREATE_ORDER 100) HNone HNone HNone
     (demo_world\<lparr>operations := [demo_known]\<rparr>)
   = (Inr demo_known, demo_world\<lparr>operations := [demo_known]\<rparr>)"
  by (rule idempotent_replay [where c = None])
    (simp_all add: request_caller_def hdr_truthy_def demo_known_def demo_op_def demo_request_def table_simps)

text \<open>
  C3: Zero gateway dispatch on anything but ALLOW: when a request raises or ends POLICY_REJECTED
  (a DENY or a lost race for the budget) or REQUIRES_APPROVAL, no call of the gateway was made,
  no HTTP request was sent, and no mandate and no transaction changed.
\<close>
theorem zero_dispatch_unless_allowed:
  assumes "request_financial_operation E p k au i w = (r, w')" and "distinct (map m_id (mandates w))"
    and "\<forall>op. r = Inr op \<longrightarrow> o_status op = Op_POLICY_REJECTED \<or> o_status op = Op_REQUIRES_APPROVAL"
  shows "gateway_calls w' = gateway_calls w \<and> http_log w' = http_log w
    \<and> mandates w' = mandates w \<and> transactions w' = transactions w"
  using assms(1)
proof (cases rule: request_cases)
  case (went_on op res w1 b w2)
  from admitted_row [OF went_on(1)] obtain op0 where op0: "tget o_id (o_id op) (operations w1) = Some op0"
    by blast
  from dispatched_row [OF went_on(4) op0 went_on(5)] obtain x where
    x: "tget o_id (o_id op) (operations w') = Some x" "b \<longrightarrow> o_status x \<noteq> Op_POLICY_REJECTED
      \<and> o_status x \<noteq> Op_REQUIRES_APPROVAL"
    by (auto split: if_splits)
  then have "r = Inr x" using went_on(6) by (simp add: operation_row_def)
  with x(2) assms(3) have nb: "\<not> b" by auto
  from reserve_operation_cases [OF went_on(4)] obtain w3 f where
    r3: "reserve_budget (oc_mandate_id p) (oc_amount p) w1 = (b, w3)" and q: "quiet w3 w2"
    by (auto simp: quiet_def)
  have "mandates w3 = mandates w1"
    using reserve_budget_refused [of w1] r3 nb went_on(3) assms(2) by (simp add: quiet_def)
  with reserve_budget_frame [OF r3] q went_on(3,5) nb show ?thesis by (simp add: quiet_def)
qed (auto simp: quiet_def)

lemma demo_mandate_keys: "distinct (map m_id (mandates demo_world))"
  by (simp add: demo_world_def demo_root_def demo_child_def demo_support_def)

lemma demo_request_denied:
  "case fst (request_financial_operation demo_env (demo_request CREATE_ORDER 2600) HNone HNone HNone demo_world)
   of Inr op \<Rightarrow> o_status op = Op_POLICY_REJECTED | Inl _ \<Rightarrow> False"
  by code_simp

theorem zero_dispatch_unless_allowed_witness:
  "gateway_calls (snd (request_financial_operation demo_env (demo_request CREATE_ORDER 2600)
     HNone HNone HNone demo_world)) = []"
proof -
  have "\<forall>op. fst (request_financial_operation demo_env (demo_request CREATE_ORDER 2600) HNone HNone HNone
      demo_world) = Inr op \<longrightarrow> o_status op = Op_POLICY_REJECTED \<or> o_status op = Op_REQUIRES_APPROVAL"
    using demo_request_denied by auto
  from zero_dispatch_unless_allowed [OF prod.collapse [symmetric] demo_mandate_keys this]
  show ?thesis by (simp add: demo_world_def)
qed

text \<open>What a request that made a gateway call had found.\<close>

lemma request_dispatched:
  assumes "request_financial_operation E p k au i w = (r, w')" and "gateway_calls w' \<noteq> gateway_calls w"
  shows "\<exists>c m a. gateway_calls w' = gateway_calls w @ [c]
    \<and> get_mandate_row w (oc_mandate_id p) = Some m \<and> get_agent_row w (oc_agent_id p) = Some a
    \<and> a_status a = Agent_ACTIVE \<and> m_status m = Mandate_ACTIVE
    \<and> oc_amount p \<le> m_max_amount_per_op m
    \<and> m_current_aggregate_spend m + m_reserved_spend m + oc_amount p \<le> m_aggregate_spend_limit m"
  using assms(1)
proof (cases rule: request_cases)
  case (went_on op res w1 b w2)
  from reserve_operation_cases [OF went_on(4)] reserve_budget_frame went_on(3)
  have g2: "gateway_calls w2 = gateway_calls w" by (fastforce simp: quiet_def)
  have b: "b" using went_on(5) assms(2) g2 by (cases b) auto
  have "\<exists>cs. gateway_calls w' = gateway_calls w2 @ cs \<and> length cs \<le> 1"
  proof (cases "get_operation_row w2 (o_id op)")
    case None
    with b went_on(5) show ?thesis by (simp add: dispatch_reserved_def)
  next
    case (Some x)
    then have "tget o_id (o_id x) (operations w2) = Some x" using tget_SomeD [OF Some] by simp
    from execute_row(2) [OF this] b went_on(5) Some show ?thesis by (simp add: dispatch_reserved_def)
  qed
  then obtain cs where "gateway_calls w' = gateway_calls w @ cs" "length cs \<le> 1" using g2 by auto
  moreover from this assms(2) obtain c where "cs = [c]" by (cases cs) auto
  ultimately have "gateway_calls w' = gateway_calls w @ [c]" by simp
  moreover from went_on(2) have "\<exists>m a. get_mandate_row w (oc_mandate_id p) = Some m
      \<and> get_agent_row w (oc_agent_id p) = Some a \<and> a_status a = Agent_ACTIVE \<and> m_status m = Mandate_ACTIVE
      \<and> oc_amount p \<le> m_max_amount_per_op m
      \<and> m_current_aggregate_spend m + m_reserved_spend m + oc_amount p \<le> m_aggregate_spend_limit m"
    by (auto simp: admitted_new_def)
  ultimately show ?thesis by blast
qed (use assms(2) in \<open>auto simp: quiet_def\<close>)

text \<open>
  C6: The gateway is called only after a successful reservation: a request that made a gateway
  call made exactly one, for a new operation of an ACTIVE agent on an ACTIVE mandate, within the
  per-operation ceiling and with the amount fitting the mandate's remaining budget at admission.
\<close>
theorem dispatch_needs_reservation:
  assumes "request_financial_operation E p k au i w = (r, w')" and "gateway_calls w' \<noteq> gateway_calls w"
  shows "\<exists>c m a. gateway_calls w' = gateway_calls w @ [c]
    \<and> get_mandate_row w (oc_mandate_id p) = Some m \<and> get_agent_row w (oc_agent_id p) = Some a
    \<and> a_status a = Agent_ACTIVE \<and> m_status m = Mandate_ACTIVE
    \<and> oc_amount p \<le> m_max_amount_per_op m
    \<and> m_current_aggregate_spend m + m_reserved_spend m + oc_amount p \<le> m_aggregate_spend_limit m"
  using assms by (rule request_dispatched)

lemma demo_request_allowed:
  "case request_financial_operation demo_env (demo_request CREATE_ORDER 1500) HNone HNone HNone demo_world
   of (Inr op, w') \<Rightarrow> o_status op = Op_EXECUTING \<and> length (gateway_calls w') = 1
        \<and> length (transactions w') = 1 | _ \<Rightarrow> False"
  by code_simp

theorem dispatch_needs_reservation_witness:
  "length (gateway_calls (snd (request_financial_operation demo_env (demo_request CREATE_ORDER 1500)
     HNone HNone HNone demo_world))) = 1"
proof -
  let ?r = "request_financial_operation demo_env (demo_request CREATE_ORDER 1500) HNone HNone HNone demo_world"
  have "gateway_calls (snd ?r) \<noteq> gateway_calls demo_world"
    using demo_request_allowed by (auto simp: demo_world_def split: prod.splits sum.splits)
  from dispatch_needs_reservation [OF prod.collapse [symmetric] this]
  show ?thesis by (auto simp: demo_world_def)
qed

section \<open>A failed dispatch, approval and verification\<close>

text \<open>A live client whose transport answers with an exception raises it, after one request.\<close>

lemma request_raises:
  assumes "\<And>rq. http_answer (http E (length (http_log w)) rq) = Inl e"
  shows "fst (request_with_retry E c meth path js False n w) = Inl e"
proof -
  have "[1..<Suc (if False then n else 1)] = [1]" by simp
  then show ?thesis
    unfolding request_with_retry_def Let_def by (simp add: attempt_stops assms del: rzp_attempts.simps)
qed

lemma live_client_raises:
  assumes "\<not> c_mock_mode c" and "\<And>rq. http_answer (http E (length (http_log w)) rq) = Inl e"
  shows "fst (create_order E c oq w) = Inl e" and "fst (create_refund E c rq w) = Inl e"
    and "fst (create_payment_link E c lq w) = Inl e"
proof -
  have r: "fst (request_with_retry E c meth path js False n (log_call x w)) = Inl e"
    "fst (request_with_retry E c meth path js False n (snd (draw_uuid E (log_call x w)))) = Inl e"
    for meth path js n x
    using assms(2) by (intro request_raises; simp)+
  show "fst (create_order E c oq w) = Inl e" "fst (create_refund E c rq w) = Inl e"
    "fst (create_payment_link E c lq w) = Inl e"
    using assms(1) r
    by (simp_all add: create_order_def create_refund_def create_payment_link_def Let_def case_prod_unfold)
qed

text \<open>A dispatch that reached such a client raises too; one that raised changed no table.\<close>

lemma dispatch_raises:
  assumes run: "dispatch E k op p w = (r, w')" and live: "\<not> RAZORPAY_MOCK_MODE (settings E)"
    and down: "\<And>rq. http_answer (http E (length (http_log w)) rq) = Inl e"
    and called: "gateway_calls w' \<noteq> gateway_calls w"
  shows "r = Inl e"
proof -
  have "\<not> c_mock_mode (razorpay_client E)"
    using live by (simp add: razorpay_client_def RazorpayClient_init_def)
  note raises = live_client_raises [OF this down]
  show ?thesis
  proof (cases "o_operation_type op")
    case CREATE_ORDER
    with run called raises(1) show ?thesis
      by (cases "order_request_of op p") (auto simp: dispatch_def dispatch_order_def case_prod_unfold
        prod_eq_iff split: sum.splits prod.splits)
  next
    case CREATE_PAYMENT_LINK
    with run called raises(3) show ?thesis
      by (cases "link_request_of op p") (auto simp: dispatch_def dispatch_link_def case_prod_unfold
        prod_eq_iff split: sum.splits prod.splits)
  next
    case CREATE_REFUND
    with run called raises(2) show ?thesis
      by (cases "refund_request_of op p") (auto simp: dispatch_def dispatch_refund_def case_prod_unfold
        prod_eq_iff split: sum.splits prod.splits)
  qed (use run called in \<open>auto simp: dispatch_def\<close>)
qed

lemma dispatch_raised_frame:
  assumes "dispatch E k op p w = (Inl e, w')"
  shows "same_tables w w'"
proof (cases "o_operation_type op")
  case CREATE_ORDER
  with assms show ?thesis
    by (auto simp: dispatch_def dispatch_order_def split: sum.splits prod.splits dest: order_api.keeps_tables)
next
  case CREATE_PAYMENT_LINK
  with assms show ?thesis
    by (auto simp: dispatch_def dispatch_link_def split: sum.splits prod.splits dest: link_api.keeps_tables)
next
  case CREATE_REFUND
  with assms show ?thesis
    by (auto simp: dispatch_def dispatch_refund_def Let_def split: sum.splits prod.splits dest: refund_api.keeps_tables)
qed (use assms in \<open>auto simp: dispatch_def\<close>)

text \<open>
  What a raised dispatch leaves: the budget released, the row FAILED with the exception's text.
\<close>

lemma execute_raised:
  assumes op: "tget o_id (o_id op) (operations w) = Some op" and d: "dispatch E k op p w = (Inl e, w1)"
    and w': "w' = execute_gateway_operation E k op p w"
  shows "mandates w' = mandates (release_budget k (o_amount op) w)"
    and "tget o_id (o_id op) (operations w') = Some (finish_with Op_FAILED (exn_text E e) op)"
    and "transactions w' = transactions w"
proof -
  note tables = same_tables_fields [OF dispatch_raised_frame [OF d]]
  show "mandates w' = mandates (release_budget k (o_amount op) w)" "transactions w' = transactions w"
    using d tables by (simp_all add: w' execute_gateway_operation_def Let_def release_budget_def upd_mandate_def)
  have "keeps_entry (finish_with Op_FAILED (exn_text E e))" by simp
  then show "tget o_id (o_id op) (operations w') = Some (finish_with Op_FAILED (exn_text E e) op)"
    using d tables op by (simp add: w' execute_gateway_operation_def Let_def tget_upd_operation)
qed

lemma execute_failed:
  assumes "tget o_id (o_id op) (operations w) = Some op" and "o_status op \<noteq> Op_FAILED"
    and "tget o_id (o_id op) (operations (execute_gateway_operation E k op p w)) = Some op'"
    and "o_status op' = Op_FAILED"
  shows "\<exists>e w1. dispatch E k op p w = (Inl e, w1)"
proof -
  obtain r w1 where r: "dispatch E k op p w = (r, w1)" by (cases "dispatch E k op p w")
  from dispatch_result [OF r] obtain s b where d: "dispatched k op s b w w1"
    and s: "s = None \<or> s = Some Op_EXECUTING \<or> s = Some Op_SUCCEEDED" by blast
  have row: "tget o_id (o_id op) (operations w1) = Some (case s of None \<Rightarrow> op | Some s \<Rightarrow> set_status s op)"
    using d assms(1) by (auto simp: dispatched_def status_row.tget_tupd split: option.splits)
  show ?thesis
  proof (cases r)
    case (Inr u)
    with r row s assms(2-4) show ?thesis by (auto simp: execute_gateway_operation_def)
  qed (use r in simp)
qed

lemma accounts_reserve_release:
  "map account_of (tupd m_id k (\<lambda>m. m\<lparr>m_reserved_spend := m_reserved_spend m - n,
      m_version := m_version m + 1\<rparr>) (tupd m_id k (add_reserved n) ms)) = map account_of ms"
  by (subst tupd_tupd_same) (auto simp: add_reserved_def account_of_def intro!: map_tupd_same)

text \<open>
  A new request up to its dispatch: the reserved row it dispatches, and the reservation behind it.
\<close>

lemma request_dispatches:
  assumes run: "request_financial_operation E p k au i w = (r, w')"
    and fresh: "tget o_idempotency_key (oc_idempotency_key p) (operations w) = None"
    and keys: "distinct (map m_id (mandates w))"
    and ends: "gateway_calls w' \<noteq> gateway_calls w \<or> (\<exists>op. r = Inr op \<and> o_status op = Op_FAILED)"
  obtains op2 w2 where "w' = execute_gateway_operation E (oc_mandate_id p) op2 (oc_payload p) w2"
    "(r, w') = operation_row (o_id op2) w'" "tget o_id (o_id op2) (operations w2) = Some op2"
    "o_status op2 = Op_RESERVED" "o_amount op2 = oc_amount p"
    "mandates w2 = tupd m_id (oc_mandate_id p) (add_reserved (oc_amount p)) (mandates w)"
    "transactions w2 = transactions w" "gateway_calls w2 = gateway_calls w" "http_log w2 = http_log w"
  using run
proof (cases rule: request_cases)
  case (went_on op1 res w1 b w2)
  let ?k = "oc_mandate_id p" and ?n = "oc_amount p"
  from admitted_row [OF went_on(1)] obtain op0 where op0: "tget o_id (o_id op1) (operations w1) = Some op0"
    and amount0: "o_amount op0 = ?n" by blast
  from reserve_operation_cases [OF went_on(4)] obtain w3 where
    r3: "reserve_budget ?k ?n w1 = (b, w3)" and q: "mandates w2 = mandates w3"
      "transactions w2 = transactions w3" "gateway_calls w2 = gateway_calls w3" "http_log w2 = http_log w3"
    by (auto simp: quiet_def)
  have same: "transactions w2 = transactions w" "gateway_calls w2 = gateway_calls w" "http_log w2 = http_log w"
    using q reserve_budget_frame [OF r3] went_on(3) by (simp_all add: quiet_def)
  have b: b
  proof (rule disjE [OF ends])
    assume "gateway_calls w' \<noteq> gateway_calls w"
    with went_on(5) same(2) show b by (cases b) auto
  next
    assume "\<exists>op. r = Inr op \<and> o_status op = Op_FAILED"
    then obtain op where "tget o_id (o_id op1) (operations w') = Some op" "o_status op = Op_FAILED"
      using went_on(6) operation_row_Inr by metis
    with dispatched_row [OF went_on(4) op0 went_on(5)] show b by (auto split: if_splits)
  qed
  from reserve_operation_row [OF op0 went_on(4)] b obtain op2 where
    op2: "tget o_id (o_id op1) (operations w2) = Some op2" "o_status op2 = Op_RESERVED" "o_amount op2 = ?n"
    using amount0 by auto
  have i: "o_id op2 = o_id op1" using op2(1) by (auto dest: tget_SomeD)
  have m1: "mandates w1 = mandates w" using went_on(3) by (simp add: quiet_def)
  obtain m where "tget m_id ?k (mandates w1) = Some m"
    using went_on(2) m1 by (auto simp: admitted_new_def)
  then have "mandates w2 = tupd m_id ?k (add_reserved ?n) (mandates w)"
    using reserve_budget_spec [of w1 ?k m ?n] r3 b keys m1 q(1)
    by (auto simp: inc_metric_def upd_mandate_def split: if_splits)
  then show ?thesis
    using went_on(5,6) b op2 i same by (intro that [of op2 w2]) (simp_all add: dispatch_reserved_def)
next
  case (stopped x)
  then have "tget o_id (o_id x) (operations w') = Some x" and "o_status x \<noteq> Op_FAILED"
    by (auto simp: admitted_new_def tget_append table_simps tget_None_iff [THEN iffD2])
  with stopped ends show ?thesis by (auto simp: quiet_def operation_row_def)
qed (use fresh ends in \<open>auto simp: quiet_def\<close>)

text \<open>The dispatch of a request raised \<open>e\<close>: nothing stays reserved, and the answer is the FAILED row.\<close>

lemma raised_request:
  assumes "dispatch E (oc_mandate_id p) op2 (oc_payload p) w2 = (Inl e, w3)"
    and w': "w' = execute_gateway_operation E (oc_mandate_id p) op2 (oc_payload p) w2"
    and row: "(r, w') = operation_row (o_id op2) w'" "tget o_id (o_id op2) (operations w2) = Some op2"
    and "o_amount op2 = oc_amount p" "transactions w2 = transactions w"
      "mandates w2 = tupd m_id (oc_mandate_id p) (add_reserved (oc_amount p)) (mandates w)"
  shows "map account_of (mandates w') = map account_of (mandates w) \<and> transactions w' = transactions w
    \<and> r = Inr (finish_with Op_FAILED (exn_text E e) op2)
    \<and> tget o_id (o_id op2) (operations w') = Some (finish_with Op_FAILED (exn_text E e) op2)"
  using execute_raised [OF row(2) assms(1) w'] assms(5-7) row(1)
  by (simp add: operation_row_def release_budget_def upd_mandate_def accounts_reserve_release)

text \<open>
  C10: A failed dispatch gives everything back. A new request that ends FAILED records the text of
  an exception, leaves every mandate with the committed and reserved amounts and the limit it had
  before, and writes no transaction. It does end so whenever the live gateway was called and the
  transport raised, a timeout or a network error included: the answer and the stored row are FAILED
  with the text of that exception.
\<close>
theorem failed_dispatch_releases_budget:
  assumes run: "request_financial_operation E p k au i w = (r, w')"
    and fresh: "tget o_idempotency_key (oc_idempotency_key p) (operations w) = None"
    and keys: "distinct (map m_id (mandates w))"
  shows "(\<forall>op. r = Inr op \<and> o_status op = Op_FAILED \<longrightarrow>
        map account_of (mandates w') = map account_of (mandates w) \<and> transactions w' = transactions w
        \<and> (\<exists>e. o_error_message op = Some (exn_text E e)))
    \<and> (\<forall>e. \<not> RAZORPAY_MOCK_MODE (settings E) \<and> gateway_calls w' \<noteq> gateway_calls w
          \<and> (\<forall>rq. http_answer (http E (length (http_log w)) rq) = Inl e) \<longrightarrow>
        (\<exists>op. r = Inr op \<and> tget o_id (o_id op) (operations w') = Some op
          \<and> o_status op = Op_FAILED \<and> o_error_message op = Some (exn_text E e)))"
proof -
  have "map account_of (mandates w') = map account_of (mandates w) \<and> transactions w' = transactions w
      \<and> (\<exists>e. o_error_message op = Some (exn_text E e))" if failed: "r = Inr op" "o_status op = Op_FAILED" for op
  proof -
    obtain op2 w2 where d: "w' = execute_gateway_operation E (oc_mandate_id p) op2 (oc_payload p) w2"
      "(r, w') = operation_row (o_id op2) w'" "tget o_id (o_id op2) (operations w2) = Some op2"
      "o_amount op2 = oc_amount p" "transactions w2 = transactions w"
      "mandates w2 = tupd m_id (oc_mandate_id p) (add_reserved (oc_amount p)) (mandates w)"
      and reserved: "o_status op2 = Op_RESERVED"
      using request_dispatches [OF run fresh keys] failed by metis
    from d(2) failed(1) have "tget o_id (o_id op2) (operations w') = Some op"
      using operation_row_Inr by metis
    with d reserved obtain e w3 where "dispatch E (oc_mandate_id p) op2 (oc_payload p) w2 = (Inl e, w3)"
      using execute_failed [of op2 w2 E "oc_mandate_id p" "oc_payload p" op] failed(2) by auto
    from raised_request [OF this d] failed(1) show ?thesis by (auto simp: finish_with_def)
  qed
  moreover have "\<exists>op. r = Inr op \<and> tget o_id (o_id op) (operations w') = Some op
      \<and> o_status op = Op_FAILED \<and> o_error_message op = Some (exn_text E e)"
    if live: "\<not> RAZORPAY_MOCK_MODE (settings E)" and called: "gateway_calls w' \<noteq> gateway_calls w"
      and down: "\<forall>rq. http_answer (http E (length (http_log w)) rq) = Inl e" for e
  proof -
    obtain op2 w2 where d: "w' = execute_gateway_operation E (oc_mandate_id p) op2 (oc_payload p) w2"
      "(r, w') = operation_row (o_id op2) w'" "tget o_id (o_id op2) (operations w2) = Some op2"
      "o_amount op2 = oc_amount p" "transactions w2 = transactions w"
      "mandates w2 = tupd m_id (oc_mandate_id p) (add_reserved (oc_amount p)) (mandates w)"
      and logs: "gateway_calls w2 = gateway_calls w" "http_log w2 = http_log w"
      using request_dispatches [OF run fresh keys] called by metis
    obtain x w3 where x: "dispatch E (oc_mandate_id p) op2 (oc_payload p) w2 = (x, w3)"
      by (cases "dispatch E (oc_mandate_id p) op2 (oc_payload p) w2")
    have "gateway_calls w' = gateway_calls w3"
      by (cases x) (simp_all add: d(1) execute_gateway_operation_def x Let_def release_budget_def)
    with dispatch_raises [OF x live, of e] down called logs have "x = Inl e" by simp
    from raised_request [OF x [unfolded this] d] show ?thesis by (simp add: finish_with_def)
  qed
  ultimately show ?thesis by blast
qed

text \<open>A live client in front of a gateway that times out.\<close>

definition demo_timeout_env :: env where
  "demo_timeout_env = demo_env\<lparr>settings := (settings demo_env)\<lparr>RAZORPAY_MOCK_MODE := False\<rparr>\<rparr>"

lemma demo_timeout_called:
  "gateway_calls (snd (request_financial_operation demo_timeout_env (demo_request CREATE_ORDER 1500)
     HNone HNone HNone demo_world)) \<noteq> []"
  by code_simp

theorem failed_dispatch_releases_budget_witness:
  "\<exists>op w'. request_financial_operation demo_timeout_env (demo_request CREATE_ORDER 1500)
      HNone HNone HNone demo_world = (Inr op, w') \<and> o_status op = Op_FAILED
    \<and> o_error_message op = Some (exn_text demo_timeout_env TimeoutException)
    \<and> map account_of (mandates w') = map account_of (mandates demo_world)"
proof -
  obtain r w' where run: "request_financial_operation demo_timeout_env (demo_request CREATE_ORDER 1500)
      HNone HNone HNone demo_world = (r, w')"
    by (cases "request_financial_operation demo_timeout_env (demo_request CREATE_ORDER 1500)
      HNone HNone HNone demo_world")
  have "tget o_idempotency_key (oc_idempotency_key (demo_request CREATE_ORDER 1500)) (operations demo_world) = None"
    by (simp add: demo_world_def table_simps)
  from failed_dispatch_releases_budget [OF run this demo_mandate_keys] demo_timeout_called run show ?thesis
    by (auto simp: demo_timeout_env_def demo_env_def demo_world_def)
qed

text \<open>The reserving half of an approval.\<close>

lemma approve_cases:
  assumes "human_approve_operation E i h w = (r, w')" and "operation_by_id w i = Some op"
  obtains
    (refused) "quiet w w'" "operations w' = operations w"
  | (rejected) f where "quiet w w'" "operations w' = tupd o_id (o_id op) f (operations w)" "keeps_entry f"
      "\<And>x. o_status (f x) = Op_POLICY_REJECTED" "o_status op = Op_REQUIRES_APPROVAL"
  | (exhausted) w1 f where "reserve_budget (o_mandate_id op) (o_amount op) w = (False, w1)"
      "w' = upd_operation (o_id op) f w1" "keeps_entry f" "\<And>x. o_status (f x) = Op_POLICY_REJECTED"
      "o_status op = Op_REQUIRES_APPROVAL"
  | (approved) w1 w2 where "reserve_budget (o_mandate_id op) (o_amount op) w = (True, w1)"
      "o_status op = Op_REQUIRES_APPROVAL" "ha_approved h"
      "quiet w1 w2" "operations w2 = tupd o_id (o_id op) (approve_with (ha_approved_by_id h)) (operations w)"
      "w' = dispatch_reserved E (o_id op) (o_mandate_id op) (o_payload op) w2"
proof -
  consider (a) "o_status op \<noteq> Op_REQUIRES_APPROVAL \<or> get_mandate_row w (o_mandate_id op) = None"
    | (b) "o_status op = Op_REQUIRES_APPROVAL" "get_mandate_row w (o_mandate_id op) \<noteq> None" "\<not> ha_approved h"
    | (c) "o_status op = Op_REQUIRES_APPROVAL" "get_mandate_row w (o_mandate_id op) \<noteq> None" "ha_approved h"
    by blast
  then show ?thesis
  proof cases
    case a
    with assms show ?thesis
      by (intro refused) (auto simp: human_approve_operation_def split: if_splits)
  next
    case b
    have snd: "w' = snd (human_approve_operation E i h w)" using assms(1) by simp
    show ?thesis
      by (rule rejected [of "finish_with Op_POLICY_REJECTED
          (str_or (ha_reason h) ''Human review rejected operation'')"])
        (use snd assms(2) b in \<open>auto simp: human_approve_operation_def Let_def upd_operation_def quiet_def\<close>)
  next
    case c
    obtain ok w1 where ok: "reserve_budget (o_mandate_id op) (o_amount op) w = (ok, w1)"
      by (cases "reserve_budget (o_mandate_id op) (o_amount op) w")
    have snd: "w' = snd (human_approve_operation E i h w)" using assms(1) by simp
    show ?thesis
    proof (cases ok)
      case False
      with snd assms(2) c ok show ?thesis
        by (intro exhausted [of w1 "finish_with Op_POLICY_REJECTED
            ''Budget limit exhausted before approval could reserve funds''"])
          (auto simp: human_approve_operation_def)
    next
      case True
      define w2 where "w2 = add_audit E HUMAN_APPROVAL_GRANTED (ha_approved_by_id h) ''PRINCIPAL'' i
          ''FINANCIAL_OPERATION''
          [(''approved_by'', JStr (ha_approved_by_id h)), (''amount'', JInt (o_amount op))] None
          (Some [(''status'', JStr (operation_status_value Op_RESERVED))])
          (upd_operation (o_id op) (approve_with (ha_approved_by_id h)) w1)"
      have "w' = dispatch_reserved E (o_id op) (o_mandate_id op) (o_payload op) w2"
        using snd assms(2) c ok True by (auto simp: human_approve_operation_def Let_def w2_def)
      moreover have "operations w2 = tupd o_id (o_id op) (approve_with (ha_approved_by_id h)) (operations w)"
        using reserve_budget_frame [OF ok] by (simp add: w2_def upd_operation_def)
      moreover have "quiet w1 w2" by (simp add: w2_def)
      ultimately show ?thesis using approved [of w1 w2] ok True c by simp
    qed
  qed
qed

lemma operation_by_id_row:
  assumes "distinct (map o_id (operations w))" and "operation_by_id w i = Some op"
  shows "tget o_id (o_id op) (operations w) = Some op"
  using assms by (auto intro: tget_in_set dest: tget_SomeD)

lemma approved_row:
  assumes "tget o_id k (operations w) = Some op"
    and "operations w2 = tupd o_id k (approve_with q) (operations w)"
  shows "tget o_id k (operations w2) = Some (approve_with q op)"
  using assms by (simp add: tget_tupd_key approve_with_def)

lemma approve_ledger:
  assumes ok: "books_ok w"
  shows "ledger_steps (lview w) (lview (snd (human_approve_operation E i h w)))"
proof -
  obtain r w' where run: "human_approve_operation E i h w = (r, w')"
    by (cases "human_approve_operation E i h w")
  show ?thesis
  proof (cases "operation_by_id w i")
    case None
    then show ?thesis by (simp add: human_approve_operation_def)
  next
    case (Some op)
    note row = operation_by_id_row [OF books_okD(2) [OF ok] Some]
    show ?thesis
      using run Some
    proof (cases rule: approve_cases)
      case refused
      then have "lview w' = lview w" by (intro lview_cong) (simp_all add: quiet_def)
      with run show ?thesis by simp
    next
      case (rejected f)
      have "lview w' = lview (upd_operation (o_id op) f w)"
        using rejected by (intro lview_cong) (simp_all add: quiet_def upd_operation_def)
      also have "\<dots> = lview w"
        using rejected row books_okD(2) [OF ok] by (intro lview_upd_free) auto
      finally show ?thesis using run by simp
    next
      case (exhausted w1 f)
      have o1: "operations w1 = operations w" using reserve_budget_frame [OF exhausted(1)] by simp
      have "lview w' = lview w1"
        unfolding exhausted(2) using exhausted row books_okD(2) [OF ok]
        by (intro lview_upd_free) (auto simp: o1)
      also have "\<dots> = lview w"
        using reserve_budget_refused [OF books_okD(1) [OF ok] exhausted(1)] o1 by (intro lview_cong)
      finally show ?thesis using run by simp
    next
      case (approved w1 w2)
      let ?f = "approve_with (ha_approved_by_id h)"
      have "ledger_step (lview w) (lview (upd_operation (o_id op) ?f w1))"
        using approved(2) by (intro hold_step [OF ok row _ approved(1)]) (auto simp: approve_with_def)
      moreover have "lview w2 = lview (upd_operation (o_id op) ?f w1)"
        using approved(4,5) reserve_budget_frame [OF approved(1)]
        by (intro lview_cong) (simp_all add: quiet_def upd_operation_def)
      ultimately have s: "ledger_step (lview w) (lview w2)" by simp
      have "ledger_steps (lview w2) (lview (dispatch_reserved E (o_id op) (o_mandate_id op) (o_payload op) w2))"
        using books_ok_steps [of w w2] s ok
        by (intro dispatch_reserved_ledger [OF _ approved_row [OF row approved(5)]])
          (auto simp: approve_with_def)
      with s run approved(6) show ?thesis by (simp add: converse_rtranclp_into_rtranclp)
    qed
  qed
qed

text \<open>
  C19: Human approval opens the gateway once and only for a pending operation: if the handler made
  a gateway call, the operation was waiting in REQUIRES_APPROVAL, the decision was positive, the
  amount still fitted the mandate at that moment, and exactly one call was made.
\<close>
theorem approval_dispatches_only_pending:
  assumes "human_approve_operation E i h w = (r, w')" and "gateway_calls w' \<noteq> gateway_calls w"
    and "distinct (map m_id (mandates w))" and "distinct (map o_id (operations w))"
  shows "\<exists>op m c. operation_by_id w i = Some op \<and> o_status op = Op_REQUIRES_APPROVAL \<and> ha_approved h
    \<and> get_mandate_row w (o_mandate_id op) = Some m
    \<and> m_current_aggregate_spend m + m_reserved_spend m + o_amount op \<le> m_aggregate_spend_limit m
    \<and> gateway_calls w' = gateway_calls w @ [c]"
proof (cases "operation_by_id w i")
  case None
  with assms(1,2) show ?thesis by (simp add: human_approve_operation_def)
next
  case (Some op)
  note row = operation_by_id_row [OF assms(4) Some]
  show ?thesis
    using assms(1) Some
  proof (cases rule: approve_cases)
    case (exhausted w1 f)
    with assms(2) reserve_budget_frame [OF exhausted(1)] show ?thesis by simp
  next
    case (approved w1 w2)
    have g: "gateway_calls w2 = gateway_calls w"
      using approved(4) reserve_budget_frame [OF approved(1)] by (simp add: quiet_def)
    note row2 = approved_row [OF row approved(5)]
    have i2: "o_id (approve_with (ha_approved_by_id h) op) = o_id op" by (simp add: approve_with_def)
    have "w' = execute_gateway_operation E (o_mandate_id op) (approve_with (ha_approved_by_id h) op)
        (o_payload op) w2"
      using approved(6) row2 by (simp add: dispatch_reserved_def)
    with execute_row(2) [of "approve_with (ha_approved_by_id h) op" w2 E "o_mandate_id op" "o_payload op"]
      row2 i2 g
    obtain cs where cs: "gateway_calls w' = gateway_calls w @ cs" "length cs \<le> 1" by auto
    with assms(2) obtain c where "cs = [c]" by (cases cs) auto
    moreover have "\<exists>m. get_mandate_row w (o_mandate_id op) = Some m \<and> fits_budget (o_mandate_id op) (o_amount op) m"
      using approved(1) reserve_budget_spec [OF assms(3)] reserve_budget_absent
      by (cases "get_mandate_row w (o_mandate_id op)") (auto split: if_splits)
    ultimately show ?thesis using Some approved(2,3) cs by (auto simp: fits_budget_def)
  qed (use assms(2) in \<open>auto simp: quiet_def\<close>)
qed

definition demo_pending :: operation where
  "demo_pending = (demo_op 2100)\<lparr>o_status := Op_REQUIRES_APPROVAL\<rparr>"

definition demo_pending_world :: world where
  "demo_pending_world = demo_world\<lparr>operations := [demo_pending]\<rparr>"

definition demo_approval :: human_approval where
  "demo_approval = \<lparr>ha_approved_by_id = ''prn'', ha_approved = True, ha_reason = None\<rparr>"

theorem approval_dispatches_only_pending_witness:
  "length (gateway_calls (snd (human_approve_operation demo_env ''op_1'' demo_approval demo_pending_world))) = 1"
proof -
  let ?r = "human_approve_operation demo_env ''op_1'' demo_approval demo_pending_world"
  have "length (gateway_calls (snd ?r)) = 1" by code_simp
  then have "gateway_calls (snd ?r) \<noteq> gateway_calls demo_pending_world"
    by (auto simp: demo_pending_world_def demo_world_def)
  moreover have "distinct (map m_id (mandates demo_pending_world))"
    using demo_mandate_keys by (simp add: demo_pending_world_def)
  ultimately show ?thesis
    using approval_dispatches_only_pending [of demo_env "''op_1''" demo_approval demo_pending_world
        "fst ?r" "snd ?r"]
    by (auto simp: demo_pending_world_def demo_world_def)
qed

lemma transactions_commit_budget [simp]: "transactions (commit_budget k n b w) = transactions w"
  by (simp add: commit_budget_def)

lemma verify_payment_tables:
  assumes "operation_by_id w i = Some op"
    and "verify_payment_signature E (razorpay_client E) (pv_razorpay_order_id v)
      (pv_razorpay_payment_id v) (pv_razorpay_signature v) None"
    and "one_or_none (filter (\<lambda>t. t_operation_id t = o_id op) (transactions w)) = Inr t"
  shows "mandates (snd (verify_payment E i v w)) = mandates (commit_budget (o_mandate_id op) (o_amount op) True w)
    \<and> operations (snd (verify_payment E i v w)) = tupd o_id (o_id op) (set_status Op_SUCCEEDED) (operations w)"
  using assms
  by (cases t) (simp_all add: verify_payment_def Let_def upd_operation_def upd_transaction_def)

lemma verify_payment_ledger:
  assumes ok: "books_ok w" and op: "operation_by_id w i = Some op" and held: "in_flight (o_status op)"
  shows "ledger_steps (lview w) (lview (snd (verify_payment E i v w)))"
proof (cases "verify_payment_signature E (razorpay_client E) (pv_razorpay_order_id v)
      (pv_razorpay_payment_id v) (pv_razorpay_signature v) None")
  case False
  with op show ?thesis by (simp add: verify_payment_def)
next
  case True
  note row = operation_by_id_row [OF books_okD(2) [OF ok] op]
  let ?w = "commit_budget (o_mandate_id op) (o_amount op) True w"
  show ?thesis
  proof (cases "one_or_none (filter (\<lambda>t. t_operation_id t = o_id op) (transactions w))")
    case (Inl e)
    have "lview (rollback w x) = lview w" for x by (rule lview_cong) simp_all
    with True op Inl show ?thesis by (simp add: verify_payment_def Let_def)
  next
    case (Inr t)
    have "lview (snd (verify_payment E i v w)) = lview (upd_operation (o_id op) (set_status Op_SUCCEEDED) ?w)"
      using verify_payment_tables [OF op True Inr] by (intro lview_cong) (simp_all add: upd_operation_def)
    moreover have "ledger_step (lview w) (lview (upd_operation (o_id op) (set_status Op_SUCCEEDED) ?w))"
      by (rule settle_step [OF row held]) (simp add: set_status_def)
    ultimately show ?thesis by (simp add: r_into_rtranclp)
  qed
qed

text \<open>
  Payment verification is not idempotent: any valid signature for any order moves the
  operation's amount from reserved to committed again, whatever the operation's status, so a
  second verification of a SUCCEEDED operation commits it twice and can make the reservation
  negative.
\<close>
theorem verify_payment_commits_again:
  assumes "operation_by_id w i = Some op"
    and "verify_payment_signature E (razorpay_client E) (pv_razorpay_order_id v)
      (pv_razorpay_payment_id v) (pv_razorpay_signature v) None"
    and "one_or_none (filter (\<lambda>t. t_operation_id t = o_id op) (transactions w)) = Inr t"
    and "get_mandate_row w (o_mandate_id op) = Some m"
  shows "\<exists>m'. get_mandate_row (snd (verify_payment E i v w)) (o_mandate_id op) = Some m'
    \<and> m_reserved_spend m' = m_reserved_spend m - o_amount op
    \<and> m_current_aggregate_spend m' = m_current_aggregate_spend m + o_amount op"
proof -
  show ?thesis
    using assms(4) verify_payment_tables [OF assms(1-3)]
    by (simp add: commit_budget_def upd_mandate_def tget_tupd_key)
qed

definition demo_settled_world :: world where
  "demo_settled_world = demo_world\<lparr>operations := [(demo_op 2100)\<lparr>o_status := Op_SUCCEEDED\<rparr>],
     mandates := [demo_root\<lparr>m_current_aggregate_spend := 2100\<rparr>]\<rparr>"

definition demo_verify :: payment_verify where
  "demo_verify = \<lparr>pv_razorpay_order_id = ''o'', pv_razorpay_payment_id = ''p'',
     pv_razorpay_signature = ''hmac:o|p''\<rparr>"

theorem verify_payment_commits_again_witness:
  "\<exists>m'. get_mandate_row (snd (verify_payment demo_env ''op_1'' demo_verify demo_settled_world)) ''root'' = Some m'
    \<and> m_reserved_spend m' = - 2100 \<and> m_current_aggregate_spend m' = 4200"
proof -
  have sig: "verify_payment_signature demo_env (razorpay_client demo_env) (pv_razorpay_order_id demo_verify)
      (pv_razorpay_payment_id demo_verify) (pv_razorpay_signature demo_verify) None"
    by code_simp
  show ?thesis
    using verify_payment_commits_again [of "''op_1''" demo_settled_world "(demo_op 2100)\<lparr>o_status := Op_SUCCEEDED\<rparr>"
        demo_env demo_verify None "demo_root\<lparr>m_current_aggregate_spend := 2100\<rparr>"] sig
    by (simp add: demo_settled_world_def demo_world_def demo_op_def demo_root_def table_simps one_or_none_def)
qed

section \<open>What a request writes\<close>

lemma execute_table:
  "\<exists>f. keeps_entry f \<and> operations (execute_gateway_operation E k op p w) = tupd o_id (o_id op) f (operations w)"
proof -
  obtain r w1 where r: "dispatch E k op p w = (r, w1)" by (cases "dispatch E k op p w")
  from dispatch_result [OF r] obtain s b where d: "dispatched k op s b w w1"
    and raised: "\<And>e. r = Inl e \<Longrightarrow> s = None" by blast
  have id: "keeps_entry (\<lambda>x. x)" by (simp add: keeps_entry_def)
  show ?thesis
  proof (cases r)
    case (Inl e)
    with d raised have "operations w1 = operations w" by (simp add: dispatched_def)
    with Inl r have "operations (execute_gateway_operation E k op p w)
        = tupd o_id (o_id op) (finish_with Op_FAILED (exn_text E e)) (operations w)"
      by (simp add: execute_gateway_operation_def Let_def upd_operation_def)
    then show ?thesis by (meson keeps_entry_simps(2))
  next
    case (Inr u)
    with d r have "operations (execute_gateway_operation E k op p w)
        = tupd o_id (o_id op) (case s of None \<Rightarrow> \<lambda>x. x | Some s \<Rightarrow> set_status s) (operations w)"
      by (simp add: execute_gateway_operation_def dispatched_def split: option.splits)
    moreover have "keeps_entry (case s of None \<Rightarrow> \<lambda>x. x | Some s \<Rightarrow> set_status s)"
      using id by (simp split: option.split)
    ultimately show ?thesis by blast
  qed
qed

text \<open>
  A request writes at most one operation, a new one of the caller's agent under the mandate it
  names; without it nothing is sent to the gateway.
\<close>

definition wrote_operation :: "world \<Rightarrow> world \<Rightarrow> operation \<Rightarrow> bool" where
  "wrote_operation w w' op \<longleftrightarrow> o_id op \<notin> o_id ` set (operations w)
     \<and> tget o_id (o_id op) (operations w') = Some op
     \<and> (\<forall>i. i \<noteq> o_id op \<longrightarrow> tget o_id i (operations w') = tget o_id i (operations w))"

lemma wrote_operation_upd:
  assumes "wrote_operation w w' op" and "keeps_entry f"
    and "operations v = tupd o_id (o_id op) f (operations w')"
  shows "wrote_operation w v (f op)"
  using assms by (auto simp: wrote_operation_def keeps_entry_def tget_tupd_key)

lemma wrote_operation_new:
  assumes "admitted_new E p w r w' op"
  shows "wrote_operation w w' op"
proof -
  have ops: "operations w' = operations w @ [op]" and new: "o_id op \<notin> o_id ` set (operations w)"
    using assms by (simp_all add: admitted_new_def)
  from new have "tget o_id (o_id op) (operations w) = None" by (simp add: tget_None_iff)
  with ops new show ?thesis
    by (auto simp: wrote_operation_def tget_append table_simps split: option.split)
qed

lemma request_writes:
  assumes run: "request_financial_operation E p k au i w = (r, w')"
  shows "(operations w' = operations w \<and> gateway_calls w' = gateway_calls w)
    \<or> (\<exists>op. wrote_operation w w' op \<and> o_agent_id op = oc_agent_id p \<and> o_mandate_id op = oc_mandate_id p
         \<and> o_amount op = oc_amount p)"
  using run
proof (cases rule: request_cases)
  case (went_on op res w1 b w2)
  let ?of = "\<lambda>w' op. wrote_operation w w' op \<and> o_agent_id op = oc_agent_id p
    \<and> o_mandate_id op = oc_mandate_id p \<and> o_amount op = oc_amount p"
  have adm: "?of w1 op"
    using went_on(2) wrote_operation_new [OF went_on(2)] by (simp add: admitted_new_def)
  from reserve_operation_cases [OF went_on(4)] obtain w3 f where
    r3: "reserve_budget (oc_mandate_id p) (oc_amount p) w1 = (b, w3)" and f: "keeps_entry f"
    and ops: "operations w2 = operations (upd_operation (o_id op) f w3)" by blast
  have "operations w2 = tupd o_id (o_id op) f (operations w1)"
    using ops reserve_budget_frame [OF r3] by (simp add: upd_operation_def)
  with adm have "wrote_operation w w2 (f op)" using wrote_operation_upd [OF _ f] by blast
  with adm f have res: "?of w2 (f op)" by (simp add: keeps_entry_def)
  show ?thesis
  proof (cases b)
    case False
    with res went_on(5) show ?thesis by auto
  next
    case True
    have "tget o_id (o_id op) (operations w2) = Some (f op)"
      using res f by (simp add: wrote_operation_def keeps_entry_def)
    with True went_on(5) have w': "w' = execute_gateway_operation E (oc_mandate_id p) (f op) (oc_payload p) w2"
      by (simp add: dispatch_reserved_def)
    from execute_table [of E "oc_mandate_id p" "f op" "oc_payload p" w2] obtain g where
      g: "keeps_entry g" "operations w' = tupd o_id (o_id (f op)) g (operations w2)" by (auto simp: w')
    have "wrote_operation w w' (g (f op))" using res wrote_operation_upd [OF _ g] by blast
    with res g(1) have "?of w' (g (f op))" by (simp add: keeps_entry_def)
    then show ?thesis by blast
  qed
next
  case (stopped op)
  with wrote_operation_new [OF stopped(1)] show ?thesis by (auto simp: admitted_new_def)
qed (auto simp: quiet_def)

end
