(* ===== verification/Webhooks.thy ===== *)
theory Webhooks
  imports Budget Mandates
begin

text \<open>
  The webhook pipeline of \<^verbatim>\<open>apps/api/routes/webhooks.py\<close>: signature check, JSON parsing, the
  idempotency record with its attempts and dead letter state, and the three domain handlers
  (captured, failed, refunded). An exception of a domain handler is recorded in the event's row
  and committed with it. Identifiers in an entity that are neither text nor null are refused by
  the database driver; the model raises that error before the handler's first write.
\<close>

section \<open>Reading the event\<close>

text \<open>\<open>j.get(k, default)\<close> on a JSON value; only an object has the method.\<close>

definition jget :: "json \<Rightarrow> string \<Rightarrow> json \<Rightarrow> exn + json" where
  "jget j k d = (case j of JObj x \<Rightarrow> Inr (dget_or x k d) | _ \<Rightarrow> Inl AttributeError)"

definition jentity :: "json \<Rightarrow> string \<Rightarrow> exn + json" where
  "jentity payload k = bindE (jget payload k (JObj [])) (\<lambda>x. jget x ''entity'' (JObj []))"

text \<open>A value bound to a text column: text, null or an error of the driver.\<close>

definition jcolumn :: "json \<Rightarrow> exn + string option" where
  "jcolumn j = (case j of JStr s \<Rightarrow> Inr (Some s) | JNull \<Rightarrow> Inr None | _ \<Rightarrow> Inl DatabaseError)"

text \<open>The identifiers a domain event carries, \<open>None\<close> for a falsy one.\<close>

definition jident :: "json \<Rightarrow> exn + string option" where
  "jident j = (if jtruthy j then jcolumn j else Inr None)"

definition captured_ids :: "json \<Rightarrow> exn + (string option \<times> string option)" where
  "captured_ids payload =
     bindE (jentity payload ''payment'') (\<lambda>payment_entity.
     bindE (jentity payload ''order'') (\<lambda>order_entity.
     bindE (jget payment_entity ''order_id'' JNull) (\<lambda>first.
     bindE (if jtruthy first then Inr first else jget order_entity ''id'' JNull) (\<lambda>order_json.
     bindE (jget payment_entity ''id'' JNull) (\<lambda>payment_json.
     bindE (jident order_json) (\<lambda>order_id.
     bindE (if order_id = None then Inr None else jident payment_json) (\<lambda>payment_id.
       Inr (order_id, payment_id))))))))"

section \<open>Domain handlers\<close>

definition tx_by_order :: "world \<Rightarrow> string \<Rightarrow> exn + transaction option" where
  "tx_by_order w order_id =
     one_or_none (filter (\<lambda>t. t_gateway_order_id t = Some order_id) (transactions w))"

definition tx_by_payment :: "world \<Rightarrow> string \<Rightarrow> exn + transaction option" where
  "tx_by_payment w payment_id =
     one_or_none (filter (\<lambda>t. t_gateway_payment_id t = Some payment_id) (transactions w))"

definition mark_captured :: "string option \<Rightarrow> transaction \<Rightarrow> transaction" where
  "mark_captured payment_id tx = tx\<lparr>t_status := Tx_CAPTURED,
     t_gateway_payment_id := (case payment_id of None \<Rightarrow> t_gateway_payment_id tx | p \<Rightarrow> p)\<rparr>"

definition op_succeed :: "operation \<Rightarrow> operation" where
  "op_succeed op = op\<lparr>o_status := Op_SUCCEEDED\<rparr>"

definition op_fail :: "string option \<Rightarrow> operation \<Rightarrow> operation" where
  "op_fail message op = op\<lparr>o_status := Op_FAILED, o_error_message := message\<rparr>"

text \<open>Only the committed side moves when the reservation is smaller than the amount.\<close>

definition commit_unreserved :: "string \<Rightarrow> int \<Rightarrow> world \<Rightarrow> world" where
  "commit_unreserved mandate_id amount w =
     upd_mandate mandate_id (\<lambda>m. m\<lparr>m_current_aggregate_spend := m_current_aggregate_spend m + amount,
       m_version := m_version m + 1\<rparr>) w"

definition settle_capture :: "operation \<Rightarrow> world \<Rightarrow> world" where
  "settle_capture op w =
     (case get_mandate_row w (o_mandate_id op) of
        None \<Rightarrow> w
      | Some mandate \<Rightarrow>
          if o_amount op \<le> m_reserved_spend mandate
          then commit_budget (m_id mandate) (o_amount op) True w
          else commit_unreserved (m_id mandate) (o_amount op) w)"

definition webhook_audit ::
    "env \<Rightarrow> audit_action \<Rightarrow> string \<Rightarrow> string \<Rightarrow> operation \<Rightarrow> operation_status \<Rightarrow> world \<Rightarrow> world" where
  "webhook_audit E action event_type order_id op st w =
     add_audit E action ''WEBHOOK_PROCESSOR'' ''SYSTEM'' (o_mandate_id op) ''MANDATE''
       [(''event_type'', JStr event_type), (''order_id'', JStr order_id),
        (''amount'', JInt (o_amount op))]
       None (Some [(''status'', JStr (operation_status_value st))]) w"

definition handle_payment_captured_event ::
    "env \<Rightarrow> json \<Rightarrow> string \<Rightarrow> world \<Rightarrow> (exn + unit) \<times> world" where
  "handle_payment_captured_event E payload event_type w =
     (case captured_ids payload of
        Inl e \<Rightarrow> (Inl e, w)
      | Inr (None, _) \<Rightarrow> (Inr (), w)
      | Inr (Some order_id, payment_id) \<Rightarrow>
          (case tx_by_order w order_id of
             Inl e \<Rightarrow> (Inl e, w)
           | Inr None \<Rightarrow> (Inr (), w)
           | Inr (Some tx) \<Rightarrow>
               (case get_operation_row w (t_operation_id tx) of
                  None \<Rightarrow> (Inr (), w)
                | Some op \<Rightarrow>
                    if o_status op = Op_SUCCEEDED then (Inr (), w)
                    else (case validate_transition (o_status op) Op_SUCCEEDED
                                (''Webhook event: '' @ event_type) of
                        Inl e \<Rightarrow> (Inl e, w)
                      | Inr _ \<Rightarrow>
                          let w = upd_operation (o_id op) op_succeed w;
                              w = upd_transaction (t_id tx) (mark_captured payment_id) w;
                              w = settle_capture op w
                          in (Inr (), webhook_audit E BUDGET_COMMITTED event_type order_id op
                                Op_SUCCEEDED w)))))"

definition failed_ids :: "json \<Rightarrow> exn + (string option \<times> string option)" where
  "failed_ids payload =
     bindE (jentity payload ''payment'') (\<lambda>payment_entity.
     bindE (bindE (jget payment_entity ''order_id'' JNull) jident) (\<lambda>order_id.
     bindE (if order_id = None then Inr None
            else bindE (jget payment_entity ''error_description''
                   (JStr ''Payment failed via gateway webhook'')) jcolumn) (\<lambda>message.
       Inr (order_id, message))))"

definition release_capture :: "operation \<Rightarrow> world \<Rightarrow> world" where
  "release_capture op w =
     (case get_mandate_row w (o_mandate_id op) of
        None \<Rightarrow> w
      | Some mandate \<Rightarrow>
          if o_amount op \<le> m_reserved_spend mandate
          then release_budget (m_id mandate) (o_amount op) w
          else w)"

definition handle_payment_failed_event ::
    "env \<Rightarrow> json \<Rightarrow> string \<Rightarrow> world \<Rightarrow> (exn + unit) \<times> world" where
  "handle_payment_failed_event E payload event_type w =
     (case failed_ids payload of
        Inl e \<Rightarrow> (Inl e, w)
      | Inr (None, _) \<Rightarrow> (Inr (), w)
      | Inr (Some order_id, message) \<Rightarrow>
          (case tx_by_order w order_id of
             Inl e \<Rightarrow> (Inl e, w)
           | Inr None \<Rightarrow> (Inr (), w)
           | Inr (Some tx) \<Rightarrow>
               (case get_operation_row w (t_operation_id tx) of
                  None \<Rightarrow> (Inr (), w)
                | Some op \<Rightarrow>
                    if o_status op \<notin> {Op_EXECUTING, Op_RESERVED} then (Inr (), w)
                    else
                      let w = upd_operation (o_id op) (op_fail message) w;
                          w = upd_transaction (t_id tx) (\<lambda>t. t\<lparr>t_status := Tx_FAILED\<rparr>) w;
                          w = release_capture op w
                      in (Inr (), webhook_audit E BUDGET_RELEASED event_type order_id op
                            Op_FAILED w))))"

definition refund_fields :: "json \<Rightarrow> exn + (string option \<times> int)" where
  "refund_fields payload =
     bindE (jentity payload ''refund'') (\<lambda>refund_entity.
     bindE (bindE (jget refund_entity ''payment_id'' JNull) jident) (\<lambda>payment_id.
     bindE (jget refund_entity ''amount'' (JInt 0)) (\<lambda>amount_json.
     bindE (if payment_id = None then Inr 0
            else (case amount_json of JInt i \<Rightarrow> Inr i | _ \<Rightarrow> Inl DatabaseError)) (\<lambda>refund_amount.
       Inr (payment_id, refund_amount)))))"

definition restore_allowance :: "int \<Rightarrow> mandate \<Rightarrow> mandate" where
  "restore_allowance n m = m\<lparr>m_current_aggregate_spend := m_current_aggregate_spend m - n,
     m_version := m_version m + 1\<rparr>"

definition handle_refund_processed_event :: "json \<Rightarrow> world \<Rightarrow> (exn + unit) \<times> world" where
  "handle_refund_processed_event payload w =
     (case refund_fields payload of
        Inl e \<Rightarrow> (Inl e, w)
      | Inr (None, _) \<Rightarrow> (Inr (), w)
      | Inr (Some payment_id, refund_amount) \<Rightarrow>
          (case tx_by_payment w payment_id of
             Inl e \<Rightarrow> (Inl e, w)
           | Inr None \<Rightarrow> (Inr (), w)
           | Inr (Some tx) \<Rightarrow>
               (case get_operation_row w (t_operation_id tx) of
                  None \<Rightarrow> (Inr (), w)
                | Some op \<Rightarrow>
                    (case get_mandate_row w (o_mandate_id op) of
                       None \<Rightarrow> (Inr (), w)
                     | Some mandate \<Rightarrow>
                         (Inr (), upd_mandate (m_id mandate) (restore_allowance refund_amount) w)))))"

definition process_domain_webhook_event ::
    "env \<Rightarrow> string \<Rightarrow> dict \<Rightarrow> world \<Rightarrow> (exn + unit) \<times> world" where
  "process_domain_webhook_event E event_type event_data w =
     (let payload = dget_or event_data ''payload'' (JObj []) in
      if event_type \<in> {''order.paid'', ''payment.captured''}
        then handle_payment_captured_event E payload event_type w
      else if event_type = ''payment.failed'' then handle_payment_failed_event E payload event_type w
      else if event_type = ''refund.processed'' then handle_refund_processed_event payload w
      else (Inr (), w))"

section \<open>The pipeline\<close>

definition upd_webhook :: "string \<Rightarrow> (webhook_event \<Rightarrow> webhook_event) \<Rightarrow> world \<Rightarrow> world" where
  "upd_webhook k f w = w\<lparr>webhook_events := tupd wh_id k f (webhook_events w)\<rparr>"

text \<open>The column \<open>event_id\<close> is unique.\<close>

abbreviation webhook_by_event :: "world \<Rightarrow> string \<Rightarrow> webhook_event option" where
  "webhook_by_event w i \<equiv> tget wh_event_id i (webhook_events w)"

definition new_webhook :: "env \<Rightarrow> string \<Rightarrow> string \<Rightarrow> string \<Rightarrow> dict \<Rightarrow> string \<Rightarrow> webhook_event" where
  "new_webhook E event_id event_type payload_hash event_data i =
     \<lparr>wh_id = i, wh_event_id = event_id, wh_event_type = event_type,
      wh_payload_hash = payload_hash, wh_raw_payload = event_data, wh_signature_verified = True,
      wh_status = ''PROCESSING'', wh_processed = False, wh_processing_attempts = 1,
      wh_max_retries = 3, wh_error_message = None, wh_trace_id = None,
      wh_received_at = utc_now E, wh_processed_at = None\<rparr>"

definition retry_webhook :: "webhook_event \<Rightarrow> webhook_event" where
  "retry_webhook r =
     r\<lparr>wh_status := ''PROCESSING'', wh_processing_attempts := wh_processing_attempts r + 1\<rparr>"

definition webhook_done :: "datetime \<Rightarrow> webhook_event \<Rightarrow> webhook_event" where
  "webhook_done now r = r\<lparr>wh_status := ''PROCESSED'', wh_processed := True,
     wh_processed_at := Some now, wh_error_message := None\<rparr>"

definition webhook_failed :: "string \<Rightarrow> webhook_event \<Rightarrow> webhook_event" where
  "webhook_failed message r = r\<lparr>wh_error_message := Some message,
     wh_status := (if wh_max_retries r \<le> wh_processing_attempts r then ''DEAD_LETTER''
                   else ''FAILED'')\<rparr>"

text \<open>Processing an event whose row has key \<open>k\<close>: the \<open>try\<close> statement of the handler.\<close>

definition process_recorded ::
    "env \<Rightarrow> string \<Rightarrow> string \<Rightarrow> string \<Rightarrow> dict \<Rightarrow> world \<Rightarrow> (exn + dict) \<times> world" where
  "process_recorded E k event_id event_type event_data w =
     (case process_domain_webhook_event E event_type event_data w of
        (Inr _, w) \<Rightarrow>
          (Inr [(''status'', JStr ''PROCESSED''), (''event_id'', JStr event_id),
                (''event_type'', JStr event_type)],
           upd_webhook k (webhook_done (utc_now E)) w)
      | (Inl e, w) \<Rightarrow>
          let w = upd_webhook k (webhook_failed (exn_text E e)) w;
              st = (case tget wh_id k (webhook_events w) of None \<Rightarrow> [] | Some r \<Rightarrow> wh_status r)
          in (Inr [(''status'', JStr st), (''event_id'', JStr event_id),
                   (''error'', JStr (exn_text E e))], w))"

definition record_event ::
    "env \<Rightarrow> string \<Rightarrow> dict \<Rightarrow> string \<Rightarrow> world \<Rightarrow> (exn + dict) \<times> world" where
  "record_event E event_id event_data body_str w =
     (case webhook_by_event w event_id of
        Some existing_evt \<Rightarrow>
          if wh_status existing_evt = ''PROCESSED'' then
            (Inr [(''status'', JStr ''DUPLICATE_IGNORED''),
                  (''message'', JStr (''Webhook '' @ quote event_id
                     @ '' already processed idempotently.'')),
                  (''event_id'', JStr event_id)], w)
          else
            let event_type = (case dget_or event_data ''event'' (JStr ''unknown'') of
                  JStr t \<Rightarrow> t | _ \<Rightarrow> [])
            in process_recorded E (wh_id existing_evt) event_id event_type event_data
                 (upd_webhook (wh_id existing_evt) retry_webhook w)
      | None \<Rightarrow>
          (case dget_or event_data ''event'' (JStr ''unknown'') of
             JStr event_type \<Rightarrow>
               let (i, w) = generate_uuid E w;
                   r = new_webhook E event_id event_type (sha256_hex E body_str) event_data i
               in if tget wh_id i (webhook_events w) \<noteq> None then (Inl DatabaseError, w)
                  else process_recorded E i event_id event_type event_data
                         (w\<lparr>webhook_events := webhook_events w @ [r]\<rparr>)
           | _ \<Rightarrow> (Inl DatabaseError, w)))"

definition check_webhook_signature :: "env \<Rightarrow> string \<Rightarrow> string \<Rightarrow> exn option" where
  "check_webhook_signature E raw_body x_razorpay_signature =
     (let secret = RAZORPAY_WEBHOOK_SECRET (settings E) in
      if secret \<noteq> [] then
        if hmac_sha256_hex E secret raw_body \<noteq> x_razorpay_signature
        then Some (HTTPException 400 ''Invalid Razorpay webhook signature'')
        else None
      else if str_lower (ENVIRONMENT (settings E)) = ''production''
      then Some (HTTPException 500 ''Webhook verification secret is not configured.'')
      else None)"

definition handle_razorpay_webhook :: "env \<Rightarrow> string \<Rightarrow> string \<Rightarrow> world \<Rightarrow> (exn + dict) \<times> world" where
  "handle_razorpay_webhook E raw_body x_razorpay_signature w =
     (case check_webhook_signature E raw_body x_razorpay_signature of
        Some e \<Rightarrow> (Inl e, w)
      | None \<Rightarrow>
          (case json_loads E raw_body of
             None \<Rightarrow> (Inl (HTTPException 400 ''Malformed JSON payload''), w)
           | Some (JObj event_data) \<Rightarrow>
               (case dget_or event_data ''event_id'' JNull of
                  JStr s \<Rightarrow>
                    if s \<noteq> [] then record_event E s event_data raw_body w
                    else let (h, w) = draw_uuid E w
                         in record_event E (''evt_'' @ take 12 h) event_data raw_body w
                | j \<Rightarrow>
                    if jtruthy j then (Inl DatabaseError, w)
                    else let (h, w) = draw_uuid E w
                         in record_event E (''evt_'' @ take 12 h) event_data raw_body w)
           | Some _ \<Rightarrow> (Inl AttributeError, w)))"

section \<open>What the domain handlers change\<close>

lemma webhook_upd_fields [simp]:
  "webhook_events (upd_operation i f w) = webhook_events w"
  "webhook_events (upd_mandate k g w) = webhook_events w"
  "webhook_events (upd_transaction j h w) = webhook_events w"
  "operations (upd_webhook x y w) = operations w" "mandates (upd_webhook x y w) = mandates w"
  "transactions (upd_webhook x y w) = transactions w"
  "gateway_calls (upd_webhook x y w) = gateway_calls w"
  by (simp_all add: upd_operation_def upd_mandate_def upd_transaction_def upd_webhook_def)

lemma settle_capture_fields [simp]:
  "webhook_events (settle_capture op w) = webhook_events w"
  "webhook_events (release_capture op w) = webhook_events w"
  by (auto simp: settle_capture_def release_capture_def commit_budget_def commit_unreserved_def
      release_budget_def split: option.split)

lemma webhook_audit_fields [simp]:
  "webhook_events (webhook_audit E a t i op st w) = webhook_events w"
  "mandates (webhook_audit E a t i op st w) = mandates w"
  "operations (webhook_audit E a t i op st w) = operations w"
  by (simp_all add: webhook_audit_def)

lemma to_succeeded_in_flight:
  "validate_transition s Op_SUCCEEDED c = Inr u \<Longrightarrow> s \<noteq> Op_SUCCEEDED \<Longrightarrow> in_flight s"
  using can_transition_to_SUCCEEDED by (auto simp: validate_transition_def split: if_splits)

lemma captured_result:
  assumes run: "handle_payment_captured_event E payload t w = (r, w')"
  obtains (nothing) "w' = w"
  | (captured) op tx i pid where "r = Inr ()" "tget o_id (o_id op) (operations w) = Some op"
      "in_flight (o_status op)" "tx_by_order w i = Inr (Some tx)"
      "w' = webhook_audit E BUDGET_COMMITTED t i op Op_SUCCEEDED
         (settle_capture op (upd_transaction (t_id tx) (mark_captured pid) (upd_operation (o_id op) op_succeed w)))"
proof (cases "w' = w")
  case False
  note d = handle_payment_captured_event_def
  from False run obtain i pid where ids: "captured_ids payload = Inr (Some i, pid)"
    by (simp add: d split: sum.splits prod.splits option.splits)
  from False run ids obtain tx where tx: "tx_by_order w i = Inr (Some tx)"
    by (simp add: d split: sum.splits option.splits)
  from False run ids tx obtain op where op: "get_operation_row w (t_operation_id tx) = Some op"
    by (simp add: d split: option.splits)
  from False run ids tx op have ns: "o_status op \<noteq> Op_SUCCEEDED"
    by (simp add: d split: if_splits)
  from False run ids tx op ns obtain u where
    v: "validate_transition (o_status op) Op_SUCCEEDED (''Webhook event: '' @ t) = Inr u"
    by (simp add: d split: sum.splits)
  have "o_id op = t_operation_id tx" using op by (auto dest: tget_SomeD)
  with run ids tx op ns v to_succeeded_in_flight [OF v ns] show ?thesis
    by (intro captured [of op i tx pid]) (auto simp: d Let_def)
qed (rule nothing)

lemma failed_result:
  assumes run: "handle_payment_failed_event E payload t w = (r, w')"
  obtains (nothing) "w' = w"
  | (failed) op tx i message where "r = Inr ()" "tget o_id (o_id op) (operations w) = Some op"
      "in_flight (o_status op)" "tx_by_order w i = Inr (Some tx)"
      "w' = webhook_audit E BUDGET_RELEASED t i op Op_FAILED
         (release_capture op (upd_transaction (t_id tx) (\<lambda>t. t\<lparr>t_status := Tx_FAILED\<rparr>)
            (upd_operation (o_id op) (op_fail message) w)))"
proof (cases "w' = w")
  case False
  note d = handle_payment_failed_event_def
  from False run obtain i msg where ids: "failed_ids payload = Inr (Some i, msg)"
    by (simp add: d split: sum.splits prod.splits option.splits)
  from False run ids obtain tx where tx: "tx_by_order w i = Inr (Some tx)"
    by (simp add: d split: sum.splits option.splits)
  from False run ids tx obtain op where op: "get_operation_row w (t_operation_id tx) = Some op"
    by (simp add: d split: option.splits)
  from False run ids tx op have ns: "o_status op \<in> {Op_EXECUTING, Op_RESERVED}"
    by (simp add: d split: if_splits)
  then have "in_flight (o_status op)" by (auto simp: in_flight_def)
  moreover have "o_id op = t_operation_id tx" using op by (auto dest: tget_SomeD)
  ultimately show ?thesis using run ids tx op ns
    by (intro failed [of op i tx msg]) (auto simp: d Let_def)
qed (rule nothing)

lemma refund_result:
  assumes "handle_refund_processed_event payload w = (r, w')"
  obtains (nothing) "w' = w"
  | (restored) k n i where "r = Inr ()" "refund_fields payload = Inr (Some i, n)"
      "w' = upd_mandate k (restore_allowance n) w"
  using assms nothing restored unfolding handle_refund_processed_event_def
  by (auto split: sum.splits option.splits prod.splits)

lemma process_Inl:
  assumes "process_domain_webhook_event E t d w = (Inl e, w')"
  shows "w' = w"
  using assms unfolding process_domain_webhook_event_def Let_def
  by (auto split: if_splits elim!: captured_result failed_result refund_result)

lemma process_webhook_events:
  assumes "process_domain_webhook_event E t d w = (r, w')"
  shows "webhook_events w' = webhook_events w"
  using assms unfolding process_domain_webhook_event_def Let_def
  by (auto split: if_splits elim!: captured_result failed_result refund_result)

section \<open>The ledger moves of a webhook\<close>

lemma lview_webhook_upd [simp]:
  "lview (upd_webhook k f w) = lview w"
  "lview (webhook_audit E a t i op st w) = lview w"
  by (rule lview_cong; simp)+

lemma op_succeed_fields [simp]:
  "o_id (op_succeed op) = o_id op" "o_status (op_succeed op) = Op_SUCCEEDED"
  "o_id (op_fail m op) = o_id op" "o_status (op_fail m op) = Op_FAILED"
  by (simp_all add: op_succeed_def op_fail_def)

text \<open>In consistent books a captured operation's amount is reserved, so it is settled whole.\<close>

lemma settle_capture_commit:
  assumes "books_ok w" and "tget o_id (o_id op) (operations w) = Some op" and "in_flight (o_status op)"
    and "mandates v = mandates w"
  shows "settle_capture op v = commit_budget (o_mandate_id op) (o_amount op) True v"
    and "release_capture op v = release_budget (o_mandate_id op) (o_amount op) v"
proof -
  have op: "op \<in> set (operations w)" using assms(2) by (auto dest: tget_SomeD)
  obtain m where m: "tget m_id (o_mandate_id op) (mandates w) = Some m"
    using mandate_present [OF assms(1) op] .
  have "o_amount op \<le> m_reserved_spend m" using reserved_covers [OF assms(1) op assms(3) m] .
  moreover have "m_id m = o_mandate_id op" using m by (auto dest: tget_SomeD)
  ultimately show "settle_capture op v = commit_budget (o_mandate_id op) (o_amount op) True v"
    and "release_capture op v = release_budget (o_mandate_id op) (o_amount op) v"
    using m assms(4) by (simp_all add: settle_capture_def release_capture_def)
qed

lemma captured_ledger:
  assumes "books_ok w" and run: "handle_payment_captured_event E payload t w = (r, w')"
  shows "ledger_steps (lview w) (lview w')"
  using run
proof (cases rule: captured_result)
  case (captured op tx i pid)
  let ?v = "upd_transaction (t_id tx) (mark_captured pid) (upd_operation (o_id op) op_succeed w)"
  have "settle_capture op ?v = commit_budget (o_mandate_id op) (o_amount op) True ?v"
    using captured(2,3) by (intro settle_capture_commit(1) [OF assms(1)])
      (simp_all add: upd_transaction_def upd_operation_def)
  then have "lview w' = lview (commit_budget (o_mandate_id op) (o_amount op) True ?v)"
    using captured(5) by simp
  also have "\<dots> = lview (upd_operation (o_id op) op_succeed (commit_budget (o_mandate_id op) (o_amount op) True w))"
    by (rule lview_cong) (simp_all add: commit_budget_def upd_mandate_def upd_operation_def upd_transaction_def)
  finally show ?thesis
    using settle_step [OF captured(2,3), of op_succeed True] by (simp add: op_succeed_def r_into_rtranclp)
qed simp

lemma failed_ledger:
  assumes "books_ok w" and run: "handle_payment_failed_event E payload t w = (r, w')"
  shows "ledger_steps (lview w) (lview w')"
  using run
proof (cases rule: failed_result)
  case (failed op tx i message)
  let ?v = "upd_transaction (t_id tx) (\<lambda>t. t\<lparr>t_status := Tx_FAILED\<rparr>) (upd_operation (o_id op) (op_fail message) w)"
  have "release_capture op ?v = release_budget (o_mandate_id op) (o_amount op) ?v"
    using failed(2,3) by (intro settle_capture_commit(2) [OF assms(1)])
      (simp_all add: upd_transaction_def upd_operation_def)
  then have "lview w' = lview (release_budget (o_mandate_id op) (o_amount op) ?v)"
    using failed(5) by simp
  also have "\<dots> = lview (upd_operation (o_id op) (op_fail message) (release_budget (o_mandate_id op) (o_amount op) w))"
    by (rule lview_cong) (simp_all add: release_budget_def upd_mandate_def upd_operation_def upd_transaction_def)
  finally show ?thesis
    using release_step [OF failed(2,3), of "op_fail message"] by (simp add: op_fail_def r_into_rtranclp)
qed simp

text \<open>What the gateway is relied on for: a refund event never carries a negative amount.\<close>

definition refund_nonneg :: "dict \<Rightarrow> bool" where
  "refund_nonneg d \<longleftrightarrow>
     (\<forall>i n. refund_fields (dget_or d ''payload'' (JObj [])) = Inr (Some i, n) \<longrightarrow> 0 \<le> n)"

lemma refund_ledger:
  assumes run: "handle_refund_processed_event payload w = (r, w')"
    and pos: "\<And>i n. refund_fields payload = Inr (Some i, n) \<Longrightarrow> 0 \<le> n"
  shows "ledger_steps (lview w) (lview w')"
  using run
proof (cases rule: refund_result)
  case (restored k n i)
  have "lview w' = (tupd ac_id k (move_committed (- n)) (fst (lview w)), snd (lview w))"
    unfolding restored(3)
    by (rule lview_upd_mandate) (simp add: account_of_def restore_allowance_def move_committed_def)
  moreover have "ledger_step (fst (lview w), snd (lview w))
      (tupd ac_id k (move_committed (- n)) (fst (lview w)), snd (lview w))"
    using pos [OF restored(2)] by (rule ledger_step.refund)
  ultimately show ?thesis by (simp add: r_into_rtranclp)
qed simp

lemma process_ledger:
  assumes "books_ok w" and "process_domain_webhook_event E t d w = (r, w')" and "refund_nonneg d"
  shows "ledger_steps (lview w) (lview w')"
  using assms captured_ledger [OF assms(1)] failed_ledger [OF assms(1)] refund_ledger
  unfolding process_domain_webhook_event_def Let_def refund_nonneg_def
  by (fastforce split: if_splits)

lemma process_recorded_ledger:
  assumes "books_ok w" and "refund_nonneg d"
  shows "ledger_steps (lview w) (lview (snd (process_recorded E k i t d w)))"
proof -
  obtain r w1 where run: "process_domain_webhook_event E t d w = (r, w1)"
    by (cases "process_domain_webhook_event E t d w")
  from process_ledger [OF assms(1) run assms(2)] run show ?thesis
    by (cases r) (simp_all add: process_recorded_def Let_def)
qed

lemma record_event_ledger:
  assumes ok: "books_ok w" and "refund_nonneg d"
  shows "ledger_steps (lview w) (lview (snd (record_event E i d b w)))"
proof (cases "webhook_by_event w i")
  case None
  show ?thesis
  proof (cases "dget_or d ''event'' (JStr ''unknown'')")
    case (JStr t)
    obtain k v where k: "generate_uuid E w = (k, v)" by (cases "generate_uuid E w")
    let ?w = "v\<lparr>webhook_events := webhook_events v @
        [new_webhook E i t (sha256_hex E b) d k]\<rparr>"
    have v: "lview v = lview w" "lview ?w = lview w"
      using k by (auto simp: generate_uuid_def draw_uuid_def Let_def intro!: lview_cong)
    have "books_ok ?w" using ok v(2) by (simp add: books_ok_def)
    from process_recorded_ledger [OF this assms(2), of E k i t] v None JStr k show ?thesis
      by (simp add: record_event_def Let_def)
  qed (simp_all add: record_event_def None)
next
  case (Some e)
  have "books_ok (upd_webhook (wh_id e) retry_webhook w)" using ok by (simp add: books_ok_def)
  from process_recorded_ledger [OF this assms(2)] Some show ?thesis
    by (simp add: record_event_def Let_def)
qed

lemma webhook_ledger:
  assumes ok: "books_ok w" and "\<And>d. json_loads E b = Some (JObj d) \<Longrightarrow> refund_nonneg d"
  shows "ledger_steps (lview w) (lview (snd (handle_razorpay_webhook E b s w)))"
proof -
  obtain h v where h: "draw_uuid E w = (h, v)" by (cases "draw_uuid E w")
  then have v: "lview v = lview w" by (auto simp: draw_uuid_def intro!: lview_cong)
  then have "books_ok v" using ok by (simp add: books_ok_def)
  with assms h v record_event_ledger [of w _ E] record_event_ledger [of v _ E] show ?thesis
    unfolding handle_razorpay_webhook_def
    by (auto split: option.split json.split)
qed

section \<open>Properties\<close>

text \<open>
  C32: A forged webhook is rejected: with a webhook secret configured and a signature other than
  the HMAC of the raw body, the handler answers 400 and changes nothing; in production without a
  secret it answers 500 and changes nothing.
\<close>
theorem forged_webhook_rejected:
  assumes "if RAZORPAY_WEBHOOK_SECRET (settings E) \<noteq> []
    then hmac_sha256_hex E (RAZORPAY_WEBHOOK_SECRET (settings E)) body \<noteq> sig
    else str_lower (ENVIRONMENT (settings E)) = ''production''"
  shows "\<exists>code text. handle_razorpay_webhook E body sig w = (Inl (HTTPException code text), w)
    \<and> code = (if RAZORPAY_WEBHOOK_SECRET (settings E) \<noteq> [] then 400 else 500)"
  using assms by (auto simp: handle_razorpay_webhook_def check_webhook_signature_def Let_def split: if_splits)

theorem forged_webhook_rejected_witness:
  "\<exists>text. handle_razorpay_webhook demo_env ''{}'' ''forged'' demo_world = (Inl (HTTPException 400 text), demo_world)"
proof -
  have "RAZORPAY_WEBHOOK_SECRET (settings demo_env) \<noteq> []"
    and "hmac_sha256_hex demo_env (RAZORPAY_WEBHOOK_SECRET (settings demo_env)) ''{}'' \<noteq> ''forged''"
    by (simp_all add: demo_env_def default_settings_def)
  with forged_webhook_rejected [of demo_env "''{}''" "''forged''" demo_world] show ?thesis by auto
qed

lemma webhook_keys [simp]:
  "wh_event_id (retry_webhook r) = wh_event_id r" "wh_id (retry_webhook r) = wh_id r"
  "wh_event_id (webhook_done t r) = wh_event_id r" "wh_event_id (webhook_failed m r) = wh_event_id r"
  "wh_status (webhook_done t r) = ''PROCESSED''"
  by (simp_all add: retry_webhook_def webhook_done_def webhook_failed_def)

interpretation retry_row: keyed_update wh_id retry_webhook
  by unfold_locales simp

interpretation done_row: keyed_update wh_id "webhook_done t" for t
  by unfold_locales (simp add: webhook_done_def)

interpretation failed_row: keyed_update wh_id "webhook_failed m" for m
  by unfold_locales (simp add: webhook_failed_def)

lemma process_recorded_done:
  assumes run: "process_recorded E k i t d w = (Inr resp, w')" and "dget resp ''status'' = Some (JStr ''PROCESSED'')"
    and row: "webhook_by_event w i = Some r" "wh_id r = k" "tget wh_id k (webhook_events w) = Some r'"
  shows "\<exists>r. webhook_by_event w' i = Some r \<and> wh_status r = ''PROCESSED''"
proof -
  obtain x w1 where x: "process_domain_webhook_event E t d w = (x, w1)"
    by (cases "process_domain_webhook_event E t d w")
  note ev = process_webhook_events [OF x]
  show ?thesis
  proof (cases x)
    case (Inr u)
    with run x have "webhook_events w' = tupd wh_id k (webhook_done (utc_now E)) (webhook_events w)"
      by (auto simp: process_recorded_def upd_webhook_def ev)
    with row show ?thesis by (simp add: tget_tupd_other)
  next
    case (Inl e)
    with run x row(3) have "dget resp ''status'' = Some (JStr (wh_status (webhook_failed (exn_text E e) r')))"
      by (auto simp: process_recorded_def upd_webhook_def ev Let_def dict_simps failed_row.tget_tupd)
    with assms(2) show ?thesis by (auto simp: webhook_failed_def split: if_splits)
  qed
qed

lemma record_event_done:
  assumes run: "record_event E i d b w = (Inr resp, w')" and st: "dget resp ''status'' = Some (JStr ''PROCESSED'')"
  shows "\<exists>r. webhook_by_event w' i = Some r \<and> wh_status r = ''PROCESSED''"
proof (cases "webhook_by_event w i")
  case (Some r)
  have ns: "wh_status r \<noteq> ''PROCESSED''"
    using run st Some by (auto simp: record_event_def dict_simps)
  let ?w = "upd_webhook (wh_id r) retry_webhook w"
  have ev: "webhook_events ?w = tupd wh_id (wh_id r) retry_webhook (webhook_events w)"
    by (simp add: upd_webhook_def)
  have row: "webhook_by_event ?w i = Some (retry_webhook r)"
    using Some by (simp add: ev tget_tupd_other)
  have "wh_id r \<in> wh_id ` set (webhook_events w)" using tget_SomeD [OF Some] by simp
  then obtain r0 where "tget wh_id (wh_id r) (webhook_events w) = Some r0"
    by (metis not_Some_eq tget_None_iff)
  then have "tget wh_id (wh_id r) (webhook_events ?w) = Some (retry_webhook r0)"
    unfolding ev by (rule retry_row.tget_tupd_same)
  then obtain r' where "tget wh_id (wh_id r) (webhook_events ?w) = Some r'" by blast
  with process_recorded_done [OF _ st row] run Some ns show ?thesis
    by (auto simp: record_event_def Let_def)
next
  case None
  obtain t where t: "dget_or d ''event'' (JStr ''unknown'') = JStr t"
    using run None by (auto simp: record_event_def split: json.splits)
  obtain k v where k: "generate_uuid E w = (k, v)" by (cases "generate_uuid E w")
  have v: "webhook_events v = webhook_events w"
    using k by (auto simp: generate_uuid_def draw_uuid_def Let_def)
  let ?r = "new_webhook E i t (sha256_hex E b) d k"
  let ?w = "v\<lparr>webhook_events := webhook_events v @ [?r]\<rparr>"
  have new: "tget wh_id k (webhook_events v) = None"
    using run None t k by (auto simp: record_event_def Let_def split: if_splits)
  have "webhook_by_event ?w i = Some ?r" and "wh_id ?r = k" and "tget wh_id k (webhook_events ?w) = Some ?r"
    using None new by (simp_all add: tget_append table_simps v new_webhook_def)
  with process_recorded_done [OF _ st] run None t k new show ?thesis
    by (auto simp: record_event_def Let_def)
qed

text \<open>
  C12: An identified webhook takes effect once: after an event whose body carries a non-empty
  \<open>event_id\<close> was answered PROCESSED, any body that passes the signature check and carries the same
  \<open>event_id\<close> is answered DUPLICATE_IGNORED, and the database, the budgets, the identifiers drawn and
  the gateway are exactly as they were. A body without that field is not covered: its id is drawn
  at random, and its redelivery is processed again (lemma \<open>unidentified_event_processed_again\<close>).
\<close>
theorem webhook_takes_effect_once:
  assumes "handle_razorpay_webhook E body sig w = (Inr resp, w')"
    and "dget resp ''status'' = Some (JStr ''PROCESSED'')"
    and "json_loads E body = Some (JObj d)" and "dget_or d ''event_id'' JNull = JStr s" and "s \<noteq> []"
    and "check_webhook_signature E body' sig' = None" and "json_loads E body' = Some (JObj d')"
    and "dget_or d' ''event_id'' JNull = JStr s"
  shows "\<exists>resp'. handle_razorpay_webhook E body' sig' w' = (Inr resp', w')
    \<and> dget resp' ''status'' = Some (JStr ''DUPLICATE_IGNORED'')"
proof -
  have "record_event E s d body w = (Inr resp, w')"
    using assms(1,3,4,5) by (auto simp: handle_razorpay_webhook_def split: option.splits)
  from record_event_done [OF this assms(2)] obtain r where
    "webhook_by_event w' s = Some r" and "wh_status r = ''PROCESSED''" by blast
  then have "\<exists>resp'. record_event E s d' body' w' = (Inr resp', w')
      \<and> dget resp' ''status'' = Some (JStr ''DUPLICATE_IGNORED'')"
    by (simp add: record_event_def dict_simps)
  with assms(5-8) show ?thesis by (simp add: handle_razorpay_webhook_def)
qed

text \<open>A body, its parse and a database with an order waiting for it.\<close>

definition demo_event :: dict where
  "demo_event = [(''event_id'', JStr ''evt_1''), (''event'', JStr ''payment.captured''),
     (''payload'', JObj [(''payment'', JObj [(''entity'', JObj
        [(''id'', JStr ''pay_1''), (''order_id'', JStr ''order_1'')])])])]"

definition webhook_env :: env where
  "webhook_env = demo_env\<lparr>json_loads := (\<lambda>s. if s = ''body'' then Some (JObj demo_event) else None)\<rparr>"

definition demo_tx :: transaction where
  "demo_tx = \<lparr>t_id = ''tx'', t_operation_id = ''op'', t_gateway_name = ''RAZORPAY'',
     t_gateway_order_id = Some ''order_1'', t_gateway_payment_id = None, t_gateway_refund_id = None,
     t_gateway_payment_link_id = None, t_gateway_payment_link_url = None, t_amount = 1500,
     t_currency = ''INR'', t_status = Tx_CREATED, t_gateway_response = [], t_error_code = None,
     t_error_description = None, t_created_at = Aware 0 0\<rparr>"

definition waiting_world :: world where
  "waiting_world = demo_world\<lparr>
     mandates := [demo_root\<lparr>m_reserved_spend := 1500\<rparr>, demo_child, demo_support],
     operations := [(demo_op 1500)\<lparr>o_status := Op_EXECUTING\<rparr>], transactions := [demo_tx]\<rparr>"

lemma waiting_webhook:
  "case handle_razorpay_webhook webhook_env ''body'' ''hmac:body'' waiting_world of
     (Inr resp, w') \<Rightarrow> dget resp ''status'' = Some (JStr ''PROCESSED'')
       \<and> map o_status (operations w') = [Op_SUCCEEDED]
   | _ \<Rightarrow> False"
  by code_simp

theorem webhook_takes_effect_once_witness:
  "\<exists>resp'. handle_razorpay_webhook webhook_env ''body'' ''hmac:body''
      (snd (handle_razorpay_webhook webhook_env ''body'' ''hmac:body'' waiting_world))
    = (Inr resp', snd (handle_razorpay_webhook webhook_env ''body'' ''hmac:body'' waiting_world))"
proof -
  let ?h = "handle_razorpay_webhook webhook_env ''body'' ''hmac:body'' waiting_world"
  obtain resp where resp: "fst ?h = Inr resp" "dget resp ''status'' = Some (JStr ''PROCESSED'')"
    using waiting_webhook by (auto split: prod.splits sum.splits)
  have "check_webhook_signature webhook_env ''body'' ''hmac:body'' = None"
    and "json_loads webhook_env ''body'' = Some (JObj demo_event)"
    and "dget_or demo_event ''event_id'' JNull = JStr ''evt_1''"
    by (simp_all add: check_webhook_signature_def webhook_env_def demo_env_def default_settings_def
        Let_def demo_event_def dget_or_def dict_simps)
  with webhook_takes_effect_once [of webhook_env "''body''" "''hmac:body''" waiting_world resp "snd ?h"
      demo_event "''evt_1''" "''body''" "''hmac:body''" demo_event] resp
  show ?thesis by (metis list.distinct(1) prod.collapse)
qed

text \<open>
  The event id is read from the body alone. A body without it (an id sent in a header is not
  looked at) is stored under a fresh random id at each delivery, so redelivering it is answered
  PROCESSED again, with a second row.
\<close>

definition unidentified_env :: env where
  "unidentified_env = demo_env\<lparr>json_loads := (\<lambda>s. Some (JObj (tl demo_event)))\<rparr>"

lemma unidentified_event_processed_again:
  "case handle_razorpay_webhook unidentified_env ''body'' ''hmac:body'' waiting_world of
     (Inr resp, w') \<Rightarrow> dget resp ''status'' = Some (JStr ''PROCESSED'')
       \<and> (case handle_razorpay_webhook unidentified_env ''body'' ''hmac:body'' w' of
            (Inr resp', w'') \<Rightarrow> dget resp' ''status'' = Some (JStr ''PROCESSED'')
              \<and> length (webhook_events w'') = 2 \<and> distinct (map wh_event_id (webhook_events w''))
              \<and> mandates w'' = mandates w'
          | _ \<Rightarrow> False)
   | _ \<Rightarrow> False"
  by code_simp

text \<open>
  C8: A captured payment settles its operation once: in consistent books, a captured event for an
  operation that holds its reservation makes the operation SUCCEEDED and moves exactly its amount
  from the mandate's reservation to its committed spend, and the same event processed again,
  whatever its event id, changes nothing.
\<close>
theorem capture_settles_once:
  assumes "books_ok w" and "captured_ids payload = Inr (Some i, pid)"
    and "tx_by_order w i = Inr (Some tx)" and "tget o_id (t_operation_id tx) (operations w) = Some op"
    and "in_flight (o_status op)" and "tget m_id (o_mandate_id op) (mandates w) = Some m"
  shows "\<exists>w' m' op'. handle_payment_captured_event E payload t w = (Inr (), w')
    \<and> tget m_id (o_mandate_id op) (mandates w') = Some m'
    \<and> m_reserved_spend m' = m_reserved_spend m - o_amount op
    \<and> m_current_aggregate_spend m' = m_current_aggregate_spend m + o_amount op
    \<and> tget o_id (o_id op) (operations w') = Some op' \<and> o_status op' = Op_SUCCEEDED
    \<and> handle_payment_captured_event E payload t w' = (Inr (), w')"
proof -
  let ?v = "upd_transaction (t_id tx) (mark_captured pid) (upd_operation (o_id op) op_succeed w)"
  let ?w' = "webhook_audit E BUDGET_COMMITTED t i op Op_SUCCEEDED (settle_capture op ?v)"
  have i: "o_id op = t_operation_id tx" using assms(4) by (auto dest: tget_SomeD)
  obtain u where v: "validate_transition (o_status op) Op_SUCCEEDED (''Webhook event: '' @ t) = Inr u"
    using assms(5) by (auto simp: validate_transition_def can_transition_to_SUCCEEDED)
  have ns: "o_status op \<noteq> Op_SUCCEEDED" using assms(5) by auto
  have run: "handle_payment_captured_event E payload t w = (Inr (), ?w')"
    using assms(2-4) ns v by (simp add: handle_payment_captured_event_def Let_def)
  have "settle_capture op ?v = commit_budget (o_mandate_id op) (o_amount op) True ?v"
    using assms(4,5) i by (intro settle_capture_commit(1) [OF assms(1)])
      (simp_all add: upd_transaction_def upd_operation_def)
  note sc = this
  have ops: "tget o_id (o_id op) (operations ?w') = Some (op_succeed op)"
    unfolding sc using assms(4) i by (simp add: commit_budget_def upd_mandate_def upd_transaction_def
        upd_operation_def tget_tupd_key)
  have ms: "mandates ?w' = mandates (commit_budget (o_mandate_id op) (o_amount op) True w)"
    unfolding sc by (simp add: commit_budget_def upd_mandate_def upd_transaction_def upd_operation_def)
  have txs: "transactions ?w' = tupd t_id (t_id tx) (mark_captured pid) (transactions w)"
    unfolding sc by (simp add: webhook_audit_def commit_budget_def upd_mandate_def upd_transaction_def
        upd_operation_def)
  have tx': "tx_by_order ?w' i = Inr (Some (mark_captured pid tx))"
  proof -
    have "filter (\<lambda>x. t_gateway_order_id x = Some i) (transactions w) = [tx]"
      using assms(3) by (simp add: tx_by_order_def one_or_none_Inr_SomeD)
    then have "filter (\<lambda>x. t_gateway_order_id x = Some i) (transactions ?w') = [mark_captured pid tx]"
      unfolding txs tupd_def filter_map comp_def
      by (simp add: mark_captured_def cong: if_cong)
    then show ?thesis by (simp add: tx_by_order_def one_or_none_def)
  qed
  have again: "handle_payment_captured_event E payload t ?w' = (Inr (), ?w')"
    using assms(2) tx' ops i
    by (simp add: handle_payment_captured_event_def mark_captured_def)
  from assms(6) have "\<exists>m'. tget m_id (o_mandate_id op) (mandates ?w') = Some m'
      \<and> m_reserved_spend m' = m_reserved_spend m - o_amount op
      \<and> m_current_aggregate_spend m' = m_current_aggregate_spend m + o_amount op"
    unfolding ms by (simp add: commit_budget_def upd_mandate_def tget_tupd_key)
  with run ops again show ?thesis by fastforce
qed

lemma waiting_books: "books_ok waiting_world"
  by (simp add: books_ok_def lview_def ledger_ok_def waiting_world_def demo_world_def demo_root_def
      demo_child_def demo_support_def demo_op_def account_of_def entry_of_def held_sum_def)

theorem capture_settles_once_witness:
  "\<exists>w' m'. handle_payment_captured_event demo_env (dget_or demo_event ''payload'' JNull) ''payment.captured''
      waiting_world = (Inr (), w')
    \<and> tget m_id ''root'' (mandates w') = Some m' \<and> m_current_aggregate_spend m' = 1500"
proof -
  have "captured_ids (dget_or demo_event ''payload'' JNull) = Inr (Some ''order_1'', Some ''pay_1'')"
    by code_simp
  moreover have "tx_by_order waiting_world ''order_1'' = Inr (Some demo_tx)"
    by (simp add: tx_by_order_def waiting_world_def demo_tx_def one_or_none_def)
  ultimately show ?thesis
    using capture_settles_once [OF waiting_books, of "dget_or demo_event ''payload'' JNull" "''order_1''"
        "Some ''pay_1''" demo_tx "(demo_op 1500)\<lparr>o_status := Op_EXECUTING\<rparr>"
        "demo_root\<lparr>m_reserved_spend := 1500\<rparr>" demo_env "''payment.captured''"]
    by (fastforce simp: waiting_world_def demo_tx_def demo_op_def demo_root_def table_simps)
qed

text \<open>
  A late capture never resurrects an operation: a captured event for an operation that is
  FAILED, CANCELLED or POLICY_REJECTED raises the state machine's error and changes nothing, so
  no budget is committed for it.
\<close>
theorem late_capture_refused:
  assumes "captured_ids payload = Inr (Some i, pid)" and "tx_by_order w i = Inr (Some tx)"
    and "tget o_id (t_operation_id tx) (operations w) = Some op"
    and "o_status op \<in> {Op_FAILED, Op_CANCELLED, Op_POLICY_REJECTED}"
  shows "\<exists>reason. handle_payment_captured_event E payload t w
    = (Inl (InvalidStateTransitionError (o_status op) Op_SUCCEEDED reason), w)"
proof -
  have "\<not> can_transition (o_status op) Op_SUCCEEDED"
    using assms(4) can_transition_to_SUCCEEDED by auto
  then have "\<exists>reason. validate_transition (o_status op) Op_SUCCEEDED (''Webhook event: '' @ t)
      = Inl (InvalidStateTransitionError (o_status op) Op_SUCCEEDED reason)"
    by (auto simp: validate_transition_def)
  then obtain reason where "validate_transition (o_status op) Op_SUCCEEDED (''Webhook event: '' @ t)
      = Inl (InvalidStateTransitionError (o_status op) Op_SUCCEEDED reason)" by blast
  with assms show ?thesis by (auto simp: handle_payment_captured_event_def)
qed

theorem late_capture_refused_witness:
  "\<exists>reason. handle_payment_captured_event demo_env (dget_or demo_event ''payload'' JNull) ''order.paid''
      (waiting_world\<lparr>operations := [(demo_op 1500)\<lparr>o_status := Op_FAILED\<rparr>]\<rparr>)
    = (Inl (InvalidStateTransitionError Op_FAILED Op_SUCCEEDED reason),
       waiting_world\<lparr>operations := [(demo_op 1500)\<lparr>o_status := Op_FAILED\<rparr>]\<rparr>)"
proof -
  have "captured_ids (dget_or demo_event ''payload'' JNull) = Inr (Some ''order_1'', Some ''pay_1'')"
    by code_simp
  then show ?thesis
    using late_capture_refused [of "dget_or demo_event ''payload'' JNull" "''order_1''" "Some ''pay_1''"
        "waiting_world\<lparr>operations := [(demo_op 1500)\<lparr>o_status := Op_FAILED\<rparr>]\<rparr>" demo_tx
        "(demo_op 1500)\<lparr>o_status := Op_FAILED\<rparr>" demo_env "''order.paid''"]
    by (simp add: tx_by_order_def waiting_world_def demo_tx_def demo_op_def one_or_none_def table_simps)
qed

text \<open>
  A failing event is retried and then parked: when a redelivered event raises, its row counts
  the attempt and becomes FAILED, or DEAD_LETTER once the attempts reach \<open>max_retries\<close>; the error
  is recorded and no mandate, operation or transaction changes.
\<close>
theorem failing_event_is_parked:
  assumes "webhook_by_event w i = Some r" and "wh_status r \<noteq> ''PROCESSED''"
    and "tget wh_id (wh_id r) (webhook_events w) = Some r"
    and "fst (process_domain_webhook_event E
      (case dget_or d ''event'' (JStr ''unknown'') of JStr t \<Rightarrow> t | _ \<Rightarrow> []) d
      (upd_webhook (wh_id r) retry_webhook w)) = Inl e"
    and "record_event E i d b w = (res, w')"
  shows "\<exists>r'. webhook_by_event w' i = Some r'
    \<and> wh_processing_attempts r' = wh_processing_attempts r + 1
    \<and> wh_status r' = (if wh_max_retries r \<le> wh_processing_attempts r + 1 then ''DEAD_LETTER'' else ''FAILED'')
    \<and> wh_error_message r' = Some (exn_text E e)
    \<and> mandates w' = mandates w \<and> operations w' = operations w \<and> transactions w' = transactions w"
proof -
  let ?t = "case dget_or d ''event'' (JStr ''unknown'') of JStr t \<Rightarrow> t | _ \<Rightarrow> []"
  let ?w = "upd_webhook (wh_id r) retry_webhook w"
  have p: "process_domain_webhook_event E ?t d ?w = (Inl e, ?w)"
    using assms(4) process_Inl [of E ?t d ?w e] by (metis prod.collapse)
  have w': "w' = upd_webhook (wh_id r) (webhook_failed (exn_text E e)) ?w"
    using assms(1,2,5) p by (simp add: record_event_def process_recorded_def Let_def)
  have "webhook_by_event w' i = Some (webhook_failed (exn_text E e) (retry_webhook r))"
    using assms(1) by (simp add: w' upd_webhook_def tget_tupd_other)
  then show ?thesis
    by (simp add: w' webhook_failed_def retry_webhook_def)
qed

definition demo_webhook :: webhook_event where
  "demo_webhook = (new_webhook demo_env ''evt_1'' ''payment.captured'' ''h'' demo_event ''wh'')
     \<lparr>wh_status := ''FAILED'', wh_processing_attempts := 2\<rparr>"

definition stuck_world :: world where
  "stuck_world = waiting_world\<lparr>operations := [(demo_op 1500)\<lparr>o_status := Op_FAILED\<rparr>],
     webhook_events := [demo_webhook]\<rparr>"

theorem failing_event_is_parked_witness:
  "\<exists>r'. webhook_by_event (snd (record_event demo_env ''evt_1'' demo_event ''body'' stuck_world)) ''evt_1'' = Some r'
    \<and> wh_status r' = ''DEAD_LETTER''"
proof -
  let ?w = "upd_webhook ''wh'' retry_webhook stuck_world"
  have "(case fst (process_domain_webhook_event demo_env ''payment.captured'' demo_event ?w) of
      Inl _ \<Rightarrow> True | Inr _ \<Rightarrow> False)" by code_simp
  then obtain e where "fst (process_domain_webhook_event demo_env ''payment.captured'' demo_event ?w) = Inl e"
    by (auto split: sum.splits)
  moreover have "dget_or demo_event ''event'' (JStr ''unknown'') = JStr ''payment.captured''"
    by (simp add: demo_event_def dget_or_def dict_simps)
  ultimately show ?thesis
    using failing_event_is_parked [of "''evt_1''" stuck_world demo_webhook demo_env demo_event e "''body''"
        "fst (record_event demo_env ''evt_1'' demo_event ''body'' stuck_world)"
        "snd (record_event demo_env ''evt_1'' demo_event ''body'' stuck_world)"]
    by (auto simp: stuck_world_def demo_webhook_def new_webhook_def table_simps)
qed

end
