(* ===== verification/Worker.thy ===== *)
theory Worker
  imports Budget Razorpay_Client
begin

text \<open>
  The background worker of \<^verbatim>\<open>services/worker/main.py\<close>: the sweep that releases or settles
  reservations stuck in RESERVED or EXECUTING, and the loop that repeats it from start-up to
  shutdown. A sweep is one database session: an exception that leaves its loop rolls the tables
  back. The duration of a sweep is not kept in the heartbeat, the log lines are left out.
\<close>

section \<open>State\<close>

record worker_state =
  ws_status :: string
  ws_last_heartbeat_utc :: "string option"
  ws_total_reconciled :: int
  ws_running :: bool
  ws_sweep_locked :: bool

definition initial_worker :: worker_state where
  "initial_worker = \<lparr>ws_status = ''stopped'', ws_last_heartbeat_utc = None,
     ws_total_reconciled = 0, ws_running = True, ws_sweep_locked = False\<rparr>"

definition get_worker_heartbeat :: "worker_state \<Rightarrow> dict" where
  "get_worker_heartbeat s = [(''status'', JStr (ws_status s)),
     (''last_heartbeat_utc'', jopt_str (ws_last_heartbeat_utc s)),
     (''total_reconciled'', JInt (ws_total_reconciled s))]"

definition shutdown_handler :: "worker_state \<Rightarrow> worker_state" where
  "shutdown_handler s = s\<lparr>ws_running := False\<rparr>"

section \<open>One stuck operation\<close>

definition tx_of_operation :: "world \<Rightarrow> string \<Rightarrow> exn + transaction option" where
  "tx_of_operation w op_id =
     one_or_none (filter (\<lambda>t. t_operation_id t = op_id) (transactions w))"

definition never_dispatched :: "transaction option \<Rightarrow> bool" where
  "never_dispatched tx \<longleftrightarrow>
     (case tx of None \<Rightarrow> True
      | Some t \<Rightarrow> \<not> truthy_str (t_gateway_order_id t) \<and> \<not> truthy_str (t_gateway_payment_id t)
          \<and> \<not> truthy_str (t_gateway_payment_link_id t))"

definition expire_operation :: "string \<Rightarrow> operation \<Rightarrow> operation" where
  "expire_operation message op = op\<lparr>o_status := Op_FAILED, o_error_message := Some message\<rparr>"

definition worker_succeed :: "operation \<Rightarrow> operation" where
  "worker_succeed op = op\<lparr>o_status := Op_SUCCEEDED\<rparr>"

definition worker_audit :: "env \<Rightarrow> audit_action \<Rightarrow> string \<Rightarrow> dict \<Rightarrow> world \<Rightarrow> world" where
  "worker_audit E action mandate_id payload w =
     add_audit E action ''RECONCILIATION_WORKER'' ''SYSTEM'' mandate_id ''MANDATE'' payload None None w"

definition release_stuck ::
    "env \<Rightarrow> operation \<Rightarrow> mandate \<Rightarrow> string \<Rightarrow> string \<Rightarrow> world \<Rightarrow> world" where
  "release_stuck E op mandate message reason w =
     (let w = upd_operation (o_id op) (expire_operation message) w;
          w = release_budget (m_id mandate) (o_amount op) w
      in worker_audit E BUDGET_RELEASED (m_id mandate)
           [(''released_amount'', JInt (o_amount op)), (''reason'', JStr reason)] w)"

definition commit_paid :: "env \<Rightarrow> operation \<Rightarrow> mandate \<Rightarrow> transaction \<Rightarrow> string \<Rightarrow> world \<Rightarrow> world" where
  "commit_paid E op mandate tx order_id w =
     (let w = upd_operation (o_id op) worker_succeed w;
          w = upd_transaction (t_id tx) (\<lambda>t. t\<lparr>t_status := Tx_CAPTURED\<rparr>) w;
          w = commit_budget (m_id mandate) (o_amount op) True w
      in worker_audit E BUDGET_COMMITTED (m_id mandate)
           [(''committed_amount'', JInt (o_amount op)), (''order_id'', JStr order_id)] w)"

text \<open>\<open>(now - op.created_at).total_seconds() > 300\<close>; a naive timestamp cannot be subtracted.\<close>

definition unpaid_expired :: "env \<Rightarrow> operation \<Rightarrow> exn + bool" where
  "unpaid_expired E op =
     (if dt_aware (o_created_at op) then Inr (now_us E - instant (o_created_at op) > 300 * sec)
      else Inl TypeError)"

definition reconcile_order ::
    "env \<Rightarrow> operation \<Rightarrow> mandate \<Rightarrow> transaction \<Rightarrow> string \<Rightarrow> world \<Rightarrow> int \<times> world" where
  "reconcile_order E op mandate tx order_id w =
     (case fetch_order E (razorpay_client E) order_id w of
        (Inl _, w) \<Rightarrow> (0, w)
      | (Inr order_status, w) \<Rightarrow>
          if ors_status order_status = ''paid''
            then (1, commit_paid E op mandate tx order_id w)
          else if ors_status order_status \<in> {''attempted'', ''created''} then
            (case unpaid_expired E op of
               Inr True \<Rightarrow>
                 (1, release_stuck E op mandate ''Order unpaid within timeout window''
                       ''Order unpaid timeout'' w)
             | _ \<Rightarrow> (0, w))
          else (0, w))"

definition crash_message :: string where
  "crash_message = ''Reservation expired / process crashed before gateway dispatch''"

definition reconcile_operation :: "env \<Rightarrow> operation \<Rightarrow> world \<Rightarrow> (exn + int) \<times> world" where
  "reconcile_operation E op w =
     (case get_mandate_row w (o_mandate_id op) of
        None \<Rightarrow> (Inr 0, w)
      | Some mandate \<Rightarrow>
          (case tx_of_operation w (o_id op) of
             Inl e \<Rightarrow> (Inl e, w)
           | Inr tx \<Rightarrow>
               if never_dispatched tx
                 then (Inr 1, release_stuck E op mandate crash_message crash_message w)
               else (case tx of
                   None \<Rightarrow> (Inr 0, w)
                 | Some t \<Rightarrow>
                     if truthy_str (t_gateway_order_id t)
                     then let (n, w) = reconcile_order E op mandate t (str_or (t_gateway_order_id t) []) w
                          in (Inr n, w)
                     else (Inr 0, w))))"

section \<open>The sweep\<close>

text \<open>\<open>locked\<close>: the rows another transaction holds, which \<open>SKIP LOCKED\<close> leaves out.\<close>

definition is_stuck :: "env \<Rightarrow> int \<Rightarrow> (string \<Rightarrow> bool) \<Rightarrow> operation \<Rightarrow> bool" where
  "is_stuck E timeout_seconds locked op \<longleftrightarrow>
     o_status op \<in> {Op_RESERVED, Op_EXECUTING}
     \<and> instant (o_created_at op) \<le> now_us E - timeout_seconds * sec \<and> \<not> locked (o_id op)"

fun reconcile_all :: "env \<Rightarrow> operation list \<Rightarrow> int \<Rightarrow> world \<Rightarrow> (exn + int) \<times> world" where
  "reconcile_all E [] n w = (Inr n, w)"
| "reconcile_all E (op # ops) n w =
     (case reconcile_operation E op w of
        (Inl e, w) \<Rightarrow> (Inl e, w)
      | (Inr k, w) \<Rightarrow> reconcile_all E ops (n + k) w)"

definition sweep_session ::
    "env \<Rightarrow> int \<Rightarrow> (string \<Rightarrow> bool) \<Rightarrow> world \<Rightarrow> (exn + int) \<times> world" where
  "sweep_session E timeout_seconds locked w =
     (case reconcile_all E (filter (is_stuck E timeout_seconds locked) (operations w)) 0 w of
        (Inl e, w') \<Rightarrow> (Inl e, rollback w w')
      | (Inr n, w') \<Rightarrow> (Inr n, w'))"

definition reconcile_stuck_reservations ::
    "env \<Rightarrow> int \<Rightarrow> (string \<Rightarrow> bool) \<Rightarrow> worker_state \<Rightarrow> world \<Rightarrow> (exn + int) \<times> worker_state \<times> world"
where
  "reconcile_stuck_reservations E timeout_seconds locked s w =
     (if ws_sweep_locked s then (Inr 0, s, w)
      else case sweep_session E timeout_seconds locked w of
        (Inl e, w) \<Rightarrow> (Inl e, s, w)
      | (Inr n, w) \<Rightarrow>
          (Inr n, s\<lparr>ws_last_heartbeat_utc := Some (isoformat (utc_now E)),
             ws_total_reconciled := ws_total_reconciled s + n\<rparr>, w))"

section \<open>The worker loop\<close>

text \<open>
  \<open>connect attempt\<close> is the outcome of opening the database at that attempt; the sleeps between
  attempts change no state.
\<close>

definition max_retries :: nat where "max_retries = 5"

fun startup_attempts :: "env \<Rightarrow> (nat \<Rightarrow> exn option) \<Rightarrow> nat list \<Rightarrow> exn option" where
  "startup_attempts E connect [] = None"
| "startup_attempts E connect (attempt # later) =
     (case connect attempt of
        None \<Rightarrow> None
      | Some e \<Rightarrow>
          if attempt < max_retries then startup_attempts E connect later
          else if str_lower (ENVIRONMENT (settings E)) = ''production''
            then Some (RuntimeError (''Worker could not reach database: '' @ exn_text E e))
          else startup_attempts E connect later)"

text \<open>
  One turn of the loop: the environment and the locked rows of its sweep, what the rest of the
  system does while the worker sleeps, and whether a shutdown signal or a cancellation arrives.
\<close>

record tick =
  tk_env :: env
  tk_locked :: "string \<Rightarrow> bool"
  tk_others :: "world \<Rightarrow> world"
  tk_signal :: bool
  tk_cancelled :: bool

definition loop_sweep :: "tick \<Rightarrow> worker_state \<Rightarrow> world \<Rightarrow> worker_state \<times> world" where
  "loop_sweep tk s w =
     (case reconcile_stuck_reservations (tk_env tk) 120 (tk_locked tk) s w of
        (Inl _, s, w) \<Rightarrow> (s, w)
      | (Inr _, s, w) \<Rightarrow> (s\<lparr>ws_last_heartbeat_utc := Some (isoformat (utc_now (tk_env tk)))\<rparr>, w))"

definition stop_worker :: "worker_state \<Rightarrow> worker_state" where
  "stop_worker s = s\<lparr>ws_status := ''stopped''\<rparr>"

text \<open>The \<open>while\<close> loop over the turns to come; the result says whether it has ended.\<close>

fun worker_loop :: "tick list \<Rightarrow> worker_state \<Rightarrow> world \<Rightarrow> bool \<times> worker_state \<times> world" where
  "worker_loop [] s w = (if ws_running s then (False, s, w) else (True, stop_worker s, w))"
| "worker_loop (tk # tks) s w =
     (if \<not> ws_running s then (True, stop_worker s, w)
      else
        let (s, w) = loop_sweep tk s w;
            w = tk_others tk w;
            s = (if tk_signal tk then shutdown_handler s else s)
        in if tk_cancelled tk then (True, stop_worker s, w) else worker_loop tks s w)"

definition initial_sweep :: "env \<Rightarrow> (string \<Rightarrow> bool) \<Rightarrow> worker_state \<Rightarrow> world \<Rightarrow> worker_state \<times> world" where
  "initial_sweep E locked s w =
     (case reconcile_stuck_reservations E 60 locked s w of (_, s, w) \<Rightarrow> (s, w))"

definition run_worker_loop ::
    "env \<Rightarrow> (nat \<Rightarrow> exn option) \<Rightarrow> (string \<Rightarrow> bool) \<Rightarrow> tick list \<Rightarrow> worker_state \<Rightarrow> world
       \<Rightarrow> exn option \<times> bool \<times> worker_state \<times> world" where
  "run_worker_loop E connect locked ticks s w =
     (let s = s\<lparr>ws_status := ''starting''\<rparr> in
      case startup_attempts E connect [1..<Suc max_retries] of
        Some e \<Rightarrow> (Some e, True, s, w)
      | None \<Rightarrow>
          let s = s\<lparr>ws_status := ''running'', ws_last_heartbeat_utc := Some (isoformat (utc_now E))\<rparr>;
              (s, w) = initial_sweep E locked s w
          in (None, worker_loop ticks s w))"

section \<open>What reconciling one operation does\<close>

lemma worker_op_fields [simp]:
  "o_id (expire_operation m op) = o_id op" "o_status (expire_operation m op) = Op_FAILED"
  "o_mandate_id (expire_operation m op) = o_mandate_id op" "o_amount (expire_operation m op) = o_amount op"
  "o_id (worker_succeed op) = o_id op" "o_status (worker_succeed op) = Op_SUCCEEDED"
  "o_mandate_id (worker_succeed op) = o_mandate_id op" "o_amount (worker_succeed op) = o_amount op"
  by (simp_all add: expire_operation_def worker_succeed_def)

interpretation expire_row: keyed_update o_id "expire_operation m" for m
  by unfold_locales simp

interpretation settle_row: keyed_update o_id worker_succeed
  by unfold_locales simp

lemma worker_audit_fields [simp]:
  "mandates (worker_audit E a k p w) = mandates w" "operations (worker_audit E a k p w) = operations w"
  "transactions (worker_audit E a k p w) = transactions w"
  by (simp_all add: worker_audit_def)

lemma release_stuck_operations [simp]:
  "operations (release_stuck E op m msg r w) = tupd o_id (o_id op) (expire_operation msg) (operations w)"
  "transactions (release_stuck E op m msg r w) = transactions w"
  by (simp_all add: release_stuck_def Let_def release_budget_def upd_mandate_def upd_operation_def)

lemma commit_paid_operations [simp]:
  "operations (commit_paid E op m tx i w) = tupd o_id (o_id op) worker_succeed (operations w)"
  by (simp_all add: commit_paid_def Let_def commit_budget_def upd_mandate_def upd_operation_def
      upd_transaction_def)

lemma release_stuck_lview:
  assumes "m_id m = o_mandate_id op" and "tget o_id (o_id op) (operations w) = Some op"
    and "in_flight (o_status op)"
  shows "ledger_step (lview w) (lview (release_stuck E op m msg r w))"
proof -
  have "lview (release_stuck E op m msg r w)
      = lview (upd_operation (o_id op) (expire_operation msg) (release_budget (o_mandate_id op) (o_amount op) w))"
    by (rule lview_cong)
      (simp_all add: release_stuck_def Let_def assms(1) release_budget_def upd_mandate_def upd_operation_def)
  with release_step [OF assms(2,3), of "expire_operation msg"] show ?thesis by simp
qed

lemma commit_paid_lview:
  assumes "m_id m = o_mandate_id op" and "tget o_id (o_id op) (operations w) = Some op"
    and "in_flight (o_status op)"
  shows "ledger_step (lview w) (lview (commit_paid E op m tx i w))"
proof -
  have "lview (commit_paid E op m tx i w)
      = lview (upd_operation (o_id op) worker_succeed (commit_budget (o_mandate_id op) (o_amount op) True w))"
    by (rule lview_cong)
      (simp_all add: commit_paid_def Let_def assms(1) commit_budget_def upd_mandate_def upd_operation_def
        upd_transaction_def)
  with settle_step [OF assms(2,3), of worker_succeed True] show ?thesis by simp
qed

text \<open>
  The three outcomes: nothing is written, the reservation is released, or it is settled because
  the gateway says the order is paid. \<open>v\<close> is the state after the call to the gateway.
\<close>

lemma reconcile_operation_result:
  assumes run: "reconcile_operation E op w = (r, w')"
  obtains (kept) "same_tables w w'"
  | (released) m msg reason v where "r = Inr 1" "tget m_id (o_mandate_id op) (mandates w) = Some m"
      "same_tables w v" "w' = release_stuck E op m msg reason v"
  | (settled) m tx i v order where "r = Inr 1" "tget m_id (o_mandate_id op) (mandates w) = Some m"
      "tx_of_operation w (o_id op) = Inr (Some tx)" "t_gateway_order_id tx = Some i"
      "fetch_order E (razorpay_client E) i w = (Inr order, v)" "ors_status order = ''paid''"
      "same_tables w v" "w' = commit_paid E op m tx i v"
proof (cases "tget m_id (o_mandate_id op) (mandates w)")
  case None
  with run show ?thesis by (intro kept) (simp add: reconcile_operation_def)
next
  case (Some m)
  note d = reconcile_operation_def and md = this
  show ?thesis
  proof (cases "tx_of_operation w (o_id op)")
    case (Inl e)
    with run md show ?thesis by (intro kept) (simp add: d)
  next
    case tx: (Inr t)
    show ?thesis
    proof (cases "never_dispatched t")
      case True
      with run md tx show ?thesis
        by (intro released [of m w crash_message crash_message]) (auto simp: d)
    next
      case False
      then obtain tx0 where t: "t = Some tx0" by (auto simp: never_dispatched_def split: option.splits)
      show ?thesis
      proof (cases "truthy_str (t_gateway_order_id tx0)")
        case False
        with run md tx t \<open>\<not> never_dispatched t\<close> show ?thesis by (intro kept) (simp add: d)
      next
        case True
        then obtain i where i: "t_gateway_order_id tx0 = Some i" "i \<noteq> []"
          by (auto simp: truthy_str_def split: option.splits)
        obtain f v where f: "fetch_order E (razorpay_client E) i w = (f, v)"
          by (cases "fetch_order E (razorpay_client E) i w")
        have v: "same_tables w v" by (rule fetch_api.keeps_tables [OF f])
        have w': "(r, w') = (let (n, u) = reconcile_order E op m tx0 i w in (Inr n, u))"
          using run md tx t i \<open>\<not> never_dispatched t\<close> by (simp add: d)
        note o = reconcile_order_def
        show ?thesis
        proof (cases f)
          case (Inl e)
          with w' f v show ?thesis by (intro kept) (simp add: o)
        next
          case (Inr order)
          show ?thesis
          proof (cases "ors_status order = ''paid''")
            case True
            with w' f v Inr md tx t i show ?thesis
              by (intro settled [of m tx0 i order v]) (auto simp: o)
          next
            case False
            show ?thesis
            proof (cases "ors_status order \<in> {''attempted'', ''created''} \<and> unpaid_expired E op = Inr True")
              case True
              with w' f v Inr md show ?thesis
                by (intro released [of m v "''Order unpaid within timeout window''" "''Order unpaid timeout''"])
                  (auto simp: o)
            next
              case no: False
              with w' f v Inr False show ?thesis
                by (intro kept) (auto simp: o split: if_splits sum.splits bool.splits)
            qed
          qed
        qed
      qed
    qed
  qed
qed

lemma reconcile_operation_ledger:
  assumes run: "reconcile_operation E op w = (r, w')" and op: "tget o_id (o_id op) (operations w) = Some op"
    and held: "in_flight (o_status op)"
  shows "ledger_steps (lview w) (lview w')"
  using run
proof (cases rule: reconcile_operation_result)
  case kept
  from lview_cong [OF same_tables_fields(1,2) [OF kept]] show ?thesis by simp
next
  case (released m msg reason v)
  note v = same_tables_fields [OF released(3)]
  have "m_id m = o_mandate_id op" using released(2) by (auto dest: tget_SomeD)
  then have "ledger_step (lview v) (lview w')"
    unfolding released(4) using op held v by (intro release_stuck_lview) simp_all
  with v show ?thesis by (simp add: lview_cong [of v w] r_into_rtranclp)
next
  case (settled m tx i v order)
  note v = same_tables_fields [OF settled(7)]
  have "m_id m = o_mandate_id op" using settled(2) by (auto dest: tget_SomeD)
  then have "ledger_step (lview v) (lview w')"
    unfolding settled(8) using op held v by (intro commit_paid_lview) simp_all
  with v show ?thesis by (simp add: lview_cong [of v w] r_into_rtranclp)
qed

text \<open>Only the row of the operation itself changes, and only its status and error message.\<close>

lemma reconcile_operation_table:
  assumes run: "reconcile_operation E op w = (r, w')"
  shows "\<exists>f. operations w' = tupd o_id (o_id op) f (operations w) \<and> (\<forall>x. o_id (f x) = o_id x)"
  using run
proof (cases rule: reconcile_operation_result)
  case kept
  from same_tables_fields(2) [OF kept]
  have "operations w' = tupd o_id (o_id op) (\<lambda>x. x) (operations w)" by simp
  then show ?thesis by (metis (no_types))
next
  case (released m msg reason v)
  then have "operations w' = tupd o_id (o_id op) (expire_operation msg) (operations w)"
    by (simp add: same_tables_fields(2) [OF released(3)])
  then show ?thesis by (intro exI conjI) auto
next
  case (settled m tx i v order)
  then have "operations w' = tupd o_id (o_id op) worker_succeed (operations w)"
    by (simp add: same_tables_fields(2) [OF settled(7)])
  then show ?thesis by (intro exI conjI) auto
qed

lemma reconcile_operation_rows:
  assumes run: "reconcile_operation E op w = (r, w')"
  shows "i \<noteq> o_id op \<Longrightarrow> tget o_id i (operations w') = tget o_id i (operations w)"
    and "map o_id (operations w') = map o_id (operations w)"
  using reconcile_operation_table [OF run] by (auto simp: tget_tupd_key keys_tupd_key)

section \<open>What the sweep does\<close>

text \<open>
  The loop over the stuck operations, given that each is the current row of its key: a sequence
  of ledger moves that leaves every other operation alone.
\<close>

lemma reconcile_all_spec:
  assumes "reconcile_all E ops n w = (r, w')" and "distinct (map o_id ops)"
    and "\<And>op. op \<in> set ops \<Longrightarrow> tget o_id (o_id op) (operations w) = Some op \<and> in_flight (o_status op)"
  shows "ledger_steps (lview w) (lview w')
    \<and> (\<forall>i. i \<notin> o_id ` set ops \<longrightarrow> tget o_id i (operations w') = tget o_id i (operations w))"
  using assms
proof (induction ops arbitrary: n w)
  case Nil
  then show ?case by simp
next
  case (Cons op ops)
  obtain k w1 where run: "reconcile_operation E op w = (k, w1)"
    by (cases "reconcile_operation E op w")
  have op: "ledger_steps (lview w) (lview w1)"
    using reconcile_operation_ledger [OF run] Cons.prems(3) by simp
  note rows = reconcile_operation_rows(1) [OF run]
  show ?case
  proof (cases k)
    case (Inl e)
    with Cons.prems(1) run op rows show ?thesis by auto
  next
    case (Inr j)
    have "tget o_id (o_id x) (operations w1) = Some x \<and> in_flight (o_status x)" if "x \<in> set ops" for x
    proof -
      have "o_id x \<noteq> o_id op" using Cons.prems(2) that by (metis distinct.simps(2) image_eqI list.map(2) list.set_map)
      with rows [of "o_id x"] Cons.prems(3) that show ?thesis by simp
    qed
    with Cons.IH [of "n + j" w1] Cons.prems(1,2) run Inr
    have "ledger_steps (lview w1) (lview w')
      \<and> (\<forall>i. i \<notin> o_id ` set ops \<longrightarrow> tget o_id i (operations w') = tget o_id i (operations w1))"
      by simp
    with op rows show ?thesis by (auto intro: rtranclp_trans)
  qed
qed

lemma rollback_rows [simp]:
  "operations (rollback w0 w) = operations w0" "mandates (rollback w0 w) = mandates w0"
  "transactions (rollback w0 w) = transactions w0"
  by (simp_all add: rollback_def)

lemma stuck_rows:
  assumes "books_ok w" and "op \<in> set (filter (is_stuck E t locked) (operations w))"
  shows "tget o_id (o_id op) (operations w) = Some op \<and> in_flight (o_status op)"
proof
  show "tget o_id (o_id op) (operations w) = Some op"
    using assms books_okD(2) by (auto intro!: tget_in_set)
  show "in_flight (o_status op)" using assms(2) by (auto simp: is_stuck_def)
qed

lemma stuck_distinct: "books_ok w \<Longrightarrow> distinct (map o_id (filter (is_stuck E t locked) (operations w)))"
  by (simp add: books_okD(2) distinct_map_filter)

lemma sweep_session_spec:
  assumes ok: "books_ok w" and run: "sweep_session E t locked w = (r, w')"
  shows "ledger_steps (lview w) (lview w')
    \<and> (\<forall>i op. tget o_id i (operations w) = Some op \<and> \<not> is_stuck E t locked op
         \<longrightarrow> tget o_id i (operations w') = Some op)"
proof -
  let ?ops = "filter (is_stuck E t locked) (operations w)"
  obtain q w1 where all: "reconcile_all E ?ops 0 w = (q, w1)" by (cases "reconcile_all E ?ops 0 w")
  have spec: "ledger_steps (lview w) (lview w1)"
    "\<And>i. i \<notin> o_id ` set ?ops \<Longrightarrow> tget o_id i (operations w1) = tget o_id i (operations w)"
    using reconcile_all_spec [OF all stuck_distinct [OF ok]] stuck_rows [OF ok, where E = E and t = t and locked = locked]
    by blast+
  have other: "i \<notin> o_id ` set ?ops" if "tget o_id i (operations w) = Some op" "\<not> is_stuck E t locked op" for i op
  proof
    assume "i \<in> o_id ` set ?ops"
    then obtain x where "x \<in> set ?ops" and "o_id x = i" by auto
    with stuck_rows [OF ok this(1)] that show False by simp
  qed
  show ?thesis
  proof (cases q)
    case (Inl e)
    with run all have "w' = rollback w w1" by (simp add: sweep_session_def)
    then show ?thesis using lview_cong [of w' w] by simp
  next
    case (Inr n)
    with run all have "w' = w1" by (simp add: sweep_session_def)
    with spec(1) other spec(2) show ?thesis by metis
  qed
qed

lemma sweep_cases:
  assumes "reconcile_stuck_reservations E t locked s w = (r, s', w')"
  obtains "w' = w" | q where "sweep_session E t locked w = (q, w')"
  using assms unfolding reconcile_stuck_reservations_def
  by (auto split: if_splits prod.splits sum.splits)

lemma sweep_ledger:
  assumes "books_ok w" and "reconcile_stuck_reservations E t locked s w = (r, s', w')"
  shows "ledger_steps (lview w) (lview w')"
  using assms(2) sweep_session_spec [OF assms(1)] by (cases rule: sweep_cases) auto

section \<open>How the sweep treats one of its operations\<close>

definition tx_key :: "transaction \<Rightarrow> string \<times> string option \<times> string option \<times> string option" where
  "tx_key t = (t_operation_id t, t_gateway_order_id t, t_gateway_payment_id t, t_gateway_payment_link_id t)"

abbreviation tx_keys :: "world \<Rightarrow> (string \<times> string option \<times> string option \<times> string option) list" where
  "tx_keys w \<equiv> map tx_key (transactions w)"

lemma same_tx_keys:
  assumes "tx_keys v = tx_keys w" and "tx_of_operation w i = Inr tx"
  shows "\<exists>tx'. tx_of_operation v i = Inr tx' \<and> map_option tx_key tx' = map_option tx_key tx"
proof -
  have rows: "map tx_key (filter (\<lambda>t. t_operation_id t = i) ts) = filter (\<lambda>k. fst k = i) (map tx_key ts)" for ts
    by (simp add: filter_map comp_def tx_key_def)
  with assms(1) have "map tx_key (filter (\<lambda>t. t_operation_id t = i) (transactions v))
      = map tx_key (filter (\<lambda>t. t_operation_id t = i) (transactions w))" by simp
  with assms(2) show ?thesis
    by (auto simp: tx_of_operation_def one_or_none_def split: list.splits)
qed


lemma reconcile_operation_keeps:
  assumes run: "reconcile_operation E op w = (r, w')"
  shows "tx_keys w' = tx_keys w \<and> map m_id (mandates w') = map m_id (mandates w)"
  using run
proof (cases rule: reconcile_operation_result)
  case kept
  then show ?thesis using same_tables_fields(1,3) [OF kept] by simp
next
  case (released m msg reason v)
  then show ?thesis using same_tables_fields(1,3) [OF released(3)]
    by (simp add: release_stuck_def Let_def release_budget_def upd_mandate_def keys_tupd_key upd_operation_def)
next
  case (settled m tx i v order)
  have "map tx_key (tupd t_id (t_id tx) (\<lambda>t. t\<lparr>t_status := Tx_CAPTURED\<rparr>) ts) = map tx_key ts" for ts
    by (rule map_tupd_same) (simp add: tx_key_def)
  then show ?thesis using settled same_tables_fields(1,3) [OF settled(7)]
    by (simp add: commit_paid_def Let_def commit_budget_def upd_mandate_def keys_tupd_key upd_operation_def
        upd_transaction_def)
qed

lemma reconcile_all_visits:
  assumes "reconcile_all E ops n w = (Inr k, w')" and "distinct (map o_id ops)" and "op \<in> set ops"
  shows "\<exists>v r v'. reconcile_operation E op v = (Inr r, v')
    \<and> tget o_id (o_id op) (operations v) = tget o_id (o_id op) (operations w)
    \<and> tx_keys v = tx_keys w \<and> map m_id (mandates v) = map m_id (mandates w)
    \<and> tget o_id (o_id op) (operations w') = tget o_id (o_id op) (operations v')"
  using assms
proof (induction ops arbitrary: n w)
  case Nil
  then show ?case by simp
next
  case (Cons x ops)
  obtain j w1 where run: "reconcile_operation E x w = (Inr j, w1)"
    and all: "reconcile_all E ops (n + j) w1 = (Inr k, w')"
    using Cons.prems(1) by (auto split: prod.splits sum.splits)
  note keep = reconcile_operation_keeps [OF run]
  have later: "tget o_id i (operations w') = tget o_id i (operations w1)" if "i \<notin> o_id ` set ops" for i
    using that all
  proof (induction ops arbitrary: n j w1)
    case (Cons y ys)
    obtain l w2 where "reconcile_operation E y w1 = (Inr l, w2)"
      and "reconcile_all E ys (n + j + l) w2 = (Inr k, w')"
      using Cons.prems(2) by (auto split: prod.splits sum.splits)
    with Cons.IH [of "n + j" l w2] Cons.prems(1) reconcile_operation_rows(1) [of E y w1 "Inr l" w2 i]
    show ?case by simp
  qed simp
  show ?case
  proof (cases "x = op")
    case True
    with Cons.prems(2) have "o_id op \<notin> o_id ` set ops" by simp
    with later True run show ?thesis by blast
  next
    case False
    with Cons.prems have op: "op \<in> set ops" "o_id op \<noteq> o_id x" by (auto simp: rev_image_eqI)
    with Cons.IH [OF all] Cons.prems(2) keep reconcile_operation_rows(1) [OF run op(2)] show ?thesis
      by auto
  qed
qed


lemma sweep_keeps_stuck:
  assumes "books_ok w" and "reconcile_stuck_reservations E t locked s w = (r, s', w')"
    and "tget o_id i (operations w) = Some op" and "\<not> is_stuck E t locked op"
  shows "tget o_id i (operations w') = Some op"
  using assms(2) sweep_session_spec [OF assms(1)] assms(3,4) by (cases rule: sweep_cases) auto

section \<open>Properties\<close>

text \<open>
  C9: A sweep keeps the books and touches only stuck operations: whatever the gateway answers and
  whether or not it raises, the reservations still equal what the operations hold and no mandate
  exceeds its limit; an operation that is not in flight, is younger than the cutoff or is locked
  by another transaction keeps its row.
\<close>
theorem sweep_keeps_books:
  assumes "books_ok w" and "reconcile_stuck_reservations E t locked s w = (r, s', w')"
  shows "books_ok w'
    \<and> (\<forall>i op. tget o_id i (operations w) = Some op \<and> \<not> is_stuck E t locked op
         \<longrightarrow> tget o_id i (operations w') = Some op)"
proof
  show "books_ok w'" using sweep_ledger [OF assms] assms(1) by (rule books_ok_steps)
  show "\<forall>i op. tget o_id i (operations w) = Some op \<and> \<not> is_stuck E t locked op
      \<longrightarrow> tget o_id i (operations w') = Some op"
    using sweep_keeps_stuck [OF assms] by blast
qed

lemma crashed_books: "books_ok (crashed_world tx)"
  by (simp add: books_ok_def lview_def ledger_ok_def crashed_world_def demo_world_def demo_root_def
      stuck_operation_def account_of_def entry_of_def held_sum_def)

lemma crashed_rows [simp]:
  "tget o_id ''a'' (operations (crashed_world tx)) = Some (stuck_operation ''a'')"
  "tget o_id ''b'' (operations (crashed_world tx)) = Some (stuck_operation ''b'')"
  "transactions (crashed_world tx) = [tx]"
  by (simp_all add: crashed_world_def stuck_operation_def table_simps)


theorem sweep_keeps_books_witness:
  "\<exists>r s' w'. reconcile_stuck_reservations demo_env 120 (\<lambda>i. i = ''b'') initial_worker
      (crashed_world (stuck_tx (Some ''order_1'') None)) = (r, s', w')
    \<and> books_ok w' \<and> tget o_id ''b'' (operations w') = Some (stuck_operation ''b'')"
proof -
  let ?w = "crashed_world (stuck_tx (Some ''order_1'') None)"
  obtain r s' w' where run: "reconcile_stuck_reservations demo_env 120 (\<lambda>i. i = ''b'') initial_worker ?w = (r, s', w')"
    by (cases "reconcile_stuck_reservations demo_env 120 (\<lambda>i. i = ''b'') initial_worker ?w")
  have "\<not> is_stuck demo_env 120 (\<lambda>i. i = ''b'') (stuck_operation ''b'')"
    by (simp add: is_stuck_def stuck_operation_def)
  with sweep_keeps_books [OF crashed_books run] run show ?thesis by auto
qed



text \<open>
  C31: The worker settles only what the gateway calls paid: an operation that a sweep turns
  SUCCEEDED was stuck, has a transaction with an order identifier, and the gateway's answer to
  the fetch of that order was \<open>paid\<close>.
\<close>
theorem sweep_settles_only_paid:
  assumes ok: "books_ok w" and run: "reconcile_stuck_reservations E t locked s w = (r, s', w')"
    and op: "tget o_id i (operations w) = Some op" "o_status op \<noteq> Op_SUCCEEDED"
    and op': "tget o_id i (operations w') = Some op'" "o_status op' = Op_SUCCEEDED"
  shows "is_stuck E t locked op
    \<and> (\<exists>tx \<in> set (transactions w). \<exists>j v order. t_operation_id tx = i \<and> t_gateway_order_id tx = Some j
         \<and> fst (fetch_order E (razorpay_client E) j v) = Inr order \<and> ors_status order = ''paid'')"
proof -
  let ?ops = "filter (is_stuck E t locked) (operations w)"
  from run op op' obtain q where sweep: "sweep_session E t locked w = (q, w')"
    by (cases rule: sweep_cases) auto
  have st: "is_stuck E t locked op"
    using sweep_session_spec [OF ok sweep] op op' by (metis option.inject)
  have i: "o_id op = i" and mem: "op \<in> set ?ops" using op(1) st by (auto dest: tget_SomeD)
  obtain k where all: "reconcile_all E ?ops 0 w = (Inr k, w')"
    using sweep op op' by (auto simp: sweep_session_def split: prod.splits sum.splits)
  from reconcile_all_visits [OF all stuck_distinct [OF ok] mem] i obtain x y z where
    run: "reconcile_operation E op x = (Inr y, z)" and row: "tget o_id i (operations x) = Some op"
    and keys: "tx_keys x = tx_keys w" and last: "tget o_id i (operations z) = Some op'"
    using op(1) op'(1) by metis
  from run show ?thesis
  proof (cases rule: reconcile_operation_result)
    case kept
    with row last op(2) op'(2) same_tables_fields(2) [OF kept] show ?thesis by simp
  next
    case (released m msg reason v)
    with last row i op'(2) same_tables_fields(2) [OF released(3)] show ?thesis
      by (auto simp: expire_row.tget_tupd)
  next
    case (settled m tx j v order)
    have "tx \<in> set (filter (\<lambda>t. t_operation_id t = i) (transactions x))"
      using one_or_none_Inr_SomeD [OF settled(3) [unfolded tx_of_operation_def i]] by simp
    then have tx: "tx \<in> set (transactions x)" "t_operation_id tx = i" by auto
    from tx(1) have "tx_key tx \<in> set (tx_keys w)" unfolding keys [symmetric] by simp
    then obtain tx0 where tx0: "tx0 \<in> set (transactions w)" "tx_key tx0 = tx_key tx" by auto
    from tx0(2) tx(2) settled(4) have "t_operation_id tx0 = i" "t_gateway_order_id tx0 = Some j"
      by (simp_all add: tx_key_def)
    moreover have "fst (fetch_order E (razorpay_client E) j x) = Inr order" using settled(5) by simp
    ultimately show ?thesis using st tx0(1) settled(6) by blast
  qed
qed

theorem sweep_settles_only_paid_witness:
  "\<exists>v order. fst (fetch_order demo_env (razorpay_client demo_env) ''order_1'' v) = Inr order
     \<and> ors_status order = ''paid''"
proof -
  let ?w = "crashed_world (stuck_tx (Some ''order_1'') None)"
  let ?r = "reconcile_stuck_reservations demo_env 120 (\<lambda>_. False) initial_worker ?w"
  have "map_option o_status (tget o_id ''b'' (operations (snd (snd ?r)))) = Some Op_SUCCEEDED"
    by code_simp
  then obtain op' where "tget o_id ''b'' (operations (snd (snd ?r))) = Some op'" "o_status op' = Op_SUCCEEDED"
    by auto
  with sweep_settles_only_paid [OF crashed_books, of demo_env 120 "\<lambda>_. False" initial_worker
      "stuck_tx (Some ''order_1'') None" "fst ?r" "fst (snd ?r)" "snd (snd ?r)" "''b''" "stuck_operation ''b''" op']
  show ?thesis by (auto simp: stuck_operation_def stuck_tx_def)
qed

text \<open>
  The worker never reconciles a payment link: a stuck operation whose only transaction has a
  payment link or a payment but no order identifier keeps its row in every sweep, so its
  reservation stays held however long it waits.
\<close>
theorem link_reservation_stays_held:
  assumes ok: "books_ok w" and run: "reconcile_stuck_reservations E t locked s w = (r, s', w')"
    and op: "tget o_id i (operations w) = Some op"
    and tx: "tx_of_operation w i = Inr (Some tx)" "\<not> never_dispatched (Some tx)"
      "\<not> truthy_str (t_gateway_order_id tx)"
  shows "tget o_id i (operations w') = Some op"
proof (cases "is_stuck E t locked op")
  case False
  then show ?thesis using op sweep_keeps_stuck [OF ok run] by blast
next
  case True
  let ?ops = "filter (is_stuck E t locked) (operations w)"
  from run show ?thesis
  proof (cases rule: sweep_cases)
    case 1
    with op show ?thesis by simp
  next
    case (2 q)
    have i: "o_id op = i" and mem: "op \<in> set ?ops" using op True by (auto dest: tget_SomeD)
    show ?thesis
    proof (cases "fst (reconcile_all E ?ops 0 w)")
      case (Inl e)
      with 2 op show ?thesis by (auto simp: sweep_session_def split: prod.splits)
    next
      case (Inr k)
      with 2 have all: "reconcile_all E ?ops 0 w = (Inr k, w')"
        by (auto simp: sweep_session_def split: prod.splits)
      from reconcile_all_visits [OF all stuck_distinct [OF ok] mem] i op obtain x y z where
        run: "reconcile_operation E op x = (Inr y, z)" and row: "tget o_id i (operations x) = Some op"
        and keys: "tx_keys x = tx_keys w"
        and last: "tget o_id i (operations w') = tget o_id i (operations z)" by metis
      from same_tx_keys [OF keys tx(1)] obtain tx' where tx': "tx_of_operation x i = Inr (Some tx')"
        "tx_key tx' = tx_key tx" by auto
      with tx(2,3) have "\<not> never_dispatched (Some tx')" "\<not> truthy_str (t_gateway_order_id tx')"
        by (auto simp: tx_key_def never_dispatched_def)
      with run tx'(1) i have "z = x" by (auto simp: reconcile_operation_def split: option.splits)
      with last row show ?thesis by simp
    qed
  qed
qed

theorem link_reservation_stays_held_witness:
  "\<exists>r s' w'. reconcile_stuck_reservations demo_env 120 (\<lambda>_. False) initial_worker
      (crashed_world (stuck_tx None (Some ''plink_1''))) = (r, s', w')
    \<and> tget o_id ''b'' (operations w') = Some (stuck_operation ''b'')"
proof -
  let ?w = "crashed_world (stuck_tx None (Some ''plink_1''))"
  obtain r s' w' where run: "reconcile_stuck_reservations demo_env 120 (\<lambda>_. False) initial_worker ?w = (r, s', w')"
    by (cases "reconcile_stuck_reservations demo_env 120 (\<lambda>_. False) initial_worker ?w")
  have "tget o_id ''b'' (operations w') = Some (stuck_operation ''b'')"
    by (rule link_reservation_stays_held [OF crashed_books run, where tx = "stuck_tx None (Some ''plink_1'')"])
      (simp_all add: tx_of_operation_def one_or_none_def stuck_tx_def never_dispatched_def)
  with run show ?thesis by blast
qed

text \<open>
  The worker's loop ends: once a shutdown signal or a cancellation arrives in one of the turns
  to come, the loop has ended with the heartbeat's status \<open>stopped\<close>, whatever the sweeps before it
  return or raise.
\<close>
theorem worker_loop_ends:
  assumes "\<exists>tk \<in> set ticks. tk_signal tk \<or> tk_cancelled tk"
  shows "\<exists>s' w'. worker_loop ticks s w = (True, s', w') \<and> ws_status s' = ''stopped''"
  using assms
proof (induction ticks arbitrary: s w)
  case Nil
  then show ?case by simp
next
  case (Cons tk tks)
  obtain s1 w1 where sweep: "loop_sweep tk s w = (s1, w1)" by (cases "loop_sweep tk s w")
  show ?case
  proof (cases "ws_running s \<and> \<not> tk_cancelled tk")
    case True
    show ?thesis
    proof (cases "tk_signal tk")
      case True
      have "worker_loop tks (shutdown_handler s1) (tk_others tk w1) = (True, stop_worker (shutdown_handler s1), tk_others tk w1)"
        by (cases tks) (simp_all add: shutdown_handler_def)
      with \<open>ws_running s \<and> \<not> tk_cancelled tk\<close> sweep True show ?thesis
        by (simp add: stop_worker_def)
    next
      case False
      with Cons True have "\<exists>s' w'. worker_loop tks s1 (tk_others tk w1) = (True, s', w') \<and> ws_status s' = ''stopped''"
        by simp
      with True False sweep show ?thesis by simp
    qed
  next
    case False
    with sweep show ?thesis by (auto simp: stop_worker_def)
  qed
qed

theorem worker_loop_ends_witness:
  "\<exists>s' w'. worker_loop
      [\<lparr>tk_env = demo_env, tk_locked = (\<lambda>_. False), tk_others = (\<lambda>w. w), tk_signal = False, tk_cancelled = False\<rparr>,
       \<lparr>tk_env = demo_env, tk_locked = (\<lambda>_. False), tk_others = (\<lambda>w. w), tk_signal = True, tk_cancelled = False\<rparr>]
      initial_worker (crashed_world (stuck_tx None None)) = (True, s', w')
    \<and> ws_status s' = ''stopped''"
  by (rule worker_loop_ends) simp

end
