(* ===== verification/Reconciliation.thy ===== *)
theory Reconciliation
  imports Razorpay_Client Witness_Data
begin

text \<open>
  The read-only audit of \<^verbatim>\<open>services/worker/reconciliation.py\<close>: every transaction of a recent
  operation is compared with the gateway's order, and the discrepancies are stored in one
  reconciliation report. An exception of a comparison is logged and the audit goes on.
\<close>

section \<open>The audit\<close>

record reconciliation_result =
  rc_total_checked :: int
  rc_discrepancies :: "dict list"
  rc_synced_count :: int

definition ReconciliationResult_init :: reconciliation_result where
  "ReconciliationResult_init = \<lparr>rc_total_checked = 0, rc_discrepancies = [], rc_synced_count = 0\<rparr>"

definition result_to_dict :: "reconciliation_result \<Rightarrow> dict" where
  "result_to_dict r = [(''total_checked'', JInt (rc_total_checked r)),
     (''discrepancies_count'', JInt (int (length (rc_discrepancies r)))),
     (''discrepancies'', JList (map JObj (rc_discrepancies r))),
     (''synced_count'', JInt (rc_synced_count r))]"

text \<open>The joined rows: each transaction with its operation, when that is recent enough.\<close>

definition audited_pairs :: "int \<Rightarrow> world \<Rightarrow> (transaction \<times> operation) list" where
  "audited_pairs cutoff w =
     concat (map (\<lambda>tx. map (Pair tx)
       (filter (\<lambda>op. o_id op = t_operation_id tx \<and> cutoff \<le> instant (o_created_at op)) (operations w)))
     (transactions w))"

definition missed_webhook :: "operation \<Rightarrow> string \<Rightarrow> order_response \<Rightarrow> dict" where
  "missed_webhook op order_id rzp_order =
     [(''type'', JStr ''MISSED_WEBHOOK_PAID_ORDER''), (''operation_id'', JStr (o_operation_id op)),
      (''order_id'', JStr order_id), (''mandate_status'', JStr (operation_status_value (o_status op))),
      (''gateway_status'', JStr (ors_status rzp_order)), (''amount_paise'', JInt (o_amount op))]"

definition amount_mismatch :: "operation \<Rightarrow> string \<Rightarrow> order_response \<Rightarrow> dict" where
  "amount_mismatch op order_id rzp_order =
     [(''type'', JStr ''AMOUNT_MISMATCH''), (''operation_id'', JStr (o_operation_id op)),
      (''order_id'', JStr order_id), (''mandate_amount'', JInt (o_amount op)),
      (''gateway_amount'', JInt (ors_amount rzp_order))]"

definition order_discrepancies :: "operation \<Rightarrow> string \<Rightarrow> order_response \<Rightarrow> dict list" where
  "order_discrepancies op order_id rzp_order =
     (if ors_status rzp_order = ''paid'' \<and> o_status op \<noteq> Op_SUCCEEDED
      then [missed_webhook op order_id rzp_order] else [])
     @ (if ors_amount rzp_order \<noteq> o_amount op then [amount_mismatch op order_id rzp_order] else [])"

definition check_pair ::
    "env \<Rightarrow> rzp_client \<Rightarrow> transaction \<times> operation \<Rightarrow> reconciliation_result \<Rightarrow> world
       \<Rightarrow> reconciliation_result \<times> world" where
  "check_pair E razorpay record_pair result w =
     (case record_pair of (tx, op) \<Rightarrow>
        let result = result\<lparr>rc_total_checked := rc_total_checked result + 1\<rparr> in
        if \<not> truthy_str (t_gateway_order_id tx) then (result, w)
        else
          let order_id = str_or (t_gateway_order_id tx) [] in
          case fetch_order E razorpay order_id w of
            (Inl _, w) \<Rightarrow> (result, w)
          | (Inr rzp_order, w) \<Rightarrow>
              (result\<lparr>rc_discrepancies :=
                 rc_discrepancies result @ order_discrepancies op order_id rzp_order\<rparr>, w))"

fun check_pairs ::
    "env \<Rightarrow> rzp_client \<Rightarrow> (transaction \<times> operation) list \<Rightarrow> reconciliation_result \<Rightarrow> world
       \<Rightarrow> reconciliation_result \<times> world" where
  "check_pairs E razorpay [] result w = (result, w)"
| "check_pairs E razorpay (p # ps) result w =
     (case check_pair E razorpay p result w of (result, w) \<Rightarrow> check_pairs E razorpay ps result w)"

definition new_report :: "env \<Rightarrow> reconciliation_result \<Rightarrow> string \<Rightarrow> string \<Rightarrow> reconciliation_report" where
  "new_report E result report_hex pk =
     \<lparr>rr_id = pk, rr_report_id = ''rec_'' @ take 12 report_hex,
      rr_total_audited = rc_total_checked result,
      rr_inconsistencies_detected = int (length (rc_discrepancies result)),
      rr_details = result_to_dict result, rr_created_at = utc_now E\<rparr>"

text \<open>Both the primary key and \<open>report_id\<close> are unique.\<close>

definition perform_reconciliation ::
    "env \<Rightarrow> rzp_client \<Rightarrow> int \<Rightarrow> world \<Rightarrow> (exn + reconciliation_result) \<times> world" where
  "perform_reconciliation E razorpay cutoff w =
     (let (result, w1) = check_pairs E razorpay (audited_pairs cutoff w) ReconciliationResult_init w;
          (h, w2) = draw_uuid E w1;
          (pk, w3) = generate_uuid E w2;
          report = new_report E result h pk
      in if tget rr_id pk (reconciliation_reports w3) \<noteq> None
           \<or> tget rr_report_id (rr_report_id report) (reconciliation_reports w3) \<noteq> None
         then (Inl DatabaseError, rollback w w3)
         else (Inr result, w3\<lparr>reconciliation_reports := reconciliation_reports w3 @ [report]\<rparr>))"

definition run_gateway_reconciliation ::
    "env \<Rightarrow> int \<Rightarrow> world \<Rightarrow> (exn + reconciliation_result) \<times> world" where
  "run_gateway_reconciliation E lookback_minutes w =
     perform_reconciliation E (razorpay_client E) (now_us E - lookback_minutes * 60 * sec) w"

section \<open>The audit only reads\<close>

text \<open>From \<open>w\<close> to \<open>w'\<close> the tables are the same and only GET requests were sent.\<close>

definition only_gets :: "world \<Rightarrow> world \<Rightarrow> bool" where
  "only_gets w w' \<longleftrightarrow> same_tables w w'
     \<and> (\<exists>rqs. http_log w' = http_log w @ rqs \<and> (\<forall>rq \<in> set rqs. rq_method rq = ''GET''))"

lemma only_gets_refl [simp]: "only_gets w w"
  by (simp add: only_gets_def)

lemma only_gets_trans: "only_gets a b \<Longrightarrow> only_gets b c \<Longrightarrow> only_gets a c"
  unfolding only_gets_def by (fastforce intro: same_tables_trans)

lemma fetch_order_only_gets: "only_gets w (snd (fetch_order E c i w))"
proof -
  have "\<exists>rqs. http_log (snd (fetch_order E c i w)) = http_log w @ rqs \<and> (\<forall>rq \<in> set rqs. rq_method rq = ''GET'')"
  proof (cases "c_mock_mode c")
    case True
    then show ?thesis by (simp add: fetch_order_def Let_def)
  next
    case False
    let ?v = "log_call (Call_fetch_order i) w"
    obtain k rq where "snd (request_with_retry E c ''GET'' (''/orders/'' @ i) None True 3 ?v)
        = ?v\<lparr>http_log := http_log ?v @ replicate k rq\<rparr>" and "rq_method rq = ''GET''"
      using request_with_retry_snd [of E c "''GET''" "''/orders/'' @ i" None True 3 ?v] by blast
    with False show ?thesis
      by (intro exI [of _ "replicate k rq"]) (simp add: fetch_order_def Let_def case_prod_unfold)
  qed
  then show ?thesis using fetch_api.keeps_db by (simp add: only_gets_def)
qed

lemma check_pair_only_gets: "only_gets w (snd (check_pair E c p result w))"
proof -
  have "only_gets w (snd (check_pair E c (tx, op) result w))" for tx op
    using fetch_order_only_gets [of w E c "str_or (t_gateway_order_id tx) []"]
    by (auto simp: check_pair_def Let_def split: sum.split prod.split)
  then show ?thesis by (cases p) simp
qed

lemma check_pairs_only_gets: "only_gets w (snd (check_pairs E c ps result w))"
proof (induction ps arbitrary: result w)
  case (Cons p ps)
  obtain r v where "check_pair E c p result w = (r, v)" by (cases "check_pair E c p result w")
  with Cons [of v r] check_pair_only_gets [of w E c p result] show ?case
    by (auto intro: only_gets_trans)
qed simp

text \<open>
  The result with a gateway whose answers do not depend on the moment: every pair with an order
  identifier contributes its discrepancies, in order.
\<close>

definition stable_gateway :: "env \<Rightarrow> rzp_client \<Rightarrow> (string \<Rightarrow> exn + order_response) \<Rightarrow> bool" where
  "stable_gateway E c answer \<longleftrightarrow> (\<forall>i w. fst (fetch_order E c i w) = answer i)"

definition pair_discrepancies ::
    "(string \<Rightarrow> exn + order_response) \<Rightarrow> transaction \<times> operation \<Rightarrow> dict list" where
  "pair_discrepancies answer p =
     (case t_gateway_order_id (fst p) of
        None \<Rightarrow> []
      | Some i \<Rightarrow>
          if i = [] then []
          else (case answer i of Inl _ \<Rightarrow> [] | Inr rzp_order \<Rightarrow> order_discrepancies (snd p) i rzp_order))"

lemma check_pair_result:
  assumes "stable_gateway E c answer"
  shows "fst (check_pair E c p result w) =
    result\<lparr>rc_total_checked := rc_total_checked result + 1,
      rc_discrepancies := rc_discrepancies result @ pair_discrepancies answer p\<rparr>"
proof -
  obtain tx op where p: "p = (tx, op)" by (cases p)
  show ?thesis
  proof (cases "truthy_str (t_gateway_order_id tx)")
    case False
    then show ?thesis
      by (auto simp: p check_pair_def pair_discrepancies_def truthy_str_def split: option.splits)
  next
    case True
    then obtain i where i: "t_gateway_order_id tx = Some i" "i \<noteq> []"
      by (auto simp: truthy_str_def split: option.splits)
    obtain v where "fetch_order E c i w = (answer i, v)"
      using assms by (metis prod.collapse stable_gateway_def)
    with i show ?thesis
      by (simp add: p check_pair_def pair_discrepancies_def Let_def split: sum.split)
  qed
qed

lemma check_pairs_result:
  assumes "stable_gateway E c answer"
  shows "fst (check_pairs E c ps result w) =
    result\<lparr>rc_total_checked := rc_total_checked result + int (length ps),
      rc_discrepancies := rc_discrepancies result @ concat (map (pair_discrepancies answer) ps)\<rparr>"
proof (induction ps arbitrary: result w)
  case (Cons p ps)
  obtain v where "check_pair E c p result w
      = (result\<lparr>rc_total_checked := rc_total_checked result + 1,
          rc_discrepancies := rc_discrepancies result @ pair_discrepancies answer p\<rparr>, v)"
    using check_pair_result [OF assms, of p result w] by (metis prod.collapse)
  with Cons show ?case by simp
qed simp

lemma perform_cases:
  assumes run: "perform_reconciliation E c cutoff w = (r, w')"
  obtains (clash) result v x where
      "check_pairs E c (audited_pairs cutoff w) ReconciliationResult_init w = (result, v)"
      "r = Inl DatabaseError" "w' = rollback w x" "http_log x = http_log v"
  | (stored) result v h pk where
      "check_pairs E c (audited_pairs cutoff w) ReconciliationResult_init w = (result, v)"
      "r = Inr result" "w' = v\<lparr>uuid_count := uuid_count v + 2,
        reconciliation_reports := reconciliation_reports v @ [new_report E result h pk]\<rparr>"
proof -
  obtain result v where c: "check_pairs E c (audited_pairs cutoff w) ReconciliationResult_init w = (result, v)"
    by (cases "check_pairs E c (audited_pairs cutoff w) ReconciliationResult_init w")
  let ?h = "uuid_hex E (uuid_count v)" and ?pk = "uuid_text (uuid_hex E (Suc (uuid_count v)))"
  let ?x = "v\<lparr>uuid_count := uuid_count v + 2\<rparr>" and ?rep = "new_report E result ?h ?pk"
  have "perform_reconciliation E c cutoff w =
    (if tget rr_id ?pk (reconciliation_reports v) \<noteq> None
        \<or> tget rr_report_id (rr_report_id ?rep) (reconciliation_reports v) \<noteq> None
     then (Inl DatabaseError, rollback w ?x)
     else (Inr result, ?x\<lparr>reconciliation_reports := reconciliation_reports v @ [?rep]\<rparr>))"
    by (simp add: perform_reconciliation_def c draw_uuid_def generate_uuid_def Let_def)
  with run show ?thesis
    using clash [OF c, of ?x] stored [OF c, of ?h ?pk] by (auto split: if_splits)
qed

section \<open>Properties\<close>

text \<open>
  The reconciliation audit is read-only: it sends nothing but GET requests to the gateway, and
  principals, agents, mandates, operations, transactions, webhook events and audit events are as
  before; when it returns, exactly one report was appended.
\<close>
theorem reconciliation_only_reads:
  assumes "run_gateway_reconciliation E minutes w = (r, w')"
  shows "(\<exists>rqs. http_log w' = http_log w @ rqs \<and> (\<forall>rq \<in> set rqs. rq_method rq = ''GET''))
    \<and> principals w' = principals w \<and> agents w' = agents w \<and> mandates w' = mandates w
    \<and> operations w' = operations w \<and> transactions w' = transactions w
    \<and> webhook_events w' = webhook_events w \<and> audit_events w' = audit_events w
    \<and> (case r of Inl _ \<Rightarrow> reconciliation_reports w' = reconciliation_reports w
       | Inr _ \<Rightarrow> \<exists>rep. reconciliation_reports w' = reconciliation_reports w @ [rep])"
proof -
  have checked: "same_tables w v \<and> (\<exists>rqs. http_log v = http_log w @ rqs \<and> (\<forall>rq \<in> set rqs. rq_method rq = ''GET''))"
    if "check_pairs E (razorpay_client E) ps ReconciliationResult_init w = (result, v)" for ps result v
    using check_pairs_only_gets [of w E "razorpay_client E" ps ReconciliationResult_init] that
    by (simp add: only_gets_def)
  from assms [unfolded run_gateway_reconciliation_def] show ?thesis
  proof (cases rule: perform_cases)
    case (clash result v x)
    with checked [OF clash(1)] show ?thesis by (auto simp: rollback_def)
  next
    case (stored result v h pk)
    with checked [OF stored(1)] same_tables_fields [of w v] show ?thesis by auto
  qed
qed

theorem reconciliation_only_reads_witness:
  "\<exists>r w'. run_gateway_reconciliation demo_env 1440 (crashed_world (stuck_tx (Some ''order_1'') None)) = (r, w')
    \<and> operations w' = [stuck_operation ''a'', stuck_operation ''b'']"
proof -
  let ?w = "crashed_world (stuck_tx (Some ''order_1'') None)"
  obtain r w' where run: "run_gateway_reconciliation demo_env 1440 ?w = (r, w')"
    by (cases "run_gateway_reconciliation demo_env 1440 ?w")
  from reconciliation_only_reads [OF run] run show ?thesis by (simp add: crashed_world_def)
qed

text \<open>
  What the audit is meant to look at, as a join of the two tables: every transaction with the
  operation it belongs to, when that operation was created within the last \<open>minutes\<close> minutes.
\<close>

definition recent_rows :: "env \<Rightarrow> int \<Rightarrow> world \<Rightarrow> (transaction \<times> operation) list" where
  "recent_rows E minutes w =
     filter (\<lambda>(tx, op). o_id op = t_operation_id tx
         \<and> now_us E - minutes * 60000000 \<le> instant (o_created_at op))
       (List.product (transactions w) (operations w))"

lemma audited_pairs_join: "audited_pairs (now_us E - minutes * 60 * sec) w = recent_rows E minutes w"
proof -
  have "filter P (List.product xs ys) = concat (map (\<lambda>x. map (Pair x) (filter (\<lambda>y. P (x, y)) ys)) xs)"
    for P and xs :: "transaction list" and ys :: "operation list"
    by (induction xs) (simp_all add: filter_map comp_def)
  then show ?thesis by (simp add: audited_pairs_def recent_rows_def sec_def mult.commute)
qed

text \<open>The order of a pair: its identifier and what the gateway answers for it.\<close>

definition order_of ::
    "(string \<Rightarrow> exn + order_response) \<Rightarrow> transaction \<Rightarrow> string \<Rightarrow> order_response \<Rightarrow> bool" where
  "order_of answer tx i ord \<longleftrightarrow> t_gateway_order_id tx = Some i \<and> i \<noteq> [] \<and> answer i = Inr ord"

text \<open>The entries an operation, its order's identifier and the order itself should give.\<close>

inductive discrepancy :: "operation \<Rightarrow> string \<Rightarrow> order_response \<Rightarrow> dict \<Rightarrow> bool" where
  missed: "ors_status ord = ''paid'' \<Longrightarrow> o_status op \<noteq> Op_SUCCEEDED \<Longrightarrow> discrepancy op i ord
     [(''type'', JStr ''MISSED_WEBHOOK_PAID_ORDER''), (''operation_id'', JStr (o_operation_id op)),
      (''order_id'', JStr i), (''mandate_status'', JStr (operation_status_value (o_status op))),
      (''gateway_status'', JStr ''paid''), (''amount_paise'', JInt (o_amount op))]"
| amount: "ors_amount ord \<noteq> o_amount op \<Longrightarrow> discrepancy op i ord
     [(''type'', JStr ''AMOUNT_MISMATCH''), (''operation_id'', JStr (o_operation_id op)),
      (''order_id'', JStr i), (''mandate_amount'', JInt (o_amount op)),
      (''gateway_amount'', JInt (ors_amount ord))]"

lemma order_of_unique:
  assumes "order_of answer tx i ord"
  shows "order_of answer tx i' ord' \<longleftrightarrow> i' = i \<and> ord' = ord"
  using assms by (auto simp: order_of_def)

lemma pair_discrepancies_order:
  assumes "order_of answer tx i ord"
  shows "pair_discrepancies answer (tx, op) = order_discrepancies op i ord"
  using assms by (simp add: pair_discrepancies_def order_of_def)

lemma pair_discrepancies_none:
  assumes "\<And>i ord. \<not> order_of answer tx i ord"
  shows "pair_discrepancies answer (tx, op) = []"
  using assms by (auto simp: pair_discrepancies_def order_of_def split: option.split sum.split)

lemma pair_discrepancies_set:
  "d \<in> set (pair_discrepancies answer (tx, op)) \<longleftrightarrow> (\<exists>i ord. order_of answer tx i ord
     \<and> (ors_status ord = ''paid'' \<and> o_status op \<noteq> Op_SUCCEEDED \<and> d = missed_webhook op i ord
        \<or> ors_amount ord \<noteq> o_amount op \<and> d = amount_mismatch op i ord))"
proof (cases "\<exists>i ord. order_of answer tx i ord")
  case True
  then obtain i ord where o: "order_of answer tx i ord" by blast
  show ?thesis
    by (auto simp: pair_discrepancies_order [OF o] order_of_unique [OF o] order_discrepancies_def)
next
  case False
  then show ?thesis using pair_discrepancies_none [of answer tx op] by simp
qed

lemma pair_discrepancies_length:
  "length (pair_discrepancies answer (tx, op)) =
     (if \<exists>i ord. order_of answer tx i ord \<and> ors_status ord = ''paid'' \<and> o_status op \<noteq> Op_SUCCEEDED
      then 1 else 0)
     + (if \<exists>i ord. order_of answer tx i ord \<and> ors_amount ord \<noteq> o_amount op then 1 else 0)"
proof (cases "\<exists>i ord. order_of answer tx i ord")
  case True
  then obtain i ord where o: "order_of answer tx i ord" by blast
  show ?thesis
    by (simp add: pair_discrepancies_order [OF o] order_of_unique [OF o] order_discrepancies_def)
next
  case False
  then show ?thesis using pair_discrepancies_none [of answer tx op] by simp
qed

lemma length_concat_two:
  assumes "\<And>p. length (f p) = (if P p then 1 else 0) + (if Q p then 1 else 0)"
  shows "length (concat (map f ps)) = length (filter P ps) + length (filter Q ps)"
  using assms by (induction ps) simp_all

lemma discrepancies_length:
  "length (concat (map (pair_discrepancies answer) ps)) =
     length (filter (\<lambda>(tx, op). \<exists>i ord. order_of answer tx i ord \<and> ors_status ord = ''paid''
         \<and> o_status op \<noteq> Op_SUCCEEDED) ps)
     + length (filter (\<lambda>(tx, op). \<exists>i ord. order_of answer tx i ord \<and> ors_amount ord \<noteq> o_amount op) ps)"
proof (rule length_concat_two)
  fix p :: "transaction \<times> operation"
  obtain tx op where p: "p = (tx, op)" by (cases p)
  show "length (pair_discrepancies answer p) =
      (if case p of (tx, op) \<Rightarrow> \<exists>i ord. order_of answer tx i ord \<and> ors_status ord = ''paid''
           \<and> o_status op \<noteq> Op_SUCCEEDED then 1 else 0)
      + (if case p of (tx, op) \<Rightarrow> \<exists>i ord. order_of answer tx i ord \<and> ors_amount ord \<noteq> o_amount op
         then 1 else 0)"
    unfolding p prod.case by (rule pair_discrepancies_length)
qed

text \<open>
  C33: The report is exact: with a gateway whose answer to a fetch does not change during the audit,
  an audit that returns counts every transaction of every operation created within the look-back.
  It reports a missed webhook for exactly those whose order the gateway calls paid while the
  operation is not SUCCEEDED, and an amount mismatch for exactly those whose order has another
  amount than the operation, one entry each, with these contents; it stores one report with the
  same numbers. A transaction without an order identifier, or whose fetch fails, contributes
  nothing, and \<open>synced_count\<close> is always 0.
\<close>
theorem reconciliation_report_exact:
  assumes "stable_gateway E (razorpay_client E) answer"
    and "run_gateway_reconciliation E minutes w = (Inr result, w')"
  shows "rc_total_checked result = int (length (recent_rows E minutes w)) \<and> rc_synced_count result = 0
    \<and> (\<forall>d. d \<in> set (rc_discrepancies result) \<longleftrightarrow>
        (\<exists>tx op i ord. (tx, op) \<in> set (recent_rows E minutes w) \<and> order_of answer tx i ord \<and> discrepancy op i ord d))
    \<and> length (rc_discrepancies result) =
        length (filter (\<lambda>(tx, op). \<exists>i ord. order_of answer tx i ord \<and> ors_status ord = ''paid''
            \<and> o_status op \<noteq> Op_SUCCEEDED) (recent_rows E minutes w))
        + length (filter (\<lambda>(tx, op). \<exists>i ord. order_of answer tx i ord \<and> ors_amount ord \<noteq> o_amount op)
            (recent_rows E minutes w))
    \<and> (\<exists>rep. reconciliation_reports w' = reconciliation_reports w @ [rep]
         \<and> rr_total_audited rep = rc_total_checked result
         \<and> rr_inconsistencies_detected rep = int (length (rc_discrepancies result))
         \<and> dget (rr_details rep) ''discrepancies'' = Some (JList (map JObj (rc_discrepancies result))))"
proof -
  let ?pairs = "recent_rows E minutes w"
  from assms(2) [unfolded run_gateway_reconciliation_def audited_pairs_join]
  obtain v h pk where c: "check_pairs E (razorpay_client E) ?pairs ReconciliationResult_init w = (result, v)"
    and w': "reconciliation_reports w' = reconciliation_reports v @ [new_report E result h pk]"
    by (cases rule: perform_cases [unfolded audited_pairs_join]) (auto simp: audited_pairs_join)
  have result: "result = \<lparr>rc_total_checked = int (length ?pairs),
      rc_discrepancies = concat (map (pair_discrepancies answer) ?pairs), rc_synced_count = 0\<rparr>"
    using check_pairs_result [OF assms(1), of ?pairs ReconciliationResult_init w] c
    by (simp add: ReconciliationResult_init_def)
  have found: "d \<in> set (rc_discrepancies result) \<longleftrightarrow>
      (\<exists>tx op. (tx, op) \<in> set ?pairs \<and> d \<in> set (pair_discrepancies answer (tx, op)))" for d
    by (auto simp: result)
  have reports: "reconciliation_reports v = reconciliation_reports w"
    using check_pairs_only_gets [of w E "razorpay_client E" ?pairs ReconciliationResult_init] c
      same_tables_fields(8) by (fastforce simp: only_gets_def)
  show ?thesis
  proof (intro conjI allI)
    show "length (rc_discrepancies result) =
        length (filter (\<lambda>(tx, op). \<exists>i ord. order_of answer tx i ord \<and> ors_status ord = ''paid''
            \<and> o_status op \<noteq> Op_SUCCEEDED) ?pairs)
        + length (filter (\<lambda>(tx, op). \<exists>i ord. order_of answer tx i ord \<and> ors_amount ord \<noteq> o_amount op) ?pairs)"
      using discrepancies_length [of answer ?pairs] by (simp add: result)
    show "\<exists>rep. reconciliation_reports w' = reconciliation_reports w @ [rep]
         \<and> rr_total_audited rep = rc_total_checked result
         \<and> rr_inconsistencies_detected rep = int (length (rc_discrepancies result))
         \<and> dget (rr_details rep) ''discrepancies'' = Some (JList (map JObj (rc_discrepancies result)))"
      using w' reports by (simp add: new_report_def result_to_dict_def dict_simps)
    show "d \<in> set (rc_discrepancies result) \<longleftrightarrow>
        (\<exists>tx op i ord. (tx, op) \<in> set ?pairs \<and> order_of answer tx i ord \<and> discrepancy op i ord d)" for d
      unfolding found pair_discrepancies_set discrepancy.simps missed_webhook_def amount_mismatch_def
      by (auto cong: conj_cong)
  qed (simp_all add: result)
qed

definition mock_answer :: "string \<Rightarrow> exn + order_response" where
  "mock_answer i = Inr \<lparr>ors_id = i, ors_entity = ''order'', ors_amount = 50000,
     ors_amount_paid = 50000, ors_amount_due = 0, ors_currency = ''INR'', ors_receipt = None,
     ors_status = ''paid'', ors_attempts = 0, ors_notes = [], ors_created_at = int_time demo_env\<rparr>"

lemma mock_gateway_stable: "stable_gateway demo_env (razorpay_client demo_env) mock_answer"
  by (simp add: stable_gateway_def fetch_order_def Let_def mock_answer_def razorpay_client_def
      RazorpayClient_init_def demo_env_def default_settings_def)

theorem reconciliation_report_exact_witness:
  "\<exists>result w'. run_gateway_reconciliation demo_env 30000000
      (crashed_world (stuck_tx (Some ''order_1'') None)) = (Inr result, w')
    \<and> rc_total_checked result = 1 \<and> length (rc_discrepancies result) = 2
    \<and> [(''type'', JStr ''AMOUNT_MISMATCH''), (''operation_id'', JStr ''op_b''),
       (''order_id'', JStr ''order_1''), (''mandate_amount'', JInt 600), (''gateway_amount'', JInt 50000)]
      \<in> set (rc_discrepancies result)"
proof -
  let ?w = "crashed_world (stuck_tx (Some ''order_1'') None)"
  have "reconciliation_reports (snd (check_pairs demo_env c ps res ?w)) = []" for c ps res
    using check_pairs_only_gets [of ?w demo_env c ps res] same_tables_fields(8)
    by (fastforce simp: only_gets_def crashed_world_def demo_world_def)
  then obtain result w' where run: "run_gateway_reconciliation demo_env 30000000 ?w = (Inr result, w')"
    by (simp add: run_gateway_reconciliation_def perform_reconciliation_def Let_def case_prod_unfold
        draw_uuid_def generate_uuid_def table_simps)
  have rows: "recent_rows demo_env 30000000 ?w = [(stuck_tx (Some ''order_1'') None, stuck_operation ''b'')]"
    by (simp add: recent_rows_def crashed_world_def stuck_tx_def stuck_operation_def demo_env_def)
  show ?thesis
    using reconciliation_report_exact [OF mock_gateway_stable run] run unfolding rows
    by (simp add: order_of_def stuck_tx_def mock_answer_def stuck_operation_def discrepancy.simps)
qed

end
