(* ===== verification/Mcp_Catalog.thy ===== *)
theory Mcp_Catalog
  imports Witness_Data
begin

text \<open>
  The MCP tool catalogue of \<^verbatim>\<open>packages/mcp/catalog.py\<close>: the registered tools with their
  category, operation type and input schema, and the filter that cuts the catalogue down to what
  an agent's mandate grants.
\<close>

section \<open>Tools\<close>

record mcp_tool =
  mt_name :: string
  mt_description :: string
  mt_category :: string
  mt_operation_type :: "operation_type option"
  mt_input_schema :: dict

text \<open>A JSON schema of an object: properties with type and description, the required ones, no others.\<close>

definition object_schema :: "(string \<times> string \<times> string) list \<Rightarrow> string list \<Rightarrow> dict" where
  "object_schema props req =
     [(''type'', JStr ''object''),
      (''properties'', JObj (map (\<lambda>(k, ty, de).
         (k, JObj [(''type'', JStr ty), (''description'', JStr de)])) props))]
     @ (if req = [] then [] else [(''required'', JList (map JStr req))])
     @ [(''additionalProperties'', JBool False)]"

definition mk_tool ::
    "string \<Rightarrow> string \<Rightarrow> string \<Rightarrow> operation_type option \<Rightarrow> (string \<times> string \<times> string) list
       \<Rightarrow> string list \<Rightarrow> mcp_tool" where
  "mk_tool name description category op_type props req =
     \<lparr>mt_name = name, mt_description = description, mt_category = category,
      mt_operation_type = op_type, mt_input_schema = object_schema props req\<rparr>"

definition tool_payments_create_order :: mcp_tool where
  "tool_payments_create_order = mk_tool ''payments_create_order''
     ''Creates an order for payment collection on Razorpay.''
     ''ORDERS'' (Some CREATE_ORDER)
     [(''amount'', ''integer'', ''Amount in smallest currency unit (paise for INR)''),
      (''currency'', ''string'', ''3-letter ISO currency code (e.g. INR)''),
      (''receipt'', ''string'', ''Unique receipt reference for the order''),
      (''notes'', ''object'', ''Key-value metadata dictionary'')]
     [''amount'', ''currency'']"

definition tool_payments_fetch_order :: mcp_tool where
  "tool_payments_fetch_order = mk_tool ''payments_fetch_order''
     ''Fetches details of a specific Razorpay order.''
     ''ORDERS'' None
     [(''order_id'', ''string'', ''Razorpay order ID (e.g. order_xxx)'')]
     [''order_id'']"

definition tool_payments_fetch_all_orders :: mcp_tool where
  "tool_payments_fetch_all_orders = mk_tool ''payments_fetch_all_orders''
     ''Fetches a list of historical Razorpay orders.''
     ''ORDERS'' None
     [(''count'', ''integer'', ''Number of orders to retrieve'')]
     []"

definition tool_payments_fetch_payment :: mcp_tool where
  "tool_payments_fetch_payment = mk_tool ''payments_fetch_payment''
     ''Fetches details of a specific Razorpay payment.''
     ''PAYMENTS'' None
     [(''payment_id'', ''string'', ''Razorpay payment ID (e.g. pay_xxx)'')]
     [''payment_id'']"

definition tool_payments_fetch_all_payments :: mcp_tool where
  "tool_payments_fetch_all_payments = mk_tool ''payments_fetch_all_payments''
     ''Fetches a list of all payments for the merchant account.''
     ''PAYMENTS'' None
     [(''count'', ''integer'', ''Number of payments to fetch'')]
     []"

definition tool_payments_capture_payment :: mcp_tool where
  "tool_payments_capture_payment = mk_tool ''payments_capture_payment''
     ''Captures an authorized Razorpay payment.''
     ''PAYMENTS'' (Some CAPTURE_PAYMENT)
     [(''payment_id'', ''string'', ''Payment ID to capture''),
      (''amount'', ''integer'', ''Amount in paise''),
      (''currency'', ''string'', ''ISO currency code'')]
     [''payment_id'', ''amount'']"

definition tool_payments_create_payment_link :: mcp_tool where
  "tool_payments_create_payment_link = mk_tool ''payments_create_payment_link''
     ''Creates a shareable customer Payment Link for invoicing.''
     ''PAYMENT_LINKS'' (Some CREATE_PAYMENT_LINK)
     [(''amount'', ''integer'', ''Amount in paise''),
      (''currency'', ''string'', ''Currency code (e.g. INR)''),
      (''description'', ''string'', ''Payment link invoice description''),
      (''customer_name'', ''string'', ''Recipient name''),
      (''customer_email'', ''string'', ''Recipient email''),
      (''customer_contact'', ''string'', ''Recipient phone''),
      (''notes'', ''object'', ''Custom metadata'')]
     [''amount'', ''currency'', ''description'']"

definition tool_payments_fetch_payment_link :: mcp_tool where
  "tool_payments_fetch_payment_link = mk_tool ''payments_fetch_payment_link''
     ''Fetches status and details of a Payment Link.''
     ''PAYMENT_LINKS'' None
     [(''payment_link_id'', ''string'', ''Payment link ID'')]
     [''payment_link_id'']"

definition tool_payments_cancel_payment_link :: mcp_tool where
  "tool_payments_cancel_payment_link = mk_tool ''payments_cancel_payment_link''
     ''Cancels an active Razorpay Payment Link.''
     ''PAYMENT_LINKS'' (Some CANCEL_PAYMENT_LINK)
     [(''payment_link_id'', ''string'', ''Payment link ID to cancel'')]
     [''payment_link_id'']"

definition tool_payments_create_refund :: mcp_tool where
  "tool_payments_create_refund = mk_tool ''payments_create_refund''
     ''Creates a refund for a previously captured payment.''
     ''REFUNDS'' (Some CREATE_REFUND)
     [(''payment_id'', ''string'', ''Payment ID to refund''),
      (''amount'', ''integer'', ''Refund amount in paise (optional for full refund)''),
      (''notes'', ''object'', ''Refund notes/reason'')]
     [''payment_id'']"

definition tool_payments_fetch_refund :: mcp_tool where
  "tool_payments_fetch_refund = mk_tool ''payments_fetch_refund''
     ''Fetches details of a specific refund transaction.''
     ''REFUNDS'' None
     [(''refund_id'', ''string'', ''Refund ID'')]
     [''refund_id'']"

definition tool_payments_fetch_all_refunds :: mcp_tool where
  "tool_payments_fetch_all_refunds = mk_tool ''payments_fetch_all_refunds''
     ''Fetches a list of all refunds processed for the account.''
     ''REFUNDS'' None
     [(''count'', ''integer'', ''Number of refunds to retrieve'')]
     []"

definition tool_qr_codes_create :: mcp_tool where
  "tool_qr_codes_create = mk_tool ''qr_codes_create''
     ''Creates a dynamic BharatQR / UPI QR code for payment collection.''
     ''QR_CODES'' (Some CREATE_ORDER)
     [(''type'', ''string'', ''upi_qr''),
      (''name'', ''string'', ''Store or desk reference name''),
      (''usage'', ''string'', ''single_use or multiple_use''),
      (''fixed_amount'', ''boolean'', ''Whether amount is fixed''),
      (''payment_amount'', ''integer'', ''Amount in paise'')]
     [''type'', ''name'', ''usage'']"

definition tool_qr_codes_fetch_by_id :: mcp_tool where
  "tool_qr_codes_fetch_by_id = mk_tool ''qr_codes_fetch_by_id''
     ''Fetches status of a generated QR code.''
     ''QR_CODES'' None
     [(''qr_id'', ''string'', ''QR Code ID'')]
     [''qr_id'']"

definition tool_qr_codes_close :: mcp_tool where
  "tool_qr_codes_close = mk_tool ''qr_codes_close''
     ''Closes an active QR code.''
     ''QR_CODES'' None
     [(''qr_id'', ''string'', ''QR Code ID to close'')]
     [''qr_id'']"

definition tool_settlements_fetch_all :: mcp_tool where
  "tool_settlements_fetch_all = mk_tool ''settlements_fetch_all''
     ''Fetches all bank settlement transfers for the merchant account.''
     ''SETTLEMENTS'' None
     [(''count'', ''integer'', ''Number of settlements'')]
     []"

definition tool_settlements_fetch_by_id :: mcp_tool where
  "tool_settlements_fetch_by_id = mk_tool ''settlements_fetch_by_id''
     ''Fetches details of a specific bank settlement transfer.''
     ''SETTLEMENTS'' None
     [(''settlement_id'', ''string'', ''Settlement ID'')]
     [''settlement_id'']"

definition tool_settlements_fetch_combined_report :: mcp_tool where
  "tool_settlements_fetch_combined_report = mk_tool ''settlements_fetch_combined_report''
     ''Fetches a consolidated settlement report for accounting reconciliation.''
     ''SETTLEMENTS'' None
     [(''year'', ''integer'', ''Year of report''),
      (''month'', ''integer'', ''Month of report'')]
     []"

definition tool_invoices_create :: mcp_tool where
  "tool_invoices_create = mk_tool ''invoices_create''
     ''Issues a formal GST-compliant invoice for customer billing.''
     ''INVOICES'' (Some CREATE_PAYMENT_LINK)
     [(''type'', ''string'', ''invoice''),
      (''description'', ''string'', ''Billing line item''),
      (''amount'', ''integer'', ''Amount in paise''),
      (''customer'', ''object'', ''Customer contact info'')]
     [''type'', ''description'', ''amount'']"

definition tool_invoices_fetch_by_id :: mcp_tool where
  "tool_invoices_fetch_by_id = mk_tool ''invoices_fetch_by_id''
     ''Fetches details of an issued invoice.''
     ''INVOICES'' None
     [(''invoice_id'', ''string'', ''Invoice ID'')]
     [''invoice_id'']"

definition tool_invoices_cancel :: mcp_tool where
  "tool_invoices_cancel = mk_tool ''invoices_cancel''
     ''Cancels an issued unpaid invoice.''
     ''INVOICES'' (Some CANCEL_PAYMENT_LINK)
     [(''invoice_id'', ''string'', ''Invoice ID to cancel'')]
     [''invoice_id'']"

definition tool_customers_create :: mcp_tool where
  "tool_customers_create = mk_tool ''customers_create''
     ''Creates a customer entity on Razorpay for recurring billing.''
     ''CUSTOMERS'' None
     [(''name'', ''string'', ''Customer name''),
      (''email'', ''string'', ''Customer email''),
      (''contact'', ''string'', ''Customer phone'')]
     [''name'', ''email'']"

definition tool_customers_fetch_by_id :: mcp_tool where
  "tool_customers_fetch_by_id = mk_tool ''customers_fetch_by_id''
     ''Fetches customer details.''
     ''CUSTOMERS'' None
     [(''customer_id'', ''string'', ''Customer ID'')]
     [''customer_id'']"

definition tool_payouts_create :: mcp_tool where
  "tool_payouts_create = mk_tool ''payouts_create''
     ''Dispatches an external bank payout from merchant account.''
     ''PAYOUTS'' None
     [(''account_number'', ''string'', ''Destination bank account''),
      (''fund_account_id'', ''string'', ''RazorpayX fund account''),
      (''amount'', ''integer'', ''Amount in paise''),
      (''currency'', ''string'', ''INR''),
      (''mode'', ''string'', ''IMPS, NEFT, RTGS''),
      (''purpose'', ''string'', ''Payout purpose'')]
     [''account_number'', ''amount'', ''currency'', ''mode'', ''purpose'']"

definition tool_payouts_fetch_by_id :: mcp_tool where
  "tool_payouts_fetch_by_id = mk_tool ''payouts_fetch_by_id''
     ''Fetches status of an external bank payout transfer.''
     ''PAYOUTS'' None
     [(''payout_id'', ''string'', ''Payout ID'')]
     [''payout_id'']"

definition tool_payouts_cancel :: mcp_tool where
  "tool_payouts_cancel = mk_tool ''payouts_cancel''
     ''Cancels a queued external bank payout.''
     ''PAYOUTS'' None
     [(''payout_id'', ''string'', ''Payout ID to cancel'')]
     [''payout_id'']"

definition RAZORPAY_MCP_TOOL_REGISTRY :: "mcp_tool list" where
  "RAZORPAY_MCP_TOOL_REGISTRY =
     [tool_payments_create_order, tool_payments_fetch_order,
      tool_payments_fetch_all_orders, tool_payments_fetch_payment,
      tool_payments_fetch_all_payments, tool_payments_capture_payment,
      tool_payments_create_payment_link, tool_payments_fetch_payment_link,
      tool_payments_cancel_payment_link, tool_payments_create_refund,
      tool_payments_fetch_refund, tool_payments_fetch_all_refunds,
      tool_qr_codes_create, tool_qr_codes_fetch_by_id,
      tool_qr_codes_close, tool_settlements_fetch_all,
      tool_settlements_fetch_by_id, tool_settlements_fetch_combined_report,
      tool_invoices_create, tool_invoices_fetch_by_id,
      tool_invoices_cancel, tool_customers_create,
      tool_customers_fetch_by_id, tool_payouts_create,
      tool_payouts_fetch_by_id, tool_payouts_cancel]"

definition find_tool :: "string \<Rightarrow> mcp_tool option" where
  "find_tool name = tget mt_name name RAZORPAY_MCP_TOOL_REGISTRY"

definition schema_properties :: "mcp_tool \<Rightarrow> dict" where
  "schema_properties t =
     (case dget_or (mt_input_schema t) ''properties'' (JObj []) of JObj d \<Rightarrow> d | _ \<Rightarrow> [])"

section \<open>The filter\<close>

definition granted_categories :: "string list \<Rightarrow> string list" where
  "granted_categories allowed_ops =
     (if ''CREATE_ORDER'' \<in> set allowed_ops then [''ORDERS''] else [])
     @ (if ''CREATE_PAYMENT_LINK'' \<in> set allowed_ops \<or> ''CANCEL_PAYMENT_LINK'' \<in> set allowed_ops
        then [''PAYMENT_LINKS''] else [])
     @ (if ''CREATE_REFUND'' \<in> set allowed_ops then [''REFUNDS''] else [])
     @ (if ''CREATE_INVOICE'' \<in> set allowed_ops then [''INVOICES''] else [])
     @ (if ''CREATE_SUBSCRIPTION'' \<in> set allowed_ops then [''SUBSCRIPTIONS''] else [])
     @ (if ''PAYOUTS'' \<in> set allowed_ops then [''PAYOUTS''] else [])
     @ (if ''SETTLEMENTS'' \<in> set allowed_ops then [''SETTLEMENTS''] else [])"

definition fallback_categories :: "string \<Rightarrow> string list" where
  "fallback_categories agent_type =
     (if agent_type = ''SHOPPING'' then [''ORDERS'', ''PAYMENT_LINKS'']
      else if agent_type = ''PROCUREMENT'' then [''ORDERS'']
      else if agent_type = ''SUPPORT'' then [''REFUNDS'']
      else [])"

definition allowed_categories :: "agent \<Rightarrow> mandate \<Rightarrow> string list" where
  "allowed_categories agent mandate =
     (let granted = granted_categories (m_allowed_operations mandate)
      in if granted = [] then fallback_categories (a_agent_type agent) else granted)"

definition tool_permitted :: "string list \<Rightarrow> string list \<Rightarrow> mcp_tool \<Rightarrow> bool" where
  "tool_permitted categories allowed_ops t \<longleftrightarrow> mt_category t \<in> set categories
     \<and> (case mt_operation_type t of None \<Rightarrow> True
        | Some op_type \<Rightarrow> operation_type_value op_type \<in> set allowed_ops)"

definition get_filtered_mcp_tools :: "agent \<Rightarrow> mandate \<Rightarrow> mcp_tool list" where
  "get_filtered_mcp_tools agent mandate =
     filter (tool_permitted (allowed_categories agent mandate) (m_allowed_operations mandate))
       RAZORPAY_MCP_TOOL_REGISTRY"

section \<open>Properties\<close>

lemmas tool_defs = tool_payments_create_order_def tool_payments_fetch_order_def tool_payments_fetch_all_orders_def tool_payments_fetch_payment_def tool_payments_fetch_all_payments_def tool_payments_capture_payment_def tool_payments_create_payment_link_def tool_payments_fetch_payment_link_def tool_payments_cancel_payment_link_def tool_payments_create_refund_def tool_payments_fetch_refund_def tool_payments_fetch_all_refunds_def tool_qr_codes_create_def tool_qr_codes_fetch_by_id_def tool_qr_codes_close_def tool_settlements_fetch_all_def tool_settlements_fetch_by_id_def tool_settlements_fetch_combined_report_def tool_invoices_create_def tool_invoices_fetch_by_id_def tool_invoices_cancel_def tool_customers_create_def tool_customers_fetch_by_id_def tool_payouts_create_def tool_payouts_fetch_by_id_def tool_payouts_cancel_def

lemma registry_names: "distinct (map mt_name RAZORPAY_MCP_TOOL_REGISTRY)"
  by (simp add: RAZORPAY_MCP_TOOL_REGISTRY_def tool_defs mk_tool_def)

lemma find_tool_iff: "find_tool n = Some t \<longleftrightarrow> t \<in> set RAZORPAY_MCP_TOOL_REGISTRY \<and> mt_name t = n"
  using tget_in_set [OF registry_names] by (auto simp: find_tool_def dest: tget_SomeD)

text \<open>The tools of the restricted categories, and the categories nothing grants.\<close>

lemma registry_category:
  "t \<in> set RAZORPAY_MCP_TOOL_REGISTRY \<Longrightarrow> mt_category t \<in> {''ORDERS'', ''PAYMENTS'', ''PAYMENT_LINKS'',
     ''REFUNDS'', ''QR_CODES'', ''SETTLEMENTS'', ''INVOICES'', ''CUSTOMERS'', ''PAYOUTS''}"
  by (auto simp: RAZORPAY_MCP_TOOL_REGISTRY_def tool_defs mk_tool_def)

lemma granted_category:
  "c \<in> set (allowed_categories a m) \<Longrightarrow> c \<in> {''ORDERS'', ''PAYMENT_LINKS'', ''REFUNDS'', ''INVOICES'',
      ''SUBSCRIPTIONS'', ''PAYOUTS'', ''SETTLEMENTS''}
    \<and> (c \<in> {''PAYOUTS'', ''SETTLEMENTS''} \<longrightarrow> c \<in> set (m_allowed_operations m))
    \<and> (c = ''INVOICES'' \<longrightarrow> ''CREATE_INVOICE'' \<in> set (m_allowed_operations m))"
  by (auto simp: allowed_categories_def granted_categories_def fallback_categories_def Let_def
      split: if_splits)

text \<open>
  The tool list never exceeds the mandate: every listed tool is registered, a mutating one
  carries an operation type the mandate allows, payouts and settlements are listed only when the
  mandate names them, and QR codes, customers and the PAYMENTS category (payment capture) are
  never listed.
\<close>
theorem listed_tools_authorised:
  assumes "t \<in> set (get_filtered_mcp_tools agent mandate)"
  shows "find_tool (mt_name t) = Some t
    \<and> (\<forall>op_type. mt_operation_type t = Some op_type \<longrightarrow> operation_type_value op_type \<in> set (m_allowed_operations mandate))
    \<and> (mt_category t \<in> {''PAYOUTS'', ''SETTLEMENTS''} \<longrightarrow> mt_category t \<in> set (m_allowed_operations mandate))
    \<and> mt_category t \<notin> {''QR_CODES'', ''CUSTOMERS'', ''PAYMENTS''}"
  using assms granted_category [of "mt_category t" agent mandate]
  by (auto simp: get_filtered_mcp_tools_def find_tool_iff tool_permitted_def)

theorem listed_tools_authorised_witness:
  "tool_payments_create_refund \<in> set (get_filtered_mcp_tools (demo_agent ''help'' ''SUPPORT'') demo_support)
    \<and> ''CREATE_REFUND'' \<in> set (m_allowed_operations demo_support)"
proof -
  have mem: "tool_payments_create_refund \<in> set (get_filtered_mcp_tools (demo_agent ''help'' ''SUPPORT'') demo_support)"
    by code_simp
  have "mt_operation_type tool_payments_create_refund = Some CREATE_REFUND"
    by (simp add: tool_payments_create_refund_def mk_tool_def)
  with listed_tools_authorised [OF mem] mem show ?thesis by simp
qed

text \<open>
  What the registry route advertises for the standard roles (3, 2 and 3 tools) is not what the
  filter lists.
\<close>

lemma standard_role_tools:
  "map mt_name (get_filtered_mcp_tools (demo_agent ''shop'' ''SHOPPING'') demo_root)
     = [''payments_create_order'', ''payments_fetch_order'', ''payments_fetch_all_orders'',
        ''payments_create_payment_link'', ''payments_fetch_payment_link'']"
  "map mt_name (get_filtered_mcp_tools (demo_agent ''proc'' ''PROCUREMENT'') demo_child)
     = [''payments_create_order'', ''payments_fetch_order'', ''payments_fetch_all_orders'']"
  "map mt_name (get_filtered_mcp_tools (demo_agent ''help'' ''SUPPORT'') demo_support)
     = [''payments_create_refund'', ''payments_fetch_refund'', ''payments_fetch_all_refunds'']"
  "length RAZORPAY_MCP_TOOL_REGISTRY = 26"
  by code_simp+

end
