(* ===== verification/Py_Values.thy ===== *)
theory Py_Values
  imports Domain "HOL-Library.Log_Nat"
begin

text \<open>
  Python's values as the agent and gateway code uses them: the text of a JSON value (\<open>repr\<close>,
  \<open>str\<close>, \<open>json.dumps\<close>), binary64 floating point with rounding to the nearest even, the
  conversions \<open>int(x)\<close> and \<open>float(x)\<close> with their errors, and the text of a rupee amount. A JSON
  number with a fraction is the exact value of its double; the sign of zero is not kept.
\<close>

section \<open>Python's text of a JSON value\<close>

definition hex_digit :: "nat \<Rightarrow> char" where
  "hex_digit d = (if d < 10 then char_of (48 + d) else char_of (87 + d))"

definition repr_char :: "char \<Rightarrow> char \<Rightarrow> string" where
  "repr_char q c =
     (let n = (of_char c :: nat) in
      if c = q \<or> n = 92 then [CHR 0x5C, c]
      else if n = 10 then [CHR 0x5C, CHR ''n'']
      else if n = 13 then [CHR 0x5C, CHR ''r'']
      else if n = 9 then [CHR 0x5C, CHR ''t'']
      else if n < 32 \<or> n = 127 then [CHR 0x5C, CHR ''x'', hex_digit (n div 16), hex_digit (n mod 16)]
      else [c])"

definition repr_str :: "string \<Rightarrow> string" where
  "repr_str s =
     (let q = (if CHR 0x27 \<in> set s \<and> CHR 0x22 \<notin> set s then CHR 0x22 else CHR 0x27)
      in [q] @ concat (map (repr_char q) s) @ [q])"

fun py_repr :: "env \<Rightarrow> json \<Rightarrow> string"
  and py_repr_list :: "env \<Rightarrow> json list \<Rightarrow> string list"
  and py_repr_fields :: "env \<Rightarrow> dict \<Rightarrow> string list" where
  "py_repr E JNull = ''None''"
| "py_repr E (JBool b) = (if b then ''True'' else ''False'')"
| "py_repr E (JInt i) = str_int i"
| "py_repr E (JFloat r) = float_text E r"
| "py_repr E (JStr s) = repr_str s"
| "py_repr E (JList xs) = ''['' @ str_join '', '' (py_repr_list E xs) @ '']''"
| "py_repr E (JObj d) = ''{'' @ str_join '', '' (py_repr_fields E d) @ ''}''"
| "py_repr_list E [] = []"
| "py_repr_list E (x # xs) = py_repr E x # py_repr_list E xs"
| "py_repr_fields E [] = []"
| "py_repr_fields E ((k, v) # d) = (repr_str k @ '': '' @ py_repr E v) # py_repr_fields E d"

definition py_str :: "env \<Rightarrow> json \<Rightarrow> string" where
  "py_str E j = (case j of JStr s \<Rightarrow> s | _ \<Rightarrow> py_repr E j)"

text \<open>\<open>round(x, 1)\<close>, ties to the even digit.\<close>

definition round_tenth :: "rat \<Rightarrow> rat" where
  "round_tenth x =
     (let n = \<lfloor>x * 10\<rfloor>; r = x * 10 - of_int n
      in of_int (if r < 1 / 2 \<or> (r = 1 / 2 \<and> even n) then n else n + 1) / 10)"

text \<open>Characters the literals of the theories cannot hold; those outside ASCII as UTF-8.\<close>

definition apos :: string where "apos = [CHR 0x27]"

definition dquote :: string where "dquote = [CHR 0x22]"

definition newline :: string where "newline = [CHR 0x0A]"

definition bullet :: string where "bullet = [CHR 0xE2, CHR 0x80, CHR 0xA2]"

definition em_dash :: string where "em_dash = [CHR 0xE2, CHR 0x80, CHR 0x94]"

definition rupee_sign :: string where "rupee_sign = [CHR 0xE2, CHR 0x82, CHR 0xB9]"

definition package_sign :: string where "package_sign = [CHR 0xF0, CHR 0x9F, CHR 0x93, CHR 0xA6]"

definition check_sign :: string where "check_sign = [CHR 0xE2, CHR 0x9C, CHR 0x85]"

definition stop_sign :: string where "stop_sign = [CHR 0xF0, CHR 0x9F, CHR 0x9B, CHR 0x91]"

text \<open>\<open>json.dumps(x)\<close> with its default separators.\<close>

definition json_char :: "char \<Rightarrow> string" where
  "json_char c =
     (let n = (of_char c :: nat) in
      if n = 34 \<or> n = 92 then [CHR 0x5C, c]
      else if n = 10 then [CHR 0x5C, CHR ''n'']
      else if n = 13 then [CHR 0x5C, CHR ''r'']
      else if n = 9 then [CHR 0x5C, CHR ''t'']
      else if n = 8 then [CHR 0x5C, CHR ''b'']
      else if n = 12 then [CHR 0x5C, CHR ''f'']
      else if n < 32 \<or> n = 127
      then [CHR 0x5C, CHR ''u'', CHR ''0'', CHR ''0'', hex_digit (n div 16), hex_digit (n mod 16)]
      else [c])"

definition json_str :: "string \<Rightarrow> string" where
  "json_str s = [CHR 0x22] @ concat (map json_char s) @ [CHR 0x22]"

fun json_dumps :: "env \<Rightarrow> json \<Rightarrow> string"
  and json_dumps_list :: "env \<Rightarrow> json list \<Rightarrow> string list"
  and json_dumps_fields :: "env \<Rightarrow> dict \<Rightarrow> string list" where
  "json_dumps E JNull = ''null''"
| "json_dumps E (JBool b) = (if b then ''true'' else ''false'')"
| "json_dumps E (JInt i) = str_int i"
| "json_dumps E (JFloat r) = float_text E r"
| "json_dumps E (JStr s) = json_str s"
| "json_dumps E (JList xs) = ''['' @ str_join '', '' (json_dumps_list E xs) @ '']''"
| "json_dumps E (JObj d) = ''{'' @ str_join '', '' (json_dumps_fields E d) @ ''}''"
| "json_dumps_list E [] = []"
| "json_dumps_list E (x # xs) = json_dumps E x # json_dumps_list E xs"
| "json_dumps_fields E [] = []"
| "json_dumps_fields E ((k, v) # d) = (json_str k @ '': '' @ json_dumps E v) # json_dumps_fields E d"

text \<open>\<open>x[k]\<close> on a parsed JSON value.\<close>

definition jindex :: "json \<Rightarrow> string \<Rightarrow> exn + json" where
  "jindex j k =
     (case j of
        JObj d \<Rightarrow> (case dget d k of None \<Rightarrow> Inl (KeyError k) | Some v \<Rightarrow> Inr v)
      | _ \<Rightarrow> Inl TypeError)"

section \<open>Binary floating point\<close>

definition pow2 :: "int \<Rightarrow> rat" where
  "pow2 k = (if 0 \<le> k then 2 ^ nat k else 1 / 2 ^ nat (- k))"

definition round_half_even :: "rat \<Rightarrow> int" where
  "round_half_even x =
     (let n = \<lfloor>x\<rfloor>; r = x - of_int n
      in if r < 1 / 2 \<or> (r = 1 / 2 \<and> even n) then n else n + 1)"

text \<open>The exponent \<open>e\<close> with \<open>2^e \<le> x < 2^(e+1)\<close>, from the sizes of numerator and denominator.\<close>

definition float_exponent :: "rat \<Rightarrow> int" where
  "float_exponent x =
     (let (n, d) = quotient_of x; e = bitlen n - bitlen d
      in if pow2 e \<le> x then e else e - 1)"

definition binary64 :: "rat \<Rightarrow> rat" where
  "binary64 x =
     (if x = 0 then 0
      else let u = pow2 (max (float_exponent \<bar>x\<bar> - 52) (- 1074))
           in of_int (round_half_even (x / u)) * u)"

datatype pyfloat = PFin rat | PInf bool | PNan

definition to_float :: "rat \<Rightarrow> pyfloat" where
  "to_float x =
     (let r = binary64 x in if \<bar>r\<bar> < of_int (2 ^ 1024) then PFin r else PInf (x < 0))"

section \<open>Conversions\<close>

definition is_digit :: "char \<Rightarrow> bool" where
  "is_digit c \<longleftrightarrow> 48 \<le> (of_char c :: nat) \<and> (of_char c :: nat) \<le> 57"

definition digit_val :: "char \<Rightarrow> nat" where
  "digit_val c = of_char c - 48"

text \<open>
  Digits with single underscores between them: the value and number of the digits read so far,
  and the rest of the text.
\<close>

fun more_digits :: "nat \<Rightarrow> nat \<Rightarrow> string \<Rightarrow> nat \<times> nat \<times> string" where
  "more_digits n k [] = (n, k, [])"
| "more_digits n k [c] = (if is_digit c then (10 * n + digit_val c, k + 1, []) else (n, k, [c]))"
| "more_digits n k (c # d # s) =
     (if is_digit c then more_digits (10 * n + digit_val c) (k + 1) (d # s)
      else if c = CHR ''_'' \<and> is_digit d then more_digits (10 * n + digit_val d) (k + 1) s
      else (n, k, c # d # s))"

definition digit_part :: "string \<Rightarrow> nat \<times> nat \<times> string" where
  "digit_part s =
     (case s of c # _ \<Rightarrow> if is_digit c then more_digits 0 0 s else (0, 0, s) | [] \<Rightarrow> (0, 0, []))"

definition sign_part :: "string \<Rightarrow> bool \<times> string" where
  "sign_part s =
     (case s of
        c # t \<Rightarrow> if c = CHR ''-'' then (True, t) else if c = CHR ''+'' then (False, t) else (False, s)
      | [] \<Rightarrow> (False, []))"

definition signed_digits :: "string \<Rightarrow> int option" where
  "signed_digits s =
     (let (neg, t) = sign_part s; (n, k, rest) = digit_part t
      in if k = 0 \<or> rest \<noteq> [] then None else Some (if neg then - int n else int n))"

definition parse_int :: "string \<Rightarrow> int option" where
  "parse_int s = signed_digits (str_strip s)"

definition exponent_part :: "string \<Rightarrow> int option" where
  "exponent_part s =
     (case s of [] \<Rightarrow> Some 0
      | c # t \<Rightarrow> if char_lower c \<noteq> CHR ''e'' then None else signed_digits t)"

definition parse_float :: "string \<Rightarrow> pyfloat option" where
  "parse_float s =
     (let (neg, t) = sign_part (str_strip s) in
      if str_lower t = ''inf'' \<or> str_lower t = ''infinity'' then Some (PInf neg)
      else if str_lower t = ''nan'' then Some PNan
      else let (n, k, t) = digit_part t;
               (m, j, t) = (case t of c # u \<Rightarrow> if c = CHR ''.'' then digit_part u else (0, 0, t)
                            | [] \<Rightarrow> (0, 0, []))
           in if k + j = 0 then None
              else map_option (\<lambda>e. to_float ((if neg then - 1 else 1) * (of_nat n + of_nat m / 10 ^ j)
                  * (if 0 \<le> e then 10 ^ nat e else 1 / 10 ^ nat (- e))))
                (exponent_part t))"

definition py_int_of_float :: "pyfloat \<Rightarrow> exn + int" where
  "py_int_of_float f =
     (case f of
        PFin r \<Rightarrow> Inr (if r < 0 then - \<lfloor>- r\<rfloor> else \<lfloor>r\<rfloor>)
      | PInf _ \<Rightarrow> Inl OverflowError
      | PNan \<Rightarrow> Inl (ValueError ''cannot convert float NaN to integer''))"

text \<open>\<open>int(x)\<close> and \<open>float(x)\<close>.\<close>

definition py_int :: "json \<Rightarrow> exn + int" where
  "py_int j =
     (case j of
        JBool b \<Rightarrow> Inr (if b then 1 else 0)
      | JInt i \<Rightarrow> Inr i
      | JFloat r \<Rightarrow> py_int_of_float (PFin r)
      | JStr s \<Rightarrow> (case parse_int s of Some i \<Rightarrow> Inr i
          | None \<Rightarrow> Inl (ValueError (''invalid literal for int() with base 10: '' @ repr_str s)))
      | _ \<Rightarrow> Inl TypeError)"

definition py_float :: "json \<Rightarrow> exn + pyfloat" where
  "py_float j =
     (case j of
        JBool b \<Rightarrow> Inr (PFin (if b then 1 else 0))
      | JInt i \<Rightarrow> (case to_float (of_int i) of PInf _ \<Rightarrow> Inl OverflowError | f \<Rightarrow> Inr f)
      | JFloat r \<Rightarrow> Inr (PFin r)
      | JStr s \<Rightarrow> (case parse_float s of Some f \<Rightarrow> Inr f
          | None \<Rightarrow> Inl (ValueError (''could not convert string to float: '' @ repr_str s)))
      | _ \<Rightarrow> Inl TypeError)"

section \<open>Amounts in rupees\<close>

text \<open>\<open>int(float(x) * 100)\<close>\<close>

definition float_times :: "rat \<Rightarrow> pyfloat \<Rightarrow> pyfloat" where
  "float_times k f = (case f of PFin r \<Rightarrow> to_float (r * k) | PInf neg \<Rightarrow> PInf neg | PNan \<Rightarrow> PNan)"

definition paise_of :: "json \<Rightarrow> exn + int" where
  "paise_of j = bindE (py_float j) (\<lambda>f. py_int_of_float (float_times 100 f))"

text \<open>\<open>f"{x:,.2f}"\<close> of a float, and \<open>f"Rs. {paise / 100:,.2f}"\<close>.\<close>

function comma_groups :: "int \<Rightarrow> string" where
  "comma_groups n =
     (if n < 1000 then str_int n
      else comma_groups (n div 1000) @ '','' @ pad_left 3 (str_int (n mod 1000)))"
  by auto
termination comma_groups by (relation "measure nat") auto

declare comma_groups.simps [simp del]

definition hundredths_text :: "int \<Rightarrow> string" where
  "hundredths_text n = comma_groups (n div 100) @ ''.'' @ pad_left 2 (str_int (n mod 100))"

definition fixed2_text :: "rat \<Rightarrow> string" where
  "fixed2_text x =
     (if x < 0 then ''-'' else []) @ hundredths_text (round_half_even (\<bar>x\<bar> * 100))"

definition rupee_text :: "int \<Rightarrow> string" where
  "rupee_text paise = ''Rs. '' @ fixed2_text (binary64 (of_int paise / 100))"

section \<open>Rounding\<close>

lemma pow2_powi: "pow2 k = 2 powi k"
  by (simp add: pow2_def power_int_def inverse_eq_divide power_divide)

lemma pow2_pos [simp]: "0 < pow2 k" "pow2 k \<noteq> 0"
  by (simp_all add: pow2_def)

lemma pow2_add: "pow2 (a + b) = pow2 a * pow2 b"
  by (simp add: pow2_powi power_int_add)

lemma pow2_mono: "a \<le> b \<Longrightarrow> pow2 a \<le> pow2 b"
  by (simp add: pow2_powi power_int_increasing)

lemma pow2_nat: "0 \<le> k \<Longrightarrow> pow2 k = of_int (2 ^ nat k)"
  by (simp add: pow2_def)

lemma bitlen_pow2:
  assumes "0 < n"
  shows "pow2 (bitlen n - 1) \<le> of_int n" and "of_int n < pow2 (bitlen n)"
proof -
  from assms have b: "2 ^ nat (bitlen n - 1) \<le> n" "n < 2 ^ nat (bitlen n)" "1 \<le> bitlen n"
    using bitlen_bounds [of n] by (auto simp: bitlen_alt_def)
  from b(1) have "(of_int (2 ^ nat (bitlen n - 1)) :: rat) \<le> of_int n" by (simp only: of_int_le_iff)
  with b(3) show "pow2 (bitlen n - 1) \<le> of_int n" by (simp add: pow2_def)
  from b(2) have "(of_int n :: rat) < of_int (2 ^ nat (bitlen n))" by (simp only: of_int_less_iff)
  with b(3) show "of_int n < pow2 (bitlen n)" by (simp add: pow2_def)
qed

lemma float_exponent_bounds:
  assumes "0 < x"
  shows "pow2 (float_exponent x) \<le> x" and "x < pow2 (float_exponent x + 1)"
proof -
  obtain n d where q: "quotient_of x = (n, d)" by (cases "quotient_of x")
  note d = quotient_of_denom_pos [OF q] and x = quotient_of_div [OF q]
  from assms d x have n: "0 < n" by (simp add: zero_less_divide_iff)
  let ?e = "bitlen n - bitlen d"
  note bn = bitlen_pow2 [OF n] and bd = bitlen_pow2 [OF d]
  have dpos: "(0::rat) < of_int d" using d by simp
  have "pow2 (?e - 1) * of_int d \<le> pow2 (?e - 1) * pow2 (bitlen d)"
    using bd(2) by (intro mult_left_mono) (simp_all add: less_imp_le)
  also have "\<dots> = pow2 (bitlen n - 1)" by (simp add: pow2_add [symmetric])
  finally have lo: "pow2 (?e - 1) \<le> x" using bn(1) dpos by (simp add: x pos_le_divide_eq)
  have "pow2 (bitlen n) = pow2 (?e + 1) * pow2 (bitlen d - 1)" by (simp add: pow2_add [symmetric])
  also have "\<dots> \<le> pow2 (?e + 1) * of_int d"
    using bd(1) by (intro mult_left_mono) (simp_all add: less_imp_le)
  finally have hi: "x < pow2 (?e + 1)" using bn(2) dpos by (simp add: x pos_divide_less_eq)
  show "pow2 (float_exponent x) \<le> x" and "x < pow2 (float_exponent x + 1)"
    using lo hi by (auto simp: float_exponent_def q Let_def)
qed

lemma round_half_even_error: "\<bar>of_int (round_half_even x) - x\<bar> \<le> 1 / 2"
proof -
  have "of_int \<lfloor>x\<rfloor> \<le> x" "x < of_int \<lfloor>x\<rfloor> + 1" by linarith+
  then show ?thesis by (auto simp: round_half_even_def Let_def abs_le_iff)
qed

lemma round_half_even_unique:
  assumes "\<bar>x - of_int n\<bar> < 1 / 2"
  shows "round_half_even x = n"
proof -
  have "\<bar>of_int (round_half_even x) - (of_int n :: rat)\<bar> < 1"
    using assms round_half_even_error [of x] by linarith
  then show ?thesis by linarith
qed

lemma round_half_even_of_int [simp]: "round_half_even (of_int n) = n"
  by (rule round_half_even_unique) simp

lemma round_half_even_numeral [simp]:
  "round_half_even 0 = 0" "round_half_even (numeral k) = numeral k"
  "round_half_even (- numeral k) = - numeral k"
  using round_half_even_of_int [of 0] round_half_even_of_int [of "numeral k"] round_half_even_of_int [of "- numeral k"] by simp_all

text \<open>Rounding moves a number of normal size by at most one part in \<open>2^53\<close>.\<close>

lemma binary64_error:
  assumes "pow2 (- 1022) \<le> \<bar>x\<bar>"
  shows "\<bar>binary64 x - x\<bar> \<le> \<bar>x\<bar> * pow2 (- 53)"
proof -
  have pos: "0 < \<bar>x\<bar>" using assms pow2_pos(1) [of "- 1022"] by linarith
  let ?e = "float_exponent \<bar>x\<bar>"
  note b = float_exponent_bounds [OF pos]
  have e: "- 1022 \<le> ?e"
  proof (rule ccontr)
    assume "\<not> ?thesis"
    then have "pow2 (?e + 1) \<le> pow2 (- 1022)" by (intro pow2_mono) simp
    with b(2) assms show False by simp
  qed
  let ?u = "pow2 (?e - 52)"
  have "max (?e - 52) (- 1074) = ?e - 52" using e by simp
  with pos have bin: "binary64 x = of_int (round_half_even (x / ?u)) * ?u"
    by (simp add: binary64_def Let_def del: max.absorb1)
  have "\<bar>binary64 x - x\<bar> = \<bar>of_int (round_half_even (x / ?u)) - x / ?u\<bar> * ?u"
  proof -
    have "binary64 x - x = (of_int (round_half_even (x / ?u)) - x / ?u) * ?u"
      by (simp add: bin left_diff_distrib)
    then show ?thesis by (simp only: abs_mult) (simp add: less_imp_le)
  qed
  also have "\<dots> \<le> 1 / 2 * ?u"
    using round_half_even_error [of "x / ?u"] by (intro mult_right_mono) (simp_all add: less_imp_le)
  also have "\<dots> = pow2 ?e * pow2 (- 53)"
    using pow2_add [of "?e - 52" "-1"] pow2_add [of ?e "- 53"] by (simp add: pow2_def [of "-1"])
  also have "\<dots> \<le> \<bar>x\<bar> * pow2 (- 53)"
    using b(1) by (intro mult_right_mono) (simp_all add: less_imp_le)
  finally show ?thesis .
qed

lemma binary64_of_int:
  assumes "\<bar>n\<bar> \<le> 2 ^ 53"
  shows "binary64 (of_int n) = of_int n"
proof (cases "n = 0")
  case False
  let ?x = "of_int n :: rat" and ?e = "float_exponent \<bar>of_int n\<bar>"
  have pos: "0 < \<bar>?x\<bar>" using False by simp
  note b = float_exponent_bounds [OF pos]
  have one: "1 \<le> \<bar>?x\<bar>" using False by linarith
  have up: "\<bar>?x\<bar> \<le> pow2 53" using assms unfolding pow2_def by (simp flip: of_int_abs)
  have e0: "0 \<le> ?e"
  proof (rule ccontr)
    assume "\<not> ?thesis"
    then have "pow2 (?e + 1) \<le> pow2 0" by (intro pow2_mono) simp
    with b(2) one show False by (simp add: pow2_def)
  qed
  have e53: "?e \<le> 53"
  proof (rule ccontr)
    assume "\<not> ?thesis"
    then have "pow2 54 \<le> pow2 ?e" by (intro pow2_mono) simp
    with b(1) up show False by (simp add: pow2_def)
  qed
  have u: "binary64 ?x = of_int (round_half_even (?x / pow2 (?e - 52))) * pow2 (?e - 52)"
    using False e0 by (simp add: binary64_def Let_def max_def)
  show ?thesis
  proof (cases "?e = 53")
    case True
    with b(1) up have "\<bar>?x\<bar> = pow2 53" by simp
    then have "?x = 2 ^ 53 \<or> ?x = - (2 ^ 53)" by (auto simp: pow2_def abs_if split: if_splits)
    then have "?x / pow2 (?e - 52) = of_int (2 ^ 52) \<or> ?x / pow2 (?e - 52) = of_int (- (2 ^ 52))"
      using True by (auto simp: pow2_def)
    then show ?thesis
      using u True \<open>?x = 2 ^ 53 \<or> ?x = - (2 ^ 53)\<close> by (auto simp: pow2_def simp del: of_int_power)
  next
    case False
    with e53 have k: "0 \<le> 52 - ?e" by simp
    have "pow2 (?e - 52) * pow2 (52 - ?e) = 1" by (simp add: pow2_add [symmetric] pow2_def)
    then have "?x / pow2 (?e - 52) = ?x * pow2 (52 - ?e)" by (simp add: field_simps)
    also have "\<dots> = of_int (n * 2 ^ nat (52 - ?e))" using pow2_nat [OF k] by simp
    finally have "round_half_even (?x / pow2 (?e - 52)) = n * 2 ^ nat (52 - ?e)" by (simp only: round_half_even_of_int)
    then show ?thesis using u pow2_nat [OF k] \<open>pow2 (?e - 52) * pow2 (52 - ?e) = 1\<close>
      by (simp add: mult.assoc mult.commute [of "2 ^ nat (52 - ?e)"])
  qed
qed (simp add: binary64_def)

section \<open>Amounts are shown and read exactly\<close>

lemma hundredths:
  assumes "0 \<le> n" and "n < 2 ^ 52"
  shows "round_half_even (binary64 (of_int n / 100) * 100) = n"
proof (cases "n = 0")
  case False
  with assms have n: "1 \<le> n" by simp
  let ?x = "of_int n / 100 :: rat"
  have "1 \<le> (of_int n :: rat)" using n by linarith
  then have big: "pow2 (- 1022) \<le> \<bar>?x\<bar>"
    using pow2_mono [of "- 1022" "- 7"] by (simp add: pow2_def [of "- 7"])
  have "(of_int n :: rat) < of_int (2 ^ 52)" using assms(2) by (simp only: of_int_less_iff)
  then have "\<bar>?x\<bar> * pow2 (- 53) * 100 < 1 / 2" using n by (simp add: pow2_def)
  moreover have "\<bar>binary64 ?x - ?x\<bar> * 100 \<le> \<bar>?x\<bar> * pow2 (- 53) * 100"
    using binary64_error [OF big] by simp
  moreover have "\<bar>binary64 ?x * 100 - of_int n\<bar> = \<bar>binary64 ?x - ?x\<bar> * 100"
  proof -
    have "binary64 ?x * 100 - of_int n = (binary64 ?x - ?x) * 100" by simp
    then show ?thesis by (simp only: abs_mult)
  qed
  ultimately show ?thesis by (intro round_half_even_unique) linarith
qed (simp add: binary64_def)

lemma binary64_sign:
  "0 \<le> x \<Longrightarrow> 0 \<le> binary64 x"
proof -
  assume x: "0 \<le> x"
  have "0 \<le> round_half_even (x / pow2 k)" for k
  proof -
    have "0 \<le> \<lfloor>x / pow2 k\<rfloor>" using x by (simp add: less_imp_le)
    then show ?thesis by (simp add: round_half_even_def Let_def)
  qed
  then show ?thesis using x by (simp add: binary64_def Let_def less_imp_le)
qed

lemma rupee_text_exact:
  assumes "0 \<le> n" and "n < 2 ^ 52"
  shows "rupee_text n = ''Rs. '' @ hundredths_text n"
proof -
  have "0 \<le> binary64 (of_int n / 100)" using assms by (intro binary64_sign) simp
  then show ?thesis using hundredths [OF assms] by (simp add: rupee_text_def fixed2_text_def)
qed

lemma to_float_of_int: "\<bar>n\<bar> \<le> 2 ^ 53 \<Longrightarrow> to_float (of_int n) = PFin (of_int n)"
proof -
  assume n: "\<bar>n\<bar> \<le> 2 ^ 53"
  then have "(of_int \<bar>n\<bar> :: rat) \<le> of_int (2 ^ 53)" by (simp only: of_int_le_iff)
  also have "\<dots> < 2 ^ 1024" by simp
  finally show ?thesis using binary64_of_int [OF n] by (simp add: to_float_def Let_def)
qed

lemma paise_of_whole:
  assumes "\<bar>100 * k\<bar> \<le> 2 ^ 53"
  shows "paise_of (JInt k) = Inr (100 * k)"
proof -
  have "\<bar>k\<bar> \<le> 2 ^ 53" using assms by simp
  note t = to_float_of_int [OF this] to_float_of_int [OF assms]
  have "float_times 100 (PFin (of_int k)) = PFin (of_int (100 * k))"
    using t(2) by (simp add: float_times_def mult.commute)
  then show ?thesis using t(1) by (simp add: paise_of_def py_float_def py_int_of_float_def del: of_int_mult)
qed

text \<open>
  C28: An amount of whole rupees, below 2^52 paise, becomes exactly a hundred times as many paise, and
  the text shown for those paise is the number of rupees in groups of three digits, with no paise.
\<close>
theorem rupees_roundtrip:
  assumes "0 \<le> k" and "100 * k < 2 ^ 52"
  shows "\<exists>p. paise_of (JInt k) = Inr p \<and> p = 100 * k
    \<and> rupee_text p = ''Rs. '' @ comma_groups k @ ''.00''"
proof -
  have "paise_of (JInt k) = Inr (100 * k)" using assms by (intro paise_of_whole) simp
  moreover have "pad_left 2 (str_int 0) = ''00''" by code_simp
  ultimately show ?thesis
    using assms rupee_text_exact [of "100 * k"] by (simp add: hundredths_text_def)
qed

theorem rupees_roundtrip_witness:
  "\<exists>p. paise_of (JInt 6500) = Inr p \<and> rupee_text p = ''Rs. 6,500.00''"
proof -
  have "comma_groups 6500 = ''6,500''" by code_simp
  then show ?thesis using rupees_roundtrip [of 6500] by simp
qed

text \<open>With paise the product is truncated: an amount of 19.99 rupees becomes 1998 paise.\<close>

lemma paise_of_truncates: "paise_of (JStr ''19.99'') = Inr 1998"
  by code_simp

end
