(* ===== verification/Mcp_Gateway.thy ===== *)
theory Mcp_Gateway
  imports Operations Mcp_Catalog Py_Values "HOL-Library.List_Lexorder" "HOL-Library.Char_ord"
begin

text \<open>
  The MCP gateway of \<^verbatim>\<open>apps/api/routes/mcp_gateway.py\<close>: the registry summary and the JSON-RPC
  endpoint, which authenticates the agent, picks its newest active mandate and answers
  \<open>initialize\<close>, \<open>tools/list\<close> and \<open>tools/call\<close>; a mutating tool becomes a financial operation of
  that agent under that mandate and runs through the request handler. The measured latencies are
  left out of the answers. \<open>coerce\<close> is pydantic's reading of a JSON value that is not an integer
  as an \<open>int\<close> field.
\<close>

section \<open>The registry route\<close>

definition registry_entry :: "mcp_tool \<Rightarrow> json" where
  "registry_entry t = JObj [(''name'', JStr (mt_name t)), (''description'', JStr (mt_description t)),
     (''category'', JStr (mt_category t)),
     (''operation_type'', jopt_str (map_option operation_type_value (mt_operation_type t))),
     (''inputSchema'', JObj (mt_input_schema t))]"

definition reduction_pct :: "nat \<Rightarrow> nat \<Rightarrow> json" where
  "reduction_pct total_tools exposed =
     JFloat (round_tenth ((of_nat total_tools - of_nat exposed) / of_nat total_tools * 100))"

definition role_profile :: "nat \<Rightarrow> string \<Rightarrow> string list \<Rightarrow> string list \<Rightarrow> json" where
  "role_profile total_tools name ops tools =
     JObj [(''name'', JStr name), (''allowed_operations'', JList (map JStr ops)),
       (''permitted_tools'', JList (map JStr tools)),
       (''exposed_tools_count'', JInt (int (length tools))),
       (''attack_surface_reduction_pct'', reduction_pct total_tools (length tools))]"

definition profiles_summary :: "nat \<Rightarrow> string list \<Rightarrow> dict" where
  "profiles_summary total_tools categories =
     [(''unprotected_direct_mcp'', JObj [
         (''name'', JStr ''Direct Unprotected Razorpay MCP Server''),
         (''exposed_tools_count'', JInt (int total_tools)),
         (''permitted_categories'', JList (map JStr categories)),
         (''attack_surface_reduction_pct'', JFloat 0),
         (''credential_exposure'', JStr ''Raw API credentials provided in agent system prompt''),
         (''risk'', JStr ''100% of tool methods exposed (payouts, settlements, refunds, invoices)'')]),
      (''shopping_agent'', role_profile total_tools ''Shopping / Buyer Agent (Primary)''
         [''CREATE_ORDER'', ''CREATE_PAYMENT_LINK'']
         [''payments_create_order'', ''payments_fetch_order'', ''payments_fetch_all_orders'']),
      (''procurement_agent'', role_profile total_tools ''Procurement Sub-Agent (Hardware)''
         [''CREATE_ORDER''] [''payments_create_order'', ''payments_fetch_order'']),
      (''support_agent'', role_profile total_tools ''Customer Support & Returns Agent''
         [''CREATE_REFUND'']
         [''payments_create_refund'', ''payments_fetch_refund'', ''payments_fetch_payment''])]"

definition get_mcp_registry :: dict where
  "get_mcp_registry =
     (let categories = sort (remdups (map mt_category RAZORPAY_MCP_TOOL_REGISTRY));
          total_tools = length RAZORPAY_MCP_TOOL_REGISTRY
      in [(''total_registered_tools'', JInt (int total_tools)),
          (''functional_categories_count'', JInt (int (length categories))),
          (''categories'', JList (map JStr categories)),
          (''tools'', JList (map registry_entry RAZORPAY_MCP_TOOL_REGISTRY)),
          (''profiles_summary'', JObj (profiles_summary total_tools categories))])"

section \<open>JSON-RPC messages\<close>

record rpc_request =
  mr_jsonrpc :: string
  mr_id :: json
  mr_method :: string
  mr_params :: dict

record rpc_response =
  mp_jsonrpc :: string
  mp_id :: json
  mp_result :: "dict option"
  mp_error :: "dict option"

definition rpc_result :: "json \<Rightarrow> dict \<Rightarrow> rpc_response" where
  "rpc_result i d = \<lparr>mp_jsonrpc = ''2.0'', mp_id = i, mp_result = Some d, mp_error = None\<rparr>"

definition rpc_error :: "json \<Rightarrow> int \<Rightarrow> string \<Rightarrow> rpc_response" where
  "rpc_error i code message = \<lparr>mp_jsonrpc = ''2.0'', mp_id = i, mp_result = None,
     mp_error = Some [(''code'', JInt code), (''message'', JStr message)]\<rparr>"

definition text_content :: "string \<Rightarrow> json" where
  "text_content s = JList [JObj [(''type'', JStr ''text''), (''text'', JStr s)]]"

section \<open>Tool calls\<close>

definition unexpected_argument :: "mcp_tool \<Rightarrow> dict \<Rightarrow> string option" where
  "unexpected_argument t arguments =
     find (\<lambda>k. dget (schema_properties t) k = None) (map fst arguments)"

text \<open>
  An order id that is not text is formatted into the request path; in mock mode the response
  model refuses it.
\<close>

definition fetch_order_tool :: "env \<Rightarrow> json \<Rightarrow> dict \<Rightarrow> world \<Rightarrow> (exn + rpc_response) \<times> world" where
  "fetch_order_tool E rpc_id arguments w =
     (let order_id = dget_or arguments ''order_id'' (JStr []);
          (r, w) = fetch_order E (razorpay_client E) (py_str E order_id) w;
          r = (case order_id of JStr _ \<Rightarrow> r
               | _ \<Rightarrow> if c_mock_mode (razorpay_client E) then Inl (ValidationError ''id'') else r)
      in (bindE r (\<lambda>rzp_order. Inr (rpc_result rpc_id
            [(''content'', text_content (py_repr E (JObj (order_dump rzp_order)))),
             (''_mandate_meta'', JObj [(''authorized'', JBool True), (''read_only'', JBool True)])])), w))"

definition read_only_tool ::
    "env \<Rightarrow> json \<Rightarrow> string \<Rightarrow> dict \<Rightarrow> world \<Rightarrow> ((exn + rpc_response) \<times> world) option" where
  "read_only_tool E rpc_id tool_name arguments w =
     (if tool_name = ''payments_fetch_order'' then Some (fetch_order_tool E rpc_id arguments w)
      else if tool_name = ''payments_fetch_payment'' then
        Some (Inr (rpc_result rpc_id
          [(''content'', text_content (''Payment details for ''
              @ py_str E (dget_or arguments ''payment_id'' (JStr [])))),
           (''_mandate_meta'', JObj [(''authorized'', JBool True), (''read_only'', JBool True)])]), w)
      else if tool_name = ''payouts_create'' then
        Some (Inr (rpc_error rpc_id (- 32003)
          ''Policy DENIED: Agent does not possess PAYOUTS authorization.''), w)
      else None)"

text \<open>\<open>OperationCreate(...)\<close> with its field validation.\<close>

definition mcp_operation_create ::
    "(json \<Rightarrow> int option) \<Rightarrow> agent \<Rightarrow> mandate \<Rightarrow> operation_type option \<Rightarrow> dict \<Rightarrow> string
       \<Rightarrow> exn + operation_create" where
  "mcp_operation_create coerce agent mandate op_type arguments hex =
     (let amount = (case dget_or arguments ''amount'' (JInt 0) of
            JInt n \<Rightarrow> Some n | j \<Rightarrow> coerce j)
      in case (op_type, amount, dget_or arguments ''currency'' (JStr ''INR'')) of
           (Some ty, Some n, JStr currency) \<Rightarrow>
             let p = \<lparr>oc_idempotency_key = ''idemp_mcp_'' @ hex, oc_agent_id = a_id agent,
                   oc_mandate_id = m_id mandate, oc_operation_type = ty, oc_amount = n,
                   oc_currency = currency, oc_payload = arguments\<rparr>
             in if valid_operation_create p then Inr p else Inl (ValidationError ''OperationCreate'')
         | _ \<Rightarrow> Inl (ValidationError ''OperationCreate''))"

definition denied_result :: "operation \<Rightarrow> string list \<Rightarrow> dict" where
  "denied_result op reasons =
     [(''isError'', JBool True), (''authorized'', JBool False), (''policy_decision'', JStr ''DENY''),
      (''content'', text_content (''Mandate Policy DENIED: '' @
         (case o_error_message op of None \<Rightarrow> ''None'' | Some s \<Rightarrow> s))),
      (''_mandate_meta'', JObj [(''decision'', JStr ''DENY''), (''operation_id'', JStr (o_operation_id op)),
         (''reasons'', JList (map JStr reasons))])]"

definition executed_result :: "string \<Rightarrow> mandate \<Rightarrow> operation \<Rightarrow> transaction option \<Rightarrow> dict" where
  "executed_result tool_name mandate op tx =
     (let st = operation_status_value (o_status op);
          gateway_order_id = (case tx of None \<Rightarrow> ''order_'' @ o_operation_id op
            | Some t \<Rightarrow> str_or (t_gateway_order_id t) (''order_'' @ o_operation_id op))
      in [(''content'', text_content (''Executed '' @ tool_name @ '' successfully. Operation ID: ''
             @ o_operation_id op @ '', Status: '' @ st)),
          (''authorized'', JBool True), (''policy_decision'', JStr ''ALLOW''),
          (''mandate_status'', JStr st), (''operation_id'', JStr (o_operation_id op)),
          (''gateway_order'', JObj [(''id'', JStr gateway_order_id)]),
          (''_mandate_meta'', JObj [(''decision'', JStr ''ALLOW''),
             (''operation_id'', JStr (o_operation_id op)), (''status'', JStr st),
             (''amount_paise'', JInt (o_amount op)),
             (''remaining_mandate_budget'', JInt (max 0 (m_aggregate_spend_limit mandate
                - (m_current_aggregate_spend mandate + m_reserved_spend mandate))))])])"

text \<open>The answer for an operation the request handler returned; an operation never evaluated
  (\<open>policy_evaluation_details\<close> empty) counts as denied.\<close>

definition mcp_reply :: "env \<Rightarrow> json \<Rightarrow> string \<Rightarrow> mandate \<Rightarrow> operation \<Rightarrow> world \<Rightarrow> exn + rpc_response" where
  "mcp_reply E rpc_id tool_name mandate op w =
     (let decision = (case o_policy_evaluation_details op of None \<Rightarrow> DENY | Some r \<Rightarrow> r_decision r);
          reasons = (case o_policy_evaluation_details op of None \<Rightarrow> []
            | Some r \<Rightarrow> r_rejection_reasons r)
      in if decision = DENY then Inr (rpc_result rpc_id (denied_result op reasons))
         else bindE (one_or_none (filter (\<lambda>t. t_operation_id t = o_id op) (transactions w)))
           (\<lambda>tx. let mandate = (case get_mandate_row w (m_id mandate) of None \<Rightarrow> mandate | Some m \<Rightarrow> m)
             in Inr (rpc_result rpc_id (executed_result tool_name mandate op tx))))"

text \<open>The \<open>try\<close> statement around the request handler; \<open>NoReturn\<close> is not an exception.\<close>

definition mcp_execute ::
    "env \<Rightarrow> json \<Rightarrow> string \<Rightarrow> agent \<Rightarrow> mandate \<Rightarrow> operation_create \<Rightarrow> world \<Rightarrow> (exn + rpc_response) \<times> world"
where
  "mcp_execute E rpc_id tool_name agent mandate op_req w =
     (let (r, w) = request_financial_operation E op_req (HStr (a_api_key_hash agent)) HDefault
            (HStr (a_id agent)) w;
          reply = bindE r (\<lambda>op. mcp_reply E rpc_id tool_name mandate op w)
      in (case reply of
            Inl NoReturn \<Rightarrow> Inl NoReturn
          | Inl e \<Rightarrow> Inr (rpc_error rpc_id (- 32000) (''Mandate MCP execution error: '' @ exn_text E e))
          | Inr x \<Rightarrow> Inr x, w))"

definition dispatch_mcp_tool_call ::
    "env \<Rightarrow> (json \<Rightarrow> int option) \<Rightarrow> agent \<Rightarrow> mandate \<Rightarrow> json \<Rightarrow> json \<Rightarrow> json \<Rightarrow> world
       \<Rightarrow> (exn + rpc_response) \<times> world" where
  "dispatch_mcp_tool_call E coerce agent mandate tool_json arguments_json rpc_id w =
     (let unknown = rpc_error rpc_id (- 32602)
            (''Unknown or unregistered MCP tool: '' @ quote (py_str E tool_json)) in
      case tool_json of
        JStr tool_name \<Rightarrow>
          (case find_tool tool_name of
             None \<Rightarrow> (Inr unknown, w)
           | Some tool_def \<Rightarrow>
               (case arguments_json of
                  JObj arguments \<Rightarrow>
                    (case unexpected_argument tool_def arguments of
                       Some arg_key \<Rightarrow> (Inr (rpc_error rpc_id (- 32602)
                         (''Schema validation error: Unauthorized/unexpected parameter ''
                            @ quote arg_key @ '' passed to tool '' @ quote tool_name)), w)
                     | None \<Rightarrow>
                         let op_type = mt_operation_type tool_def in
                         (case (if op_type = None then read_only_tool E rpc_id tool_name arguments w
                                else None) of
                            Some reply \<Rightarrow> reply
                          | None \<Rightarrow>
                              let (h, w) = draw_uuid E w in
                              (case mcp_operation_create coerce agent mandate op_type arguments h of
                                 Inl e \<Rightarrow> (Inl e, w)
                               | Inr op_req \<Rightarrow> mcp_execute E rpc_id tool_name agent mandate op_req w)))
                | _ \<Rightarrow> (Inl AttributeError, w)))
      | JList (_ # _) \<Rightarrow> (Inl TypeError, w)
      | JObj (_ # _) \<Rightarrow> (Inl TypeError, w)
      | _ \<Rightarrow> (Inr unknown, w))"

section \<open>The endpoint\<close>

definition active_mandate :: "string \<Rightarrow> world \<Rightarrow> mandate option" where
  "active_mandate agent_id w =
     (case newest_first m_created_at
         (filter (\<lambda>m. m_agent_id m = agent_id \<and> m_status m = Mandate_ACTIVE) (mandates w)) of
        [] \<Rightarrow> None | m # _ \<Rightarrow> Some m)"

definition initialize_result :: dict where
  "initialize_result =
     [(''protocolVersion'', JStr ''2024-11-05''),
      (''capabilities'', JObj [(''tools'', JObj [(''listChanged'', JBool False)])]),
      (''serverInfo'', JObj [(''name'', JStr ''Mandate-Razorpay-MCP-Gateway''),
         (''version'', JStr ''1.0.0'')])]"

definition handle_mcp_jsonrpc_gateway ::
    "env \<Rightarrow> (json \<Rightarrow> int option) \<Rightarrow> rpc_request \<Rightarrow> hdr \<Rightarrow> hdr \<Rightarrow> hdr \<Rightarrow> world
       \<Rightarrow> (exn + rpc_response) \<times> world" where
  "handle_mcp_jsonrpc_gateway E coerce rq x_agent_key authorization x_agent_id w =
     (case authenticate_agent_caller E w x_agent_key authorization x_agent_id True of
        Inl (HTTPException _ detail) \<Rightarrow> (Inr (rpc_error (mr_id rq) (- 32001) detail), w)
      | Inl e \<Rightarrow> (Inl e, w)
      | Inr None \<Rightarrow> (Inr (rpc_error (mr_id rq) (- 32001) ''Authentication required''), w)
      | Inr (Some agent) \<Rightarrow>
          (case active_mandate (a_id agent) w of
             None \<Rightarrow> (Inr (rpc_error (mr_id rq) (- 32002) (''Agent '' @ quote (a_name agent)
               @ '' has no active financial mandate'')), w)
           | Some mandate \<Rightarrow>
               if mr_method rq = ''initialize'' then (Inr (rpc_result (mr_id rq) initialize_result), w)
               else if mr_method rq = ''tools/list'' then
                 (Inr (rpc_result (mr_id rq) [(''tools'',
                    JList (map registry_entry (get_filtered_mcp_tools agent mandate)))]), w)
               else if mr_method rq = ''tools/call'' then
                 dispatch_mcp_tool_call E coerce agent mandate (dget_or (mr_params rq) ''name'' JNull)
                   (dget_or (mr_params rq) ''arguments'' (JObj [])) (mr_id rq) w
               else (Inr (rpc_error (mr_id rq) (- 32601)
                  (''Method '' @ quote (mr_method rq) @ '' not found'')), w)))"

section \<open>What a tool call changes\<close>

lemma active_mandate_SomeD:
  "active_mandate i w = Some m \<Longrightarrow> m \<in> set (mandates w) \<and> m_agent_id m = i \<and> m_status m = Mandate_ACTIVE"
proof -
  assume "active_mandate i w = Some m"
  then have "m \<in> set (newest_first m_created_at
      (filter (\<lambda>m. m_agent_id m = i \<and> m_status m = Mandate_ACTIVE) (mandates w)))"
    by (auto simp: active_mandate_def split: list.splits)
  then show ?thesis by (simp add: newest_first_def)
qed

lemma mcp_operation_create_Inr:
  "mcp_operation_create c a m ty args h = Inr p \<Longrightarrow> valid_operation_create p \<and> oc_agent_id p = a_id a
     \<and> oc_mandate_id p = m_id m \<and> Some (oc_operation_type p) = ty"
  by (auto simp: mcp_operation_create_def Let_def split: option.splits json.splits if_splits)

lemma read_only_tool_tables:
  "read_only_tool E i n args w = Some (r, w') \<Longrightarrow> same_tables w w'"
  using fetch_api.keeps_db
  by (auto simp: read_only_tool_def fetch_order_tool_def Let_def case_prod_unfold split: if_splits)

text \<open>
  A tool call leaves the tables alone or runs the request handler on a valid operation of this
  agent under this mandate.
\<close>

lemma tool_call_cases:
  assumes "dispatch_mcp_tool_call E c a m n args i w = (r, w')"
  obtains (tables) "same_tables w w'"
  | (request) p v where "valid_operation_create p" "oc_agent_id p = a_id a" "oc_mandate_id p = m_id m"
      "same_tables w v" "gateway_calls v = gateway_calls w"
      "w' = snd (request_financial_operation E p (HStr (a_api_key_hash a)) HDefault (HStr (a_id a)) v)"
proof (cases "same_tables w w'")
  case False
  note d = dispatch_mcp_tool_call_def
  have draw: "same_tables w (snd (draw_uuid E w))" by simp
  from False assms obtain s where s: "n = JStr s" by (cases n) (auto simp: d Let_def split: list.splits)
  from False assms s obtain t where t: "find_tool s = Some t" by (auto simp: d Let_def split: option.splits)
  from False assms s t obtain x where x: "args = JObj x" by (cases args) (auto simp: d Let_def)
  from False assms s t x have un: "unexpected_argument t x = None" by (auto simp: d Let_def split: option.splits)
  from False assms s t x un have ro: "(if mt_operation_type t = None then read_only_tool E i s x w else None) = None"
    using read_only_tool_tables by (auto simp: d Let_def split: option.splits if_splits)
  obtain h v where h: "draw_uuid E w = (h, v)" by (cases "draw_uuid E w")
  with draw have v: "same_tables w v" by simp
  from False assms s t x un ro h v obtain p where p: "mcp_operation_create c a m (mt_operation_type t) x h = Inr p"
    by (auto simp: d Let_def split: sum.splits)
  from assms s t x un ro h p have "w' = snd (request_financial_operation E p (HStr (a_api_key_hash a)) HDefault (HStr (a_id a)) v)"
    by (auto simp: d Let_def mcp_execute_def case_prod_unfold)
  moreover have "gateway_calls v = gateway_calls w" using h by (auto simp: draw_uuid_def)
  ultimately show ?thesis using mcp_operation_create_Inr [OF p] v by (intro request [of p v]) auto
qed (rule tables)

lemma endpoint_cases:
  assumes "handle_mcp_jsonrpc_gateway E c rq k au i w = (r, w')"
  obtains (nothing) "w' = w"
  | (call) a m n args where "authenticate_agent_caller E w k au i True = Inr (Some a)"
      "active_mandate (a_id a) w = Some m" "mr_method rq = ''tools/call''"
      "dispatch_mcp_tool_call E c a m n args (mr_id rq) w = (r, w')"
proof (cases "w' = w")
  case False
  note d = handle_mcp_jsonrpc_gateway_def
  from False assms obtain a where a: "authenticate_agent_caller E w k au i True = Inr (Some a)"
    by (auto simp: d split: sum.splits option.splits exn.splits)
  from False assms a obtain m where m: "active_mandate (a_id a) w = Some m"
    by (auto simp: d split: option.splits)
  from False assms a m show ?thesis by (intro call) (auto simp: d split: if_splits)
qed (rule nothing)

lemma mcp_ledger:
  assumes ok: "books_ok w" and run: "handle_mcp_jsonrpc_gateway E c rq k au i w = (r, w')"
  shows "ledger_steps (lview w) (lview w')"
  using run
proof (cases rule: endpoint_cases)
  case (call a m n args)
  from call(4) show ?thesis
  proof (cases rule: tool_call_cases)
    case tables
    then show ?thesis by (simp add: lview_same_tables)
  next
    case (request p v)
    have v: "lview v = lview w" using request(4) by (rule lview_same_tables)
    with ok have "books_ok v" by (simp add: books_ok_def)
    with request(1,6) v show ?thesis
      using request_ledger [of v p] by (simp add: valid_operation_create_def)
  qed
qed simp

section \<open>Properties\<close>

text \<open>
  C13: A tool call acts for its authenticated caller only: whatever a JSON-RPC request holds, it
  changes no operation, or writes one new operation whose agent is the authenticated active agent
  and whose mandate is an ACTIVE mandate granted to that agent, and every other operation keeps
  its row. A request that is not \<open>tools/call\<close> changes nothing at all.
\<close>
theorem mcp_acts_for_caller:
  assumes "handle_mcp_jsonrpc_gateway E coerce rq k au i w = (r, w')"
  shows "(mr_method rq \<noteq> ''tools/call'' \<longrightarrow> w' = w)
    \<and> (operations w' = operations w
       \<or> (\<exists>a m op. authenticate_agent_caller E w k au i True = Inr (Some a) \<and> a \<in> set (agents w)
            \<and> a_status a = Agent_ACTIVE \<and> m \<in> set (mandates w) \<and> m_agent_id m = a_id a
            \<and> m_status m = Mandate_ACTIVE \<and> wrote_operation w w' op
            \<and> o_agent_id op = a_id a \<and> o_mandate_id op = m_id m \<and> 0 < o_amount op))"
  using assms
proof (cases rule: endpoint_cases)
  case (call a m n args)
  note agent = authenticate_SomeD [OF call(1)] and mandate = active_mandate_SomeD [OF call(2)]
  from call(4) show ?thesis
  proof (cases rule: tool_call_cases)
    case tables
    then show ?thesis using call(3) same_tables_fields(2) [OF tables] by simp
  next
    case (request p v)
    obtain q where q: "request_financial_operation E p (HStr (a_api_key_hash a)) HDefault (HStr (a_id a)) v = (q, w')"
      using request(6) by (metis prod.collapse)
    have v: "operations v = operations w" using same_tables_fields(2) [OF request(4)] .
    from request_writes [OF q] show ?thesis
    proof
      assume "operations w' = operations v \<and> gateway_calls w' = gateway_calls v"
      with v call(3) show ?thesis by simp
    next
      assume "\<exists>op. wrote_operation v w' op \<and> o_agent_id op = oc_agent_id p
        \<and> o_mandate_id op = oc_mandate_id p \<and> o_amount op = oc_amount p"
      then obtain op where op: "wrote_operation w w' op" "o_agent_id op = a_id a" "o_mandate_id op = m_id m"
        "0 < o_amount op"
        using v request(1-3) by (auto simp: wrote_operation_def valid_operation_create_def)
      with call(1,3) agent mandate show ?thesis by blast
    qed
  qed
qed simp

definition demo_call :: rpc_request where
  "demo_call = \<lparr>mr_jsonrpc = ''2.0'', mr_id = JInt 1, mr_method = ''tools/call'',
     mr_params = [(''name'', JStr ''payments_create_order''),
       (''arguments'', JObj [(''amount'', JInt 1000), (''currency'', JStr ''INR'')])]\<rparr>"

lemma demo_call_writes:
  "map o_amount (operations (snd (handle_mcp_jsonrpc_gateway demo_env (\<lambda>_. None) demo_call (HStr ''shop'')
     HNone HNone demo_world))) = [1000]"
  by code_simp

theorem mcp_acts_for_caller_witness:
  "\<exists>r w' a op. handle_mcp_jsonrpc_gateway demo_env (\<lambda>_. None) demo_call (HStr ''shop'') HNone HNone demo_world
      = (r, w')
    \<and> authenticate_agent_caller demo_env demo_world (HStr ''shop'') HNone HNone True = Inr (Some a)
    \<and> wrote_operation demo_world w' op \<and> o_agent_id op = a_id a"
proof -
  let ?run = "handle_mcp_jsonrpc_gateway demo_env (\<lambda>_. None) demo_call (HStr ''shop'') HNone HNone demo_world"
  obtain r w' where run: "?run = (r, w')" by (cases ?run)
  with demo_call_writes have "operations w' \<noteq> operations demo_world"
    by (auto simp: demo_world_def)
  with mcp_acts_for_caller [OF run] run show ?thesis by auto
qed

end
