(* ===== verification/Agent_Tools.thy ===== *)
theory Agent_Tools
  imports Py_Values
begin

text \<open>
  What the agents are given, \<^verbatim>\<open>packages/agents/tools.py\<close> and \<^verbatim>\<open>prompts.py\<close>: the
  product catalogue, the tool schemas sent to the model, the local catalogue tool and the two
  system prompts.
\<close>

section \<open>The product catalogue\<close>

record product =
  pr_id :: string
  pr_name :: string
  pr_category :: string
  pr_price_paise :: int
  pr_description :: string
  pr_stock :: int

definition PRODUCTS_CATALOG :: "product list" where
  "PRODUCTS_CATALOG = [
     \<lparr>pr_id = ''prod_kb_01'', pr_name = ''Keychron K2 Mechanical Keyboard'',
      pr_category = ''Electronics'', pr_price_paise = 650000,
      pr_description = ''Wireless Mechanical Keyboard with Gateron switches'', pr_stock = 15\<rparr>,
     \<lparr>pr_id = ''prod_mouse_01'', pr_name = ''Logitech MX Master 3S Mouse'',
      pr_category = ''Electronics'', pr_price_paise = 899900,
      pr_description = ''Performance Wireless Mouse with ergonomic grip'', pr_stock = 8\<rparr>,
     \<lparr>pr_id = ''prod_desk_mat_01'', pr_name = ''Ergonomic Wool Felt Desk Mat'',
      pr_category = ''Accessories'', pr_price_paise = 150000,
      pr_description = ''Premium non-slip desk protector'', pr_stock = 50\<rparr>,
     \<lparr>pr_id = ''prod_monitor_high_end'', pr_name = ''Dell UltraSharp 32-inch 4K Monitor'',
      pr_category = ''Electronics'', pr_price_paise = 7500000,
      pr_description = ''Professional color-accurate 4K USB-C monitor'', pr_stock = 3\<rparr>,
     \<lparr>pr_id = ''prod_enterprise_server'', pr_name = ''Rackmount GPU AI Workstation'',
      pr_category = ''Enterprise'', pr_price_paise = 45000000,
      pr_description = ''Dedicated on-prem inference rack'', pr_stock = 1\<rparr>]"

definition catalog_get :: "string \<Rightarrow> product option" where
  "catalog_get product_id = tget pr_id product_id PRODUCTS_CATALOG"

section \<open>Tool schemas and prompts\<close>

definition tool_property :: "string \<Rightarrow> string \<Rightarrow> json" where
  "tool_property ty description = JObj [(''type'', JStr ty), (''description'', JStr description)]"

definition function_tool :: "string \<Rightarrow> string \<Rightarrow> dict \<Rightarrow> string list option \<Rightarrow> json" where
  "function_tool name description properties required =
     JObj [(''type'', JStr ''function''),
       (''function'', JObj [(''name'', JStr name), (''description'', JStr description),
          (''parameters'', JObj ([(''type'', JStr ''object''), (''properties'', JObj properties)]
             @ (case required of None \<Rightarrow> [] | Some ks \<Rightarrow> [(''required'', JList (map JStr ks))])))])]"

definition SHOPPING_AGENT_TOOLS :: "json list" where
  "SHOPPING_AGENT_TOOLS = [
     function_tool ''browse_catalog''
       ''List available products in the catalog with prices and stock.''
       [
        (''category'', tool_property ''string'' (''Optional category filter (e.g. ''
          @ quote ''Electronics'' @ '', '' @ quote ''Accessories'' @ '')''))]
       None,
     function_tool ''create_purchase_order''
       ''Creates a financial order to purchase a catalog item through Mandate.''
       [
        (''product_id'', tool_property ''string'' (''The exact product SKU ID (e.g. ''
          @ quote ''prod_kb_01'' @ '')'')),
        (''quantity'', tool_property ''integer'' ''Number of items to purchase (must be >= 1)''),
        (''customer_name'', tool_property ''string'' ''Name of the customer purchasing the item'')]
       (Some [''product_id'', ''quantity'', ''customer_name'']),
     function_tool ''create_payment_link_for_customer''
       ''Creates a shareable Razorpay payment link for a customer invoice or purchase.''
       [
        (''amount_in_rupees'',
          tool_property ''number'' ''Total amount in INR (e.g. 1500 for Rs. 1500)''),
        (''description'', tool_property ''string'' ''Description of the payment link purpose''),
        (''customer_name'', tool_property ''string'' ''Customer recipient name''),
        (''customer_email'', tool_property ''string'' ''Customer email address'')]
       (Some [''amount_in_rupees'', ''description'', ''customer_email''])]"

definition SUPPORT_AGENT_TOOLS :: "json list" where
  "SUPPORT_AGENT_TOOLS = [
     function_tool ''lookup_transaction''
       ''Inspects details and gateway status of an operation or transaction.''
       [
        (''operation_id'', tool_property ''string'' (''The unique operation ID to look up (e.g. ''
          @ quote ''op_xxx'' @ '')''))]
       (Some [''operation_id'']),
     function_tool ''issue_customer_refund''
       ''Issues a bounded refund for a customer payment through Mandate.''
       [
        (''payment_id'', tool_property ''string'' (''Razorpay payment ID to refund (e.g. ''
          @ quote ''pay_xxx'' @ '')'')),
        (''amount_in_rupees'',
          tool_property ''number'' ''Amount to refund in INR. If omitted, full refund.''),
        (''reason'', tool_property ''string'' ''Documented reason for customer refund'')]
       (Some [''payment_id'', ''reason''])]"

definition SHOPPING_AGENT_SYSTEM_PROMPT :: string where
  "SHOPPING_AGENT_SYSTEM_PROMPT = str_join newline [
     ''You are the Mandate Autonomous Shopping Agent.'',
     ''Your responsibility is to help users browse product catalogs and place purchasing ''
       @ ''orders or generate invoice payment links.'',
     [],
     ''CRITICAL OPERATIONAL RULES:'',
     ''1. You DO NOT possess direct access to payment gateways or credit cards.'',
     ''2. All purchasing actions and payment links must be requested strictly through the ''
       @ ''provided tools.'',
     ''3. Every purchase or payment link request goes through Mandate'' @ apos
       @ ''s Deterministic Policy Engine for validation (checking limits, budgets, currency, and ''
       @ ''allowed operations).'',
     ''4. If Mandate allows your request, report the order/payment link details (Order ID, ''
       @ ''Amount, Short URL) clearly to the user.'',
     ''5. If Mandate DENIES your request (e.g. amount exceeds per-transaction limit or ''
       @ ''budget exhausted), DO NOT attempt to bypass or retry with fake data. Explain the ''
       @ ''policy refusal reason clearly and politely to the user.'',
     ''6. If Mandate returns REQUIRE_HUMAN_REVIEW, inform the user that the order exceeds ''
       @ ''automated spending thresholds and has been routed to a human administrator for review.'',
     []]"

definition SUPPORT_AGENT_SYSTEM_PROMPT :: string where
  "SUPPORT_AGENT_SYSTEM_PROMPT = str_join newline [
     ''You are the Mandate Customer Support & Reconciliation Agent.'',
     ''Your responsibility is to assist customers with transaction inquiries, order status ''
       @ ''verification, and bounded refund processing.'',
     [],
     ''CRITICAL OPERATIONAL RULES:'',
     ''1. You DO NOT possess direct payment gateway access.'',
     ''2. You can look up transactions and issue customer refunds only using the provided ''
       @ ''tools.'',
     ''3. Every refund action goes through Mandate'' @ apos @ ''s Policy Engine.'',
     ''4. If a refund is approved by Mandate, provide the refund transaction reference to ''
       @ ''the user.'',
     ''5. If a refund is DENIED (e.g. unauthorized operation, exceeded refund budget), state ''
       @ ''the reason transparently.'',
     ''6. Always maintain a helpful, professional, and compliant tone.'',
     []]"

section \<open>The local catalogue tool\<close>

definition catalog_item :: "product \<Rightarrow> json" where
  "catalog_item p = JObj [(''product_id'', JStr (pr_id p)), (''name'', JStr (pr_name p)),
     (''category'', JStr (pr_category p)), (''price_inr'', JStr (rupee_text (pr_price_paise p))),
     (''price_paise'', JInt (pr_price_paise p)), (''in_stock'', JBool (0 < pr_stock p))]"

text \<open>A category that is not text has no \<open>lower()\<close>.\<close>

definition execute_local_catalog_tool :: "string \<Rightarrow> dict \<Rightarrow> exn + dict" where
  "execute_local_catalog_tool tool_name arguments =
     (if tool_name = ''browse_catalog'' then
        (let category = dget_or arguments ''category'' JNull in
         if \<not> jtruthy category
         then Inr [(''catalog_items'', JList (map catalog_item PRODUCTS_CATALOG))]
         else case category of
             JStr c \<Rightarrow> Inr [(''catalog_items'', JList (map catalog_item
               (filter (\<lambda>p. str_lower (pr_category p) = str_lower c) PRODUCTS_CATALOG)))]
           | _ \<Rightarrow> Inl AttributeError)
      else Inr [(''error'', JStr (''Unknown local tool '' @ quote tool_name))])"

lemma catalog_price_pos: "catalog_get i = Some p \<Longrightarrow> 0 < pr_price_paise p \<and> pr_id p = i"
proof -
  have "\<forall>p \<in> set PRODUCTS_CATALOG. 0 < pr_price_paise p" by (simp add: PRODUCTS_CATALOG_def)
  then show "catalog_get i = Some p \<Longrightarrow> ?thesis" by (auto simp: catalog_get_def dest: tget_SomeD)
qed

end
