(* ===== verification/Amount_Pattern.thy ===== *)
theory Amount_Pattern
  imports Py_Values
begin

text \<open>
  The regular expression with which \<^verbatim>\<open>packages/agents/adapter.py\<close> reads an amount from a
  prompt, as a backtracking match in Python's order, and what it finds.
\<close>

section \<open>Patterns\<close>

text \<open>
  A pattern maps a text to its matches in the order of Python's backtracking search: the consumed
  part and the rest.
\<close>

type_synonym pat = "string \<Rightarrow> (string \<times> string) list"

definition re_char :: "(char \<Rightarrow> bool) \<Rightarrow> pat" where
  "re_char P s = (case s of [] \<Rightarrow> [] | c # t \<Rightarrow> if P c then [([c], t)] else [])"

definition re_text :: "string \<Rightarrow> pat" where
  "re_text p s = (if str_lower (take (length p) s) = p then [(take (length p) s, drop (length p) s)] else [])"

definition re_seq :: "pat \<Rightarrow> pat \<Rightarrow> pat" where
  "re_seq a b s = concat (map (\<lambda>(x, t). map (\<lambda>(y, u). (x @ y, u)) (b t)) (a s))"

definition re_alt :: "pat \<Rightarrow> pat \<Rightarrow> pat" where
  "re_alt a b s = a s @ b s"

definition re_opt :: "pat \<Rightarrow> pat" where
  "re_opt a s = a s @ [([], s)]"

text \<open>At most \<open>n\<close> copies, as many as possible first; \<open>a*\<close> for a pattern that consumes something.\<close>

fun re_upto :: "nat \<Rightarrow> pat \<Rightarrow> pat" where
  "re_upto 0 a s = [([], s)]"
| "re_upto (Suc n) a s = re_seq a (re_upto n a) s @ [([], s)]"

definition re_star :: "pat \<Rightarrow> pat" where
  "re_star a s = re_upto (length s) a s"

definition re_digit :: pat where "re_digit = re_char is_digit"

definition re_plus_digits :: pat where "re_plus_digits = re_seq re_digit (re_star re_digit)"

text \<open>\<open>(?:rs\.?|\<close>the rupee sign\<open>|\$)?\s*\<close>, ignoring case\<close>

definition currency_prefix :: pat where
  "currency_prefix = re_seq
     (re_opt (re_alt (re_seq (re_text ''rs'') (re_opt (re_text ''.'')))
       (re_alt (re_text rupee_sign) (re_text ''$''))))
     (re_star (re_char is_space))"

text \<open>\<open>\d{1,3}(?:,\d{3})*(?:\.\d+)?|\d+\<close>\<close>

definition comma_group :: pat where
  "comma_group = re_seq (re_text '','') (re_seq re_digit (re_seq re_digit re_digit))"

definition amount_group :: pat where
  "amount_group = re_alt
     (re_seq (re_seq re_digit (re_upto 2 re_digit))
       (re_seq (re_star comma_group) (re_opt (re_seq (re_text ''.'') re_plus_digits))))
     re_plus_digits"

text \<open>\<open>re.search(...).group(1)\<close>: the first position with a match.\<close>

definition amount_at :: "string \<Rightarrow> string option" where
  "amount_at s =
     (case concat (map (\<lambda>(_, t). amount_group t) (currency_prefix s)) of
        [] \<Rightarrow> None | (g, _) # _ \<Rightarrow> Some g)"

fun amount_search :: "string \<Rightarrow> string option" where
  "amount_search [] = amount_at []"
| "amount_search (c # s) = (case amount_at (c # s) of Some g \<Rightarrow> Some g | None \<Rightarrow> amount_search s)"

section \<open>What the pattern reads\<close>

text \<open>
  What the pattern reads: from the first digit on, at most three digits, then groups of a comma and
  three digits, then a point with digits. The second alternative \<open>\d+\<close> is never reached.
\<close>

fun comma_prefix :: "string \<Rightarrow> string \<times> string" where
  "comma_prefix (c # x # y # z # s) =
     (if c = CHR '','' \<and> is_digit x \<and> is_digit y \<and> is_digit z
      then (let (g, r) = comma_prefix s in (c # x # y # z # g, r)) else ([], c # x # y # z # s))"
| "comma_prefix s = ([], s)"

definition point_prefix :: "string \<Rightarrow> string" where
  "point_prefix s =
     (case s of c # t \<Rightarrow> if c = CHR ''.'' \<and> takeWhile is_digit t \<noteq> [] then c # takeWhile is_digit t else []
      | [] \<Rightarrow> [])"

definition amount_prefix :: "string \<Rightarrow> string" where
  "amount_prefix s =
     (let lead = take 3 (takeWhile is_digit s);
          (groups, rest) = comma_prefix (drop (length lead) s)
      in lead @ groups @ point_prefix rest)"

definition first_is :: "pat \<Rightarrow> string \<Rightarrow> string \<times> string \<Rightarrow> bool" where
  "first_is a s m \<longleftrightarrow> (\<exists>ms. a s = m # ms)"

lemma first_seq:
  assumes "first_is a s (x, t)" and "first_is b t (y, u)"
  shows "first_is (re_seq a b) s (x @ y, u)"
  using assms by (auto simp: first_is_def re_seq_def)

lemma first_alt: "first_is a s m \<Longrightarrow> first_is (re_alt a b) s m"
  by (auto simp: first_is_def re_alt_def)

lemma first_opt:
  "first_is a s m \<Longrightarrow> first_is (re_opt a) s m" "a s = [] \<Longrightarrow> first_is (re_opt a) s ([], s)"
  by (auto simp: first_is_def re_opt_def)

lemma first_upto_stop: "a s = [] \<Longrightarrow> first_is (re_upto n a) s ([], s)"
  by (cases n) (simp_all add: first_is_def re_seq_def)

lemma first_upto_more:
  assumes "first_is a s (x, t)" and "first_is (re_upto n a) t (y, u)"
  shows "first_is (re_upto (Suc n) a) s (x @ y, u)"
  using first_seq [OF assms] by (auto simp: first_is_def)

lemma digit_cases:
  "re_digit [] = []" "re_digit (c # s) = (if is_digit c then [([c], s)] else [])"
  by (simp_all add: re_digit_def re_char_def)

lemma first_upto_digits:
  "first_is (re_upto n re_digit) s (take n (takeWhile is_digit s), drop (length (take n (takeWhile is_digit s))) s)"
proof (induction n arbitrary: s)
  case (Suc n)
  show ?case
  proof (cases s)
    case (Cons c t)
    show ?thesis
    proof (cases "is_digit c")
      case True
      have "first_is re_digit s ([c], t)" using Cons True by (simp add: first_is_def digit_cases)
      from first_upto_more [OF this Suc [of t]] Cons True show ?thesis by (simp del: re_upto.simps)
    next
      case False
      with Cons show ?thesis
        using first_upto_stop [of re_digit s "Suc n"] by (simp add: digit_cases del: re_upto.simps)
    qed
  qed (use first_upto_stop [of re_digit "[]" "Suc n"] in \<open>simp add: digit_cases del: re_upto.simps\<close>)
qed (simp add: first_is_def)

lemma first_star_digits: "first_is (re_star re_digit) s (takeWhile is_digit s, dropWhile is_digit s)"
  using first_upto_digits [of "length s" s]
  by (simp add: first_is_def re_star_def length_takeWhile_le dropWhile_eq_drop)

lemma char_lower_mark:
  assumes "(of_char d :: nat) < 65"
  shows "char_lower c = d \<longleftrightarrow> c = d"
proof (cases "65 \<le> (of_char c :: nat) \<and> (of_char c :: nat) \<le> 90")
  case True
  then have "(of_char (char_lower c) :: nat) = of_char c + 32"
    by (simp add: char_lower_def)
  with True assms show ?thesis by auto
qed (auto simp: char_lower_def)

lemma comma_group_simps:
  "comma_group (c # x # y # z # s) =
     (if c = CHR '','' \<and> is_digit x \<and> is_digit y \<and> is_digit z then [([c, x, y, z], s)] else [])"
  "length s < 4 \<Longrightarrow> comma_group s = []"
proof -
  have low: "char_lower c = CHR '','' \<longleftrightarrow> c = CHR '',''" for c
    by (rule char_lower_mark) simp_all
  show "comma_group (c # x # y # z # s) =
     (if c = CHR '','' \<and> is_digit x \<and> is_digit y \<and> is_digit z then [([c, x, y, z], s)] else [])"
    by (auto simp: comma_group_def re_seq_def re_text_def digit_cases str_lower_def low)
  show "length s < 4 \<Longrightarrow> comma_group s = []"
    by (cases s; simp; cases "tl s"; cases "tl (tl s)")
      (auto simp: comma_group_def re_seq_def re_text_def digit_cases str_lower_def low)
qed

lemma comma_group_det: "comma_group s = [] \<or> (\<exists>c x y z t. s = c # x # y # z # t \<and> c = CHR '','' \<and> is_digit x \<and> is_digit y
    \<and> is_digit z \<and> comma_group s = [([c, x, y, z], t)])"
proof (cases "length s < 4")
  case False
  then obtain c x y z t where "s = c # x # y # z # t"
    by (auto simp: not_less numeral_eq_Suc Suc_le_length_iff)
  then show ?thesis using comma_group_simps(1) [of c x y z t] by auto
qed (simp add: comma_group_simps(2))

lemma comma_prefix_none:
  assumes "comma_group s = []"
  shows "comma_prefix s = ([], s)"
  using assms by (cases s rule: comma_prefix.cases) (auto simp: comma_group_simps split: if_splits)

lemma first_upto_commas: "length s \<le> n \<Longrightarrow> first_is (re_upto n comma_group) s (comma_prefix s)"
proof (induction n arbitrary: s)
  case 0
  then show ?case by (simp add: first_is_def)
next
  case (Suc n)
  from comma_group_det [of s] show ?case
  proof
    assume "comma_group s = []"
    then show ?thesis
      using comma_prefix_none first_upto_stop [of comma_group s "Suc n"] by (simp del: re_upto.simps)
  next
    assume "\<exists>c x y z t. s = c # x # y # z # t \<and> c = CHR '','' \<and> is_digit x \<and> is_digit y
      \<and> is_digit z \<and> comma_group s = [([c, x, y, z], t)]"
    then obtain c x y z t where s: "s = c # x # y # z # t" "c = CHR '',''" "is_digit x" "is_digit y" "is_digit z"
      "comma_group s = [([c, x, y, z], t)]" by blast
    then have "first_is comma_group s ([c, x, y, z], t)" by (simp add: first_is_def)
    moreover obtain g r where g: "comma_prefix t = (g, r)" by (cases "comma_prefix t")
    moreover have "first_is (re_upto n comma_group) t (g, r)" using Suc.IH [of t] Suc.prems s(1) g by simp
    ultimately have "first_is (re_upto (Suc n) comma_group) s ([c, x, y, z] @ g, r)" by (intro first_upto_more)
    with s g show ?thesis by (simp del: re_upto.simps)
  qed
qed

lemma first_star_commas: "first_is (re_star comma_group) s (comma_prefix s)"
  using first_upto_commas [of s "length s"] by (simp add: first_is_def re_star_def)

lemma first_plus_digits:
  "is_digit c \<Longrightarrow> first_is re_plus_digits (c # s) (takeWhile is_digit (c # s), dropWhile is_digit (c # s))"
proof -
  assume c: "is_digit c"
  then have "first_is re_digit (c # s) ([c], s)" by (simp add: first_is_def digit_cases)
  from first_seq [OF this first_star_digits [of s]] c show ?thesis by (simp add: re_plus_digits_def)
qed

lemma plus_digits_none: "re_plus_digits [] = []" "\<not> is_digit c \<Longrightarrow> re_plus_digits (c # s) = []"
  by (simp_all add: re_plus_digits_def re_seq_def digit_cases)

lemma first_point: "\<exists>u. first_is (re_opt (re_seq (re_text ''.'') re_plus_digits)) s (point_prefix s, u)"
proof (cases s)
  case Nil
  then show ?thesis
    using first_opt(2) [of "re_seq (re_text ''.'') re_plus_digits" s]
    by (auto simp: re_seq_def re_text_def point_prefix_def str_lower_def)
next
  case (Cons c t)
  have low: "char_lower c = CHR ''.'' \<longleftrightarrow> c = CHR ''.''" by (rule char_lower_mark) simp
  show ?thesis
  proof (cases "c = CHR ''.'' \<and> takeWhile is_digit t \<noteq> []")
    case True
    then obtain d v where t: "t = d # v" "is_digit d" by (cases t) (auto split: if_splits)
    have "first_is (re_text ''.'') s ([c], t)" using Cons True by (simp add: first_is_def re_text_def str_lower_def char_lower_def)
    from first_opt(1) [OF first_seq [OF this first_plus_digits [OF t(2), of v, folded t(1)]]]
    show ?thesis using Cons True by (auto simp: point_prefix_def)
  next
    case False
    then have "re_seq (re_text ''.'') re_plus_digits s = []"
      using Cons plus_digits_none by (cases t) (auto simp: re_seq_def re_text_def str_lower_def low split: if_splits)
    then have "first_is (re_opt (re_seq (re_text ''.'') re_plus_digits)) s ([], s)" by (rule first_opt(2))
    then show ?thesis using Cons False by (auto simp: point_prefix_def)
  qed
qed

lemma first_amount:
  assumes "is_digit c"
  shows "\<exists>u. first_is amount_group (c # s) (amount_prefix (c # s), u)"
proof -
  let ?s = "c # s" let ?l = "take 3 (takeWhile is_digit ?s)"
  have d: "first_is re_digit ?s ([c], s)" using assms by (simp add: first_is_def digit_cases)
  from first_seq [OF this first_upto_digits [of 2 s]] assms
  have lead: "first_is (re_seq re_digit (re_upto 2 re_digit)) ?s (?l, drop (length ?l) ?s)"
    by (simp add: numeral_3_eq_3 numeral_2_eq_2 min_def)
  obtain g r where g: "comma_prefix (drop (length ?l) ?s) = (g, r)" by (cases "comma_prefix (drop (length ?l) ?s)")
  have "first_is (re_star comma_group) (drop (length ?l) ?s) (g, r)"
    using first_star_commas [of "drop (length ?l) ?s"] g by simp
  moreover obtain u where "first_is (re_opt (re_seq (re_text ''.'') re_plus_digits)) r (point_prefix r, u)"
    using first_point by blast
  ultimately have "first_is amount_group ?s (?l @ g @ point_prefix r, u)"
    unfolding amount_group_def by (intro first_alt first_seq [OF lead] first_seq)
  then show ?thesis using g by (auto simp: amount_prefix_def Let_def)
qed

lemma amount_group_digit: "amount_group [] = []" "\<not> is_digit c \<Longrightarrow> amount_group (c # s) = []"
  by (simp_all add: amount_group_def re_alt_def re_seq_def digit_cases plus_digits_none)

text \<open>The part before the amount holds no digit.\<close>

definition skips :: "pat \<Rightarrow> bool" where
  "skips a \<longleftrightarrow> (\<forall>s x t. (x, t) \<in> set (a s) \<longrightarrow> s = x @ t \<and> (\<forall>c \<in> set x. \<not> is_digit c))"

lemma skips_seq: "skips a \<Longrightarrow> skips b \<Longrightarrow> skips (re_seq a b)"
  unfolding skips_def re_seq_def by fastforce

lemma skips_alt: "skips a \<Longrightarrow> skips b \<Longrightarrow> skips (re_alt a b)"
  by (auto simp: skips_def re_alt_def)

lemma skips_opt: "skips a \<Longrightarrow> skips (re_opt a)"
  by (auto simp: skips_def re_opt_def)

lemma skips_upto: "skips a \<Longrightarrow> skips (re_upto n a)"
proof (induction n)
  case (Suc n)
  from skips_seq [OF Suc.prems Suc.IH [OF Suc.prems]] show ?case by (auto simp: skips_def)
qed (simp add: skips_def)

lemma skips_star: "skips a \<Longrightarrow> skips (re_star a)"
proof -
  assume "skips a"
  then have "skips (re_upto n a)" for n by (rule skips_upto)
  then show ?thesis unfolding skips_def re_star_def by blast
qed

lemma lower_digit: "is_digit c \<Longrightarrow> char_lower c = c"
proof -
  assume "is_digit c"
  then have "\<not> 65 \<le> (of_char c :: nat)" unfolding is_digit_def by linarith
  then show "char_lower c = c" by (simp add: char_lower_def)
qed

lemma skips_text:
  assumes "\<forall>c \<in> set p. \<not> is_digit c"
  shows "skips (re_text p)"
proof -
  have "\<not> is_digit c" if "str_lower (take n s) = p" "c \<in> set (take n s)" for n s c
  proof
    assume "is_digit c"
    with that lower_digit have "c \<in> set p" by (force simp: str_lower_def)
    with assms \<open>is_digit c\<close> show False by blast
  qed
  then show ?thesis unfolding skips_def re_text_def by (auto split: if_splits)
qed

lemma skips_space: "skips (re_char is_space)"
  by (auto simp: skips_def re_char_def is_digit_def is_space_def Let_def split: list.splits if_splits)

lemma skips_currency: "skips currency_prefix"
  unfolding currency_prefix_def
  by (intro skips_seq skips_opt skips_alt skips_star skips_text skips_space)
    (auto simp: is_digit_def rupee_sign_def)

lemma upto_empty: "([], s) \<in> set (re_upto n a s)"
  by (cases n) simp_all

lemma currency_empty: "([], s) \<in> set (currency_prefix s)"
  using upto_empty [of s "length s" "re_char is_space"]
  by (force simp: currency_prefix_def re_seq_def re_opt_def re_star_def)

lemma amount_at_cases:
  assumes "(x, t) \<in> set (currency_prefix s)"
  shows "amount_group t = [] \<or> t = dropWhile (\<lambda>c. \<not> is_digit c) s"
proof (cases t)
  case (Cons c u)
  from assms skips_currency have "s = x @ t" "\<forall>c \<in> set x. \<not> is_digit c" by (auto simp: skips_def)
  with Cons amount_group_digit(2) [of c u] show ?thesis by (cases "is_digit c") (simp_all add: dropWhile_append1 dropWhile_append2)
qed (simp add: amount_group_digit)

lemma concat_first:
  assumes "\<forall>x \<in> set xs. f x = [] \<or> f x = ys" and "\<exists>x \<in> set xs. f x \<noteq> []"
  shows "\<exists>zs. concat (map f xs) = ys @ zs"
  using assms
proof (induction xs)
  case (Cons a xs)
  then show ?case by (cases "f a = []") auto
qed simp

lemma amount_at_digit:
  "amount_at s = None \<or> (\<exists>c u. dropWhile (\<lambda>c. \<not> is_digit c) s = c # u \<and> amount_at s = Some (amount_prefix (c # u)))"
  "is_digit c \<Longrightarrow> amount_at (c # s) \<noteq> None"
proof -
  let ?f = "\<lambda>(x, t). amount_group t"
  show "amount_at s = None \<or> (\<exists>c u. dropWhile (\<lambda>c. \<not> is_digit c) s = c # u \<and> amount_at s = Some (amount_prefix (c # u)))"
  proof (cases "\<exists>m \<in> set (currency_prefix s). ?f m \<noteq> []")
    case True
    let ?d = "dropWhile (\<lambda>c. \<not> is_digit c) s"
    from True obtain x t where m: "(x, t) \<in> set (currency_prefix s)" "amount_group t \<noteq> []" by auto
    with amount_at_cases have "t = ?d" by blast
    with m(2) amount_group_digit obtain c u where d: "?d = c # u" by (cases ?d) auto
    then have "is_digit c" by (metis hd_dropWhile list.distinct(1) list.sel(1))
    from first_amount [OF this, of u] obtain v ms where g: "amount_group (c # u) = (amount_prefix (c # u), v) # ms"
      by (auto simp: first_is_def)
    have "\<forall>m \<in> set (currency_prefix s). ?f m = [] \<or> ?f m = amount_group ?d"
      using amount_at_cases by fastforce
    from concat_first [OF this True] g d show ?thesis by (auto simp: amount_at_def)
  next
    case False
    then have "concat (map ?f (currency_prefix s)) = []" by (metis (no_types, lifting) concat_eq_Nil_conv image_iff list.set_map)
    then show ?thesis by (simp only: amount_at_def list.case simp_thms)
  qed
  show "is_digit c \<Longrightarrow> amount_at (c # s) \<noteq> None"
  proof -
    assume "is_digit c"
    from first_amount [OF this, of s] have "amount_group (c # s) \<noteq> []" by (auto simp: first_is_def)
    with currency_empty [of "c # s"] have "concat (map ?f (currency_prefix (c # s))) \<noteq> []" by force
    then show "amount_at (c # s) \<noteq> None" by (auto simp: amount_at_def split: list.splits)
  qed
qed

text \<open>
  C27: The amount a refund prompt names is read from its first digit on: at most three digits, then
  groups of a comma and three digits, then a fraction. The search with its optional currency sign,
  blanks and second alternative finds nothing else, so that an amount written without commas loses
  every digit after the third.
\<close>
theorem refund_amount_pattern:
  "amount_search s = (case dropWhile (\<lambda>c. \<not> is_digit c) s of [] \<Rightarrow> None | c # u \<Rightarrow> Some (amount_prefix (c # u)))"
proof (induction s)
  case Nil
  then show ?case using amount_at_digit(1) [of "[]"] by simp
next
  case (Cons c s)
  then show ?case using amount_at_digit(1) [of "c # s"] amount_at_digit(2) [of c s]
    by (cases "is_digit c") (auto split: option.split)
qed

lemma plain_amount_truncated:
  "amount_search ''refund of Rs. 12345 please'' = Some ''123''"
  "amount_search ''refund of Rs. 12,345.50 please'' = Some ''12,345.50''"
  by code_simp+

end
