(* ===== verification/Agent_Adapter.thy ===== *)
theory Agent_Adapter
  imports Agent_Tools Amount_Pattern
begin

text \<open>
  The language model adapters of \<^verbatim>\<open>packages/agents/adapter.py\<close>: the OpenAI adapter, whose HTTP
  transport \<open>openai_api\<close> is a parameter, and the deterministic mock with its intent parser and the
  prose it makes of a tool's result. A message is a JSON object.
\<close>

section \<open>Messages and responses\<close>

record llm_tool_call =
  tc_id :: string
  tc_name :: string
  tc_arguments :: dict

record llm_response =
  lr_content :: "string option"
  lr_tool_calls :: "llm_tool_call list"
  lr_model :: string
  lr_provider :: string

text \<open>The elements Python's \<open>for\<close> sees in a JSON value.\<close>

definition py_iter :: "json \<Rightarrow> exn + json list" where
  "py_iter j =
     (case j of
        JList xs \<Rightarrow> Inr xs
      | JObj d \<Rightarrow> Inr (map (JStr \<circ> fst) d)
      | JStr s \<Rightarrow> Inr (map (\<lambda>c. JStr [c]) s)
      | _ \<Rightarrow> Inl TypeError)"

fun map_results :: "('a \<Rightarrow> exn + 'b) \<Rightarrow> 'a list \<Rightarrow> exn + 'b list" where
  "map_results f [] = Inr []"
| "map_results f (x # xs) = bindE (f x) (\<lambda>y. bindE (map_results f xs) (\<lambda>ys. Inr (y # ys)))"

section \<open>Prose for a tool result\<close>

definition catalog_line :: "env \<Rightarrow> json \<Rightarrow> exn + string" where
  "catalog_line E item =
     bindE (jindex item ''name'') (\<lambda>name.
     bindE (jindex item ''price_inr'') (\<lambda>price.
       let in_stock = (case item of JObj d \<Rightarrow> jtruthy (dget_or d ''in_stock'' JNull) | _ \<Rightarrow> False)
       in Inr (bullet @ '' **'' @ py_str E name @ ''** '' @ em_dash @ '' '' @ py_str E price
         @ '' (''
            @ (if in_stock then ''In Stock'' else ''Out of Stock'') @ '')'')))"

definition parsed_tool_result :: "env \<Rightarrow> string \<Rightarrow> dict" where
  "parsed_tool_result E raw_content =
     (if starts_with raw_content ''{''
      then (case json_loads E raw_content of Some (JObj d) \<Rightarrow> d | _ \<Rightarrow> []) else [])"

text \<open>\<open>d.get(k) or default\<close>\<close>

definition get_or :: "dict \<Rightarrow> string \<Rightarrow> json \<Rightarrow> json" where
  "get_or d k v = (let x = dget_or d k JNull in if jtruthy x then x else v)"

definition format_catalog :: "env \<Rightarrow> json \<Rightarrow> exn + string" where
  "format_catalog E items =
     bindE (py_iter items) (\<lambda>xs. bindE (map_results (catalog_line E) xs) (\<lambda>lines.
       Inr (''Here are the available products in our verified catalog:'' @ newline @ newline
         @ str_join newline lines @ newline @ newline
          @ ''Let me know if you would like me to procure any of these items within my mandate bounds.'')))"

definition format_order :: "env \<Rightarrow> dict \<Rightarrow> string" where
  "format_order E d =
     package_sign @ '' **Order Details:**'' @ newline @ newline @ bullet
          @ '' **Item:** **''
            @ py_str E (dget_or d ''product'' (JStr ''Keychron K2 Mechanical Keyboard'')) @ ''**''
            @ newline @ bullet @ '' **Order ID:** `''
            @ py_str E (dget_or d ''operation_id'' JNull) @ ''`'' @ newline @ bullet
            @ '' **Price:** **'' @ py_str E (dget_or d ''amount_inr'' JNull) @ ''**'' @ newline
            @ bullet @ '' **Status:** `'' @ py_str E (dget_or d ''status'' JNull) @ ''`''
            @ newline @ bullet @ '' **Refund Status:** ''
            @ py_str E (dget_or d ''refund_eligible''
       (JStr ''Yes (Within 30-day return policy window)'')) @ newline @ newline
         @ ''Verified against Mandate Ledger & PostgreSQL event store.''"

definition format_allowed :: "env \<Rightarrow> dict \<Rightarrow> string" where
  "format_allowed E d =
     (let prod = get_or d ''product'' (JStr (if contains (py_repr E (JObj d)) ''refund''
            then ''Customer Refund'' else ''Item''))
      in check_sign @ '' **Financial Operation Authorized!**'' @ newline @ newline
          @ ''I have successfully executed `'' @ py_str E (dget_or d ''operation_id'' JNull)
            @ ''` for **''
         @ py_str E prod @ ''** totaling **'' @ py_str E (dget_or d ''amount_inr'' JNull)
           @ ''**.'' @ newline @ ''Mandate'' @ apos
          @ ''s Deterministic Policy Gate approved the transaction and reserved the funds.'')"

definition format_denied :: "env \<Rightarrow> dict \<Rightarrow> string" where
  "format_denied E d =
     stop_sign @ '' **Mandate Policy Blocked Action!**'' @ newline @ newline
          @ ''I attempted to execute the request for **''
       @ py_str E (get_or d ''product'' (JStr ''requested operation''))
       @ ''**, but Mandate'' @ apos @ ''s Policy Gate **DENIED** authorization:'' @ newline
          @ ''> *'' @ py_str E (get_or d ''error_message'' (JStr ''Operation bounds exceeded''))
            @ ''*'' @ newline @ newline @ ''No Razorpay funds were disbursed.''"

definition format_tool_execution_response :: "env \<Rightarrow> string \<Rightarrow> exn + string" where
  "format_tool_execution_response E raw_content =
     (let d = parsed_tool_result E raw_content; has = (\<lambda>k. dget d k \<noteq> None);
          decision = dget_or d ''policy_decision'' JNull
      in case dget d ''catalog_items'' of
           Some items \<Rightarrow> format_catalog E items
         | None \<Rightarrow>
             if has ''operation_id'' \<and> has ''status'' \<and> has ''amount_inr'' \<and> \<not> has ''policy_decision''
             then Inr (format_order E d)
             else if decision = JStr ''ALLOW'' then Inr (format_allowed E d)
             else if decision = JStr ''DENY'' then Inr (format_denied E d)
             else Inr (''Operation evaluated by Mandate Control Plane:'' @ newline @ ''```json''
               @ newline @ raw_content @ newline @ ''```''))"

section \<open>The intent parser\<close>

definition any_in :: "string list \<Rightarrow> string \<Rightarrow> bool" where
  "any_in phrases text \<longleftrightarrow> list_ex (contains text) phrases"

text \<open>\<open>text.split()\<close> after the separators \<open>: , " '\<close> were replaced by blanks.\<close>

fun split_words :: "string \<Rightarrow> string \<Rightarrow> string list" where
  "split_words cur [] = (if cur = [] then [] else [rev cur])"
| "split_words cur (c # s) =
     (if is_space c then (if cur = [] then split_words [] s else rev cur # split_words [] s)
      else split_words (c # cur) s)"

definition prompt_words :: "string \<Rightarrow> string list" where
  "prompt_words text =
     split_words [] (map (\<lambda>c. if c \<in> {CHR '':'', CHR '','', CHR 0x22, CHR 0x27} then CHR '' '' else c) text)"

definition greetings :: "string list" where
  "greetings = [
     ''hello'', ''hi'', ''hey'', ''good morning'', ''good evening'', ''greetings'']"

definition capability_phrases :: "string list" where
  "capability_phrases = [
     ''what is your limit'', ''what it your limit'', ''what are your limits'',
     ''how much can you'', ''what are your bounds'', ''what are your rules'',
     ''tell me your limit'', ''tell me your bound'', ''what can you do'', ''how do you work'',
     ''who are you'', ''help'']"

definition inspection_phrases :: "string list" where
  "inspection_phrases = [
     ''recent purchases'', ''my purchases'', ''past purchases'', ''recent orders'', ''my orders'',
     ''past orders'', ''show my recent'', ''show recent'', ''show orders'', ''show purchases'',
     ''what did i buy'', ''what did we buy'', ''what was bought'', ''inspect'', ''lookup'',
     ''status'', ''check operation'', ''check order'', ''latest order'', ''last order'', ''op_'']"

definition order_words :: "string list" where
  "order_words = [
     ''order'', ''bought'', ''purchase'', ''item'', ''recent'', ''past'', ''my'']"

definition browse_phrases :: "string list" where
  "browse_phrases = [
     ''browse'', ''catalog'', ''products'', ''show products'', ''list items'',
     ''what do you sell'', ''available items'', ''show items'', ''what is there'',
     ''what can i buy'', ''what all can i buy'', ''what can we buy'', ''what to buy'',
     ''what is available'', ''what do you have'', ''items for sale'']"

definition product_questions :: "string list" where
  "product_questions = [
     ''what is'', ''tell me about'', ''price of'', ''cost of'', ''how much is'', ''recommend'',
     ''show me'', ''which'', ''difference between'']"

definition refund_questions :: "string list" where
  "refund_questions = [
     ''can i refund'', ''is refund possible'', ''how do refunds work'', ''policy on refund'',
     ''do you do refunds'']"

definition buying_phrases :: "string list" where
  "buying_phrases = [
     ''buy 1'', ''buy a'', ''buy the'', ''buy two'', ''buy 5'', ''buy '', ''place order'',
     ''place an order'', ''procure'', ''purchase 1'', ''purchase a'', ''purchase the'',
     ''i want to buy'', ''i would like to buy'', ''get me a'', ''get me 1'', ''get a'',
     ''create purchase order'', ''create order'', ''order 1'', ''order a'', ''order the'']"

definition buying_questions :: "string list" where
  "buying_questions = [
     ''what can'', ''what all'', ''can i buy'', ''should i buy'', ''how to buy'',
     ''where to buy'', ''why buy'']"

definition pleasantries :: "string list" where
  "pleasantries = [
     ''thank'', ''thanks'', ''awesome'', ''great'', ''cool'', ''ok'', ''okay'', ''good'', ''bye'']"

definition lookup_target :: "string \<Rightarrow> string" where
  "lookup_target user_text =
     (case find (\<lambda>w. starts_with w ''op_'' \<or> starts_with w ''pay_'') (prompt_words user_text) of
        Some w \<Rightarrow> w
      | None \<Rightarrow> if any_in order_words (str_strip (str_lower user_text)) then ''latest_order'' else ''latest'')"

definition product_reply :: "string \<Rightarrow> string option" where
  "product_reply text_lower =
     (if any_in [''keyboard'', ''keychron''] text_lower then Some
        (''The **Keychron K2 Mechanical Keyboard** is available in our catalog for **Rs. ''
          @ ''6,500.00**. It features wireless/wired connectivity and hot-swappable switches. Say *''
          @ quote ''Buy 1 Keychron K2'' @ ''* if you'' @ apos @ ''d like me to order it!'')
      else if any_in [''mouse'', ''logitech'', ''mx master''] text_lower then Some
        (''The **Logitech MX Master 3S Mouse** is available for **Rs. 8,999.00**. It is designed ''
          @ ''for ergonomics and ultra-quiet precision. Say *''
          @ quote ''Buy 1 Logitech Mouse'' @ ''* to purchase.'')
      else if any_in [''desk mat'', ''mat'', ''felt''] text_lower then Some
        (''The **Ergonomic Wool Felt Desk Mat** is available for **Rs. 1,500.00**. Say *''
          @ quote ''Buy 1 Desk Mat'' @ ''* if you would like me to procure one.'')
      else if any_in [''monitor'', ''dell'', ''4k''] text_lower then Some
        (''The **Dell UltraSharp 32-inch 4K Monitor** is priced at **Rs. 75,000.00**. High-value ''
          @ ''hardware orders are governed by Mandate'' @ apos
          @ ''s multi-level policy thresholds.'')
      else if any_in [''workstation'', ''server'', ''gpu''] text_lower then Some
        (''The **Rackmount GPU AI Workstation** is priced at **Rs. 4,50,000.00** for enterprise ''
          @ ''compute workloads.'')
      else None)"

text \<open>The amount of a refund; an infinite one is passed on as the text \<open>float\<close> reads as infinite.\<close>

definition matched_amount :: "string \<Rightarrow> json" where
  "matched_amount user_text =
     (case amount_search user_text of
        None \<Rightarrow> JFloat 1000
      | Some g \<Rightarrow>
          (case parse_float (filter (\<lambda>c. c \<noteq> CHR '','') g) of
             Some (PFin r) \<Rightarrow> JFloat (if 0 < r then r else 1000)
           | Some (PInf neg) \<Rightarrow> if neg then JFloat 1000 else JStr ''inf''
           | _ \<Rightarrow> JFloat 1000))"

definition refund_amount :: "string \<Rightarrow> json" where
  "refund_amount user_text =
     (let text_lower = str_strip (str_lower user_text); u = (\<lambda>p. contains user_text p);
          l = (\<lambda>p. contains text_lower p)
      in if u ''25,000'' \<or> u ''25000'' then JFloat 25000
         else if u ''2,500'' \<or> u ''2500'' then JFloat 2500
         else if u ''1,500'' \<or> u ''1500'' then JFloat 1500
         else if u ''5,000'' \<or> u ''5000'' then JFloat 5000
         else if u ''6,500'' \<or> u ''6500'' \<or> l ''keyboard'' \<or> l ''keychron'' then JFloat 6500
         else if u ''8,999'' \<or> u ''8999'' \<or> l ''mouse'' \<or> l ''logitech'' then JFloat 8999
         else if l ''desk mat'' \<or> l ''felt'' \<or> l ''mat'' then JFloat 1500
         else if l ''monitor'' \<or> u ''75,000'' \<or> u ''75000'' then JFloat 75000
         else matched_amount user_text)"

definition refund_target :: "string \<Rightarrow> string" where
  "refund_target user_text =
     (case find (\<lambda>w. starts_with w ''pay_'') (prompt_words user_text) of
        Some w \<Rightarrow> w
      | None \<Rightarrow> if contains user_text ''pay_demo'' then ''pay_demo_cap_01'' else ''pay_fake_attacker_01'')"

definition is_buying_action :: "string \<Rightarrow> bool" where
  "is_buying_action text_lower \<longleftrightarrow>
     (any_in buying_phrases text_lower \<or> starts_with text_lower ''buy'' \<or> starts_with text_lower ''order''
        \<or> starts_with text_lower ''purchase'' \<or> starts_with text_lower ''procure'')
     \<and> \<not> any_in buying_questions text_lower"

definition order_quantity :: "string \<Rightarrow> int" where
  "order_quantity user_text =
     (if contains user_text ''100'' then 100 else if contains user_text ''5'' then 5 else 1)"

definition order_product :: "string \<Rightarrow> string" where
  "order_product text_lower =
     (if any_in [''mat'', ''desk mat'', ''felt'', ''wool''] text_lower then ''prod_desk_mat_01''
      else if any_in [''mouse'', ''logitech'', ''mx master'', ''mx''] text_lower then ''prod_mouse_01''
      else if any_in [''monitor'', ''dell'', ''4k'', ''ultrasharp'', ''75,000'', ''screen''] text_lower
      then ''prod_monitor_high_end''
      else if any_in [''workstation'', ''server'', ''gpu'', ''rackmount'', ''ai rack'', ''450,000''] text_lower
      then ''prod_enterprise_server''
      else ''prod_kb_01'')"

text \<open>
  What a prompt asks for: a reply, or a tool call given by the prefix of its id, the tool and the
  arguments.
\<close>

datatype intent = Reply string | Tool string string dict

definition order_intent :: "string \<Rightarrow> string \<Rightarrow> intent" where
  "order_intent user_text text_lower =
     Tool ''call_order_'' ''create_purchase_order''
       [(''product_id'', JStr (order_product text_lower)), (''quantity'', JInt (order_quantity user_text)),
        (''customer_name'', JStr ''Alice Developer'')]"

definition refund_intent :: "string \<Rightarrow> string \<Rightarrow> intent" where
  "refund_intent user_text text_lower =
     (if any_in refund_questions text_lower then Reply (''Yes! Settled purchases within 30 days are eligible for refund through customer ''
          @ ''support. You can say *''
          @ quote ''Process a damaged item return refund of Rs. 1,500''
          @ ''* to initiate a refund.'')
      else Tool ''call_rfnd_'' ''issue_customer_refund''
        [(''payment_id'', JStr (refund_target user_text)), (''amount_in_rupees'', refund_amount user_text),
         (''reason'', JStr ''Customer request via support dialogue'')])"

definition action_intent :: "string \<Rightarrow> string \<Rightarrow> intent" where
  "action_intent user_text text_lower =
     (if any_in [''refund'', ''return'', ''reimburse''] text_lower then refund_intent user_text text_lower
      else if is_buying_action text_lower then order_intent user_text text_lower
      else if any_in [''payment link'', ''send invoice'', ''create invoice''] text_lower then
        Tool ''call_plink_'' ''create_payment_link_for_customer''
          [(''amount_in_rupees'', JInt 4500), (''description'', JStr ''Mandate Invoice #1029''),
           (''customer_name'', JStr ''Client'')]
      else if any_in pleasantries text_lower then Reply (''You'' @ apos
          @ ''re welcome! Let me know if you need help exploring the catalog, looking up past ''
          @ ''orders, or executing bounded financial transactions.'')
      else Reply (''I am here to help! You asked: '' @ dquote @ user_text @ dquote
          @ ''. You can chat with me about items in our catalog, ask me to check your recent ''
          @ ''purchases, or command a financial action (e.g. *'' @ quote ''Buy 1 Keychron K2''
          @ ''* or *'' @ quote ''Process a refund of Rs. 1,500'' @ ''*).''))"

definition intent_of :: "string \<Rightarrow> intent" where
  "intent_of user_text =
     (let text_lower = str_strip (str_lower user_text) in
      if text_lower \<in> set greetings then Reply (''Hello! I am your Mandate AI Agent. I can help you explore our verified catalog, ''
          @ ''inspect purchase history in the ledger, recommend products, and securely execute ''
          @ ''bounded financial transactions.'')
      else if any_in capability_phrases text_lower then Reply (''I operate as an autonomous AI Agent bounded by Mandate''
        @ apos
          @ ''s Deterministic Policy Gate. I can chat with you, browse products, look up past ''
          @ ''orders, and process authorized purchases or refunds. Every financial action I propose ''
          @ ''is cryptographically validated and constrained by mathematical authority limits ''
          @ ''before touching Razorpay.'')
      else if any_in inspection_phrases text_lower then
        Tool ''call_lookup_'' ''lookup_transaction''
          [(''operation_id'', JStr (lookup_target user_text)), (''order_only'', JBool True)]
      else if any_in browse_phrases text_lower then Tool ''call_browse_'' ''browse_catalog'' []
      else if any_in product_questions text_lower then
        (case product_reply text_lower of
           Some reply \<Rightarrow> Reply reply
         | None \<Rightarrow> action_intent user_text text_lower)
      else action_intent user_text text_lower)"

definition parse_semantic_intent ::
    "env \<Rightarrow> string \<Rightarrow> world \<Rightarrow> (string + llm_tool_call list) \<times> world" where
  "parse_semantic_intent E user_text w =
     (case intent_of user_text of
        Reply reply \<Rightarrow> (Inl reply, w)
      | Tool prefix name arguments \<Rightarrow>
          let (h, w) = draw_uuid E w
          in (Inr [\<lparr>tc_id = prefix @ take 8 h, tc_name = name, tc_arguments = arguments\<rparr>], w))"

section \<open>The mock adapter\<close>

definition message_role :: "dict \<Rightarrow> json" where
  "message_role m = dget_or m ''role'' JNull"

definition message_text :: "env \<Rightarrow> dict \<Rightarrow> string" where
  "message_text E m = py_str E (dget_or m ''content'' (JStr []))"

definition last_user_text :: "env \<Rightarrow> dict list \<Rightarrow> string" where
  "last_user_text E messages =
     (case find (\<lambda>m. message_role m = JStr ''user'') (rev messages) of
        None \<Rightarrow> [] | Some m \<Rightarrow> str_lower (message_text E m))"

definition mock_response :: "string option \<Rightarrow> llm_tool_call list \<Rightarrow> string \<Rightarrow> llm_response" where
  "mock_response content calls model =
     \<lparr>lr_content = content, lr_tool_calls = calls, lr_model = model, lr_provider = ''mock''\<rparr>"

definition mock_chat_completion ::
    "env \<Rightarrow> llm_tool_call list \<Rightarrow> dict list \<Rightarrow> world \<Rightarrow> (exn + llm_response) \<times> world" where
  "mock_chat_completion E predefined_tool_calls messages w =
     (if messages \<noteq> [] \<and> message_role (last messages) = JStr ''tool'' then
        (bindE (format_tool_execution_response E (message_text E (last messages)))
           (\<lambda>s. Inr (mock_response (Some s) [] ''mock-semantic-v1'')), w)
      else if predefined_tool_calls \<noteq> [] then
        (Inr (mock_response None predefined_tool_calls ''mock-deterministic-v1''), w)
      else (case parse_semantic_intent E (last_user_text E messages) w of
          (Inr calls, w) \<Rightarrow> (Inr (mock_response None calls ''mock-semantic-v1''), w)
        | (Inl reply, w) \<Rightarrow> (Inr (mock_response (Some reply) [] ''mock-semantic-v1''), w)))"

section \<open>The OpenAI adapter\<close>

text \<open>
  What the POST yields: a parsed 2xx answer, another status, or any other failure (time-out,
  transport, a body that is not JSON).
\<close>

datatype openai_outcome = OpenAI_Json json | OpenAI_Status int | OpenAI_Failure

type_synonym openai_api = "string \<Rightarrow> dict \<Rightarrow> openai_outcome"

definition openai_payload :: "string \<Rightarrow> dict list \<Rightarrow> json list \<Rightarrow> dict" where
  "openai_payload model messages tools =
     [(''model'', JStr model), (''messages'', JList (map JObj messages)),
      (''temperature'', JFloat (binary64 (1 / 10)))]
     @ (if tools = [] then [] else [(''tools'', JList tools), (''tool_choice'', JStr ''auto'')])"

text \<open>Python's \<open>x[0]\<close> on a parsed JSON value.\<close>

definition jfirst :: "json \<Rightarrow> exn + json" where
  "jfirst j =
     (case j of
        JList [] \<Rightarrow> Inl IndexError
      | JList (x # _) \<Rightarrow> Inr x
      | JStr [] \<Rightarrow> Inl IndexError
      | JStr (c # _) \<Rightarrow> Inr (JStr [c])
      | JObj _ \<Rightarrow> Inl (KeyError ''0'')
      | _ \<Rightarrow> Inl TypeError)"

definition call_arguments :: "env \<Rightarrow> json \<Rightarrow> json" where
  "call_arguments E fn =
     (case jindex fn ''arguments'' of
        Inl _ \<Rightarrow> JObj []
      | Inr (JStr s) \<Rightarrow> (case json_loads E s of None \<Rightarrow> JObj [] | Some j \<Rightarrow> j)
      | Inr j \<Rightarrow> j)"

definition parse_tool_call :: "env \<Rightarrow> json \<Rightarrow> exn + llm_tool_call" where
  "parse_tool_call E tc =
     bindE (jindex tc ''function'') (\<lambda>fn.
     bindE (jindex tc ''id'') (\<lambda>i.
     bindE (jindex fn ''name'') (\<lambda>name.
       case (i, name, call_arguments E fn) of
         (JStr i, JStr name, JObj arguments) \<Rightarrow> Inr \<lparr>tc_id = i, tc_name = name, tc_arguments = arguments\<rparr>
       | _ \<Rightarrow> Inl (ValidationError ''LLMToolCall''))))"

definition parse_openai :: "env \<Rightarrow> string \<Rightarrow> json \<Rightarrow> exn + llm_response" where
  "parse_openai E model data =
     bindE (jindex data ''choices'') (\<lambda>choices. bindE (jfirst choices) (\<lambda>first.
     bindE (jindex first ''message'') (\<lambda>choice.
       case choice of
         JObj d \<Rightarrow>
           bindE (py_iter (dget_or d ''tool_calls'' (JList []))) (\<lambda>raw_tool_calls.
           bindE (map_results (parse_tool_call E) raw_tool_calls) (\<lambda>tool_calls.
             let content = (case dget_or d ''content'' JNull of
                   JNull \<Rightarrow> Some None | JStr s \<Rightarrow> Some (Some s) | _ \<Rightarrow> None);
                 model_json = (case data of JObj e \<Rightarrow> dget_or e ''model'' (JStr model) | _ \<Rightarrow> JNull)
             in case (content, model_json) of
                  (Some content, JStr model) \<Rightarrow> Inr \<lparr>lr_content = content, lr_tool_calls = tool_calls,
                    lr_model = model, lr_provider = ''openai''\<rparr>
                | _ \<Rightarrow> Inl (ValidationError ''LLMResponse'')))
       | _ \<Rightarrow> Inl AttributeError)))"

definition openai_chat_completion ::
    "env \<Rightarrow> openai_api \<Rightarrow> string \<Rightarrow> string \<Rightarrow> dict list \<Rightarrow> json list \<Rightarrow> world
       \<Rightarrow> (exn + llm_response) \<times> world" where
  "openai_chat_completion E api api_key model messages tools w =
     (if api_key = [] then (Inl (ValueError ''OPENAI_API_KEY is not configured in environment''), w)
      else case api api_key (openai_payload model messages tools) of
          OpenAI_Json data \<Rightarrow> (parse_openai E model data, w)
        | OpenAI_Status code \<Rightarrow>
            if code = 429 then mock_chat_completion E [] messages w else (Inl (HTTPStatusError code), w)
        | OpenAI_Failure \<Rightarrow> mock_chat_completion E [] messages w)"

section \<open>Choosing an adapter\<close>

datatype llm_adapter = OpenAI_Adapter string string | Mock_Adapter "llm_tool_call list"

definition chat_completion ::
    "env \<Rightarrow> openai_api \<Rightarrow> llm_adapter \<Rightarrow> dict list \<Rightarrow> json list \<Rightarrow> world \<Rightarrow> (exn + llm_response) \<times> world"
where
  "chat_completion E api adapter messages tools w =
     (case adapter of
        OpenAI_Adapter api_key model \<Rightarrow> openai_chat_completion E api api_key model messages tools w
      | Mock_Adapter predefined \<Rightarrow> mock_chat_completion E predefined messages w)"

definition get_llm_adapter :: "env \<Rightarrow> string option \<Rightarrow> llm_adapter" where
  "get_llm_adapter E provider =
     (let s = settings E; selected = str_lower (str_or provider (DEFAULT_LLM_PROVIDER s)) in
      if selected = ''openai'' \<and> OPENAI_API_KEY s \<noteq> []
      then OpenAI_Adapter (OPENAI_API_KEY s) (OPENAI_MODEL s) else Mock_Adapter [])"

end
