(* ===== verification/Agent_Runner.thy ===== *)
theory Agent_Runner
  imports Operations Agent_Adapter
begin

text \<open>
  The agent runtime of \<^verbatim>\<open>packages/agents/runner.py\<close>, the procurement flow of
  \<^verbatim>\<open>delegation.py\<close> and the chat routes of \<^verbatim>\<open>apps/api/routes/agent_chat.py\<close>: one model turn,
  the dispatch of its tool calls (a financial one becomes a request in the agent's name under its
  mandate), the stored traces and the model's closing answer. A turn runs in one database session:
  \<open>saved\<close> is the state its last commit left, which a raising turn returns to. Latencies are left
  out.
\<close>

section \<open>Tool dispatch\<close>

record tool_outcome =
  to_result :: dict
  to_operation_id :: "string option"
  to_decision :: "evaluation option"

definition local_outcome :: "dict \<Rightarrow> tool_outcome" where
  "local_outcome d = \<lparr>to_result = d, to_operation_id = None, to_decision = None\<rparr>"

text \<open>
  \<open>request_financial_operation(payload, db)\<close> called as a plain function: the header parameters
  keep their defaults. It commits unless it raises or replays a stored operation.
\<close>

definition agent_request ::
    "env \<Rightarrow> operation_create \<Rightarrow> world \<Rightarrow> world \<Rightarrow> (exn + operation) \<times> world \<times> world" where
  "agent_request E op_req saved w =
     (let (r, w') = request_financial_operation E op_req HDefault HDefault HDefault w;
          replay = tget o_idempotency_key (oc_idempotency_key op_req) (operations w) \<noteq> None
      in (r, w', case r of Inl _ \<Rightarrow> saved | Inr _ \<Rightarrow> if replay then saved else w'))"

definition agent_operation_create ::
    "string \<Rightarrow> agent \<Rightarrow> mandate \<Rightarrow> operation_type \<Rightarrow> int \<Rightarrow> dict \<Rightarrow> exn + operation_create" where
  "agent_operation_create idempotency_key agent mandate ty amount payload =
     (let p = \<lparr>oc_idempotency_key = idempotency_key, oc_agent_id = a_id agent, oc_mandate_id = m_id mandate,
            oc_operation_type = ty, oc_amount = amount, oc_currency = ''INR'', oc_payload = payload\<rparr>
      in if valid_operation_create p then Inr p else Inl (ValidationError ''OperationCreate''))"

definition decision_text :: "operation \<Rightarrow> string" where
  "decision_text op =
     (case o_policy_evaluation_details op of None \<Rightarrow> ''DENY'' | Some r \<Rightarrow> policy_decision_value (r_decision r))"

text \<open>The first five fields of the answer for a financial operation, and what is added to them.\<close>

definition operation_outcome :: "operation \<Rightarrow> dict \<Rightarrow> dict \<Rightarrow> tool_outcome" where
  "operation_outcome op before_error after_error =
     \<lparr>to_result = [(''operation_id'', JStr (o_operation_id op)),
          (''status'', JStr (operation_status_value (o_status op))),
          (''policy_decision'', JStr (decision_text op)), (''amount_inr'', JStr (rupee_text (o_amount op)))]
        @ before_error @ [(''error_message'', jopt_str (o_error_message op))] @ after_error,
      to_operation_id = Some (o_operation_id op),
      to_decision = o_policy_evaluation_details op\<rparr>"

definition request_tool ::
    "env \<Rightarrow> string \<Rightarrow> agent \<Rightarrow> mandate \<Rightarrow> operation_type \<Rightarrow> int \<Rightarrow> dict \<Rightarrow> dict \<Rightarrow> dict \<Rightarrow> world \<Rightarrow> world
       \<Rightarrow> (exn + tool_outcome) \<times> world \<times> world" where
  "request_tool E prefix agent mandate ty amount payload before_error after_error saved w =
     (let (h, w) = draw_uuid E w in
      case agent_operation_create (prefix @ h) agent mandate ty amount payload of
        Inl e \<Rightarrow> (Inl e, w, saved)
      | Inr op_req \<Rightarrow>
          let (r, w, saved) = agent_request E op_req saved w
          in (bindE r (\<lambda>op. Inr (operation_outcome op before_error after_error)), w, saved))"

definition purchase_tool ::
    "env \<Rightarrow> agent \<Rightarrow> mandate \<Rightarrow> dict \<Rightarrow> world \<Rightarrow> world \<Rightarrow> (exn + tool_outcome) \<times> world \<times> world" where
  "purchase_tool E agent mandate args saved w =
     (let product_id = (case dget_or args ''product_id'' JNull of JNull \<Rightarrow> [] | j \<Rightarrow> py_str E j) in
      case py_int (dget_or args ''quantity'' (JInt 1)) of
        Inl e \<Rightarrow> (Inl e, w, saved)
      | Inr n \<Rightarrow>
          let quantity = max 1 n in
          (case catalog_get product_id of
             None \<Rightarrow> (Inr (local_outcome [(''error'', JStr (''Product '' @ quote product_id
               @ '' does not exist in catalog''))]), w, saved)
           | Some product \<Rightarrow>
               request_tool E ''idemp_ag_'' agent mandate CREATE_ORDER (pr_price_paise product * quantity)
                 [(''product_id'', JStr product_id), (''product_name'', JStr (pr_name product)),
                  (''quantity'', JInt quantity),
                  (''customer_name'', dget_or args ''customer_name'' (JStr ''Valued Customer''))]
                 [] [(''product'', JStr (pr_name product))] saved w))"

definition payment_link_tool ::
    "env \<Rightarrow> agent \<Rightarrow> mandate \<Rightarrow> dict \<Rightarrow> world \<Rightarrow> world \<Rightarrow> (exn + tool_outcome) \<times> world \<times> world" where
  "payment_link_tool E agent mandate args saved w =
     (case paise_of (dget_or args ''amount_in_rupees'' (JInt 0)) of
        Inl e \<Rightarrow> (Inl e, w, saved)
      | Inr amount_paise \<Rightarrow>
          request_tool E ''idemp_plink_'' agent mandate CREATE_PAYMENT_LINK amount_paise
            [(''description'', dget_or args ''description'' (JStr ''Mandate Invoice'')),
             (''customer_name'', dget_or args ''customer_name'' JNull),
             (''customer_email'', dget_or args ''customer_email'' JNull)] [] [] saved w)"

definition refund_tool ::
    "env \<Rightarrow> agent \<Rightarrow> mandate \<Rightarrow> dict \<Rightarrow> world \<Rightarrow> world \<Rightarrow> (exn + tool_outcome) \<times> world \<times> world" where
  "refund_tool E agent mandate args saved w =
     (let payment_id = py_str E (dget_or args ''payment_id'' (JStr []));
          amount = (case dget_or args ''amount_in_rupees'' JNull of JNull \<Rightarrow> Inr 50000 | j \<Rightarrow> paise_of j)
      in case amount of
           Inl e \<Rightarrow> (Inl e, w, saved)
         | Inr amount_paise \<Rightarrow>
             request_tool E ''idemp_rfnd_'' agent mandate CREATE_REFUND amount_paise
               [(''payment_id'', JStr payment_id),
                (''reason'', dget_or args ''reason'' (JStr ''Customer requested refund''))]
               [(''payment_id'', JStr payment_id)] [] saved w)"

section \<open>Looking up an operation\<close>

definition settled_like :: "operation \<Rightarrow> bool" where
  "settled_like op \<longleftrightarrow> o_status op \<in> {Op_SUCCEEDED, Op_POLICY_APPROVED, Op_RESERVED}"

definition newest :: "(operation \<Rightarrow> bool) \<Rightarrow> world \<Rightarrow> operation option" where
  "newest P w = (case newest_first o_created_at (filter P (operations w)) of [] \<Rightarrow> None | op # _ \<Rightarrow> Some op)"

definition lookup_order_only :: "dict \<Rightarrow> string \<Rightarrow> bool" where
  "lookup_order_only args op_id \<longleftrightarrow> jtruthy (dget_or args ''order_only'' JNull)
     \<or> any_in [''order'', ''bought'', ''purchase'', ''item'', ''keyboard'', ''mat'', ''mouse'', ''monitor'']
         (str_lower op_id)"

definition looked_up :: "dict \<Rightarrow> string \<Rightarrow> world \<Rightarrow> operation option" where
  "looked_up args op_id w =
     (let named = (if op_id \<noteq> [] \<and> op_id \<notin> {''latest'', ''recent'', ''last'', ''op_demo_step1'', ''latest_order'', ''order''}
            then operation_by_id w op_id else None)
      in if named \<noteq> None then named
         else if lookup_order_only args op_id
         then newest (\<lambda>op. o_operation_type op = CREATE_ORDER \<and> settled_like op) w
         else newest settled_like w)"

definition sample_order :: tool_outcome where
  "sample_order = \<lparr>to_result = [(''operation_id'', JStr ''op_sample_order_01''), (''status'', JStr ''SUCCEEDED''),
       (''product'', JStr ''Keychron K2 Mechanical Keyboard''), (''amount_inr'', JStr ''Rs. 6,500.00''),
       (''operation_type'', JStr ''CREATE_ORDER''),
       (''refund_eligible'', JStr ''Yes (Within 30-day return policy window)''),
       (''created_at'', JStr ''Recorded in Mandate ledger''),
       (''note'', JStr ''Verified purchase order in ledger'')],
     to_operation_id = Some ''op_sample_order_01'', to_decision = None\<rparr>"

definition payload_product :: "operation \<Rightarrow> json" where
  "payload_product op =
     (let d = o_payload op; default = JStr (if o_operation_type op = CREATE_ORDER
            then ''Keychron K2 Mechanical Keyboard'' else ''Customer Refund'')
      in get_or d ''product_name'' (get_or d ''description'' (get_or d ''product_id'' default)))"

definition lookup_outcome :: "operation \<Rightarrow> tool_outcome" where
  "lookup_outcome op =
     (let st = operation_status_value (o_status op) in
      \<lparr>to_result = [(''operation_id'', JStr (o_operation_id op)), (''status'', JStr st),
          (''product'', payload_product op), (''amount_inr'', JStr (rupee_text (o_amount op))),
          (''operation_type'', JStr (operation_type_value (o_operation_type op))),
          (''refund_eligible'', JStr (if settled_like op then ''Yes (Within 30-day return policy window)''
             else ''No (Order status is '' @ st @ '')'')),
          (''created_at'', JStr (isoformat (o_created_at op)))],
       to_operation_id = Some (o_operation_id op), to_decision = None\<rparr>)"

definition lookup_tool :: "env \<Rightarrow> dict \<Rightarrow> world \<Rightarrow> tool_outcome" where
  "lookup_tool E args w =
     (let op_id = str_strip (py_str E (dget_or args ''operation_id'' (JStr []))) in
      case looked_up args op_id w of
        None \<Rightarrow> sample_order
      | Some op \<Rightarrow> lookup_outcome op)"

definition dispatch_agent_tool ::
    "env \<Rightarrow> agent \<Rightarrow> mandate \<Rightarrow> string \<Rightarrow> dict \<Rightarrow> world \<Rightarrow> world
       \<Rightarrow> (exn + tool_outcome) \<times> world \<times> world" where
  "dispatch_agent_tool E agent mandate tool_name args saved w =
     (if tool_name = ''browse_catalog'' then
        (bindE (execute_local_catalog_tool tool_name args) (\<lambda>d. Inr (local_outcome d)), w, saved)
      else if tool_name = ''lookup_transaction'' then (Inr (lookup_tool E args w), w, saved)
      else if tool_name = ''create_purchase_order'' then purchase_tool E agent mandate args saved w
      else if tool_name = ''create_payment_link_for_customer''
      then payment_link_tool E agent mandate args saved w
      else if tool_name = ''issue_customer_refund'' then refund_tool E agent mandate args saved w
      else (Inr (local_outcome [(''error'', JStr (''Unauthorized tool invocation '' @ quote tool_name))]),
            w, saved))"

section \<open>A turn\<close>

record turn =
  tu_messages :: "dict list"
  tu_tool_calls :: "dict list"
  tu_decisions :: "evaluation list"
  tu_operation_ids :: "string list"

record turn_result =
  rt_reply :: string
  rt_session_id :: string
  rt_tool_calls :: "dict list"
  rt_policy_decisions :: "evaluation list"
  rt_operation_ids :: "string list"

definition add_trace ::
    "env \<Rightarrow> string \<Rightarrow> agent \<Rightarrow> string \<Rightarrow> llm_response \<Rightarrow> llm_tool_call \<Rightarrow> tool_outcome \<Rightarrow> world \<Rightarrow> world"
where
  "add_trace E session_id agent user_prompt resp tc out w =
     (let (pk, w) = generate_uuid E w in
      w\<lparr>execution_traces := execution_traces w @
          [\<lparr>tr_id = pk, tr_session_id = session_id, tr_agent_id = a_id agent, tr_user_prompt = user_prompt,
            tr_model_provider = lr_provider resp, tr_model_name = lr_model resp,
            tr_tool_name = Some (tc_name tc), tr_tool_arguments = tc_arguments tc,
            tr_tool_result = to_result out, tr_operation_id = to_operation_id out,
            tr_policy_decision = map_option (policy_decision_value \<circ> r_decision) (to_decision out),
            tr_agent_response_text = [], tr_created_at = utc_now E\<rparr>]\<rparr>)"

definition record_call :: "env \<Rightarrow> llm_tool_call \<Rightarrow> tool_outcome \<Rightarrow> turn \<Rightarrow> turn" where
  "record_call E tc out t =
     t\<lparr>tu_tool_calls := tu_tool_calls t @ [[(''name'', JStr (tc_name tc)), (''arguments'', JObj (tc_arguments tc)),
          (''result'', JObj (to_result out))]],
       tu_operation_ids := tu_operation_ids t
          @ (case to_operation_id out of Some i \<Rightarrow> if i = [] then [] else [i] | None \<Rightarrow> []),
       tu_decisions := tu_decisions t @ (case to_decision out of None \<Rightarrow> [] | Some d \<Rightarrow> [d]),
       tu_messages := tu_messages t @ [[(''role'', JStr ''tool''), (''tool_call_id'', JStr (tc_id tc)),
          (''name'', JStr (tc_name tc)), (''content'', JStr (json_dumps E (JObj (to_result out))))]]\<rparr>"

text \<open>The loop over the model's tool calls; an exception leaves the rest undone.\<close>

fun run_tools ::
    "env \<Rightarrow> agent \<Rightarrow> mandate \<Rightarrow> string \<Rightarrow> string \<Rightarrow> llm_response \<Rightarrow> llm_tool_call list \<Rightarrow> turn \<Rightarrow> world \<Rightarrow> world
       \<Rightarrow> (exn + turn) \<times> world \<times> world" where
  "run_tools E agent mandate session_id user_prompt resp [] t saved w = (Inr t, w, saved)"
| "run_tools E agent mandate session_id user_prompt resp (tc # tcs) t saved w =
     (case dispatch_agent_tool E agent mandate (tc_name tc) (tc_arguments tc) saved w of
        (Inl e, w, saved) \<Rightarrow> (Inl e, w, saved)
      | (Inr out, w, saved) \<Rightarrow>
          run_tools E agent mandate session_id user_prompt resp tcs (record_call E tc out t) saved
            (add_trace E session_id agent user_prompt resp tc out w))"

definition assistant_message :: "env \<Rightarrow> llm_response \<Rightarrow> dict" where
  "assistant_message E resp =
     [(''role'', JStr ''assistant''), (''content'', jopt_str (lr_content resp)),
      (''tool_calls'', JList (map (\<lambda>tc. JObj [(''id'', JStr (tc_id tc)), (''type'', JStr ''function''),
         (''function'', JObj [(''name'', JStr (tc_name tc)),
            (''arguments'', JStr (json_dumps E (JObj (tc_arguments tc))))])]) (lr_tool_calls resp)))]"

definition agent_prompt :: "agent \<Rightarrow> string \<times> json list" where
  "agent_prompt agent =
     (if str_upper (a_agent_type agent) = ''SUPPORT'' then (SUPPORT_AGENT_SYSTEM_PROMPT, SUPPORT_AGENT_TOOLS)
      else (SHOPPING_AGENT_SYSTEM_PROMPT, SHOPPING_AGENT_TOOLS))"

definition turn_messages :: "agent \<Rightarrow> string \<Rightarrow> dict list \<Rightarrow> dict list" where
  "turn_messages agent user_prompt history =
     [[(''role'', JStr ''system''), (''content'', JStr (fst (agent_prompt agent)))]] @ history
     @ [[(''role'', JStr ''user''), (''content'', JStr user_prompt)]]"

definition finish_turn :: "string \<Rightarrow> string \<Rightarrow> turn \<Rightarrow> turn_result" where
  "finish_turn reply session_id t =
     \<lparr>rt_reply = reply, rt_session_id = session_id, rt_tool_calls = tu_tool_calls t,
      rt_policy_decisions = tu_decisions t, rt_operation_ids = tu_operation_ids t\<rparr>"

definition use_tools ::
    "env \<Rightarrow> openai_api \<Rightarrow> llm_adapter \<Rightarrow> agent \<Rightarrow> mandate \<Rightarrow> string \<Rightarrow> string \<Rightarrow> dict list \<Rightarrow> llm_response
       \<Rightarrow> world \<Rightarrow> world \<Rightarrow> (exn + turn_result) \<times> world \<times> world" where
  "use_tools E api adapter agent mandate session_id user_prompt messages resp saved w =
     (let t = \<lparr>tu_messages = messages @ [assistant_message E resp], tu_tool_calls = [], tu_decisions = [],
            tu_operation_ids = []\<rparr> in
      case run_tools E agent mandate session_id user_prompt resp (lr_tool_calls resp) t saved w of
        (Inl e, w, saved) \<Rightarrow> (Inl e, w, saved)
      | (Inr t, w, saved) \<Rightarrow>
          (case chat_completion E api adapter (tu_messages t) [] w of
             (Inl e, w) \<Rightarrow> (Inl e, w, saved)
           | (Inr final_resp, w) \<Rightarrow>
               (Inr (finish_turn (str_or (lr_content final_resp) ''Action processed successfully.'') session_id t),
                w, w)))"

definition execute_turn ::
    "env \<Rightarrow> openai_api \<Rightarrow> llm_adapter \<Rightarrow> agent \<Rightarrow> mandate \<Rightarrow> string \<Rightarrow> string option \<Rightarrow> dict list \<Rightarrow> world \<Rightarrow> world
       \<Rightarrow> (exn + turn_result) \<times> world \<times> world" where
  "execute_turn E api adapter agent mandate user_prompt session_id history saved w =
     (let (active_session, w) = (if truthy_str session_id then (the session_id, w)
            else let (h, w) = draw_uuid E w in (''sess_'' @ take 12 h, w));
          messages = turn_messages agent user_prompt history
      in case chat_completion E api adapter messages (snd (agent_prompt agent)) w of
           (Inl e, w) \<Rightarrow> (Inl e, w, saved)
         | (Inr resp, w) \<Rightarrow>
             if lr_tool_calls resp \<noteq> []
             then use_tools E api adapter agent mandate active_session user_prompt messages resp saved w
             else (Inr (finish_turn (str_or (lr_content resp) ''I am here to assist you.'') active_session
                 \<lparr>tu_messages = messages, tu_tool_calls = [], tu_decisions = [], tu_operation_ids = []\<rparr>), w, w))"

section \<open>The chat routes\<close>

record chat_request =
  cr_message :: string
  cr_session_id :: "string option"
  cr_conversation_history :: "dict list"

definition valid_chat_request :: "chat_request \<Rightarrow> bool" where
  "valid_chat_request p \<longleftrightarrow> 1 \<le> length (cr_message p) \<and> length (cr_message p) \<le> 2048"

definition chat_agent ::
    "env \<Rightarrow> string \<Rightarrow> hdr \<Rightarrow> hdr \<Rightarrow> world \<Rightarrow> exn + agent" where
  "chat_agent E agent_id x_agent_key authorization w =
     bindE (if hdr_truthy x_agent_key \<or> hdr_truthy authorization
            then authenticate_agent_caller E w x_agent_key authorization (HStr agent_id) True
            else Inr (get_agent_row w agent_id))
       (\<lambda>agent. case agent of None \<Rightarrow> Inl (HTTPException 404 ''Agent not found'') | Some a \<Rightarrow> Inr a)"

definition newest_mandate :: "(mandate \<Rightarrow> bool) \<Rightarrow> world \<Rightarrow> mandate option" where
  "newest_mandate P w = (case newest_first m_created_at (filter P (mandates w)) of [] \<Rightarrow> None | m # _ \<Rightarrow> Some m)"

text \<open>The mandate issued to an agent that has no ACTIVE one: limits and operations by agent type.\<close>

definition reissue_limits :: "agent \<Rightarrow> int \<times> int \<times> string list" where
  "reissue_limits agent =
     (if str_upper (a_agent_type agent) = ''SUPPORT'' then (500000, 2500000, [''CREATE_REFUND''])
      else if str_upper (a_agent_type agent) = ''SHOPPING''
      then (2500000, 10000000, [''CREATE_ORDER'', ''CREATE_PAYMENT_LINK''])
      else (1000000, 1500000, [''CREATE_ORDER'']))"

definition reissued_mandate :: "env \<Rightarrow> agent \<Rightarrow> mandate option \<Rightarrow> string \<Rightarrow> mandate" where
  "reissued_mandate E agent prev_mandate h =
     (let (max_op, agg_limit, allowed_ops) = reissue_limits agent in
      \<lparr>m_id = ''mnd_'' @ str_lower (a_agent_type agent) @ ''_'' @ take 8 h, m_agent_id = a_id agent,
       m_granted_by_id = a_owner_id agent, m_parent_mandate_id = None,
       m_delegation_depth = (case prev_mandate of None \<Rightarrow> 0 | Some m \<Rightarrow> m_delegation_depth m),
       m_max_delegation_depth = 2, m_status = Mandate_ACTIVE, m_currency = ''INR'',
       m_max_amount_per_op = max_op, m_aggregate_spend_limit = agg_limit, m_current_aggregate_spend = 0,
       m_reserved_spend = 0, m_delegated_child_budget_allocated = 0, m_review_threshold_amount = None,
       m_allowed_operations = allowed_ops, m_policy_config = [], m_suspension_reason = None, m_version = 1,
       m_valid_from = utc_now E, m_valid_until = Aware (now_us E + 30 * 86400 * sec) 0,
       m_created_at = utc_now E\<rparr>)"

definition chat_mandate :: "env \<Rightarrow> agent \<Rightarrow> world \<Rightarrow> (exn + mandate) \<times> world" where
  "chat_mandate E agent w =
     (case newest_mandate (\<lambda>m. m_agent_id m = a_id agent \<and> m_status m = Mandate_ACTIVE) w of
        Some m \<Rightarrow> (Inr m, w)
      | None \<Rightarrow>
          let prev_mandate = newest_mandate (\<lambda>m. m_agent_id m = a_id agent) w;
              (h, w) = draw_uuid E w;
              m = reissued_mandate E agent prev_mandate h
          in if m_id m \<in> m_id ` set (mandates w) then (Inl DatabaseError, w)
             else (Inr m, w\<lparr>mandates := mandates w @ [m]\<rparr>))"

definition chat_with_agent ::
    "env \<Rightarrow> openai_api \<Rightarrow> llm_adapter option \<Rightarrow> string \<Rightarrow> chat_request \<Rightarrow> hdr \<Rightarrow> hdr \<Rightarrow> world
       \<Rightarrow> (exn + turn_result) \<times> world" where
  "chat_with_agent E api default_llm_adapter agent_id payload x_agent_key authorization w0 =
     (case chat_agent E agent_id x_agent_key authorization w0 of
        Inl e \<Rightarrow> (Inl e, w0)
      | Inr agent \<Rightarrow>
          (case chat_mandate E agent w0 of
             (Inl e, w) \<Rightarrow> (Inl e, rollback w0 w)
           | (Inr mandate, w) \<Rightarrow>
               let adapter = (case default_llm_adapter of Some a \<Rightarrow> a | None \<Rightarrow> get_llm_adapter E None)
               in (case execute_turn E api adapter agent mandate (cr_message payload) (cr_session_id payload)
                         (cr_conversation_history payload) w0 w of
                     (Inl e, w, saved) \<Rightarrow> (Inl e, rollback saved w)
                   | (Inr result, w, _) \<Rightarrow> (Inr result, w))))"

definition list_agent_traces :: "string \<Rightarrow> string option \<Rightarrow> nat \<Rightarrow> world \<Rightarrow> execution_trace list" where
  "list_agent_traces agent_id session_id limit w =
     take limit (newest_first tr_created_at
       (filter (\<lambda>t. tr_agent_id t = agent_id \<and> (truthy_str session_id \<longrightarrow> tr_session_id t = the session_id))
         (execution_traces w)))"

section \<open>Collaborative procurement\<close>

record commerce_result =
  cc_order_id :: "string option"
  cc_operation_id :: string
  cc_policy_decision :: string
  cc_risk_score :: rat
  cc_shopping_agent_id :: string
  cc_procurement_agent_id :: string
  cc_total_amount_paise :: int
  cc_details :: dict

definition procurement_payload :: "agent \<Rightarrow> product \<Rightarrow> int \<Rightarrow> string \<Rightarrow> rat \<Rightarrow> dict" where
  "procurement_payload shopping_agent product quantity customer_name risk_score =
     [(''product_id'', JStr (pr_id product)), (''product_name'', JStr (pr_name product)),
      (''quantity'', JInt quantity), (''customer_name'', JStr customer_name),
      (''delegated_by_agent_id'', JStr (a_id shopping_agent)), (''risk_agent_score'', JFloat risk_score),
      (''risk_passed'', JBool (risk_score < 1 / 2))]"

definition execute_procurement_flow ::
    "env \<Rightarrow> agent \<Rightarrow> agent \<Rightarrow> mandate \<Rightarrow> string \<Rightarrow> int \<Rightarrow> string \<Rightarrow> world \<Rightarrow> (exn + commerce_result) \<times> world" where
  "execute_procurement_flow E shopping_agent procurement_agent child_mandate product_id quantity customer_name w =
     (case catalog_get product_id of
        None \<Rightarrow> (Inl (ValueError (''Product '' @ quote product_id @ '' not found in catalog'')), w)
      | Some product \<Rightarrow>
          let total_amount = pr_price_paise product * quantity;
              risk_score = binary64 (if total_amount \<le> m_max_amount_per_op child_mandate then 5 / 100 else 85 / 100);
              (h, w) = draw_uuid E w
          in (case agent_operation_create (''idemp_collab_'' @ h) procurement_agent child_mandate CREATE_ORDER
                 total_amount (procurement_payload shopping_agent product quantity customer_name risk_score) of
                Inl e \<Rightarrow> (Inl e, w)
              | Inr op_req \<Rightarrow>
                  let (r, w) = request_financial_operation E op_req HDefault HDefault HDefault w
                  in (bindE r (\<lambda>op.
                        bindE (one_or_none (filter (\<lambda>t. t_operation_id t = o_id op) (transactions w))) (\<lambda>tx.
                          Inr \<lparr>cc_order_id = Option.bind tx t_gateway_order_id,
                            cc_operation_id = o_operation_id op, cc_policy_decision = decision_text op,
                            cc_risk_score = risk_score, cc_shopping_agent_id = a_id shopping_agent,
                            cc_procurement_agent_id = a_id procurement_agent,
                            cc_total_amount_paise = total_amount,
                            cc_details = [(''product'', JStr (pr_name product)), (''quantity'', JInt quantity),
                              (''customer'', JStr customer_name),
                              (''status'', JStr (operation_status_value (o_status op))),
                              (''error_message'', jopt_str (o_error_message op))]\<rparr>)), w)))"

definition commerce_result_dict :: "commerce_result \<Rightarrow> dict" where
  "commerce_result_dict r =
     [(''order_id'', jopt_str (cc_order_id r)), (''operation_id'', JStr (cc_operation_id r)),
      (''policy_decision'', JStr (cc_policy_decision r)), (''risk_score'', JFloat (cc_risk_score r)),
      (''shopping_agent_id'', JStr (cc_shopping_agent_id r)),
      (''procurement_agent_id'', JStr (cc_procurement_agent_id r)),
      (''total_amount_inr'', JStr (rupee_text (cc_total_amount_paise r))), (''details'', JObj (cc_details r))]"

section \<open>What a turn changes\<close>

text \<open>Drawing identifiers and storing traces.\<close>

definition traced :: "world \<Rightarrow> world \<Rightarrow> bool" where
  "traced w w' \<longleftrightarrow> (\<exists>n ts. w' = w\<lparr>uuid_count := n, execution_traces := execution_traces w @ ts\<rparr>)"

lemma traced_refl [simp]: "traced w w"
  unfolding traced_def by (rule exI [of _ "uuid_count w"], rule exI [of _ "[]"]) simp

lemma traced_trans: "traced a b \<Longrightarrow> traced b c \<Longrightarrow> traced a c"
  by (fastforce simp: traced_def)

lemma traced_draw [simp]: "traced w (snd (draw_uuid E w))" "traced w (snd (generate_uuid E w))"
  unfolding traced_def
  by (rule exI [of _ "Suc (uuid_count w)"], rule exI [of _ "[]"],
      simp add: draw_uuid_def generate_uuid_def)+

lemma traced_add_trace [simp]: "traced w (add_trace E s a u r tc out w)"
  unfolding traced_def add_trace_def by (auto simp: draw_uuid_def generate_uuid_def)

lemma traced_tables:
  "traced w w' \<Longrightarrow> mandates w' = mandates w \<and> operations w' = operations w \<and> transactions w' = transactions w
     \<and> agents w' = agents w \<and> gateway_calls w' = gateway_calls w \<and> http_log w' = http_log w"
  by (auto simp: traced_def)

lemma traced_mock: "mock_chat_completion E pre ms w = (r, w') \<Longrightarrow> traced w w'"
proof -
  have "traced w (snd (parse_semantic_intent E t w))" for t
    by (simp add: parse_semantic_intent_def case_prod_unfold Let_def split: intent.split)
  then show "mock_chat_completion E pre ms w = (r, w') \<Longrightarrow> traced w w'"
    by (auto simp: mock_chat_completion_def split: if_splits prod.splits sum.splits)
      (metis snd_conv)+
qed

lemma traced_completion: "chat_completion E api ad ms tools w = (r, w') \<Longrightarrow> traced w w'"
  using traced_mock
  by (auto simp: chat_completion_def openai_chat_completion_def
      split: llm_adapter.splits if_splits openai_outcome.splits)

lemma agent_operation_create_Inr:
  "agent_operation_create k a m ty n d = Inr p \<Longrightarrow> valid_operation_create p \<and> oc_agent_id p = a_id a
     \<and> oc_mandate_id p = m_id m \<and> oc_operation_type p = ty \<and> oc_amount p = n"
  by (auto simp: agent_operation_create_def Let_def split: if_splits)

text \<open>A tool call stores nothing, or is one request of the agent under the mandate.\<close>

definition requested :: "env \<Rightarrow> agent \<Rightarrow> mandate \<Rightarrow> world \<Rightarrow> world \<Rightarrow> bool" where
  "requested E a m v w' \<longleftrightarrow> (\<exists>p. valid_operation_create p \<and> oc_agent_id p = a_id a \<and> oc_mandate_id p = m_id m
     \<and> w' = snd (request_financial_operation E p HDefault HDefault HDefault v))"

lemma request_tool_cases:
  assumes "request_tool E pre a m ty n d b c saved w = (r, w', saved')"
  shows "(traced w w' \<and> saved' = saved)
    \<or> (\<exists>v. traced w v \<and> requested E a m v w' \<and> (saved' = saved \<or> saved' = w'))"
proof -
  obtain h v where h: "draw_uuid E w = (h, v)" by (cases "draw_uuid E w")
  then have v: "traced w v" using traced_draw(1) [where w = w and E = E] by simp
  show ?thesis
  proof (cases "agent_operation_create (pre @ h) a m ty n d")
    case (Inl e)
    with assms h v show ?thesis by (simp add: request_tool_def)
  next
    case (Inr p)
    obtain q u where q: "request_financial_operation E p HDefault HDefault HDefault v = (q, u)"
      by (cases "request_financial_operation E p HDefault HDefault HDefault v")
    with assms h Inr have "w' = u" "saved' = saved \<or> saved' = u"
      by (auto simp: request_tool_def agent_request_def Let_def split: sum.splits if_splits)
    moreover have "requested E a m v u"
      unfolding requested_def using agent_operation_create_Inr [OF Inr] q by (intro exI [of _ p]) simp
    ultimately show ?thesis using v by blast
  qed
qed

lemma dispatch_tool_cases:
  assumes "dispatch_agent_tool E a m name args saved w = (r, w', saved')"
  shows "(traced w w' \<and> saved' = saved)
    \<or> (\<exists>v. traced w v \<and> requested E a m v w' \<and> (saved' = saved \<or> saved' = w'))"
  using assms request_tool_cases
  by (auto simp: dispatch_agent_tool_def purchase_tool_def payment_link_tool_def refund_tool_def Let_def
      split: if_splits sum.splits option.splits)

text \<open>
  The interface a property of turns needs: a relation that only looks at the mandates and
  operations, is reflexive and transitive, and holds across a request in the agent's name under
  its mandate, holds across every turn, for the state it ends in and for the one its last commit
  left, when the turn committed anything.
\<close>

locale turn_relation =
  fixes R :: "agent \<Rightarrow> mandate \<Rightarrow> world \<Rightarrow> world \<Rightarrow> bool"
  assumes same: "mandates w' = mandates w \<Longrightarrow> operations w' = operations w \<Longrightarrow> R a m w w'"
    and step: "R a m u v \<Longrightarrow> R a m v w \<Longrightarrow> R a m u w"
    and request: "requested E a m v w \<Longrightarrow> R a m v w"
begin

lemma across_traced: "R a m u v \<Longrightarrow> traced v w \<Longrightarrow> R a m u w"
  using step [of a m u v w] same [of w v a m] traced_tables by blast

lemma across_tool:
  assumes "dispatch_agent_tool E a m name args saved w = (r, w', saved')" and "R a m u w"
  shows "R a m u w' \<and> (saved' = saved \<or> R a m u saved')"
  using dispatch_tool_cases [OF assms(1)] assms(2) across_traced [of a m u w] request [of E a m _ w'] step
  by blast

lemma across_tools:
  assumes "run_tools E a m s p resp tcs t saved w = (r, w', saved')" and "R a m u w"
  shows "R a m u w' \<and> (saved' = saved \<or> R a m u saved')"
  using assms
proof (induction E a m s p resp tcs t saved w rule: run_tools.induct)
  case (2 E a m s p resp tc tcs t saved w)
  obtain q v sv where d: "dispatch_agent_tool E a m (tc_name tc) (tc_arguments tc) saved w = (q, v, sv)"
    by (cases "dispatch_agent_tool E a m (tc_name tc) (tc_arguments tc) saved w")
  note v = across_tool [OF d 2(3)]
  show ?case
  proof (cases q)
    case (Inl e)
    with 2(2) d v show ?thesis by simp
  next
    case (Inr out)
    have "R a m u (add_trace E s a p resp tc out v)"
      using across_traced [OF v [THEN conjunct1]] traced_add_trace by blast
    moreover from 2(2) d Inr have "run_tools E a m s p resp tcs (record_call E tc out t) sv
        (add_trace E s a p resp tc out v) = (r, w', saved')" by simp
    ultimately show ?thesis using 2(1) [OF d [symmetric] Inr refl] v by blast
  qed
qed simp

lemma across_turn:
  assumes "execute_turn E api ad a m prompt sid h saved w = (r, w', saved')" and "R a m u w"
  shows "R a m u w' \<and> (saved' = saved \<or> R a m u saved')"
proof -
  let ?msgs = "turn_messages a prompt h"
  obtain d dv where draw: "draw_uuid E w = (d, dv)" by (cases "draw_uuid E w")
  define v where "v = (if truthy_str sid then w else dv)"
  define ses where "ses = (if truthy_str sid then the sid else ''sess_'' @ take 12 d)"
  have "traced w dv" using traced_draw(1) [where w = w and E = E] draw by simp
  then have "traced w v" by (simp add: v_def)
  with assms(2) have v: "R a m u v" by (rule across_traced)
  obtain c x where c: "chat_completion E api ad ?msgs (snd (agent_prompt a)) v = (c, x)"
    by (cases "chat_completion E api ad ?msgs (snd (agent_prompt a)) v")
  from across_traced [OF v traced_completion [OF this]] have x: "R a m u x" .
  have run: "(case c of Inl e \<Rightarrow> (Inl e, x, saved)
     | Inr resp \<Rightarrow> if lr_tool_calls resp \<noteq> [] then use_tools E api ad a m ses prompt ?msgs resp saved x
         else (Inr (finish_turn (str_or (lr_content resp) ''I am here to assist you.'') ses
             \<lparr>tu_messages = ?msgs, tu_tool_calls = [], tu_decisions = [], tu_operation_ids = []\<rparr>), x, x)) = (r, w', saved')"
    using assms(1) c draw unfolding v_def ses_def
    by (cases c; cases "truthy_str sid") (auto simp: execute_turn_def Let_def split: if_splits)
  have tools: "R a m u w' \<and> (saved' = saved \<or> R a m u saved')"
    if "use_tools E api ad a m ses prompt ?msgs resp saved x = (r, w', saved')" for resp
  proof -
    let ?t = "\<lparr>tu_messages = ?msgs @ [assistant_message E resp], tu_tool_calls = [], tu_decisions = [],
      tu_operation_ids = []\<rparr>"
    obtain q y sv where q: "run_tools E a m ses prompt resp (lr_tool_calls resp) ?t saved x = (q, y, sv)"
      by (cases "run_tools E a m ses prompt resp (lr_tool_calls resp) ?t saved x")
    have y: "R a m u y \<and> (sv = saved \<or> R a m u sv)" using across_tools [OF q x] .
    show ?thesis
    proof (cases q)
      case (Inl e)
      with that q y show ?thesis by (simp add: use_tools_def)
    next
      case (Inr t)
      obtain f z where f: "chat_completion E api ad (tu_messages t) [] y = (f, z)"
        by (cases "chat_completion E api ad (tu_messages t) [] y")
      with y traced_completion have "R a m u z" using across_traced by blast
      with that q Inr f y show ?thesis by (auto simp: use_tools_def split: sum.splits)
    qed
  qed
  show ?thesis
    using run x tools by (auto split: sum.splits if_splits)
qed

end

definition ledger_reaches :: "agent \<Rightarrow> mandate \<Rightarrow> world \<Rightarrow> world \<Rightarrow> bool" where
  "ledger_reaches a m w w' \<longleftrightarrow> (books_ok w \<longrightarrow> ledger_steps (lview w) (lview w'))"

interpretation ledger_turn: turn_relation ledger_reaches
proof unfold_locales
  fix w w' :: world and a m
  assume "mandates w' = mandates w" and "operations w' = operations w"
  then show "ledger_reaches a m w w'" using lview_cong [of w' w] by (simp add: ledger_reaches_def)
next
  fix a m u v w
  assume "ledger_reaches a m u v" and "ledger_reaches a m v w"
  then show "ledger_reaches a m u w"
    using books_ok_steps [of u v] by (auto simp: ledger_reaches_def)
next
  fix E a m v w
  assume "requested E a m v w"
  then show "ledger_reaches a m v w"
    using request_ledger [of v] by (auto simp: ledger_reaches_def requested_def valid_operation_create_def)
qed

text \<open>
  The terms of a mandate: its row without the two amounts and the version, which is all a request
  changes of it.
\<close>

definition terms_of :: "mandate \<Rightarrow> mandate" where
  "terms_of m = m\<lparr>m_current_aggregate_spend := 0, m_reserved_spend := 0, m_version := 0\<rparr>"

lemma terms_reserve:
  "reserve_budget k n w = (b, w') \<Longrightarrow> map terms_of (mandates w') = map terms_of (mandates w)"
  by (auto simp: reserve_budget_def Let_def inc_metric_def terms_of_def add_reserved_def)

lemma terms_budget:
  "map terms_of (mandates (commit_budget k n b w)) = map terms_of (mandates w)"
  "map terms_of (mandates (release_budget k n w)) = map terms_of (mandates w)"
  by (auto simp: commit_budget_def release_budget_def upd_mandate_def terms_of_def intro!: map_tupd_same)

lemma terms_execute:
  "map terms_of (mandates (execute_gateway_operation E k op p w)) = map terms_of (mandates w)"
proof -
  obtain r w1 where r: "dispatch E k op p w = (r, w1)" by (cases "dispatch E k op p w")
  from dispatch_result [OF r] obtain s b where "dispatched k op s b w w1" by blast
  then have "map terms_of (mandates w1) = map terms_of (mandates w)"
    by (simp add: dispatched_def terms_budget)
  with r show ?thesis
    by (cases r) (simp_all add: execute_gateway_operation_def Let_def terms_budget)
qed

lemma terms_request:
  assumes "request_financial_operation E p k au i w = (r, w')"
  shows "map terms_of (mandates w') = map terms_of (mandates w)"
  using assms
proof (cases rule: request_cases)
  case (went_on op res w1 b w2)
  from reserve_operation_cases [OF went_on(4)] obtain w3 where
    "reserve_budget (oc_mandate_id p) (oc_amount p) w1 = (b, w3)" and "mandates w2 = mandates w3"
    by (auto simp: quiet_def)
  with terms_reserve went_on(3) have "map terms_of (mandates w2) = map terms_of (mandates w)"
    by (auto simp: quiet_def)
  with went_on(5) show ?thesis
    by (auto simp: dispatch_reserved_def terms_execute split: option.split)
qed (auto simp: quiet_def)

text \<open>
  Every stored operation keeps its row, every new one is the agent's, under the mandate, and no
  mandate changes its terms.
\<close>

definition acts_for :: "agent \<Rightarrow> mandate \<Rightarrow> world \<Rightarrow> world \<Rightarrow> bool" where
  "acts_for a m w w' \<longleftrightarrow>
     (\<forall>i op. tget o_id i (operations w) = Some op \<longrightarrow> tget o_id i (operations w') = Some op)
     \<and> (\<forall>i op. tget o_id i (operations w) = None \<longrightarrow> tget o_id i (operations w') = Some op \<longrightarrow>
          o_agent_id op = a_id a \<and> o_mandate_id op = m_id m \<and> 0 < o_amount op)
     \<and> map terms_of (mandates w') = map terms_of (mandates w)"

lemma acts_for_request:
  assumes "requested E a m v w"
  shows "acts_for a m v w"
proof -
  from assms obtain p q where p: "valid_operation_create p" "oc_agent_id p = a_id a" "oc_mandate_id p = m_id m"
    and q: "request_financial_operation E p HDefault HDefault HDefault v = (q, w)"
    by (auto simp: requested_def) (metis prod.collapse)
  note terms = terms_request [OF q]
  from request_writes [OF q] show ?thesis
  proof
    assume "operations w = operations v \<and> gateway_calls w = gateway_calls v"
    with terms show ?thesis by (simp add: acts_for_def)
  next
    assume "\<exists>op. wrote_operation v w op \<and> o_agent_id op = oc_agent_id p \<and> o_mandate_id op = oc_mandate_id p
      \<and> o_amount op = oc_amount p"
    then obtain op where op: "wrote_operation v w op" "o_agent_id op = a_id a" "o_mandate_id op = m_id m"
      "0 < o_amount op" using p by (auto simp: valid_operation_create_def)
    have new: "tget o_id (o_id op) (operations v) = None" using op(1) by (simp add: wrote_operation_def tget_None_iff)
    show ?thesis unfolding acts_for_def
    proof (intro conjI allI impI)
      fix i x assume "tget o_id i (operations v) = Some x"
      with op(1) new show "tget o_id i (operations w) = Some x"
        by (cases "i = o_id op") (auto simp: wrote_operation_def)
    next
      fix i x assume "tget o_id i (operations v) = None" and "tget o_id i (operations w) = Some x"
      with op(1) have "x = op" by (cases "i = o_id op") (auto simp: wrote_operation_def)
      with op show "o_agent_id x = a_id a" "o_mandate_id x = m_id m" "0 < o_amount x" by simp_all
    qed (rule terms)
  qed
qed

interpretation acting_turn: turn_relation acts_for
proof unfold_locales
  fix a m u v w
  assume uv: "acts_for a m u v" and vw: "acts_for a m v w"
  show "acts_for a m u w" unfolding acts_for_def
  proof (intro conjI allI impI)
    fix i x assume "tget o_id i (operations u) = Some x"
    then show "tget o_id i (operations w) = Some x" using uv vw by (simp add: acts_for_def)
  next
    fix i x assume "tget o_id i (operations u) = None" and w: "tget o_id i (operations w) = Some x"
    then show "o_agent_id x = a_id a" "o_mandate_id x = m_id m" "0 < o_amount x"
      using uv vw unfolding acts_for_def by (cases "tget o_id i (operations v)"; force)+
  qed (use uv vw in \<open>simp add: acts_for_def\<close>)
qed (simp add: acts_for_def, rule acts_for_request)

section \<open>The chat route\<close>

lemma rollback_tables: "mandates (rollback v w) = mandates v" "operations (rollback v w) = operations v"
  by (simp_all add: rollback_def)

lemma acts_for_rollback: "acts_for a m u (rollback v w) = acts_for a m u v"
  by (simp add: acts_for_def rollback_tables)

lemma chat_agent_Inr:
  assumes "chat_agent E i k au w = Inr a"
  shows "a \<in> set (agents w) \<and> (i \<noteq> [] \<longrightarrow> a_id a = i)"
proof -
  consider "authenticate_agent_caller E w k au (HStr i) True = Inr (Some a)" | "get_agent_row w i = Some a"
    using assms by (auto simp: chat_agent_def bindE_Inr_iff split: if_splits option.splits)
  then show ?thesis by cases (auto dest: authenticate_SomeD tget_SomeD)
qed

lemma newest_first_Nil: "newest_first f rows = [] \<longleftrightarrow> rows = []"
  unfolding newest_first_def by (metis set_empty set_sort)

text \<open>The mandate of a turn: the agent's newest ACTIVE one, or a new one issued on the spot.\<close>

lemma chat_mandate_cases:
  assumes "chat_mandate E a w = (r, w')"
  obtains (found) m where "r = Inr m" "w' = w" "m \<in> set (mandates w)" "m_agent_id m = a_id a"
      "m_status m = Mandate_ACTIVE"
  | (failed) "r = Inl DatabaseError" "traced w w'"
  | (issued) m h where "r = Inr m" "m = reissued_mandate E a (newest_mandate (\<lambda>m. m_agent_id m = a_id a) w) h"
      "m_id m \<notin> m_id ` set (mandates w)"
      "\<forall>x \<in> set (mandates w). m_agent_id x = a_id a \<longrightarrow> m_status x \<noteq> Mandate_ACTIVE"
      "w' = (snd (draw_uuid E w))\<lparr>mandates := mandates w @ [m]\<rparr>"
proof (cases "newest_mandate (\<lambda>m. m_agent_id m = a_id a \<and> m_status m = Mandate_ACTIVE) w")
  case (Some m)
  then have "m \<in> set (newest_first m_created_at
      (filter (\<lambda>m. m_agent_id m = a_id a \<and> m_status m = Mandate_ACTIVE) (mandates w)))"
    by (auto simp: newest_mandate_def split: list.splits)
  with assms Some show ?thesis by (intro found [of m]) (auto simp: chat_mandate_def newest_first_def)
next
  case None
  have "filter (\<lambda>m. m_agent_id m = a_id a \<and> m_status m = Mandate_ACTIVE) (mandates w) = []"
    using None by (auto simp: newest_mandate_def newest_first_Nil split: list.splits)
  then have none: "\<forall>x \<in> set (mandates w). m_agent_id x = a_id a \<longrightarrow> m_status x \<noteq> Mandate_ACTIVE"
    by (simp add: filter_empty_conv)
  let ?p = "newest_mandate (\<lambda>m. m_agent_id m = a_id a) w"
  obtain h v where h: "draw_uuid E w = (h, v)" by (cases "draw_uuid E w")
  have v: "mandates v = mandates w" "traced w v"
    using h traced_draw(1) [where w = w and E = E] by (auto simp: draw_uuid_def)
  show ?thesis
  proof (cases "m_id (reissued_mandate E a ?p h) \<in> m_id ` set (mandates w)")
    case True
    with assms None h v show ?thesis by (intro failed) (simp_all add: chat_mandate_def Let_def)
  next
    case False
    with assms None h v none show ?thesis
      by (intro issued [of "reissued_mandate E a ?p h" h]) (simp_all add: chat_mandate_def Let_def)
  qed
qed

lemma reissued_fields:
  "m_agent_id (reissued_mandate E a p h) = a_id a" "m_status (reissued_mandate E a p h) = Mandate_ACTIVE"
  "m_current_aggregate_spend (reissued_mandate E a p h) = 0" "m_reserved_spend (reissued_mandate E a p h) = 0"
  "m_parent_mandate_id (reissued_mandate E a p h) = None"
  "0 < m_aggregate_spend_limit (reissued_mandate E a p h)"
  "m_review_threshold_amount (reissued_mandate E a p h) = None"
  by (simp_all add: reissued_mandate_def reissue_limits_def)

text \<open>A chat that gets as far as a turn, and the states it may end in.\<close>

lemma chat_cases:
  assumes "chat_with_agent E api d i p k au w = (r, w')"
  obtains (stopped) "mandates w' = mandates w" "operations w' = operations w" "transactions w' = transactions w"
      "gateway_calls w' = gateway_calls w" "http_log w' = http_log w" "\<exists>e. r = Inl e"
  | (turn) a m v t y saved where "chat_agent E i k au w = Inr a" "chat_mandate E a w = (Inr m, v)"
      "execute_turn E api (case d of Some a \<Rightarrow> a | None \<Rightarrow> get_llm_adapter E None) a m (cr_message p)
         (cr_session_id p) (cr_conversation_history p) w v = (t, y, saved)"
      "r = t" "w' = (case t of Inl e \<Rightarrow> rollback saved y | Inr x \<Rightarrow> y)"
proof (cases "chat_agent E i k au w")
  case (Inl e)
  with assms show ?thesis by (intro stopped) (auto simp: chat_with_agent_def)
next
  case (Inr a)
  obtain q v where q: "chat_mandate E a w = (q, v)" by (cases "chat_mandate E a w")
  show ?thesis
  proof (cases q)
    case (Inl e)
    with q have "traced w v" by (auto elim!: chat_mandate_cases)
    with assms Inr q Inl show ?thesis
      by (intro stopped) (auto simp: chat_with_agent_def rollback_def dest: traced_tables)
  next
    case (Inr m)
    obtain t y saved where t: "execute_turn E api (case d of Some a \<Rightarrow> a | None \<Rightarrow> get_llm_adapter E None) a m
        (cr_message p) (cr_session_id p) (cr_conversation_history p) w v = (t, y, saved)"
      by (metis prod_cases3)
    with assms Inr q \<open>chat_agent E i k au w = Inr a\<close> show ?thesis
      by (intro turn [OF _ _ t]) (auto simp: chat_with_agent_def Let_def split: sum.splits)
  qed
qed

lemma chat_ledger:
  assumes ok: "books_ok w" and run: "chat_with_agent E api d i p k au w = (r, w')"
  shows "ledger_steps (lview w) (lview w')"
  using run
proof (cases rule: chat_cases)
  case stopped
  then show ?thesis using lview_cong [of w' w] by simp
next
  case (turn a m v t y saved)
  have "ledger_reaches a m w v"
    using turn(2)
  proof (cases rule: chat_mandate_cases)
    case (issued m' h)
    have "ledger_step (lview w) (lview (w\<lparr>mandates := mandates w @ [m']\<rparr>))"
      using issued(2,3) reissued_fields [of E a] by (intro add_mandate_step) (simp_all add: less_imp_le)
    moreover have "lview v = lview (w\<lparr>mandates := mandates w @ [m']\<rparr>)"
      using issued(5) by (intro lview_cong) (simp_all add: draw_uuid_def)
    ultimately show ?thesis by (simp add: ledger_reaches_def r_into_rtranclp)
  qed (auto simp: ledger_reaches_def)
  moreover have "ledger_reaches a m w w" by (simp add: ledger_reaches_def)
  ultimately have "ledger_reaches a m w y" "ledger_reaches a m w saved"
    using ledger_turn.across_turn [OF turn(3), of w] by auto
  with ok turn(5) show ?thesis
    using lview_cong [of "rollback saved y" saved] by (auto simp: ledger_reaches_def rollback_tables split: sum.splits)
qed

section \<open>Prompts that inspect\<close>

lemma str_lower_idem: "str_lower (str_lower s) = str_lower s"
proof -
  have "char_lower (char_lower c) = char_lower c" for c
  proof (cases "65 \<le> (of_char c :: nat) \<and> (of_char c :: nat) \<le> 90")
    case True
    then have "(of_char (char_lower c) :: nat) = of_char c + 32" by (simp add: char_lower_def)
    with True show ?thesis by (simp add: char_lower_def [of "char_lower c"])
  qed (auto simp: char_lower_def)
  then show ?thesis by (simp add: str_lower_def)
qed

lemma last_user_turn: "last_user_text E (turn_messages a prompt h) = str_lower prompt"
  by (simp add: last_user_text_def turn_messages_def message_role_def message_text_def dget_or_def
      dict_simps py_str_def)

lemma inspection_intent:
  assumes "any_in inspection_phrases (str_strip (str_lower s))"
  shows "(\<exists>reply. intent_of s = Reply reply) \<or> (\<exists>pre args. intent_of s = Tool pre ''lookup_transaction'' args)"
  using assms by (auto simp: intent_of_def Let_def)

lemma traced_lookups:
  "\<forall>tc \<in> set tcs. tc_name tc = ''lookup_transaction''
    \<Longrightarrow> \<exists>t' y. run_tools E a m s p resp tcs t saved w = (Inr t', y, saved) \<and> traced w y"
proof (induction tcs arbitrary: t w)
  case (Cons tc tcs)
  let ?out = "lookup_tool E (tc_arguments tc) w"
  have d: "dispatch_agent_tool E a m (tc_name tc) (tc_arguments tc) saved w = (Inr ?out, w, saved)"
    using Cons.prems by (simp add: dispatch_agent_tool_def)
  from Cons.IH [of "record_call E tc ?out t" "add_trace E s a p resp tc ?out w"] Cons.prems obtain t' y
    where "run_tools E a m s p resp tcs (record_call E tc ?out t) saved (add_trace E s a p resp tc ?out w)
        = (Inr t', y, saved)"
      and "traced (add_trace E s a p resp tc ?out w) y" by auto
  with d traced_trans [OF traced_add_trace] show ?case by (auto simp del: traced_add_trace)
qed simp

lemma inspection_turn:
  assumes "any_in inspection_phrases (str_strip (str_lower prompt))"
    and "execute_turn E api (Mock_Adapter []) a m prompt sid h saved w = (r, w', saved')"
  shows "traced w w' \<and> (saved' = saved \<or> saved' = w')"
proof -
  let ?msgs = "turn_messages a prompt h"
  obtain d dv where draw: "draw_uuid E w = (d, dv)" by (cases "draw_uuid E w")
  define v where "v = (if truthy_str sid then w else dv)"
  define ses where "ses = (if truthy_str sid then the sid else ''sess_'' @ take 12 d)"
  have "traced w v" using traced_draw(1) [where w = w and E = E] draw by (simp add: v_def)
  have last: "last ?msgs = [(''role'', JStr ''user''), (''content'', JStr prompt)]" "?msgs \<noteq> []"
    by (simp_all add: turn_messages_def)
  have "any_in inspection_phrases (str_strip (str_lower (str_lower prompt)))"
    using assms(1) by (simp add: str_lower_idem)
  note intent = inspection_intent [OF this]
  obtain c x where c: "chat_completion E api (Mock_Adapter []) ?msgs (snd (agent_prompt a)) v = (c, x)"
    by (cases "chat_completion E api (Mock_Adapter []) ?msgs (snd (agent_prompt a)) v")
  have x: "traced w x" using traced_trans [OF \<open>traced w v\<close> traced_completion [OF c]] .
  have calls: "\<exists>resp. c = Inr resp \<and> (\<forall>tc \<in> set (lr_tool_calls resp). tc_name tc = ''lookup_transaction'')"
    using c intent
    by (auto simp: chat_completion_def mock_chat_completion_def last message_role_def dget_or_def dict_simps
        last_user_turn parse_semantic_intent_def mock_response_def case_prod_unfold Let_def)
  then obtain resp where resp: "c = Inr resp" "\<forall>tc \<in> set (lr_tool_calls resp). tc_name tc = ''lookup_transaction''"
    by blast
  have run: "w' = x \<and> saved' = x
      \<or> use_tools E api (Mock_Adapter []) a m ses prompt ?msgs resp saved x = (r, w', saved')"
    using assms(2) c draw resp(1) unfolding v_def ses_def
    by (cases "truthy_str sid") (auto simp: execute_turn_def Let_def split: if_splits)
  let ?t = "\<lparr>tu_messages = ?msgs @ [assistant_message E resp], tu_tool_calls = [], tu_decisions = [],
    tu_operation_ids = []\<rparr>"
  from traced_lookups [OF resp(2)] obtain t y where
    q: "run_tools E a m ses prompt resp (lr_tool_calls resp) ?t saved x = (Inr t, y, saved)" and "traced x y"
    by blast
  note y = traced_trans [OF x \<open>traced x y\<close>]
  obtain f z where f: "chat_completion E api (Mock_Adapter []) (tu_messages t) [] y = (f, z)"
    by (cases "chat_completion E api (Mock_Adapter []) (tu_messages t) [] y")
  from run show ?thesis
    using traced_trans [OF y traced_completion [OF f]] q f x by (auto simp: use_tools_def split: sum.splits)
qed

section \<open>Properties\<close>

text \<open>
  C25: Whatever the model answers, a chat acts for its agent only, under one ACTIVE mandate of that
  agent. Either it changes no operation, or there is a mandate \<open>m\<close>, granted to the agent of the
  route and ACTIVE, which is a stored row, or was issued by this chat under a fresh id because the
  agent had no ACTIVE one, such that every operation stored before keeps its row, every operation
  the chat stored belongs to that agent, under \<open>m\<close>, with a positive amount, and the mandates table
  holds afterwards the same mandates (and \<open>m\<close>, when it was issued) with nothing but their amounts
  and versions changed. This holds also when a tool call raises.
\<close>
theorem chat_acts_for_agent:
  assumes "chat_with_agent E api d i p k au w = (r, w')" and "i \<noteq> []"
  shows "operations w' = operations w
    \<or> (\<exists>a m issued. a \<in> set (agents w) \<and> a_id a = i
         \<and> m \<in> set (mandates w @ issued) \<and> m_agent_id m = i \<and> m_status m = Mandate_ACTIVE
         \<and> (issued = [] \<or> issued = [m] \<and> m_id m \<notin> m_id ` set (mandates w)
              \<and> (\<forall>x \<in> set (mandates w). m_agent_id x = i \<longrightarrow> m_status x \<noteq> Mandate_ACTIVE))
         \<and> map terms_of (mandates w') = map terms_of (mandates w @ issued)
         \<and> (\<forall>j op. tget o_id j (operations w) = Some op \<longrightarrow> tget o_id j (operations w') = Some op)
         \<and> (\<forall>j op. tget o_id j (operations w) = None \<longrightarrow> tget o_id j (operations w') = Some op \<longrightarrow>
              o_agent_id op = i \<and> o_mandate_id op = m_id m \<and> 0 < o_amount op))"
  using assms(1)
proof (cases rule: chat_cases)
  case (turn a m v t y saved)
  have agent: "a \<in> set (agents w)" "a_id a = i" using chat_agent_Inr [OF turn(1)] assms(2) by simp_all
  obtain issued where m: "m \<in> set (mandates w @ issued)" "m_agent_id m = i" "m_status m = Mandate_ACTIVE"
      "issued = [] \<or> issued = [m] \<and> m_id m \<notin> m_id ` set (mandates w)
        \<and> (\<forall>x \<in> set (mandates w). m_agent_id x = i \<longrightarrow> m_status x \<noteq> Mandate_ACTIVE)"
    and v: "mandates v = mandates w @ issued" "operations v = operations w"
    using turn(2)
  proof (cases rule: chat_mandate_cases)
    case (found m')
    with agent show ?thesis by (intro that [of "[]"]) auto
  next
    case (issued m' h)
    with agent show ?thesis by (intro that [of "[m]"]) (auto simp: reissued_fields draw_uuid_def)
  qed simp
  have "acts_for a m v v" by (simp add: acts_for_def)
  from acting_turn.across_turn [OF turn(3) this]
  have "acts_for a m v w' \<or> operations w' = operations w"
    using turn(5) by (cases t) (auto simp: acts_for_rollback rollback_tables)
  then show ?thesis
  proof
    assume acts: "acts_for a m v w'"
    show ?thesis
      by (intro disjI2 exI [of _ a] exI [of _ m] exI [of _ issued])
        (use acts agent m v in \<open>simp add: acts_for_def\<close>)
  qed blast
qed simp

text \<open>
  With the deterministic adapter, a prompt that asks to inspect past orders, a status or an
  operation never moves money: whatever else it says, the chat stores no operation and no
  transaction, and sends nothing to the gateway.
\<close>
theorem inspection_never_spends:
  assumes "any_in inspection_phrases (str_strip (str_lower (cr_message p)))"
    and "(case d of Some a \<Rightarrow> a | None \<Rightarrow> get_llm_adapter E None) = Mock_Adapter []"
    and "chat_with_agent E api d i p k au w = (r, w')"
  shows "operations w' = operations w \<and> transactions w' = transactions w
    \<and> gateway_calls w' = gateway_calls w \<and> http_log w' = http_log w"
  using assms(3)
proof (cases rule: chat_cases)
  case (turn a m v t y saved)
  have v: "operations v = operations w \<and> transactions v = transactions w \<and> gateway_calls v = gateway_calls w
      \<and> http_log v = http_log w"
    using turn(2) by (cases rule: chat_mandate_cases) (auto simp: draw_uuid_def)
  have "traced v y \<and> (saved = w \<or> saved = y)" using inspection_turn [OF assms(1)] turn(3) assms(2) by simp
  with v turn(5) show ?thesis by (auto simp: rollback_def dest!: traced_tables split: sum.splits)
qed simp

text \<open>
  A revoked or suspended agent gets its authority back by chatting: when no mandate of the
  agent is ACTIVE, the chat route issues it a new ACTIVE mandate with no parent, nothing spent, a
  positive limit and no review threshold, whatever became of its old ones.
\<close>
theorem chat_restores_authority:
  assumes "\<forall>m \<in> set (mandates w). m_agent_id m = a_id a \<longrightarrow> m_status m \<noteq> Mandate_ACTIVE"
    and "m_id (reissued_mandate E a (newest_mandate (\<lambda>m. m_agent_id m = a_id a) w) (fst (draw_uuid E w)))
      \<notin> m_id ` set (mandates w)"
  shows "\<exists>m v. chat_mandate E a w = (Inr m, v) \<and> mandates v = mandates w @ [m]
    \<and> m_agent_id m = a_id a \<and> m_status m = Mandate_ACTIVE \<and> m_parent_mandate_id m = None
    \<and> m_current_aggregate_spend m = 0 \<and> m_reserved_spend m = 0 \<and> 0 < m_aggregate_spend_limit m
    \<and> m_review_threshold_amount m = None"
proof (cases "chat_mandate E a w")
  case (Pair r v)
  then show ?thesis
  proof (cases rule: chat_mandate_cases)
    case (found m)
    with assms(1) show ?thesis by blast
  next
    case failed
    with Pair assms(2) show ?thesis
      by (auto simp: chat_mandate_def Let_def case_prod_unfold draw_uuid_def split: option.splits)
  next
    case (issued m h)
    with Pair show ?thesis by (simp add: reissued_fields)
  qed
qed

text \<open>An operation the ledger does not hold is reported as a settled order.\<close>

lemma lookup_invents_order: "operations w = [] \<Longrightarrow> lookup_tool E args w = sample_order"
  by (simp add: lookup_tool_def looked_up_def newest_def newest_first_def table_simps Let_def)

definition revoked_world :: world where
  "revoked_world = demo_world\<lparr>mandates := map (\<lambda>m. m\<lparr>m_status := Mandate_REVOKED\<rparr>) (mandates demo_world)\<rparr>"

definition demo_chat :: "string \<Rightarrow> chat_request" where
  "demo_chat message = \<lparr>cr_message = message, cr_session_id = None, cr_conversation_history = []\<rparr>"

definition demo_api :: openai_api where
  "demo_api = (\<lambda>_ _. OpenAI_Failure)"

text \<open>With every mandate revoked, an order still goes out, and the operation is stored.\<close>

lemma chat_spends_after_revocation:
  "case chat_with_agent demo_env demo_api (Some (Mock_Adapter [])) ''shop'' (demo_chat ''buy 1 desk mat'')
      HNone HNone revoked_world
   of (r, w') \<Rightarrow> gateway_calls w' = [Call_create_order 150000 ''INR''] \<and> map o_amount (operations w') = [150000]"
  by code_simp

theorem chat_acts_for_agent_witness:
  "\<exists>r w' m op. chat_with_agent demo_env demo_api (Some (Mock_Adapter [])) ''shop'' (demo_chat ''buy 1 desk mat'')
      HNone HNone revoked_world = (r, w')
    \<and> operations w' = [op] \<and> o_agent_id op = ''shop'' \<and> o_mandate_id op = m_id m
    \<and> m_agent_id m = ''shop'' \<and> m_status m = Mandate_ACTIVE
    \<and> terms_of m \<in> terms_of ` set (mandates w') \<and> m_id m \<notin> m_id ` set (mandates revoked_world)"
proof -
  let ?run = "chat_with_agent demo_env demo_api (Some (Mock_Adapter [])) ''shop'' (demo_chat ''buy 1 desk mat'')
    HNone HNone revoked_world"
  obtain r w' where run: "?run = (r, w')" by (cases ?run)
  have "map o_amount (operations w') = [150000]"
    using chat_spends_after_revocation unfolding run prod.case by (rule conjunct2)
  then obtain op where op: "operations w' = [op]" by (auto simp: map_eq_Cons_conv)
  have none: "operations revoked_world = []" by (simp add: revoked_world_def demo_world_def)
  have dead: "\<forall>x \<in> set (mandates revoked_world). m_status x \<noteq> Mandate_ACTIVE"
    by (simp add: revoked_world_def)
  have shop: "''shop'' \<noteq> ([] :: string)" by simp
  have "operations w' \<noteq> operations revoked_world" by (simp add: none op)
  note acts = mp [OF disj_imp [THEN iffD1, OF chat_acts_for_agent [OF run shop]] this]
  then obtain a m issued where
    m: "m \<in> set (mandates revoked_world @ issued)" "m_agent_id m = ''shop''" "m_status m = Mandate_ACTIVE"
      "issued = [] \<or> issued = [m] \<and> m_id m \<notin> m_id ` set (mandates revoked_world)
        \<and> (\<forall>x \<in> set (mandates revoked_world). m_agent_id x = ''shop'' \<longrightarrow> m_status x \<noteq> Mandate_ACTIVE)"
    and terms: "map terms_of (mandates w') = map terms_of (mandates revoked_world @ issued)"
    and new: "\<forall>j op. tget o_id j (operations revoked_world) = None \<longrightarrow> tget o_id j (operations w') = Some op \<longrightarrow>
      o_agent_id op = ''shop'' \<and> o_mandate_id op = m_id m \<and> 0 < o_amount op"
    by (elim exE conjE) blast
  have m4: "issued = [m] \<and> m_id m \<notin> m_id ` set (mandates revoked_world)"
    using m(1,3,4) dead by auto
  have "o_agent_id op = ''shop'' \<and> o_mandate_id op = m_id m"
    using new [rule_format, of "o_id op" op] none op by (simp add: table_simps)
  moreover have "terms_of m \<in> terms_of ` set (mandates w')"
    using arg_cong [OF terms, of set] m4 by (auto simp: image_iff)
  ultimately show ?thesis using run op m m4 by blast
qed

theorem inspection_never_spends_witness:
  "gateway_calls (snd (chat_with_agent demo_env demo_api (Some (Mock_Adapter [])) ''help''
     (demo_chat ''refund my last order op_1'') HNone HNone demo_world)) = []"
proof -
  have "any_in inspection_phrases (str_strip (str_lower (cr_message (demo_chat ''refund my last order op_1''))))"
    by code_simp
  from inspection_never_spends [OF this, where d = "Some (Mock_Adapter [])", OF _ prod.collapse [symmetric]]
  show ?thesis by (simp add: demo_world_def)
qed

theorem chat_restores_authority_witness:
  "\<exists>m v. chat_mandate demo_env (demo_agent ''shop'' ''SHOPPING'') revoked_world = (Inr m, v)
    \<and> m_agent_id m = ''shop'' \<and> m_status m = Mandate_ACTIVE \<and> 0 < m_aggregate_spend_limit m"
proof -
  have "\<forall>m \<in> set (mandates revoked_world). m_agent_id m = a_id (demo_agent ''shop'' ''SHOPPING'')
      \<longrightarrow> m_status m \<noteq> Mandate_ACTIVE"
    by (simp add: revoked_world_def demo_world_def)
  moreover have "m_id (reissued_mandate demo_env (demo_agent ''shop'' ''SHOPPING'')
      (newest_mandate (\<lambda>m. m_agent_id m = a_id (demo_agent ''shop'' ''SHOPPING'')) revoked_world)
      (fst (draw_uuid demo_env revoked_world))) \<notin> m_id ` set (mandates revoked_world)"
    by code_simp
  ultimately show ?thesis
    using chat_restores_authority [of revoked_world "demo_agent ''shop'' ''SHOPPING''" demo_env]
    by (auto simp: demo_agent_def)
qed

end
