(* ===== verification/Agent_Routes.thy ===== *)
theory Agent_Routes
  imports Operations Mandates Py_Values
begin

text \<open>
  The administrative routes that do not move money: registering agents and changing their
  status (\<^verbatim>\<open>apps/api/routes/agents.py\<close>), the audit trail (\<^verbatim>\<open>audit.py\<close>), and the rule registry
  with the dry run of the policy engine (\<^verbatim>\<open>policies.py\<close>). None of these routes authenticates its
  caller. The last sections show what a suspension stops and how a dry run relates to a request.
\<close>

section \<open>Registering an agent\<close>

record agent_create =
  ac_name :: string
  ac_description :: "string option"
  ac_owner_id :: string
  ac_agent_type :: string
  ac_metadata_json :: dict

definition valid_agent_create :: "agent_create \<Rightarrow> bool" where
  "valid_agent_create p \<longleftrightarrow> 2 \<le> length (ac_name p) \<and> length (ac_name p) \<le> 128"

definition list_agents :: "world \<Rightarrow> agent list" where
  "list_agents w = newest_first a_created_at (agents w)"

definition get_agent :: "string \<Rightarrow> world \<Rightarrow> exn + agent" where
  "get_agent agent_id w =
     (case get_agent_row w agent_id of
        None \<Rightarrow> Inl (HTTPException 404 ''Agent not found'')
      | Some agent \<Rightarrow> Inr agent)"

definition demo_merchant_id :: string where
  "demo_merchant_id = ''prn_demo_merchant_01''"

text \<open>
  The owner: the principal named, else the demo merchant, else a new principal. The flush of a
  new principal fails when another one has its (unique) email.
\<close>

definition resolve_owner :: "env \<Rightarrow> string \<Rightarrow> world \<Rightarrow> (exn + principal) \<times> world" where
  "resolve_owner E owner_id w =
     (case tget p_id owner_id (principals w) of
        Some owner \<Rightarrow> (Inr owner, w)
      | None \<Rightarrow>
          (case tget p_id demo_merchant_id (principals w) of
             Some owner \<Rightarrow> (Inr owner, w)
           | None \<Rightarrow>
               let owner = \<lparr>p_id = (if owner_id = [] then demo_merchant_id else owner_id),
                     p_name = ''Alpha Commerce Enterprise'',
                     p_email = ''admin@alphacommerce.example'', p_role = Role_DEVELOPER,
                     p_is_active = True, p_created_at = utc_now E\<rparr>
               in if tget p_email (p_email owner) (principals w) \<noteq> None
                  then (Inl DatabaseError, w)
                  else (Inr owner, w\<lparr>principals := principals w @ [owner]\<rparr>)))"

definition new_agent :: "env \<Rightarrow> agent_create \<Rightarrow> string \<Rightarrow> string \<Rightarrow> string \<Rightarrow> agent" where
  "new_agent E payload agent_id owner_id raw_api_key =
     \<lparr>a_id = agent_id, a_name = ac_name payload,
      a_description = Some (str_or (ac_description payload)
        (''Autonomous '' @ str_lower (ac_agent_type payload) @ '' agent'')),
      a_owner_id = owner_id, a_status = Agent_ACTIVE,
      a_api_key_hash = sha256_hex E raw_api_key,
      a_agent_type = str_upper (list_or (ac_agent_type payload) ''SHOPPING''),
      a_metadata_json = ac_metadata_json payload, a_created_at = utc_now E\<rparr>"

definition register_agent :: "env \<Rightarrow> agent_create \<Rightarrow> world \<Rightarrow> (exn + agent) \<times> world" where
  "register_agent E payload w =
     (case resolve_owner E (ac_owner_id payload) w of
        (Inl e, w') \<Rightarrow> (Inl e, rollback w w')
      | (Inr owner, w1) \<Rightarrow>
          let (key_hex, w2) = draw_uuid E w1;
              (agent_id, w3) = generate_uuid E w2;
              agent = new_agent E payload agent_id (p_id owner) (''ag_key_'' @ key_hex)
          in if get_agent_row w3 agent_id \<noteq> None
               \<or> tget a_api_key_hash (a_api_key_hash agent) (agents w3) \<noteq> None
             then (Inl DatabaseError, rollback w w3)
             else (Inr agent,
               add_audit E AGENT_REGISTERED (ac_owner_id payload) ''PRINCIPAL'' agent_id ''AGENT''
                 [(''agent_name'', JStr (a_name agent))] None
                 (Some [(''status'', JStr (agent_status_value (a_status agent)))])
                 (w3\<lparr>agents := agents w3 @ [agent]\<rparr>)))"

section \<open>Changing an agent's status\<close>

record agent_status_update =
  as_status :: agent_status
  as_reason :: "string option"

definition with_status :: "agent_status \<Rightarrow> agent \<Rightarrow> agent" where
  "with_status s a = a\<lparr>a_status := s\<rparr>"

definition update_agent_status ::
    "env \<Rightarrow> string \<Rightarrow> agent_status_update \<Rightarrow> world \<Rightarrow> (exn + agent) \<times> world" where
  "update_agent_status E agent_id update w =
     (case get_agent_row w agent_id of
        None \<Rightarrow> (Inl (HTTPException 404 ''Agent not found''), w)
      | Some agent \<Rightarrow>
          (Inr (with_status (as_status update) agent),
           add_audit E AGENT_STATUS_CHANGED ''ADMIN'' ''PRINCIPAL'' agent_id ''AGENT''
             [(''reason'', JStr (str_or (as_reason update) []))]
             (Some [(''status'', JStr (agent_status_value (a_status agent)))])
             (Some [(''status'', JStr (agent_status_value (as_status update)))])
             (upd_agent agent_id (with_status (as_status update)) w)))"

interpretation status_row: keyed_update a_id "with_status s" for s
  by unfold_locales (simp add: with_status_def)

section \<open>The audit trail\<close>

text \<open>The bounds of the query parameter \<open>limit\<close>.\<close>

definition valid_limit :: "nat \<Rightarrow> bool" where
  "valid_limit limit \<longleftrightarrow> 1 \<le> limit \<and> limit \<le> 200"

text \<open>The filters narrow the rows before \<open>LIMIT\<close> counts them, whatever the order of the calls.\<close>

definition list_audit_events ::
    "string option \<Rightarrow> string option \<Rightarrow> nat \<Rightarrow> world \<Rightarrow> audit_event list" where
  "list_audit_events actor_id resource_id limit w =
     (let rows = newest_first au_timestamp (audit_events w);
          rows = (if truthy_str actor_id
                  then filter (\<lambda>e. au_actor_id e = the actor_id) rows else rows);
          rows = (if truthy_str resource_id
                  then filter (\<lambda>e. au_resource_id e = the resource_id) rows else rows)
      in take limit rows)"

definition get_audit_trail_for_resource ::
    "string \<Rightarrow> string \<Rightarrow> nat \<Rightarrow> world \<Rightarrow> audit_event list" where
  "get_audit_trail_for_resource resource_type resource_id limit w =
     take limit (newest_first au_timestamp
       (filter (\<lambda>e. au_resource_id e = resource_id) (audit_events w)))"

section \<open>The rule registry and the dry run\<close>

record rule_metadata =
  ru_name :: string
  ru_order :: int
  ru_category :: string
  ru_invariant :: string
  ru_description :: string
  ru_enforcement :: string

definition POLICY_RULES_METADATA :: "rule_metadata list" where
  "POLICY_RULES_METADATA = [
     \<lparr>ru_name = ''AGENT_STATUS_CHECK'', ru_order = 1,
      ru_category = ''Identity & Agent Verification'',
      ru_invariant = ''Agent must have ACTIVE status in registry'',
      ru_description = ''Verifies that the invoking AI Agent is officially registered, has not been suspended, ''
        @ ''and holds ACTIVE operational status.'',
      ru_enforcement = ''Strict Pre-Flight Gate''\<rparr>,
     \<lparr>ru_name = ''MANDATE_LIFECYCLE_CHECK'', ru_order = 2,
      ru_category = ''Temporal & Lifecycle Validity'',
      ru_invariant = ''Mandate must be ACTIVE and valid_from <= now <= valid_until'',
      ru_description = ''Verifies that the financial mandate is in ACTIVE status and the current UTC execution ''
        @ ''timestamp falls strictly within the effective and expiration window.'',
      ru_enforcement = ''Deterministic Lifecycle Gate''\<rparr>,
     \<lparr>ru_name = ''HIERARCHICAL_DELEGATION_CHECK'', ru_order = 3,
      ru_category = ''Hierarchical Delegation & Cascade'',
      ru_invariant = ''All ancestor parent mandates in the tree must remain ACTIVE'',
      ru_description = ''Recursively traverses up the delegation DAG to verify every parent/ancestor mandate. ''
        @ ''If any ancestor is suspended or revoked, child authority is immediately invalidated.'',
      ru_enforcement = ''Recursive Tree Validation''\<rparr>,
     \<lparr>ru_name = ''CURRENCY_MATCH_CHECK'', ru_order = 4,
      ru_category = ''Financial Bounds & Boundary Protection'',
      ru_invariant = ''Requested currency must exactly match mandate bound (e.g. INR)'',
      ru_description = ''Ensures foreign currency conversion attempts or currency tampering cannot bypass ''
        @ ''bounded INR limits.'',
      ru_enforcement = ''Strict Currency Match''\<rparr>,
     \<lparr>ru_name = ''OPERATION_TYPE_CHECK'', ru_order = 5,
      ru_category = ''Role-Based Capability & Allowlist'',
      ru_invariant = ''Requested operation must exist in mandate.allowed_operations whitelist'',
      ru_description = ''Strict whitelist verification. For example, prevents shopping agents from initiating ''
        @ ''refunds (CREATE_REFUND) or merchant payment links unless explicitly granted.'',
      ru_enforcement = ''Operation Whitelist Filter''\<rparr>,
     \<lparr>ru_name = ''PER_TRANSACTION_LIMIT_CHECK'', ru_order = 6,
      ru_category = ''Single-Transaction Ceilings'',
      ru_invariant = ''Operation amount <= mandate.max_amount_per_op'',
      ru_description = ''Enforces a strict mathematical ceiling per individual transaction (e.g. ''
        @ rupee_sign @ ''25,000 for primary shopping, '' @ rupee_sign
        @ ''10,000 for procurement sub-agent).'',
      ru_enforcement = ''Deterministic Mathematical Ceiling''\<rparr>,
     \<lparr>ru_name = ''AGGREGATE_SPEND_LIMIT_CHECK'', ru_order = 7,
      ru_category = ''Aggregate Budget & Concurrency CAS'',
      ru_invariant = ''current_aggregate_spend + reserved_spend + amount <= aggregate_spend_limit'',
      ru_description = ''Enforces global budget limits across all historical and pending operations. Evaluated ''
        @ ''atomically before two-phase CAS reservation.'',
      ru_enforcement = ''Atomic Two-Phase Budget Gate''\<rparr>,
     \<lparr>ru_name = ''HUMAN_REVIEW_THRESHOLD_CHECK'', ru_order = 8,
      ru_category = ''Human-in-the-Loop Thresholds'',
      ru_invariant = ''Operations >= review_threshold_amount require human approval'',
      ru_description = ''Flags high-value or unusual operations for explicit human principal sign-off ''
        @ ''(REQUIRE_HUMAN_REVIEW) before gateway dispatch.'',
      ru_enforcement = ''Human Review Routing''\<rparr>]"

definition rule_metadata_dict :: "rule_metadata \<Rightarrow> dict" where
  "rule_metadata_dict r =
     [(''name'', JStr (ru_name r)), (''order'', JInt (ru_order r)),
      (''category'', JStr (ru_category r)), (''invariant'', JStr (ru_invariant r)),
      (''description'', JStr (ru_description r)), (''enforcement'', JStr (ru_enforcement r))]"

definition list_policy_rules :: dict where
  "list_policy_rules =
     [(''engine'', JStr ''Mandate Deterministic Policy Engine v2.0''),
      (''rule_count'', JInt (int (length POLICY_RULES_METADATA))),
      (''zero_gateway_dispatch_invariant'', JBool True),
      (''rules'', JList (map (\<lambda>r. JObj (rule_metadata_dict r)) POLICY_RULES_METADATA))]"

record policy_test_request =
  pt_agent_id :: string
  pt_mandate_id :: string
  pt_operation_type :: operation_type
  pt_amount :: int
  pt_currency :: string
  pt_payload :: dict

text \<open>
  The operation that is never stored. Its key, status, trace and time are unset in the code; the
  rules read none of them.
\<close>

definition synthetic_operation :: "env \<Rightarrow> agent \<Rightarrow> mandate \<Rightarrow> policy_test_request \<Rightarrow> operation" where
  "synthetic_operation E agent mandate req =
     \<lparr>o_id = [], o_operation_id = ''op_dry_run_test'', o_idempotency_key = ''idemp_dry_run'',
      o_agent_id = a_id agent, o_mandate_id = m_id mandate,
      o_operation_type = pt_operation_type req, o_status = Op_INITIATED,
      o_amount = pt_amount req, o_currency = str_upper (pt_currency req),
      o_payload = pt_payload req, o_policy_evaluation_details = None, o_error_message = None,
      o_approved_by_id = None, o_trace_id = [], o_created_at = utc_now E\<rparr>"

definition test_evaluate_policy ::
    "env \<Rightarrow> policy_test_request \<Rightarrow> world \<Rightarrow> (exn + evaluation) \<times> world" where
  "test_evaluate_policy E req w =
     (case get_agent_row w (pt_agent_id req) of
        None \<Rightarrow> (Inl (HTTPException 404
          (''Agent '' @ quote (pt_agent_id req) @ '' not found in registry'')), w)
      | Some agent \<Rightarrow>
          (case get_mandate_row w (pt_mandate_id req) of
             None \<Rightarrow> (Inl (HTTPException 404
               (''Mandate '' @ quote (pt_mandate_id req) @ '' not found'')), w)
           | Some mandate \<Rightarrow>
               (case policy_evaluate E True agent mandate (synthetic_operation E agent mandate req) w of
                  None \<Rightarrow> (Inl NoReturn, w)
                | Some (result, w') \<Rightarrow> (Inr result, w'))))"

section \<open>What the routes keep\<close>

lemma newest_first_sorted: "sorted (map (\<lambda>r. - instant (t r)) (newest_first t rows))"
  by (simp add: newest_first_def)

lemma resolve_owner_cases:
  assumes "resolve_owner E i w = (Inr p, v)"
  shows "v = w \<and> p \<in> set (principals w)
    \<or> v = w\<lparr>principals := principals w @ [p]\<rparr> \<and> tget p_id i (principals w) = None
        \<and> p_email p \<notin> p_email ` set (principals w)"
  using assms
  by (auto simp: resolve_owner_def Let_def tget_None_iff split: option.splits if_splits dest: tget_SomeD)

lemma register_agent_Inr:
  assumes "register_agent E p w = (Inr a, w')"
  obtains q v k pk where "resolve_owner E (ac_owner_id p) w = (Inr q, v)"
    "a = new_agent E p pk (p_id q) k" "pk \<notin> a_id ` set (agents w)"
    "sha256_hex E k \<notin> a_api_key_hash ` set (agents w)" "agents w' = agents w @ [a]"
    "principals w' = principals v" "mandates w' = mandates w" "operations w' = operations w"
    "transactions w' = transactions w" "gateway_calls w' = gateway_calls w" "http_log w' = http_log w"
proof -
  obtain r v where r: "resolve_owner E (ac_owner_id p) w = (r, v)" by (cases "resolve_owner E (ac_owner_id p) w")
  with assms obtain q where q: "r = Inr q" by (cases r) (simp_all add: register_agent_def)
  from resolve_owner_cases [OF r [unfolded q]] have v: "agents v = agents w" "mandates v = mandates w"
    "operations v = operations w" "transactions v = transactions w" "gateway_calls v = gateway_calls w"
    "http_log v = http_log w" by auto
  let ?k = "''ag_key_'' @ uuid_hex E (uuid_count v)" and ?pk = "uuid_text (uuid_hex E (Suc (uuid_count v)))"
  from assms r q v show ?thesis
    by (intro that [of q v ?pk ?k])
      (auto simp: register_agent_def draw_uuid_def generate_uuid_def Let_def tget_None_iff new_agent_def
        split: if_splits)
qed

lemma register_agent_tables:
  "mandates (snd (register_agent E p w)) = mandates w"
  "operations (snd (register_agent E p w)) = operations w"
proof -
  obtain r v where r: "resolve_owner E (ac_owner_id p) w = (r, v)" by (cases "resolve_owner E (ac_owner_id p) w")
  then have "r = Inr q \<Longrightarrow> mandates v = mandates w \<and> operations v = operations w" for q
    by (auto dest: resolve_owner_cases)
  with r show "mandates (snd (register_agent E p w)) = mandates w"
    and "operations (snd (register_agent E p w)) = operations w"
    by (auto simp: register_agent_def draw_uuid_def generate_uuid_def Let_def split: sum.split)
qed

lemma update_status_tables [simp]:
  "mandates (snd (update_agent_status E i u w)) = mandates w"
  "operations (snd (update_agent_status E i u w)) = operations w"
  "gateway_calls (snd (update_agent_status E i u w)) = gateway_calls w"
  by (simp_all add: update_agent_status_def upd_agent_def split: option.split)

lemma update_status_row:
  assumes "update_agent_status E i u w = (Inr a, w')"
  shows "get_agent_row w' i = Some a \<and> a_status a = as_status u \<and> a_id a = i"
proof -
  from assms obtain a0 where "get_agent_row w i = Some a0" and a: "a = with_status (as_status u) a0"
    and w': "agents w' = tupd a_id i (with_status (as_status u)) (agents w)"
    by (auto simp: update_agent_status_def upd_agent_def split: option.splits)
  with tget_SomeD [of a_id i "agents w" a0] show ?thesis
    by (simp add: status_row.tget_tupd with_status_def)
qed

text \<open>A filter that is applied only when its parameter is given.\<close>

lemma narrow_filter:
  "(if truthy_str x then filter (\<lambda>e. f e = the x) rows else rows)
     = filter (\<lambda>e. truthy_str x \<longrightarrow> x = Some (f e)) rows"
proof (cases "truthy_str x")
  case True
  then obtain s where "x = Some s" "s \<noteq> []" by (cases x) auto
  then show ?thesis by (simp add: eq_commute [of s])
qed simp

text \<open>What \<open>LIMIT\<close> leaves out of ordered rows.\<close>

lemma sorted_wrt_take_rest:
  assumes "sorted_wrt P xs" and "x \<in> set xs" and "x \<notin> set (take n xs)"
  shows "length (take n xs) = n \<and> (\<forall>y \<in> set (take n xs). P y x)"
proof -
  have "sorted_wrt P (take n xs @ drop n xs)" using assms(1) by simp
  moreover have "x \<in> set (drop n xs)"
    using assms(2,3) by (metis Un_iff append_take_drop_id set_append)
  moreover from this have "n < length xs" by (cases "n < length xs") simp_all
  ultimately show ?thesis unfolding sorted_wrt_append by auto
qed

text \<open>A request that reached the gateway had an ACTIVE agent.\<close>

lemma request_dispatch_active:
  assumes "request_financial_operation E p k au i w = (r, w')" and "gateway_calls w' \<noteq> gateway_calls w"
  shows "\<exists>a. get_agent_row w (oc_agent_id p) = Some a \<and> a_status a = Agent_ACTIVE"
  using request_dispatched [OF assms] by blast

section \<open>Properties\<close>

text \<open>
  A registered agent is new and ACTIVE: its identifier and key hash were in use by nobody, it is
  the only row added, it belongs to a stored principal, and no mandate, operation or transaction
  changes. The principal is the one named only when that principal exists.
\<close>
theorem registered_agent_is_new:
  assumes "register_agent E p w = (Inr a, w')"
  shows "agents w' = agents w @ [a] \<and> a_id a \<notin> a_id ` set (agents w)
    \<and> a_api_key_hash a \<notin> a_api_key_hash ` set (agents w) \<and> a_status a = Agent_ACTIVE
    \<and> get_agent (a_id a) w' = Inr a
    \<and> a_owner_id a \<in> p_id ` set (principals w')
    \<and> (ac_owner_id p \<in> p_id ` set (principals w) \<longrightarrow> a_owner_id a = ac_owner_id p)
    \<and> mandates w' = mandates w \<and> operations w' = operations w \<and> transactions w' = transactions w"
  using assms
proof (cases rule: register_agent_Inr)
  case (1 q v k pk)
  have "p_id q \<in> p_id ` set (principals v)"
    using resolve_owner_cases [OF 1(1)] by auto
  moreover have "p_id q = ac_owner_id p" if "ac_owner_id p \<in> p_id ` set (principals w)"
  proof -
    from that obtain q' where "tget p_id (ac_owner_id p) (principals w) = Some q'"
      by (metis tget_None_iff not_Some_eq)
    with 1(1) show ?thesis by (auto simp: resolve_owner_def dest: tget_SomeD)
  qed
  moreover have "tget a_id pk (agents w) = None" using 1(3) by (simp add: tget_None_iff)
  ultimately show ?thesis
    using 1(2-9) by (auto simp: new_agent_def get_agent_def table_simps)
qed

definition demo_registration :: agent_create where
  "demo_registration = \<lparr>ac_name = ''Scout'', ac_description = None, ac_owner_id = ''nobody'',
     ac_agent_type = ''risk'', ac_metadata_json = []\<rparr>"

lemma demo_registration_runs:
  "case register_agent demo_env demo_registration demo_world of (r, w') \<Rightarrow>
     (case r of Inl _ \<Rightarrow> False | Inr a \<Rightarrow> a_owner_id a = ''nobody'' \<and> a_agent_type a = ''RISK'')
     \<and> length (agents w') = 4"
  by code_simp

theorem registered_agent_is_new_witness:
  "\<exists>a w'. register_agent demo_env demo_registration demo_world = (Inr a, w')
    \<and> agents w' = agents demo_world @ [a] \<and> a_status a = Agent_ACTIVE \<and> a_owner_id a = ''nobody''"
proof -
  obtain r w' where run: "register_agent demo_env demo_registration demo_world = (r, w')"
    by (cases "register_agent demo_env demo_registration demo_world")
  with demo_registration_runs obtain a where "r = Inr a" "a_owner_id a = ''nobody''"
    unfolding run prod.case by (cases r) auto
  with registered_agent_is_new [OF run [unfolded this(1)]] run show ?thesis by blast
qed

text \<open>
  C20: Suspending or revoking an agent stops it at once: after the status route answered with a
  status other than ACTIVE, no financial request in the agent's name reaches the gateway, whatever
  mandate, headers and payload it carries.
\<close>
theorem suspended_agent_dispatches_nothing:
  assumes "update_agent_status E i u w = (Inr a, w1)" and "as_status u \<noteq> Agent_ACTIVE"
    and "oc_agent_id p = i"
  shows "gateway_calls (snd (request_financial_operation E' p k au x w1)) = gateway_calls w1"
proof (rule ccontr)
  obtain r w2 where run: "request_financial_operation E' p k au x w1 = (r, w2)"
    by (cases "request_financial_operation E' p k au x w1")
  assume "gateway_calls (snd (request_financial_operation E' p k au x w1)) \<noteq> gateway_calls w1"
  with run have "gateway_calls w2 \<noteq> gateway_calls w1" by simp
  from request_dispatch_active [OF run this] obtain b where
    "get_agent_row w1 i = Some b" "a_status b = Agent_ACTIVE" using assms(3) by auto
  with update_status_row [OF assms(1)] assms(2) show False by simp
qed

definition demo_suspension :: agent_status_update where
  "demo_suspension = \<lparr>as_status = Agent_SUSPENDED, as_reason = None\<rparr>"

theorem suspended_agent_dispatches_nothing_witness:
  "\<exists>a w1. update_agent_status demo_env ''shop'' demo_suspension demo_world = (Inr a, w1)
    \<and> gateway_calls (snd (request_financial_operation demo_env (demo_request CREATE_ORDER 1500)
        HNone HNone HNone w1)) = []"
proof -
  obtain a w1 where run: "update_agent_status demo_env ''shop'' demo_suspension demo_world = (Inr a, w1)"
    by (simp add: update_agent_status_def demo_world_def demo_agent_def table_simps)
  moreover from this have "gateway_calls w1 = []"
    using update_status_tables(3) [of demo_env "''shop''" demo_suspension demo_world]
    by (simp add: demo_world_def)
  ultimately show ?thesis
    using suspended_agent_dispatches_nothing [OF run, of "demo_request CREATE_ORDER 1500"]
    by (simp add: demo_suspension_def demo_request_def)
qed

text \<open>
  C34: The dry run is stricter than the request path: when delegation depths grow along the parent
  links (which every mandate route keeps), on the same agent, mandate and operation it decides what
  the engine decides without a database context, except that it denies whenever an ancestor of
  the mandate is not ACTIVE, which the request path never sees. It changes nothing but rate
  windows and metrics.
\<close>
theorem dry_run_decision:
  assumes "get_agent_row w (pt_agent_id req) = Some a" and "get_mandate_row w (pt_mandate_id req) = Some m"
    and "depths_ok (mandates w)"
  shows "\<exists>r w' live v. test_evaluate_policy E req w = (Inr r, w') \<and> only_meters w w'
    \<and> policy_evaluate E False a m (synthetic_operation E a m req) w = Some (live, v)
    \<and> r_decision r = (if ancestors_active (mandates w) (m_parent_mandate_id m) then r_decision live else DENY)"
proof -
  let ?op = "synthetic_operation E a m req"
  obtain r w' where r: "policy_evaluate E True a m ?op w = Some (r, w')"
    "r_decision r = (if \<not> hard_checks E True a m ?op w then DENY
       else if needs_review m ?op then REQUIRE_HUMAN_REVIEW else ALLOW)"
    using policy_evaluate_total [of True w E a m ?op] assms(3) by blast
  obtain live v where live: "policy_evaluate E False a m ?op w = Some (live, v)"
    "r_decision live = (if \<not> hard_checks E False a m ?op w then DENY
       else if needs_review m ?op then REQUIRE_HUMAN_REVIEW else ALLOW)"
    using policy_evaluate_total [of False w E a m ?op] by blast
  have "hard_checks E True a m ?op w \<longleftrightarrow> hard_checks E False a m ?op w
      \<and> ancestors_active (mandates w) (m_parent_mandate_id m)"
    by (auto simp: hard_checks_def)
  with r(2) live(2) have "r_decision r
      = (if ancestors_active (mandates w) (m_parent_mandate_id m) then r_decision live else DENY)"
    by simp
  moreover have "test_evaluate_policy E req w = (Inr r, w')"
    using assms(1,2) r(1) by (simp add: test_evaluate_policy_def)
  ultimately show ?thesis using policy_evaluate_spec(4) [OF r(1)] live(1) by blast
qed

definition demo_policy_test :: policy_test_request where
  "demo_policy_test = \<lparr>pt_agent_id = ''proc'', pt_mandate_id = ''child'',
     pt_operation_type = CREATE_ORDER, pt_amount = 900, pt_currency = ''inr'', pt_payload = []\<rparr>"

text \<open>A child whose parent is revoked: denied in the dry run, allowed when requested.\<close>

definition orphaned_world :: world where
  "orphaned_world = demo_world\<lparr>mandates := [demo_root\<lparr>m_status := Mandate_REVOKED\<rparr>, demo_child]\<rparr>"

theorem dry_run_decision_witness:
  "\<exists>r w' live v. test_evaluate_policy demo_env demo_policy_test orphaned_world = (Inr r, w')
    \<and> r_decision r = DENY
    \<and> policy_evaluate demo_env False (demo_agent ''proc'' ''PROCUREMENT'') demo_child
        (synthetic_operation demo_env (demo_agent ''proc'' ''PROCUREMENT'') demo_child demo_policy_test)
        orphaned_world = Some (live, v)"
proof -
  have rows: "get_agent_row orphaned_world (pt_agent_id demo_policy_test)
      = Some (demo_agent ''proc'' ''PROCUREMENT'')"
    "get_mandate_row orphaned_world (pt_mandate_id demo_policy_test) = Some demo_child"
    by (simp_all add: orphaned_world_def demo_policy_test_def demo_world_def demo_agent_def
        demo_child_def demo_root_def table_simps)
  have depths: "depths_ok (mandates orphaned_world)"
    by (simp add: depths_ok_def orphaned_world_def demo_child_def demo_root_def table_simps)
  have no: "\<not> ancestors_active (mandates orphaned_world) (m_parent_mandate_id demo_child)"
    by (simp add: ancestors_active_Some orphaned_world_def demo_child_def demo_root_def table_simps)
  from dry_run_decision [OF rows depths, of demo_env] show ?thesis unfolding if_not_P [OF no] by blast
qed

text \<open>
  The engine runs nine rules; the registry the policy route publishes lists eight and leaves out
  the rate limit.
\<close>

lemma registry_omits_rate_limit:
  "length default_rules = 9 \<and> dget list_policy_rules ''rule_count'' = Some (JInt 8)
    \<and> ''RATE_LIMIT_CHECK'' \<notin> ru_name ` set POLICY_RULES_METADATA"
  by code_simp

text \<open>
  The audit route answers with the newest events: at most \<open>limit\<close> of them, newest first, all
  with the actor and resource asked for, and every matching event it leaves out is no newer than
  any it returns. An empty filter does not narrow the trail.
\<close>
theorem audit_trail_newest:
  assumes "list_audit_events actor resource limit w = es"
  shows "length es \<le> limit \<and> sorted_wrt (\<lambda>a b. instant (au_timestamp b) \<le> instant (au_timestamp a)) es
    \<and> (\<forall>e \<in> set es. e \<in> set (audit_events w)
         \<and> (truthy_str actor \<longrightarrow> actor = Some (au_actor_id e))
         \<and> (truthy_str resource \<longrightarrow> resource = Some (au_resource_id e)))
    \<and> (\<forall>e \<in> set (audit_events w) - set es.
         (truthy_str actor \<longrightarrow> actor = Some (au_actor_id e)) \<longrightarrow>
         (truthy_str resource \<longrightarrow> resource = Some (au_resource_id e)) \<longrightarrow>
         length es = limit \<and> (\<forall>x \<in> set es. instant (au_timestamp e) \<le> instant (au_timestamp x)))"
proof -
  let ?match = "\<lambda>e. (truthy_str actor \<longrightarrow> actor = Some (au_actor_id e))
    \<and> (truthy_str resource \<longrightarrow> resource = Some (au_resource_id e))"
  let ?rows = "filter ?match (newest_first au_timestamp (audit_events w))"
  have es: "es = take limit ?rows"
    unfolding assms [symmetric] list_audit_events_def Let_def narrow_filter filter_filter
    by (simp add: conj_commute)
  have rows: "set ?rows = {e \<in> set (audit_events w). ?match e}"
    by (auto simp: newest_first_def)
  have sorted: "sorted_wrt (\<lambda>a b. instant (au_timestamp b) \<le> instant (au_timestamp a)) ?rows"
    using newest_first_sorted [of au_timestamp "audit_events w"]
    by (intro sorted_wrt_filter) (simp add: sorted_map)
  have kept: "e \<in> set (audit_events w) \<and> ?match e" if "e \<in> set es" for e
  proof -
    from that have "e \<in> set ?rows" unfolding es by (rule in_set_takeD)
    then show ?thesis unfolding rows by simp
  qed
  have left: "length es = limit \<and> (\<forall>x \<in> set es. instant (au_timestamp e) \<le> instant (au_timestamp x))"
    if "e \<in> set (audit_events w) - set es" and "?match e" for e
  proof -
    have "e \<in> set ?rows" unfolding rows using that by simp
    moreover have "e \<notin> set (take limit ?rows)" using that(1) unfolding es by simp
    ultimately show ?thesis unfolding es by (rule sorted_wrt_take_rest [OF sorted])
  qed
  have "length es \<le> limit" "sorted_wrt (\<lambda>a b. instant (au_timestamp b) \<le> instant (au_timestamp a)) es"
    using sorted by (simp_all add: es sorted_wrt_take)
  with kept left show ?thesis by blast
qed

definition two_audits :: world where
  "two_audits = add_audit (demo_env\<lparr>now_us := 1700000000000001\<rparr>) AGENT_REGISTERED ''prn'' ''PRINCIPAL'' ''b'' ''AGENT'' [] None None
     (add_audit demo_env AGENT_REGISTERED ''prn'' ''PRINCIPAL'' ''a'' ''AGENT'' [] None None demo_world)"

theorem audit_trail_newest_witness:
  "map au_resource_id (list_audit_events (Some ''prn'') None 1 two_audits) = [''b'']
    \<and> length (list_audit_events (Some ''prn'') None 1 two_audits) \<le> 1"
proof -
  have "map au_resource_id (list_audit_events (Some ''prn'') None 1 two_audits) = [''b'']" by code_simp
  with audit_trail_newest [OF refl, of "Some ''prn''" None 1 two_audits] show ?thesis by blast
qed

text \<open>The trail of a resource ignores the type in its path.\<close>

lemma resource_type_ignored:
  "get_audit_trail_for_resource t i n w = get_audit_trail_for_resource t' i n w"
  by (simp add: get_audit_trail_for_resource_def)

end
