(* ===== verification/Telemetry.thy ===== *)
theory Telemetry
  imports Reconciliation Policy_Engine Budget Py_Values
begin

text \<open>
  What the control plane reports of itself: the liveness and readiness probes
  (\<^verbatim>\<open>apps/api/routes/health.py\<close>), the metric families and spans of
  \<^verbatim>\<open>packages/shared/observability.py\<close> with their scrape endpoint (\<^verbatim>\<open>metrics.py\<close>), and the telemetry
  routes (\<^verbatim>\<open>telemetry.py\<close>): counters read from the tables, an audit on demand, and the failure
  injection, which answers with fixed texts.
\<close>

section \<open>Liveness and readiness\<close>

definition health_check :: dict where
  "health_check = [(''status'', JStr ''ok''), (''service'', JStr ''mandate-api'')]"

text \<open>
  What the two dependencies answer is a parameter: \<open>None\<close> when \<open>SELECT 1\<close> or \<open>PING\<close> succeeded, the
  exception otherwise. The result is the status code with the body.
\<close>

definition dependency_text :: "env \<Rightarrow> exn option \<Rightarrow> string" where
  "dependency_text E failure =
     (case failure of None \<Rightarrow> ''up'' | Some e \<Rightarrow> ''down: '' @ exn_text E e)"

definition readiness_check :: "env \<Rightarrow> exn option \<Rightarrow> exn option \<Rightarrow> int \<times> dict" where
  "readiness_check E database_failure redis_failure =
     (let checks = JObj [(''database'', JStr (dependency_text E database_failure)),
            (''redis'', JStr (dependency_text E redis_failure))];
          redis_up = (redis_failure = None)
      in if database_failure \<noteq> None then
           (503, [(''status'', JStr ''not_ready''),
             (''message'', JStr ''PostgreSQL database is unavailable or uninitialized''),
             (''dependencies'', checks)])
         else
           (200, [(''status'', JStr (if redis_up then ''ready'' else ''degraded'')),
             (''message'', JStr (if redis_up then ''Mandate control plane is fully operational''
               else ''Mandate core authorization is operational (Redis cache degraded)'')),
             (''dependencies'', checks)]))"

section \<open>Metrics and spans\<close>

datatype metric_kind = Metric_Counter | Metric_Gauge | Metric_Histogram

record metric_family =
  mf_var :: string
  mf_kind :: metric_kind
  mf_name :: string
  mf_help :: string
  mf_labels :: "string list"

definition METRIC_FAMILIES :: "metric_family list" where
  "METRIC_FAMILIES = [
     \<lparr>mf_var = ''AUTH_DECISIONS_TOTAL'', mf_kind = Metric_Counter,
      mf_name = ''mandate_authorization_decisions_total'',
      mf_help = ''Total deterministic authorization decisions evaluated'',
      mf_labels = [''decision'', ''operation_type'', ''agent_id'']\<rparr>,
     \<lparr>mf_var = ''POLICY_RULE_EVALUATIONS_TOTAL'', mf_kind = Metric_Counter,
      mf_name = ''mandate_policy_rule_evaluations_total'',
      mf_help = ''Total policy rule evaluations by status and rule name'',
      mf_labels = [''rule_name'', ''decision'', ''passed'']\<rparr>,
     \<lparr>mf_var = ''POLICY_EVALUATION_LATENCY_SECONDS'', mf_kind = Metric_Histogram,
      mf_name = ''mandate_policy_evaluation_duration_seconds'',
      mf_help = ''Latency of deterministic policy engine evaluations in seconds'',
      mf_labels = []\<rparr>,
     \<lparr>mf_var = ''CAS_BUDGET_RESERVATIONS_TOTAL'', mf_kind = Metric_Counter,
      mf_name = ''mandate_cas_budget_reservations_total'',
      mf_help = ''Total atomic CAS budget reservations attempted'',
      mf_labels = [''status'']\<rparr>,
     \<lparr>mf_var = ''CAS_CONFLICT_RETRIES_TOTAL'', mf_kind = Metric_Counter,
      mf_name = ''mandate_cas_conflict_retries_total'',
      mf_help = ''Total CAS concurrency conflict retries executed'',
      mf_labels = []\<rparr>,
     \<lparr>mf_var = ''FINANCIAL_STATE_TRANSITIONS_TOTAL'', mf_kind = Metric_Counter,
      mf_name = ''mandate_financial_state_transitions_total'',
      mf_help = ''Financial state machine transitions executed'',
      mf_labels = [''from_state'', ''to_state'', ''status'']\<rparr>,
     \<lparr>mf_var = ''RATE_LIMIT_REJECTIONS_TOTAL'', mf_kind = Metric_Counter,
      mf_name = ''mandate_rate_limit_rejections_total'',
      mf_help = ''Total rate limit rejections intercepted at boundary'',
      mf_labels = [''agent_id'', ''tier'']\<rparr>,
     \<lparr>mf_var = ''WEBHOOK_INGESTION_TOTAL'', mf_kind = Metric_Counter,
      mf_name = ''mandate_webhook_events_total'',
      mf_help = ''Total Razorpay webhook events ingested'',
      mf_labels = [''event_type'', ''status'']\<rparr>,
     \<lparr>mf_var = ''RECONCILIATION_SWEEPS_TOTAL'', mf_kind = Metric_Counter,
      mf_name = ''mandate_reconciliation_sweeps_total'',
      mf_help = ''Total background ledger reconciliation sweeps completed'',
      mf_labels = []\<rparr>,
     \<lparr>mf_var = ''RECONCILIATION_DISCREPANCIES_DETECTED'', mf_kind = Metric_Counter,
      mf_name = ''mandate_reconciliation_discrepancies_total'',
      mf_help = ''Total discrepancies detected during read-only gateway reconciliation'',
      mf_labels = [''type'']\<rparr>,
     \<lparr>mf_var = ''ACTIVE_BUDGET_RESERVATIONS_GAUGE'', mf_kind = Metric_Gauge,
      mf_name = ''mandate_active_budget_reservations_paise'',
      mf_help = ''Currently reserved uncommitted spend in paise across active mandates'',
      mf_labels = []\<rparr>,
     \<lparr>mf_var = ''INVARIANT_VIOLATIONS_TOTAL'', mf_kind = Metric_Counter,
      mf_name = ''mandate_invariant_violations_total'',
      mf_help = ''Critical financial invariant violations (MUST ALWAYS BE ZERO)'',
      mf_labels = [''invariant_name'']\<rparr>]"

text \<open>
  A recorded increment fits the registry when its variable is a declared counter and the keywords
  of its call of \<open>labels\<close> are exactly the label names of the family, in any order;
  \<^verbatim>\<open>prometheus_client\<close> raises on any other call.
\<close>

definition well_labelled :: "string \<times> label_args \<Rightarrow> bool" where
  "well_labelled inc \<longleftrightarrow>
     (\<exists>f \<in> set METRIC_FAMILIES. mf_var f = fst inc \<and> mf_kind f = Metric_Counter
        \<and> distinct (map fst (snd inc)) \<and> set (map fst (snd inc)) = set (mf_labels f))"

definition metrics_typed :: "world \<Rightarrow> bool" where
  "metrics_typed w \<longleftrightarrow> (\<forall>inc \<in> set (metric_incs w). well_labelled inc)"

text \<open>The exposition format is the library's: \<open>generate_latest\<close> and its content type are parameters.\<close>

definition get_prometheus_metrics_bytes ::
    "((string \<times> label_args) list \<Rightarrow> string) \<Rightarrow> string \<Rightarrow> world \<Rightarrow> string \<times> string" where
  "get_prometheus_metrics_bytes generate_latest content_type_latest w =
     (generate_latest (metric_incs w), content_type_latest)"

definition metrics_endpoint ::
    "((string \<times> label_args) list \<Rightarrow> string) \<Rightarrow> string \<Rightarrow> world \<Rightarrow> string \<times> string" where
  "metrics_endpoint generate_latest content_type_latest w =
     (let (metrics_data, content_type) = get_prometheus_metrics_bytes generate_latest content_type_latest w
      in (metrics_data, content_type))"

record trace_span =
  sp_name :: string
  sp_attributes :: dict
  sp_start_time_ns :: int
  sp_duration_ms :: rat

definition OpenTelemetryTraceSpan_init :: "string \<Rightarrow> dict option \<Rightarrow> trace_span" where
  "OpenTelemetryTraceSpan_init name attributes =
     \<lparr>sp_name = name, sp_attributes = (case attributes of None \<Rightarrow> [] | Some d \<Rightarrow> d),
      sp_start_time_ns = 0, sp_duration_ms = 0\<rparr>"

text \<open>\<open>d[k] = v\<close> and \<open>round(x, 3)\<close> of a quotient of integers.\<close>

definition dset :: "string \<Rightarrow> json \<Rightarrow> dict \<Rightarrow> dict" where
  "dset k v d =
     (if k \<in> fst ` set d then map (\<lambda>(k', x). (k', if k' = k then v else x)) d else d @ [(k, v)])"

definition span_enter :: "int \<Rightarrow> trace_span \<Rightarrow> trace_span" where
  "span_enter clock_ns sp = sp\<lparr>sp_start_time_ns := clock_ns\<rparr>"

definition round_milli :: "rat \<Rightarrow> rat" where
  "round_milli x = binary64 (of_int (round_half_even (x * 1000)) / 1000)"

definition span_exit :: "env \<Rightarrow> int \<Rightarrow> exn option \<Rightarrow> trace_span \<Rightarrow> trace_span" where
  "span_exit E clock_ns exc sp =
     (let sp = sp\<lparr>sp_duration_ms := round_milli (binary64 (binary64 (of_int (clock_ns - sp_start_time_ns sp)) / 1000000))\<rparr>
      in case exc of
           None \<Rightarrow> sp
         | Some e \<Rightarrow> sp\<lparr>sp_attributes :=
             dset ''error_message'' (JStr (exn_text E e)) (dset ''error'' (JBool True) (sp_attributes sp))\<rparr>)"

text \<open>\<open>async with trace_span(...)\<close> around a body: the span records an exception and lets it through.\<close>

definition in_trace_span ::
    "env \<Rightarrow> string \<Rightarrow> dict option \<Rightarrow> int \<Rightarrow> int \<Rightarrow> (world \<Rightarrow> (exn + 'a) \<times> world) \<Rightarrow> world
       \<Rightarrow> trace_span \<times> (exn + 'a) \<times> world" where
  "in_trace_span E name attributes started ended body w =
     (let sp = span_enter started (OpenTelemetryTraceSpan_init name attributes);
          (r, w') = body w
      in (span_exit E ended (case r of Inl e \<Rightarrow> Some e | Inr _ \<Rightarrow> None) sp, r, w'))"

section \<open>The telemetry routes\<close>

record system_metrics =
  sm_total_operations :: int
  sm_succeeded_operations :: int
  sm_failed_operations :: int
  sm_active_reservations :: int
  sm_webhooks_processed :: int
  sm_webhooks_in_dlq :: int
  sm_reconciliation_reports_count :: int
  sm_last_reconciliation_discrepancies :: int

definition count_where :: "('r \<Rightarrow> bool) \<Rightarrow> 'r list \<Rightarrow> int" where
  "count_where p rows = int (length (filter p rows))"

definition get_system_metrics :: "world \<Rightarrow> system_metrics" where
  "get_system_metrics w =
     \<lparr>sm_total_operations = int (length (operations w)),
      sm_succeeded_operations = count_where (\<lambda>op. o_status op = Op_SUCCEEDED) (operations w),
      sm_failed_operations = count_where (\<lambda>op. o_status op = Op_FAILED) (operations w),
      sm_active_reservations = count_where (\<lambda>op. o_status op = Op_RESERVED) (operations w),
      sm_webhooks_processed = count_where (\<lambda>e. wh_status e = ''PROCESSED'') (webhook_events w),
      sm_webhooks_in_dlq = count_where (\<lambda>e. wh_status e = ''DEAD_LETTER'') (webhook_events w),
      sm_reconciliation_reports_count = int (length (reconciliation_reports w)),
      sm_last_reconciliation_discrepancies =
        (case sort_key (\<lambda>r. - instant (rr_created_at r)) (reconciliation_reports w) of
           [] \<Rightarrow> 0 | latest_rec # _ \<Rightarrow> rr_inconsistencies_detected latest_rec)\<rparr>"

definition trigger_reconciliation :: "env \<Rightarrow> world \<Rightarrow> (exn + dict) \<times> world" where
  "trigger_reconciliation E w =
     (case run_gateway_reconciliation E 1440 w of
        (Inl e, w) \<Rightarrow> (Inl e, w)
      | (Inr res, w) \<Rightarrow> (Inr (result_to_dict res), w))"

record failure_injection =
  fi_failure_type :: string
  fi_operation_id :: "string option"
  fi_parameters :: dict

definition injected_duplicate_webhook :: "string \<Rightarrow> dict" where
  "injected_duplicate_webhook hex_id = [
      (''injected'', JBool True),
      (''failure_type'', JStr ''DUPLICATE_WEBHOOK''),
      (''title'', JStr ''Duplicate Webhook Replay''),
      (''status'', JStr ''DUPLICATE_IGNORED''),
      (''state_before'', JStr ''SUCCEEDED''),
      (''state_after'', JStr ''SUCCEEDED''),
      (''gateway_effect'', JStr ''0 Duplicate Charges Dispatched (Zero-Double-Spend Invariant)''),
      (''budget_impact'', JStr (rupee_sign @ ''0.00 Leak '' @ em_dash
        @ '' Exact Zero-Delta Ledger Invariant Preserved'')),
      (''event_id'', JStr (''evt_dup_replay_'' @ hex_id)),
      (''trace_id'', JStr (''tr_idemp_check_'' @ hex_id)),
      (''payload_hash'',
        JStr ''sha256:e3b0c44298fc1c149afbf4c8996fb92427ae41e4649b934ca495991b7852b855''),
      (''idempotency_key'', JStr (''idemp_wh_'' @ hex_id)),
      (''retry_count'', JInt 2),
      (''hmac_verified'', JBool True),
      (''latency_ms'', JFloat (binary64 (125 / 100))),
      (''narrative'',
        JStr (''Mandate intercepted an identical webhook payload with matching HMAC signature and ''
        @ ''payload hash. Idempotency lock recognized previous execution, acknowledged HTTP 200 ''
        @ ''to Razorpay, and avoided double budget decrement.''))]"

definition injected_out_of_order_webhook :: "string \<Rightarrow> dict" where
  "injected_out_of_order_webhook hex_id = [
      (''injected'', JBool True),
      (''failure_type'', JStr ''OUT_OF_ORDER_WEBHOOK''),
      (''title'', JStr ''Out-of-Order Webhook Event''),
      (''status'', JStr ''AUTO_CONVERGED''),
      (''state_before'', JStr ''RESERVED''),
      (''state_after'', JStr ''SUCCEEDED''),
      (''gateway_effect'', JStr ''State Machine Auto-Converged to Succeeded''),
      (''budget_impact'', JStr (rupee_sign
        @ ''1,500 Reserved Spend Successfully Committed to Ledger'')),
      (''event_id'', JStr (''evt_ooo_captured_'' @ hex_id)),
      (''trace_id'', JStr (''tr_ooo_converge_'' @ hex_id)),
      (''payload_hash'',
        JStr ''sha256:4f53cda18c2baa0c0354bb5f9a3ecbe5ed12ab4d8e11ba873c2f11161202b945''),
      (''idempotency_key'', JStr (''idemp_wh_'' @ hex_id)),
      (''retry_count'', JInt 1),
      (''hmac_verified'', JBool True),
      (''latency_ms'', JFloat (binary64 (182 / 100))),
      (''narrative'',
        JStr (''A payment.captured webhook arrived prior to synchronous client response completion. ''
        @ ''The deterministic state machine auto-transitioned from RESERVED to SUCCEEDED without ''
        @ ''requiring manual reconciliation.''))]"

definition injected_ambiguous_gateway_timeout :: "string \<Rightarrow> dict" where
  "injected_ambiguous_gateway_timeout hex_id = [
      (''injected'', JBool True),
      (''failure_type'', JStr ''AMBIGUOUS_GATEWAY_TIMEOUT''),
      (''title'', JStr ''Ambiguous Gateway Timeout''),
      (''status'', JStr ''IDEMPOTENCY_RECONCILED''),
      (''state_before'', JStr ''EXECUTING''),
      (''state_after'', JStr ''RECONCILED''),
      (''gateway_effect'',
        JStr ''0 Duplicate Orders Created (Idempotency Key Prevented Re-Dispatch)''),
      (''budget_impact'', JStr (rupee_sign @ ''0.00 Lost '' @ em_dash
        @ '' Gateway cross-checked against Razorpay Test Mode'')),
      (''event_id'', JStr (''evt_timeout_reconcile_'' @ hex_id)),
      (''trace_id'', JStr (''tr_gateway_retry_'' @ hex_id)),
      (''payload_hash'',
        JStr ''sha256:88d4266fd4e6338d13b845fcf289579d209c897823b9217da3e161936f031589''),
      (''idempotency_key'', JStr (''idemp_timeout_'' @ hex_id)),
      (''retry_count'', JInt 1),
      (''hmac_verified'', JBool True),
      (''latency_ms'', JFloat (binary64 (245 / 100))),
      (''narrative'', JStr (''A network timeout occurred while awaiting Razorpay'' @ apos
        @ ''s REST confirmation. Mandate utilized the cached idempotency key to cross-reference ''
        @ ''Razorpay Test Mode without duplicating order charges or leaking reserved funds.''))]"

definition injected_process_crash_reservation :: "string \<Rightarrow> dict" where
  "injected_process_crash_reservation hex_id = [
      (''injected'', JBool True),
      (''failure_type'', JStr ''PROCESS_CRASH_RESERVATION''),
      (''title'', JStr ''Process Crash & Orphan Reservation Sweep''),
      (''status'', JStr ''ORPHAN_RELEASED''),
      (''state_before'', JStr ''RESERVED (Orphaned / Unsettled)''),
      (''state_after'', JStr ''ROLLED_BACK''),
      (''gateway_effect'', JStr ''Uncommitted Reservation Released by Background Worker''),
      (''budget_impact'', JStr (rupee_sign @ ''6,500 Budget Restored to Mandate Spend Pool'')),
      (''event_id'', JStr (''evt_crash_cleanup_'' @ hex_id)),
      (''trace_id'', JStr (''tr_reconciliation_sweep_'' @ hex_id)),
      (''payload_hash'',
        JStr ''sha256:5994471abb01112afcc18159f6cc74b4f511b99806da59b3caf5a9c173cacfc5''),
      (''idempotency_key'', JStr (''idemp_crash_'' @ hex_id)),
      (''retry_count'', JInt 0),
      (''hmac_verified'', JBool True),
      (''latency_ms'', JFloat (binary64 (312 / 100))),
      (''narrative'',
        JStr (''The API simulated an abrupt power outage/crash immediately after two-phase budget ''
        @ ''reservation. The background ledger reconciliation sweep discovered the stale ''
        @ ''reservation (>10s old) and released the uncommitted funds back to the active mandate ''
        @ ''pool.''))]"

definition inject_simulated_failure :: "env \<Rightarrow> failure_injection \<Rightarrow> world \<Rightarrow> dict \<times> world" where
  "inject_simulated_failure E payload w =
     (let (h, w) = draw_uuid E w; hex_id = take 8 h in
      (if fi_failure_type payload = ''DUPLICATE_WEBHOOK'' then injected_duplicate_webhook hex_id
          else if fi_failure_type payload = ''OUT_OF_ORDER_WEBHOOK'' then injected_out_of_order_webhook hex_id
          else if fi_failure_type payload = ''AMBIGUOUS_GATEWAY_TIMEOUT'' then injected_ambiguous_gateway_timeout hex_id
          else if fi_failure_type payload = ''PROCESS_CRASH_RESERVATION'' then injected_process_crash_reservation hex_id
          else [(''injected'', JBool True), (''failure_type'', JStr (fi_failure_type payload)),
           (''details'', JObj (fi_parameters payload))], w))"

section \<open>Properties\<close>

text \<open>
  Readiness follows the database alone: the probe answers 503 exactly when the database is down,
  and with the database up it answers 200, calling itself degraded exactly when Redis is down.
\<close>
theorem readiness_follows_database:
  "(fst (readiness_check E db_failure redis_failure) = 503 \<longleftrightarrow> db_failure \<noteq> None)
    \<and> dget (snd (readiness_check E db_failure redis_failure)) ''status''
        = Some (JStr (if db_failure \<noteq> None then ''not_ready''
                      else if redis_failure \<noteq> None then ''degraded'' else ''ready''))"
  by (simp add: readiness_check_def Let_def dict_simps)

lemma reserve_metrics:
  "metric_incs (snd (reserve_budget k n w)) = metric_incs w @ [(''CAS_BUDGET_RESERVATIONS_TOTAL'',
     [(''status'', if fst (reserve_budget k n w) then ''success'' else ''exhausted'')])]"
  by (simp add: reserve_budget_def inc_metric_def Let_def)

lemma RateLimitRule_metrics:
  "metric_incs (snd (RateLimitRule_evaluate E a w)) = metric_incs w
   \<or> (\<exists>t. metric_incs (snd (RateLimitRule_evaluate E a w))
        = metric_incs w @ [(''RATE_LIMIT_REJECTIONS_TOTAL'', [(''agent_id'', a_id a), (''tier'', t)])])"
proof -
  from check_rate_limit_touches [of E "a_id a" "''standard''" w default_limiter 1 None None]
  have "metric_incs (snd (check_rate_limit E default_limiter (a_id a) 1 None None ''standard'' w)) = metric_incs w"
    by (auto simp: touches_def)
  then show ?thesis by (auto simp: RateLimitRule_evaluate_def inc_metric_def Let_def case_prod_unfold)
qed

lemma well_labelled_incs:
  "well_labelled (''CAS_BUDGET_RESERVATIONS_TOTAL'', [(''status'', x)])"
  "well_labelled (''RATE_LIMIT_REJECTIONS_TOTAL'', [(''agent_id'', x), (''tier'', y)])"
  "well_labelled (''POLICY_RULE_EVALUATIONS_TOTAL'', [(''rule_name'', x), (''decision'', y), (''passed'', z)])"
  by (auto simp add: well_labelled_def METRIC_FAMILIES_def)

text \<open>What one rule and the loop over the rules count.\<close>

lemma rule_evaluate_metrics:
  assumes "rule_evaluate E ctx a m op w r = (d, w')"
  shows "metric_incs w' = metric_incs w
    \<or> (\<exists>t. metric_incs w' = metric_incs w
        @ [(''RATE_LIMIT_REJECTIONS_TOTAL'', [(''agent_id'', a_id a), (''tier'', t)])])"
proof (cases "r = RateLimitRule")
  case True
  with assms have "w' = snd (RateLimitRule_evaluate E a w)" by (simp add: case_prod_unfold Let_def)
  with RateLimitRule_metrics [of E a w] show ?thesis by simp
next
  case False
  with assms show ?thesis by (cases r) auto
qed

text \<open>
  \<open>counted x w\<close>: the recorded increments of counter \<open>x\<close>, each by the labels of its call.
\<close>

definition counted :: "string \<Rightarrow> world \<Rightarrow> label_args list" where
  "counted x w = map snd (filter (\<lambda>inc. fst inc = x) (metric_incs w))"

lemma evaluate_rules_metrics:
  "evaluate_rules E ctx a m op rs v w = Some (v', w') \<Longrightarrow>
     \<exists>ds incs. v_diagnostics v' = v_diagnostics v @ ds
       \<and> metric_incs w' = metric_incs w @ incs \<and> (\<forall>inc \<in> set incs. well_labelled inc)
       \<and> counted ''POLICY_RULE_EVALUATIONS_TOTAL'' w' = counted ''POLICY_RULE_EVALUATIONS_TOTAL'' w
           @ map (\<lambda>d. [(''rule_name'', d_rule_name d), (''decision'', policy_decision_value (d_decision d)),
                         (''passed'', str_bool (d_passed d))]) ds
       \<and> (\<forall>labels. (''RATE_LIMIT_REJECTIONS_TOTAL'', labels) \<in> set incs
           \<longrightarrow> (\<exists>t. labels = [(''agent_id'', a_id a), (''tier'', t)]))"
proof (induction rs arbitrary: v w)
  case Nil
  then show ?case by simp
next
  case (Cons r rs)
  obtain d w1 where r: "rule_evaluate E ctx a m op w r = (d, w1)" by (cases "rule_evaluate E ctx a m op w r")
  with Cons.prems obtain x where x: "d = Some x" by (cases d) auto
  let ?i = "(''POLICY_RULE_EVALUATIONS_TOTAL'', [(''rule_name'', d_rule_name x),
    (''decision'', policy_decision_value (d_decision x)), (''passed'', str_bool (d_passed x))])"
  from Cons.prems r x have "evaluate_rules E ctx a m op rs (add_diagnostic x v) (inc_metric (fst ?i) (snd ?i) w1)
      = Some (v', w')" by simp
  from Cons.IH [OF this] obtain ds incs where ih:
    "v_diagnostics v' = v_diagnostics (add_diagnostic x v) @ ds"
    "metric_incs w' = metric_incs w1 @ ?i # incs" "\<forall>inc \<in> set incs. well_labelled inc"
    "counted (fst ?i) w' = counted (fst ?i) w1 @ snd ?i
       # map (\<lambda>d. [(''rule_name'', d_rule_name d), (''decision'', policy_decision_value (d_decision d)),
                     (''passed'', str_bool (d_passed d))]) ds"
    "\<forall>labels. (''RATE_LIMIT_REJECTIONS_TOTAL'', labels) \<in> set incs
       \<longrightarrow> (\<exists>t. labels = [(''agent_id'', a_id a), (''tier'', t)])"
    by (auto simp: inc_metric_def counted_def)
  have dg: "v_diagnostics (add_diagnostic x v) = v_diagnostics v @ [x]"
    by (simp add: add_diagnostic_def Let_def)
  from rule_evaluate_metrics [OF r] obtain pre where
    pre: "metric_incs w1 = metric_incs w @ pre"
      "pre = [] \<or> (\<exists>t. pre = [(''RATE_LIMIT_REJECTIONS_TOTAL'', [(''agent_id'', a_id a), (''tier'', t)])])"
    by auto
  then have "counted (fst ?i) w1 = counted (fst ?i) w" by (auto simp: counted_def)
  with ih dg pre show ?case
    by (intro exI [of _ "x # ds"] exI [of _ "pre @ ?i # incs"]) (auto simp: well_labelled_incs)
qed

text \<open>
  C38: What the engine and the reservation count is well typed: every increment they record names a
  declared counter and calls it with exactly the keywords of its label names, so counting never
  raises in the middle of a decision. A reservation adds the one increment whose status says
  whether it was granted; an evaluation adds one increment per diagnostic, in order, labelled with
  the rule, decision and verdict of that diagnostic, and a rate limit rejection carries the agent.
\<close>
theorem recorded_metrics_typed:
  assumes "metrics_typed w"
  shows "metrics_typed (snd (reserve_budget k n w))
    \<and> metric_incs (snd (reserve_budget k n w)) = metric_incs w @ [(''CAS_BUDGET_RESERVATIONS_TOTAL'',
        [(''status'', if fst (reserve_budget k n w) then ''success'' else ''exhausted'')])]
    \<and> (\<forall>r w'. policy_evaluate E ctx a m op w = Some (r, w') \<longrightarrow> metrics_typed w'
        \<and> counted ''POLICY_RULE_EVALUATIONS_TOTAL'' w' = counted ''POLICY_RULE_EVALUATIONS_TOTAL'' w
            @ map (\<lambda>d. [(''rule_name'', d_rule_name d),
                          (''decision'', policy_decision_value (d_decision d)),
                          (''passed'', if d_passed d then ''True'' else ''False'')]) (r_rule_diagnostics r)
        \<and> (\<exists>incs. metric_incs w' = metric_incs w @ incs
            \<and> (\<forall>labels. (''RATE_LIMIT_REJECTIONS_TOTAL'', labels) \<in> set incs
                \<longrightarrow> (\<exists>t. labels = [(''agent_id'', a_id a), (''tier'', t)]))))"
proof -
  have "metrics_typed (snd (reserve_budget k n w))"
    using reserve_metrics [of k n w] assms well_labelled_incs(1) by (auto simp: metrics_typed_def)
  moreover have "metrics_typed w'
      \<and> counted ''POLICY_RULE_EVALUATIONS_TOTAL'' w' = counted ''POLICY_RULE_EVALUATIONS_TOTAL'' w
          @ map (\<lambda>d. [(''rule_name'', d_rule_name d), (''decision'', policy_decision_value (d_decision d)),
                        (''passed'', if d_passed d then ''True'' else ''False'')]) (r_rule_diagnostics r)
      \<and> (\<exists>incs. metric_incs w' = metric_incs w @ incs
          \<and> (\<forall>labels. (''RATE_LIMIT_REJECTIONS_TOTAL'', labels) \<in> set incs
              \<longrightarrow> (\<exists>t. labels = [(''agent_id'', a_id a), (''tier'', t)])))"
    if "policy_evaluate E ctx a m op w = Some (r, w')" for r w'
  proof -
    from that obtain v' where
      "evaluate_rules E ctx a m op default_rules
         \<lparr>v_decision = ALLOW, v_rejections = [], v_reviews = [], v_diagnostics = []\<rparr> w = Some (v', w')"
      and "r_rule_diagnostics r = v_diagnostics v'"
      by (auto simp: policy_evaluate_def engine_evaluate_def)
    with evaluate_rules_metrics [OF this(1)] assms show ?thesis
      unfolding str_bool_def by (auto simp: metrics_typed_def)
  qed
  ultimately show ?thesis using reserve_metrics [of k n w] by blast
qed

theorem recorded_metrics_typed_witness:
  "metrics_typed demo_world \<and> metric_incs (snd (reserve_budget ''root'' 100 demo_world)) \<noteq> []
    \<and> metrics_typed (snd (reserve_budget ''root'' 100 demo_world))"
proof -
  have "metrics_typed demo_world" by (simp add: metrics_typed_def demo_world_def)
  with recorded_metrics_typed [OF this, of "''root''" 100] show ?thesis by auto
qed

text \<open>
  The failure injection injects nothing: whatever failure is named, no row of any table changes,
  nothing is sent to the gateway, and the answer claims \<open>injected\<close> with texts fixed in advance.
\<close>
theorem injected_failure_is_canned:
  assumes "inject_simulated_failure E payload w = (body, w')"
  shows "w' = w\<lparr>uuid_count := uuid_count w + 1\<rparr> \<and> dget body ''injected'' = Some (JBool True)
    \<and> (fi_failure_type payload = ''OUT_OF_ORDER_WEBHOOK''
        \<longrightarrow> dget body ''state_after'' = Some (JStr ''SUCCEEDED''))"
  using assms
  by (auto simp: inject_simulated_failure_def draw_uuid_def Let_def dict_simps
      injected_duplicate_webhook_def injected_out_of_order_webhook_def
      injected_ambiguous_gateway_timeout_def injected_process_crash_reservation_def)

definition demo_injection :: failure_injection where
  "demo_injection = \<lparr>fi_failure_type = ''OUT_OF_ORDER_WEBHOOK'', fi_operation_id = None, fi_parameters = []\<rparr>"

theorem injected_failure_is_canned_witness:
  "\<exists>body w'. inject_simulated_failure demo_env demo_injection demo_world = (body, w')
    \<and> operations w' = [] \<and> dget body ''state_after'' = Some (JStr ''SUCCEEDED'')"
proof -
  obtain body w' where run: "inject_simulated_failure demo_env demo_injection demo_world = (body, w')"
    by (cases "inject_simulated_failure demo_env demo_injection demo_world")
  from injected_failure_is_canned [OF run] run show ?thesis
    by (simp add: demo_injection_def demo_world_def)
qed

text \<open>
  The counters of the telemetry route: its active reservations leave out the operations that are
  EXECUTING, which hold their amounts as well.
\<close>

lemma active_reservations_undercount:
  "count_where (\<lambda>op. in_flight (o_status op)) (operations w)
     = sm_active_reservations (get_system_metrics w)
       + count_where (\<lambda>op. o_status op = Op_EXECUTING) (operations w)"
proof -
  have "count_where (\<lambda>op. in_flight (o_status op)) ops = count_where (\<lambda>op. o_status op = Op_RESERVED) ops
      + count_where (\<lambda>op. o_status op = Op_EXECUTING) ops" for ops
    by (induction ops) (auto simp: count_where_def in_flight_def)
  then show ?thesis by (simp add: get_system_metrics_def)
qed

text \<open>A span never swallows or changes what its body returns.\<close>

lemma span_is_transparent: "snd (in_trace_span E n a s e body w) = body w"
  by (simp add: in_trace_span_def Let_def case_prod_unfold)

lemma span_marks_errors:
  assumes "body w = (Inl e, w')"
  shows "dget (sp_attributes (fst (in_trace_span E n None s t body w))) ''error'' = Some (JBool True)"
  using assms by (simp add: in_trace_span_def span_exit_def OpenTelemetryTraceSpan_init_def span_enter_def
      dset_def Let_def dict_simps)

end
