(* ===== verification/Control_Plane.thy ===== *)
theory Control_Plane
  imports Operations Webhooks Worker Reconciliation Mcp_Gateway Agent_Runner Agent_Routes Telemetry
begin

text \<open>
  The control plane as one system: every route, the webhook pipeline, the worker's sweep and the
  audit as events on the shared state, in any order. A financial request appears as a whole and
  as its three phases, so that requests interleave between the policy decision, the reservation
  and the dispatch. \<open>enabled\<close> says what the environment guarantees of an event: request bodies
  that pydantic accepted, refund amounts that are not negative, and that a payment is verified
  while its operation is in flight (the route itself does not check that).
\<close>

section \<open>Events\<close>

datatype event =
    Ev_create_mandate env mandate_create
  | Ev_delegate env string mandate_delegate_request
  | Ev_suspend env string "string option"
  | Ev_revoke env string "string option"
  | Ev_activate string
  | Ev_admit env operation_create hdr hdr hdr
  | Ev_reserve env operation_create string evaluation
  | Ev_dispatch env string dict
  | Ev_request env operation_create hdr hdr hdr
  | Ev_approve env string human_approval
  | Ev_verify env string payment_verify
  | Ev_webhook env string string
  | Ev_sweep env int "string \<Rightarrow> bool" worker_state
  | Ev_audit env int
  | Ev_mcp env "json \<Rightarrow> int option" rpc_request hdr hdr hdr
  | Ev_chat env openai_api "llm_adapter option" string chat_request hdr hdr
  | Ev_register_agent env agent_create
  | Ev_agent_status env string agent_status_update
  | Ev_policy_test env policy_test_request
  | Ev_audit_now env
  | Ev_inject_failure env failure_injection

definition refund_event_ok :: "env \<Rightarrow> string \<Rightarrow> bool" where
  "refund_event_ok E body =
     (case json_loads E body of
        Some (JObj d) \<Rightarrow>
          (case refund_fields (dget_or d ''payload'' (JObj [])) of
             Inr (Some _, n) \<Rightarrow> 0 \<le> n
           | _ \<Rightarrow> True)
      | _ \<Rightarrow> True)"

fun enabled :: "event \<Rightarrow> world \<Rightarrow> bool" where
  "enabled (Ev_create_mandate E p) w = valid_mandate_create p"
| "enabled (Ev_delegate E k p) w = valid_delegate_request p"
| "enabled (Ev_admit E p k au i) w = valid_operation_create p"
| "enabled (Ev_reserve E p pk res) w =
     (case get_operation_row w pk of None \<Rightarrow> False
      | Some op \<Rightarrow> o_status op = Op_INITIATED \<and> o_amount op = oc_amount p)"
| "enabled (Ev_dispatch E pk payload) w =
     (case get_operation_row w pk of None \<Rightarrow> False | Some op \<Rightarrow> o_status op = Op_RESERVED)"
| "enabled (Ev_request E p k au i) w = valid_operation_create p"
| "enabled (Ev_verify E i v) w =
     (case operation_by_id w i of None \<Rightarrow> True | Some op \<Rightarrow> in_flight (o_status op))"
| "enabled (Ev_webhook E body sig) w = refund_event_ok E body"
| "enabled _ w = True"

definition mandate_of_operation :: "string \<Rightarrow> world \<Rightarrow> string" where
  "mandate_of_operation pk w =
     (case get_operation_row w pk of None \<Rightarrow> [] | Some op \<Rightarrow> o_mandate_id op)"

fun perform :: "event \<Rightarrow> world \<Rightarrow> world" where
  "perform (Ev_create_mandate E p) w = snd (create_mandate E p w)"
| "perform (Ev_delegate E k p) w = snd (delegate_child_mandate E k p w)"
| "perform (Ev_suspend E k r) w = snd (suspend_mandate_cascade E k r w)"
| "perform (Ev_revoke E k r) w = snd (revoke_mandate_cascade E k r w)"
| "perform (Ev_activate k) w = snd (activate_mandate k w)"
| "perform (Ev_admit E p k au i) w = snd (admit_operation E p k au i w)"
| "perform (Ev_reserve E p pk res) w =
     snd (reserve_operation E p pk (mandate_of_operation pk w) res w)"
| "perform (Ev_dispatch E pk payload) w =
     dispatch_reserved E pk (mandate_of_operation pk w) payload w"
| "perform (Ev_request E p k au i) w = snd (request_financial_operation E p k au i w)"
| "perform (Ev_approve E i h) w = snd (human_approve_operation E i h w)"
| "perform (Ev_verify E i v) w = snd (verify_payment E i v w)"
| "perform (Ev_webhook E body sig) w = snd (handle_razorpay_webhook E body sig w)"
| "perform (Ev_sweep E t locked s) w = snd (snd (reconcile_stuck_reservations E t locked s w))"
| "perform (Ev_audit E minutes) w = snd (run_gateway_reconciliation E minutes w)"
| "perform (Ev_mcp E coerce rq k au i) w = snd (handle_mcp_jsonrpc_gateway E coerce rq k au i w)"
| "perform (Ev_chat E api adapter i p k au) w = snd (chat_with_agent E api adapter i p k au w)"
| "perform (Ev_register_agent E p) w = snd (register_agent E p w)"
| "perform (Ev_agent_status E i u) w = snd (update_agent_status E i u w)"
| "perform (Ev_policy_test E req) w = snd (test_evaluate_policy E req w)"
| "perform (Ev_audit_now E) w = snd (trigger_reconciliation E w)"
| "perform (Ev_inject_failure E p) w = snd (inject_simulated_failure E p w)"

inductive sys_step :: "world \<Rightarrow> world \<Rightarrow> bool" where
  event: "enabled ev w \<Longrightarrow> sys_step w (perform ev w)"

inductive_cases sys_stepE: "sys_step w w'"

text \<open>A run of given events, \<open>None\<close> when one of them is not enabled.\<close>

fun run_events :: "event list \<Rightarrow> world \<Rightarrow> world option" where
  "run_events [] w = Some w"
| "run_events (ev # evs) w = (if enabled ev w then run_events evs (perform ev w) else None)"

lemma run_events_steps: "run_events evs w = Some w' \<Longrightarrow> sys_step\<^sup>*\<^sup>* w w'"
proof (induction evs arbitrary: w)
  case (Cons ev evs)
  then have "sys_step w (perform ev w)" and "sys_step\<^sup>*\<^sup>* (perform ev w) w'"
    by (auto intro: sys_step.event split: if_splits)
  then show ?case by simp
qed simp

section \<open>The mandate routes as ledger moves\<close>

lemma create_mandate_operations: "operations (snd (create_mandate E p w)) = operations w"
  unfolding create_mandate_def Let_def
  by (auto split: sum.split option.split prod.split dest!: flush_mandate_Inr)

lemma create_mandate_ledger:
  assumes "valid_mandate_create p"
  shows "ledger_steps (lview w) (lview (snd (create_mandate E p w)))"
proof (cases "mandates (snd (create_mandate E p w)) = mandates w")
  case True
  from lview_cong [OF this create_mandate_operations] show ?thesis by simp
next
  case False
  then obtain m where m: "mandates (snd (create_mandate E p w)) = mandates w @ [m]"
    "m_id m \<notin> m_id ` set (mandates w)" "m_current_aggregate_spend m = 0" "m_reserved_spend m = 0"
    "m_aggregate_spend_limit m = mc_aggregate_spend_limit p"
    using create_mandate_result [of E p w] by auto
  have "ledger_step (lview w) (lview (w\<lparr>mandates := mandates w @ [m]\<rparr>))"
    using m assms by (intro add_mandate_step) (simp_all add: valid_mandate_create_def)
  also have "lview (w\<lparr>mandates := mandates w @ [m]\<rparr>) = lview (snd (create_mandate E p w))"
    using m(1) create_mandate_operations [of E p w] by (intro lview_cong) simp_all
  finally show ?thesis by (rule r_into_rtranclp)
qed

lemma delegate_ledger:
  assumes "valid_delegate_request p"
  shows "ledger_steps (lview w) (lview (snd (delegate_child_mandate E k p w)))"
proof (cases "delegate_child_mandate E k p w")
  case (Pair r w')
  show ?thesis
  proof (cases r)
    case (Inl e)
    with Pair delegate_Inl [of E k p w e] have "mandates w' = mandates w" "operations w' = operations w" by auto
    from lview_cong [OF this] Pair show ?thesis by simp
  next
    case (Inr child)
    from delegate_Inr [OF Pair [unfolded Inr]] have c:
      "mandates w' = tupd m_id k (allocate_child (md_aggregate_spend_limit p)) (mandates w) @ [child]"
      "m_id child \<notin> m_id ` set (mandates w)" "operations w' = operations w"
      "m_current_aggregate_spend child = 0" "m_reserved_spend child = 0"
      "m_aggregate_spend_limit child = md_aggregate_spend_limit p" by auto
    let ?v = "upd_mandate k (allocate_child (md_aggregate_spend_limit p)) w"
    have "map account_of (mandates ?v) = map account_of (mandates w)"
      unfolding upd_mandate_def by (simp add: map_tupd_same allocate_child_def account_of_def)
    then have v: "lview ?v = lview w" by (simp add: lview_def upd_mandate_def)
    have ids: "m_id ` set (mandates ?v) = m_id ` set (mandates w)"
      using allocate_row.keys_tupd [of k "md_aggregate_spend_limit p" "mandates w"]
      by (simp add: upd_mandate_def) (metis list.set_map)
    have "ledger_step (lview ?v) (lview (?v\<lparr>mandates := mandates ?v @ [child]\<rparr>))"
      using c assms by (intro add_mandate_step) (simp_all add: ids valid_delegate_request_def)
    also have "lview (?v\<lparr>mandates := mandates ?v @ [child]\<rparr>) = lview w'"
      using c(1,3) by (intro lview_cong) (simp_all add: upd_mandate_def)
    finally show ?thesis using v Pair by (simp add: r_into_rtranclp)
  qed
qed

lemma account_grant: "account_of (grant_of m) = account_of m"
  by (simp add: account_of_def grant_of_def)

lemma lview_grants:
  assumes "map grant_of (mandates w') = map grant_of (mandates w)" and "operations w' = operations w"
  shows "lview w' = lview w"
proof -
  have acc: "map account_of ms = map account_of (map grant_of ms)" for ms
    by (simp add: account_grant comp_def)
  have "map account_of (mandates w') = map account_of (mandates w)"
    using acc [of "mandates w'"] acc [of "mandates w"] assms(1) by metis
  with assms(2) show ?thesis by (simp add: lview_def)
qed

lemma operations_cascade_loop: "operations (cascade_loop E r t re V q w) = operations w"
proof (induction E r t re V q w rule: cascade_loop.induct)
  case (2 E r t re V c q w)
  have "operations (cascade_one E r t re c w) = operations w"
    by (simp add: cascade_one_def upd_mandate_def split: option.split)
  with 2 show ?case by (simp add: Let_def)
qed simp

lemma status_routes_lview:
  "lview (snd (suspend_mandate_cascade E k r w)) = lview w"
  "lview (snd (revoke_mandate_cascade E k r w)) = lview w"
  "lview (snd (activate_mandate k w)) = lview w"
proof -
  have "lview (snd (change_with_cascade E t d k r w)) = lview w" for t d
  proof (rule lview_grants)
    show "map grant_of (mandates (snd (change_with_cascade E t d k r w))) = map grant_of (mandates w)"
      by (simp add: change_with_cascade_def Let_def grants_cascade split: option.split)
    show "operations (snd (change_with_cascade E t d k r w)) = operations w"
      by (simp add: change_with_cascade_def Let_def cascade_mandate_status_def operations_cascade_loop
          del: cascade_loop.simps split: option.split)
  qed
  then show "lview (snd (suspend_mandate_cascade E k r w)) = lview w"
    and "lview (snd (revoke_mandate_cascade E k r w)) = lview w"
    by (simp_all add: suspend_mandate_cascade_def revoke_mandate_cascade_def)
  show "lview (snd (activate_mandate k w)) = lview w"
  proof (rule lview_grants)
    show "map grant_of (mandates (snd (activate_mandate k w))) = map grant_of (mandates w)"
      by (auto simp: activate_mandate_def upd_mandate_def reactivate_def grant_of_def
          split: option.splits intro!: map_tupd_same)
  qed (simp add: activate_mandate_def upd_mandate_def split: option.split)
qed

section \<open>The system refines the ledger\<close>

lemma refund_event_nonneg:
  "refund_event_ok E body \<Longrightarrow> json_loads E body = Some (JObj d) \<Longrightarrow> refund_nonneg d"
  by (auto simp: refund_event_ok_def refund_nonneg_def)

lemma audit_tables:
  "mandates (snd (run_gateway_reconciliation E n w)) = mandates w
    \<and> operations (snd (run_gateway_reconciliation E n w)) = operations w"
proof -
  obtain r w' where run: "run_gateway_reconciliation E n w = (r, w')"
    by (cases "run_gateway_reconciliation E n w")
  have "same_tables w v" if "check_pairs E (razorpay_client E) ps q w = (x, v)" for ps q x v
    using check_pairs_only_gets [of w E "razorpay_client E" ps q] that by (simp add: only_gets_def)
  note t = same_tables_fields(1,2) [OF this]
  from run [unfolded run_gateway_reconciliation_def] have "mandates w' = mandates w \<and> operations w' = operations w"
    by (cases rule: perform_cases) (auto simp: t)
  with run show ?thesis by simp
qed

lemma audit_lview: "lview (snd (run_gateway_reconciliation E n w)) = lview w"
  using audit_tables [of E n w] by (intro lview_cong) simp_all

lemma admin_lview:
  "lview (snd (register_agent E p w)) = lview w"
  "lview (snd (update_agent_status E i u w)) = lview w"
  "lview (snd (test_evaluate_policy E req w)) = lview w"
  "lview (snd (trigger_reconciliation E w)) = lview w"
  "lview (snd (inject_simulated_failure E q w)) = lview w"
proof -
  show "lview (snd (register_agent E p w)) = lview w" "lview (snd (update_agent_status E i u w)) = lview w"
    by (rule lview_cong; simp add: register_agent_tables)+
  show "lview (snd (test_evaluate_policy E req w)) = lview w"
    by (auto simp: test_evaluate_policy_def dest: policy_evaluate_spec(4) lview_only_meters
        split: option.split)
  show "lview (snd (trigger_reconciliation E w)) = lview w"
    using audit_lview [of E 1440 w]
    by (cases "run_gateway_reconciliation E 1440 w"; cases "fst (run_gateway_reconciliation E 1440 w)")
      (simp_all add: trigger_reconciliation_def)
  show "lview (snd (inject_simulated_failure E q w)) = lview w"
    by (simp add: inject_simulated_failure_def draw_uuid_def lview_def Let_def)
qed

text \<open>Every event is, on the ledger view of the database, a sequence of ledger moves.\<close>

lemma perform_ledger:
  assumes ok: "books_ok w" and en: "enabled ev w"
  shows "ledger_steps (lview w) (lview (perform ev w))"
proof (cases ev)
  case (Ev_admit E p k au i)
  with ok en show ?thesis
    using admit_ledger [OF ok, of p E k au i] by (simp add: valid_operation_create_def prod_eq_iff)
next
  case (Ev_reserve E p pk res)
  with en obtain op where "get_operation_row w pk = Some op" "o_status op = Op_INITIATED"
    "o_amount op = oc_amount p" by (auto split: option.splits)
  with ok Ev_reserve show ?thesis
    using reserve_operation_ledger [OF ok, of pk op "o_mandate_id op" p E res]
    by (simp add: mandate_of_operation_def prod_eq_iff)
next
  case (Ev_dispatch E pk payload)
  with en obtain op where "get_operation_row w pk = Some op" "o_status op = Op_RESERVED"
    by (auto split: option.splits)
  with ok Ev_dispatch show ?thesis
    using dispatch_reserved_ledger [OF ok, of pk op] by (simp add: mandate_of_operation_def)
next
  case (Ev_verify E i v)
  show ?thesis
  proof (cases "operation_by_id w i")
    case None
    with Ev_verify show ?thesis by (simp add: verify_payment_def)
  next
    case (Some op)
    with ok en Ev_verify show ?thesis using verify_payment_ledger [OF ok Some, of E v] by simp
  qed
next
  case (Ev_sweep E t locked s)
  then show ?thesis using sweep_ledger [OF ok, of E t locked s] by (simp add: prod_eq_iff)
next
  case (Ev_mcp E c rq k au i)
  then show ?thesis using mcp_ledger [OF ok, of E c rq k au i] by (simp add: prod_eq_iff)
next
  case (Ev_chat E api d i p k au)
  then show ?thesis using chat_ledger [OF ok, of E api d i p k au] by (simp add: prod_eq_iff)
qed (use en in \<open>simp_all add: create_mandate_ledger delegate_ledger status_routes_lview audit_lview admin_lview
      request_ledger [OF ok] valid_operation_create_def approve_ledger [OF ok]
      webhook_ledger [OF ok] refund_event_nonneg\<close>)

interpretation control_plane: ledger_system lview sys_step
  by unfold_locales (auto elim!: sys_stepE intro: perform_ledger simp: books_ok_def)

end
