(* ===== verification/Event_Bus.thy ===== *)
theory Event_Bus
  imports Witness_Data
begin

text \<open>
  The events and the in-memory bus of \<^verbatim>\<open>packages/events/bus.py\<close>. Nothing in the repository
  subscribes to the bus, so what a handler does is a parameter: a handler is known by its
  identifier, and \<open>call\<close> runs it on the event, the bus and a state of its own, which it may change,
  also by subscribing more handlers while the bus iterates over them.
\<close>

section \<open>Events\<close>

record financial_operation_event =
  fe_operation_id :: string
  fe_idempotency_key :: string
  fe_agent_id :: string
  fe_mandate_id :: string
  fe_operation_type :: string
  fe_status :: string
  fe_amount :: int
  fe_currency :: string
  fe_metadata :: dict

record audit_log_event =
  le_action :: audit_action
  le_actor_id :: string
  le_actor_type :: string
  le_resource_id :: string
  le_resource_type :: string
  le_payload :: dict
  le_previous_state :: "dict option"
  le_new_state :: "dict option"

text \<open>What the two subclasses of \<^verbatim>\<open>BaseEvent\<close> add to it.\<close>

datatype event_body =
    BaseEvent
  | FinancialOperationEvent financial_operation_event
  | AuditLogEvent audit_log_event

record base_event =
  be_event_id :: string
  be_timestamp :: datetime
  be_source_service :: string
  be_body :: event_body

definition new_event :: "env \<Rightarrow> event_body \<Rightarrow> world \<Rightarrow> base_event \<times> world" where
  "new_event E body w =
     (let (h, w) = draw_uuid E w in
      (\<lparr>be_event_id = ''evt_'' @ take 16 h, be_timestamp = utc_now E,
        be_source_service = ''mandate-api'', be_body = body\<rparr>, w))"

section \<open>The in-memory bus\<close>

record event_bus =
  eb_handlers :: "string \<Rightarrow> nat list option"
  eb_published_events :: "base_event list"

definition InMemoryEventBus_init :: event_bus where
  "InMemoryEventBus_init = \<lparr>eb_handlers = (\<lambda>_. None), eb_published_events = []\<rparr>"

definition subscribe :: "string \<Rightarrow> nat \<Rightarrow> event_bus \<Rightarrow> event_bus" where
  "subscribe topic handler bus =
     (let bus = (if eb_handlers bus topic = None
                 then bus\<lparr>eb_handlers := (eb_handlers bus)(topic \<mapsto> [])\<rparr> else bus)
      in bus\<lparr>eb_handlers := (eb_handlers bus)(topic \<mapsto> the (eb_handlers bus topic) @ [handler])\<rparr>)"

definition handlers_of :: "event_bus \<Rightarrow> string \<Rightarrow> nat list" where
  "handlers_of bus topic = (case eb_handlers bus topic of None \<Rightarrow> [] | Some hs \<Rightarrow> hs)"

type_synonym 's handler_call =
  "nat \<Rightarrow> base_event \<Rightarrow> event_bus \<times> 's \<Rightarrow> (exn + unit) \<times> event_bus \<times> 's"

text \<open>
  \<open>for handler in self._handlers[topic]\<close> from index \<open>i\<close>: Python iterates over the live list, so a
  handler subscribed to the topic by another one is reached as well; \<open>None\<close> when that never ends.
\<close>

partial_function (option) deliver_from ::
    "'s handler_call \<Rightarrow> string \<Rightarrow> base_event \<Rightarrow> nat \<Rightarrow> event_bus \<times> 's
       \<Rightarrow> ((exn + unit) \<times> event_bus \<times> 's) option" where
  "deliver_from call topic event i st =
     (if i < length (handlers_of (fst st) topic) then
        (case call (handlers_of (fst st) topic ! i) event st of
           (Inl e, st') \<Rightarrow> Some (Inl e, st')
         | (Inr _, st') \<Rightarrow> deliver_from call topic event (Suc i) st')
      else Some (Inr (), st))"

definition publish ::
    "'s handler_call \<Rightarrow> string \<Rightarrow> base_event \<Rightarrow> event_bus \<times> 's
       \<Rightarrow> ((exn + unit) \<times> event_bus \<times> 's) option" where
  "publish call topic event st =
     (let (bus, s) = st;
          bus = bus\<lparr>eb_published_events := eb_published_events bus @ [event]\<rparr>
      in if eb_handlers bus topic \<noteq> None then deliver_from call topic event 0 (bus, s)
         else Some (Inr (), bus, s))"

section \<open>The interface\<close>

text \<open>The contract of \<^verbatim>\<open>EventBus.subscribe\<close>: handlers of a topic are kept in subscription order.\<close>

locale subscription =
  fixes subscribers :: "'b \<Rightarrow> string \<Rightarrow> 'h list" and sub :: "string \<Rightarrow> 'h \<Rightarrow> 'b \<Rightarrow> 'b"
  assumes subscribed: "subscribers (sub t h b) t' = (if t' = t then subscribers b t @ [h] else subscribers b t')"
begin

lemma subscribe_all: "subscribers (fold (sub t) hs b) t = subscribers b t @ hs"
  by (induction hs arbitrary: b) (simp_all add: subscribed)

lemma other_topic: "t' \<noteq> t \<Longrightarrow> subscribers (fold (sub t) hs b) t' = subscribers b t'"
  by (induction hs arbitrary: b) (simp_all add: subscribed)

end

interpretation memory_bus: subscription handlers_of subscribe
  by unfold_locales (simp add: handlers_of_def subscribe_def Let_def split: option.split)

section \<open>Delivery\<close>

text \<open>Handlers called one after the other, up to the first that raises.\<close>

fun call_each ::
    "'s handler_call \<Rightarrow> base_event \<Rightarrow> nat list \<Rightarrow> event_bus \<times> 's \<Rightarrow> (exn + unit) \<times> event_bus \<times> 's" where
  "call_each call event [] st = (Inr (), st)"
| "call_each call event (h # hs) st =
     (case call h event st of
        (Inl e, st') \<Rightarrow> (Inl e, st')
      | (Inr _, st') \<Rightarrow> call_each call event hs st')"

text \<open>Handlers that leave the topic's subscriptions alone.\<close>

definition keeps_topic :: "'s handler_call \<Rightarrow> string \<Rightarrow> bool" where
  "keeps_topic call topic \<longleftrightarrow>
     (\<forall>h ev st. handlers_of (fst (snd (call h ev st))) topic = handlers_of (fst st) topic)"

lemma deliver_call_each:
  assumes "keeps_topic call topic"
  shows "deliver_from call topic event i st
    = Some (call_each call event (drop i (handlers_of (fst st) topic)) st)"
proof (induction "length (handlers_of (fst st) topic) - i" arbitrary: i st)
  case 0
  then show ?case by (subst deliver_from.simps) simp
next
  case (Suc n)
  let ?hs = "handlers_of (fst st) topic"
  obtain r st' where c: "call (?hs ! i) event st = (r, st')" by (cases "call (?hs ! i) event st")
  have hs: "handlers_of (fst st') topic = ?hs"
    using assms c unfolding keeps_topic_def by (metis snd_conv)
  have i: "i < length ?hs" using Suc.hyps(2) by simp
  then have step: "drop i ?hs = ?hs ! i # drop (Suc i) ?hs" by (rule Cons_nth_drop_Suc [symmetric])
  show ?case
  proof (cases r)
    case (Inl e)
    with c i step show ?thesis by (subst deliver_from.simps) simp
  next
    case (Inr u)
    have "n = length (handlers_of (fst st') topic) - Suc i" using Suc.hyps(2) hs by simp
    from Suc.hyps(1) [OF this] Inr c i step hs show ?thesis by (subst deliver_from.simps) simp
  qed
qed

text \<open>
  Publishing returns and delivers in order: when handlers leave the topic's subscriptions
  alone, the event is recorded first and then handed to every handler of the topic in subscription
  order, up to the first that raises, whose exception is the result.
\<close>
theorem publish_in_subscription_order:
  assumes "keeps_topic call topic"
  shows "publish call topic event (fold (subscribe topic) hs bus, s) =
    Some (call_each call event (handlers_of bus topic @ hs)
      ((fold (subscribe topic) hs bus)\<lparr>eb_published_events :=
         eb_published_events (fold (subscribe topic) hs bus) @ [event]\<rparr>, s))"
proof -
  let ?bus = "fold (subscribe topic) hs bus"
  let ?rec = "?bus\<lparr>eb_published_events := eb_published_events ?bus @ [event]\<rparr>"
  have hs: "handlers_of ?rec topic = handlers_of bus topic @ hs"
    using memory_bus.subscribe_all [of topic hs bus] by (simp add: handlers_of_def)
  show ?thesis
  proof (cases "eb_handlers ?rec topic")
    case None
    then have "handlers_of bus topic @ hs = []" using hs by (simp add: handlers_of_def)
    with None show ?thesis by (simp add: publish_def)
  next
    case (Some x)
    with deliver_call_each [OF assms, of event 0 "(?rec, s)"] hs show ?thesis by (simp add: publish_def)
  qed
qed

text \<open>A handler that notes what it is called with, and one that raises.\<close>

definition noting :: "nat list handler_call" where
  "noting h event st = (if h = 9 then (Inl (ValueError ''handler''), st) else (Inr (), fst st, snd st @ [h]))"

theorem publish_in_subscription_order_witness:
  "\<exists>bus. publish noting ''ops'' (fst (new_event demo_env BaseEvent demo_world))
      (fold (subscribe ''ops'') [3, 1, 9, 2] InMemoryEventBus_init, []) = Some (Inl (ValueError ''handler''), bus, [3, 1])"
proof -
  have "keeps_topic noting ''ops''" by (simp add: keeps_topic_def noting_def)
  from publish_in_subscription_order [OF this, of _ "[3, 1, 9, 2]" InMemoryEventBus_init "[]"]
  show ?thesis by (simp add: noting_def handlers_of_def InMemoryEventBus_init_def)
qed

text \<open>A handler that subscribes itself again.\<close>

definition resubscribing :: "unit handler_call" where
  "resubscribing h event st = (Inr (), subscribe ''ops'' h (fst st), ())"

lemma length_resubscribing:
  "length (handlers_of (fst (snd (resubscribing h ev st))) ''ops'') = Suc (length (handlers_of (fst st) ''ops''))"
  by (simp add: resubscribing_def memory_bus.subscribed)

lemma deliver_ends_beyond:
  assumes "deliver_from call topic event i st = Some y"
  shows "call = resubscribing \<Longrightarrow> topic = ''ops'' \<Longrightarrow> length (handlers_of (fst st) topic) \<le> i"
proof (induction rule: deliver_from.raw_induct [OF _ assms])
  case (1 f call topic event i st y)
  show ?case
  proof (rule ccontr)
    assume "\<not> length (handlers_of (fst st) topic) \<le> i"
    then have i: "i < length (handlers_of (fst st) topic)" by simp
    let ?h = "handlers_of (fst st) topic ! i"
    obtain st' where c: "call ?h event st = (Inr (), st')"
      using 1(3) by (simp add: resubscribing_def)
    with 1(2) i have "f call topic event (Suc i) st' = Some y" by simp
    from 1(1) [OF this] 1(3,4) have "length (handlers_of (fst st') topic) \<le> Suc i" by simp
    with length_resubscribing [of ?h event st] c i 1(3,4) show False by simp
  qed
qed

text \<open>A handler that subscribes itself again is called for ever.\<close>

theorem resubscribing_never_returns:
  assumes "handlers_of bus ''ops'' \<noteq> []"
  shows "publish resubscribing ''ops'' event (bus, ()) = None"
proof -
  let ?bus = "bus\<lparr>eb_published_events := eb_published_events bus @ [event]\<rparr>"
  have "deliver_from resubscribing ''ops'' event 0 (?bus, ()) = None"
  proof (cases "deliver_from resubscribing ''ops'' event 0 (?bus, ())")
    case (Some y)
    from deliver_ends_beyond [OF this refl refl] assms show ?thesis by (simp add: handlers_of_def)
  qed
  with assms show ?thesis by (auto simp: publish_def handlers_of_def split: option.splits)
qed

theorem resubscribing_never_returns_witness:
  "publish resubscribing ''ops'' event (subscribe ''ops'' 1 InMemoryEventBus_init, ()) = None"
  by (rule resubscribing_never_returns) (simp add: memory_bus.subscribed)

end
