(* ===== verification/Database_Url.thy ===== *)
theory Database_Url
  imports Config Py_Values "HOL-Library.AList"
begin

text \<open>
  The connection settings of \<^verbatim>\<open>packages/shared/database.py\<close>: the normalisation of the database
  URL for the asyncpg driver, with the functions of Python's \<^verbatim>\<open>urllib.parse\<close> it uses, and the
  cached engine and session factory. A string is read as its UTF-8 bytes; escapes that are not
  valid UTF-8 are kept as they are. The check of a bracketed or non-ASCII host (an IP address
  parser, a Unicode normalisation) is the parameter \<open>host_ok\<close>, the driver's
  \<open>create_async_engine\<close> the parameter \<open>create\<close>.
\<close>

section \<open>Splitting a URL\<close>

definition split_once :: "char \<Rightarrow> string \<Rightarrow> string \<times> string option" where
  "split_once c s =
     (case dropWhile (\<lambda>x. x \<noteq> c) s of
        [] \<Rightarrow> (s, None)
      | _ # r \<Rightarrow> (takeWhile (\<lambda>x. x \<noteq> c) s, Some r))"

definition cut :: "char \<Rightarrow> string \<Rightarrow> string \<times> string" where
  "cut c s = (case split_once c s of (p, q) \<Rightarrow> (p, case q of None \<Rightarrow> [] | Some r \<Rightarrow> r))"

definition is_letter :: "char \<Rightarrow> bool" where
  "is_letter c \<longleftrightarrow> (let n = (of_char c :: nat) in 65 \<le> n \<and> n \<le> 90 \<or> 97 \<le> n \<and> n \<le> 122)"

definition scheme_char :: "char \<Rightarrow> bool" where
  "scheme_char c \<longleftrightarrow> is_letter c \<or> is_digit c \<or> c \<in> {CHR ''+'', CHR ''-'', CHR ''.''}"

definition is_scheme :: "string \<Rightarrow> bool" where
  "is_scheme s \<longleftrightarrow> s \<noteq> [] \<and> is_letter (hd s) \<and> list_all scheme_char s"

definition unsafe_char :: "char \<Rightarrow> bool" where
  "unsafe_char c \<longleftrightarrow> c \<in> {CHR 0x09, CHR 0x0D, CHR 0x0A}"

definition netloc_end :: "char \<Rightarrow> bool" where
  "netloc_end c \<longleftrightarrow> c \<in> {CHR ''/'', CHR ''?'', CHR ''#''}"

record split_url =
  su_scheme :: string
  su_netloc :: string
  su_path :: string
  su_query :: string
  su_fragment :: string

definition split_scheme :: "string \<Rightarrow> string \<times> string" where
  "split_scheme url =
     (case split_once (CHR '':'') url of
        (p, Some r) \<Rightarrow> if is_scheme p then (str_lower p, r) else ([], url)
      | (_, None) \<Rightarrow> ([], url))"

definition split_netloc :: "string \<Rightarrow> string \<times> string" where
  "split_netloc url =
     (if take 2 url = ''//''
      then (takeWhile (\<lambda>c. \<not> netloc_end c) (drop 2 url), dropWhile (\<lambda>c. \<not> netloc_end c) (drop 2 url))
      else ([], url))"

definition netloc_valid :: "(string \<Rightarrow> bool) \<Rightarrow> string \<Rightarrow> bool" where
  "netloc_valid host_ok netloc \<longleftrightarrow>
     (CHR ''['' \<in> set netloc \<longleftrightarrow> CHR '']'' \<in> set netloc) \<and> host_ok netloc"

definition urlsplit :: "(string \<Rightarrow> bool) \<Rightarrow> string \<Rightarrow> exn + split_url" where
  "urlsplit host_ok url =
     (let url = filter (\<lambda>c. \<not> unsafe_char c) (dropWhile (\<lambda>c. (of_char c :: nat) \<le> 32) url);
          (scheme, url) = split_scheme url;
          (netloc, url) = split_netloc url
      in if \<not> netloc_valid host_ok netloc then Inl (ValueError ''Invalid IPv6 URL'')
         else
           let (url, fragment) = cut (CHR ''#'') url;
               (url, query) = cut (CHR ''?'') url
           in Inr \<lparr>su_scheme = scheme, su_netloc = netloc, su_path = url, su_query = query,
                su_fragment = fragment\<rparr>)"

definition uses_netloc :: "string list" where
  "uses_netloc = ['''', ''ftp'', ''http'', ''gopher'', ''nntp'', ''telnet'', ''imap'', ''wais'', ''file'',
     ''mms'', ''https'', ''shttp'', ''snews'', ''prospero'', ''rtsp'', ''rtsps'', ''rtspu'', ''rsync'', ''svn'',
     ''svn+ssh'', ''sftp'', ''nfs'', ''git'', ''git+ssh'', ''ws'', ''wss'', ''itms-services'']"

definition urlunsplit :: "split_url \<Rightarrow> string" where
  "urlunsplit u =
     (let url = su_path u;
          url = (if su_netloc u \<noteq> [] \<or>
                    su_scheme u \<noteq> [] \<and> su_scheme u \<in> set uses_netloc \<and> take 2 url \<noteq> ''//''
                 then ''//'' @ su_netloc u @ (if url \<noteq> [] \<and> hd url \<noteq> CHR ''/'' then CHR ''/'' # url else url)
                 else url);
          url = (if su_scheme u \<noteq> [] then su_scheme u @ '':'' @ url else url);
          url = (if su_query u \<noteq> [] then url @ ''?'' @ su_query u else url)
      in if su_fragment u \<noteq> [] then url @ ''#'' @ su_fragment u else url)"

section \<open>The query\<close>

definition hex_val :: "char \<Rightarrow> nat option" where
  "hex_val c =
     (let n = (of_char c :: nat) in
      if 48 \<le> n \<and> n \<le> 57 then Some (n - 48)
      else if 65 \<le> n \<and> n \<le> 70 then Some (n - 55)
      else if 97 \<le> n \<and> n \<le> 102 then Some (n - 87)
      else None)"

definition hex_upper :: "nat \<Rightarrow> char" where
  "hex_upper d = (if d < 10 then char_of (48 + d) else char_of (55 + d))"

definition hex_byte :: "string \<Rightarrow> (char \<times> string) option" where
  "hex_byte s =
     (case s of
        a # b # r \<Rightarrow>
          (case (hex_val a, hex_val b) of
             (Some x, Some y) \<Rightarrow> Some (char_of (16 * x + y), r)
           | _ \<Rightarrow> None)
      | _ \<Rightarrow> None)"

lemma hex_byte_shorter: "hex_byte s = Some (c, r) \<Longrightarrow> length r < length s"
  by (auto simp: hex_byte_def split: list.splits option.splits)

function unquote :: "string \<Rightarrow> string" where
  "unquote [] = []"
| "unquote (c # s) =
     (case (if c = CHR ''%'' then hex_byte s else None) of
        Some (x, r) \<Rightarrow> x # unquote r
      | None \<Rightarrow> c # unquote s)"
  by pat_completeness auto

termination unquote
  by (relation "measure length") (auto dest: hex_byte_shorter split: if_splits)

definition plus_to_space :: "string \<Rightarrow> string" where
  "plus_to_space s = map (\<lambda>c. if c = CHR ''+'' then CHR '' '' else c) s"

definition parse_pair :: "string \<Rightarrow> string \<times> string" where
  "parse_pair nv = (case cut (CHR ''='') nv of (n, v) \<Rightarrow> (unquote (plus_to_space n), unquote (plus_to_space v)))"

definition parse_qsl :: "string \<Rightarrow> (string \<times> string) list" where
  "parse_qsl qs = (if qs = [] then []
     else map parse_pair (filter (\<lambda>nv. nv \<noteq> []) (str_split (CHR ''&'') qs)))"

definition always_safe :: "char \<Rightarrow> bool" where
  "always_safe c \<longleftrightarrow> is_letter c \<or> is_digit c \<or> c \<in> {CHR ''_'', CHR ''.'', CHR ''-'', CHR ''~''}"

definition quote_char :: "char \<Rightarrow> string" where
  "quote_char c =
     (if always_safe c then [c]
      else if c = CHR '' '' then ''+''
      else [CHR ''%'', hex_upper (of_char c div 16), hex_upper (of_char c mod 16)])"

definition quote_plus :: "string \<Rightarrow> string" where
  "quote_plus s = concat (map quote_char s)"

definition urlencode :: "(string \<times> string) list \<Rightarrow> string" where
  "urlencode ps = str_join ''&'' (map (\<lambda>(k, v). quote_plus k @ ''='' @ quote_plus v) ps)"

text \<open>\<open>dict(pairs)\<close>: a repeated key keeps its first place and its last value.\<close>

definition dict_of_pairs :: "(string \<times> string) list \<Rightarrow> (string \<times> string) list" where
  "dict_of_pairs ps = fold (\<lambda>(k, v). AList.update k v) ps []"

section \<open>The normalised URL\<close>

definition async_scheme :: "string \<Rightarrow> string" where
  "async_scheme scheme =
     (if scheme \<in> {''postgres'', ''postgresql''} then ''postgresql+asyncpg''
      else if scheme = ''postgresql+psycopg2'' then ''postgresql+asyncpg''
      else scheme)"

text \<open>The query parameters that remain and the connection arguments.\<close>

definition take_ssl_params :: "(string \<times> string) list \<Rightarrow> (string \<times> string) list \<times> dict" where
  "take_ssl_params query_params =
     (let ssl_mode = map_of query_params ''sslmode'';
          query_params = AList.delete ''sslmode'' query_params
      in if ssl_mode \<in> {Some ''require'', Some ''verify-ca'', Some ''verify-full'', Some ''prefer''}
         then (query_params, [(''ssl'', JBool True)])
         else
           case map_of query_params ''ssl'' of
             None \<Rightarrow> (query_params, [])
           | Some v \<Rightarrow>
               (AList.delete ''ssl'' query_params,
                if str_lower v \<in> {''true'', ''1'', ''require''} then [(''ssl'', JBool True)] else []))"

definition normalize_async_database_url :: "(string \<Rightarrow> bool) \<Rightarrow> string \<Rightarrow> exn + string \<times> dict" where
  "normalize_async_database_url host_ok url_str =
     bindE (urlsplit host_ok url_str) (\<lambda>parts.
       let (query_params, connect_args) = take_ssl_params (dict_of_pairs (parse_qsl (su_query parts)))
       in Inr (urlunsplit (parts\<lparr>su_scheme := async_scheme (su_scheme parts),
            su_query := urlencode query_params\<rparr>), connect_args))"

section \<open>The cached engine and session factory\<close>

text \<open>The factory is represented by the engine it is bound to.\<close>

record 'e db_handles =
  dh_engine :: "'e option"
  dh_session_factory :: "'e option"

definition no_handles :: "'e db_handles" where
  "no_handles = \<lparr>dh_engine = None, dh_session_factory = None\<rparr>"

definition get_engine ::
    "(string \<Rightarrow> bool) \<Rightarrow> (string \<Rightarrow> bool \<Rightarrow> dict \<Rightarrow> exn + 'e) \<Rightarrow> settings \<Rightarrow> 'e db_handles
       \<Rightarrow> (exn + 'e) \<times> 'e db_handles" where
  "get_engine host_ok create s h =
     (case dh_engine h of
        Some e \<Rightarrow> (Inr e, h)
      | None \<Rightarrow>
          (case bindE (normalize_async_database_url host_ok (DATABASE_URL s))
                  (\<lambda>(clean_url, connect_args). create clean_url (DEBUG s) connect_args) of
             Inl x \<Rightarrow> (Inl x, h)
           | Inr e \<Rightarrow> (Inr e, h\<lparr>dh_engine := Some e\<rparr>)))"

definition dispose_engine :: "'e db_handles \<Rightarrow> 'e db_handles" where
  "dispose_engine h =
     (case dh_engine h of
        None \<Rightarrow> h
      | Some _ \<Rightarrow> h\<lparr>dh_engine := None, dh_session_factory := None\<rparr>)"

definition get_session_factory ::
    "(string \<Rightarrow> bool) \<Rightarrow> (string \<Rightarrow> bool \<Rightarrow> dict \<Rightarrow> exn + 'e) \<Rightarrow> settings \<Rightarrow> 'e db_handles
       \<Rightarrow> (exn + 'e) \<times> 'e db_handles" where
  "get_session_factory host_ok create s h =
     (case dh_session_factory h of
        Some e \<Rightarrow> (Inr e, h)
      | None \<Rightarrow>
          (case get_engine host_ok create s h of
             (Inl x, h) \<Rightarrow> (Inl x, h)
           | (Inr e, h) \<Rightarrow> (Inr e, h\<lparr>dh_session_factory := Some e\<rparr>)))"

text \<open>The factory is always bound to the current engine.\<close>

definition handles_ok :: "'e db_handles \<Rightarrow> bool" where
  "handles_ok h \<longleftrightarrow> dh_session_factory h \<in> {None, dh_engine h}"

lemma handles_ok_operations:
  "handles_ok no_handles"
  "handles_ok h \<Longrightarrow> handles_ok (dispose_engine h)"
  "handles_ok h \<Longrightarrow> handles_ok (snd (get_engine ok create s h))"
  "handles_ok h \<Longrightarrow> handles_ok (snd (get_session_factory ok create s h))"
  by (auto simp: handles_ok_def no_handles_def dispose_engine_def get_engine_def get_session_factory_def
      split: option.splits sum.splits)

section \<open>The query round trip\<close>

lemma char_high: "(of_char c :: nat) div 16 < 16"
  by (rule less_mult_imp_div_less) simp

lemma hex_upper_val: "d < 16 \<Longrightarrow> hex_val (hex_upper d) = Some d"
  by (auto simp: hex_upper_def hex_val_def Let_def)

lemma unquote_escape:
  "unquote (CHR ''%'' # hex_upper (of_char c div 16) # hex_upper (of_char c mod 16) # s) = c # unquote s"
proof -
  have "hex_byte (hex_upper (of_char c div 16) # hex_upper (of_char c mod 16) # s) = Some (c, s)"
    by (simp add: hex_byte_def hex_upper_val char_high mult.commute)
  then show ?thesis by simp
qed

lemma safe_not_special:
  "always_safe c \<Longrightarrow> c \<noteq> CHR ''%'' \<and> c \<noteq> CHR ''+'' \<and> c \<noteq> CHR ''='' \<and> c \<noteq> CHR ''&'' \<and> c \<noteq> CHR ''#''"
  by (auto simp: always_safe_def is_letter_def is_digit_def Let_def)

lemma hex_upper_safe: "d < 16 \<Longrightarrow> always_safe (hex_upper d)"
  by (auto simp: hex_upper_def always_safe_def is_letter_def is_digit_def Let_def)

lemma quote_char_chars: "x \<in> set (quote_char c) \<Longrightarrow> always_safe x \<or> x = CHR ''%'' \<or> x = CHR ''+''"
  by (auto simp: quote_char_def hex_upper_safe char_high split: if_splits)

lemma unquote_quote_char: "unquote (plus_to_space (quote_char c @ s)) = c # unquote (plus_to_space s)"
proof -
  have h: "hex_upper k \<noteq> CHR ''+''" if "k < 16" for k using safe_not_special [OF hex_upper_safe [OF that]] by simp
  show ?thesis
    using safe_not_special [of c] unquote_escape [of c "plus_to_space s"] char_high [of c] h
    by (auto simp: quote_char_def plus_to_space_def simp del: unquote.simps(2)) (simp_all)
qed

lemma unquote_quote_plus: "unquote (plus_to_space (quote_plus s)) = s"
  by (induction s) (simp_all add: quote_plus_def unquote_quote_char, simp add: plus_to_space_def)

lemma quote_plus_chars: "x \<in> set (quote_plus s) \<Longrightarrow> x \<noteq> CHR ''='' \<and> x \<noteq> CHR ''&'' \<and> x \<noteq> CHR ''#''"
  using quote_char_chars safe_not_special by (fastforce simp: quote_plus_def)

lemma split_once_append: "c \<notin> set p \<Longrightarrow> split_once c (p @ c # r) = (p, Some r)"
  by (induction p) (auto simp: split_once_def split: list.splits)

lemma split_once_absent: "c \<notin> set p \<Longrightarrow> split_once c p = (p, None)"
proof -
  assume "c \<notin> set p"
  then have d: "dropWhile (\<lambda>x. x \<noteq> c) p = []" by (auto simp: dropWhile_eq_Nil_conv)
  show ?thesis unfolding split_once_def d by simp
qed

lemma cut_append: "c \<notin> set p \<Longrightarrow> cut c (p @ c # r) = (p, r)"
  by (simp add: cut_def split_once_append)

lemma cut_absent: "c \<notin> set p \<Longrightarrow> cut c p = (p, [])"
  by (simp add: cut_def split_once_absent)

lemma parse_pair_roundtrip: "parse_pair (quote_plus k @ ''='' @ quote_plus v) = (k, v)"
proof -
  have "CHR ''='' \<notin> set (quote_plus k)" using quote_plus_chars by blast
  then show ?thesis by (simp add: parse_pair_def cut_append unquote_quote_plus)
qed

lemma str_split_single: "c \<notin> set s \<Longrightarrow> str_split c s = [s]"
  by (induction s) auto

lemma str_split_append: "c \<notin> set s \<Longrightarrow> str_split c (s @ c # r) = s # str_split c r"
  by (induction s) auto

lemma str_split_join: "ps \<noteq> [] \<Longrightarrow> \<forall>p \<in> set ps. c \<notin> set p \<Longrightarrow> str_split c (str_join [c] ps) = ps"
  by (induction "[c]" ps rule: str_join.induct) (simp_all add: str_split_single str_split_append)

lemma parse_urlencode: "parse_qsl (urlencode ps) = ps"
proof (cases ps)
  case Nil
  then show ?thesis by (simp add: urlencode_def parse_qsl_def)
next
  case (Cons p qs)
  let ?enc = "map (\<lambda>(k, v). quote_plus k @ ''='' @ quote_plus v) ps"
  have amp: "\<forall>p \<in> set ?enc. CHR ''&'' \<notin> set p" using quote_plus_chars by fastforce
  have ne: "\<forall>p \<in> set ?enc. p \<noteq> []" by auto
  have split: "str_split (CHR ''&'') (urlencode ps) = ?enc"
    unfolding urlencode_def using Cons amp by (intro str_split_join) simp_all
  have "urlencode ps \<noteq> []"
  proof
    assume "urlencode ps = []"
    with split have "?enc = [[]]" by simp
    with ne Cons show False by simp
  qed
  moreover have "filter (\<lambda>nv. nv \<noteq> []) ?enc = ?enc" using ne by (simp add: filter_id_conv)
  moreover have "map parse_pair ?enc = ps" by (induction ps) (auto simp: parse_pair_roundtrip [simplified])
  ultimately show ?thesis by (simp add: parse_qsl_def split)
qed

text \<open>
  The driver's query survives the rewriting: parsing the encoded query gives back the parameters,
  whatever bytes their names and values hold.
\<close>
theorem query_roundtrip: "parse_qsl (urlencode ps) = ps"
  by (rule parse_urlencode)

section \<open>Reading the normalised URL back\<close>

definition plain :: "string \<Rightarrow> bool" where
  "plain s \<longleftrightarrow> (\<forall>c \<in> set s. \<not> unsafe_char c)"

definition url_wf :: "(string \<Rightarrow> bool) \<Rightarrow> split_url \<Rightarrow> bool" where
  "url_wf host_ok u \<longleftrightarrow> is_scheme (su_scheme u) \<and> str_lower (su_scheme u) = su_scheme u
     \<and> su_netloc u \<noteq> [] \<and> (\<forall>c \<in> set (su_netloc u). \<not> netloc_end c) \<and> netloc_valid host_ok (su_netloc u)
     \<and> (su_path u = [] \<or> hd (su_path u) = CHR ''/'') \<and> CHR ''?'' \<notin> set (su_path u) \<and> CHR ''#'' \<notin> set (su_path u)
     \<and> CHR ''#'' \<notin> set (su_query u)
     \<and> plain (su_netloc u) \<and> plain (su_path u) \<and> plain (su_query u) \<and> plain (su_fragment u)"

lemma plain_append [simp]: "plain (s @ t) \<longleftrightarrow> plain s \<and> plain t"
  by (auto simp: plain_def)

lemma plain_Cons [simp]: "plain (c # s) \<longleftrightarrow> \<not> unsafe_char c \<and> plain s"
  by (auto simp: plain_def)

lemma plain_Nil [simp]: "plain []"
  by (simp add: plain_def)

lemma scheme_chars: "is_scheme s \<Longrightarrow> plain s \<and> CHR '':'' \<notin> set s \<and> s \<noteq> [] \<and> 32 < (of_char (hd s) :: nat)"
  by (fastforce simp: is_scheme_def list_all_iff scheme_char_def is_letter_def is_digit_def plain_def
      unsafe_char_def Let_def)

text \<open>What follows the authority: the path, then the query and the fragment where there are any.\<close>

definition url_tail :: "split_url \<Rightarrow> string" where
  "url_tail u = su_path u @ (if su_query u \<noteq> [] then CHR ''?'' # su_query u else [])
     @ (if su_fragment u \<noteq> [] then CHR ''#'' # su_fragment u else [])"

lemma urlunsplit_wf:
  "url_wf ok u \<Longrightarrow> urlunsplit u = su_scheme u @ '':'' @ ''//'' @ su_netloc u @ url_tail u"
  by (auto simp: url_wf_def urlunsplit_def url_tail_def is_scheme_def Let_def)

lemma cut_tail:
  assumes "url_wf ok u"
  shows "cut (CHR ''#'') (url_tail u)
      = (su_path u @ (if su_query u \<noteq> [] then CHR ''?'' # su_query u else []), su_fragment u)"
    and "cut (CHR ''?'') (su_path u @ (if su_query u \<noteq> [] then CHR ''?'' # su_query u else []))
      = (su_path u, su_query u)"
proof -
  let ?p = "su_path u @ (if su_query u \<noteq> [] then CHR ''?'' # su_query u else [])"
  have "CHR ''#'' \<notin> set ?p" using assms by (auto simp: url_wf_def)
  from cut_append [OF this, of "su_fragment u"] cut_absent [OF this]
  show "cut (CHR ''#'') (url_tail u) = (?p, su_fragment u)" by (auto simp: url_tail_def)
  show "cut (CHR ''?'') ?p = (su_path u, su_query u)"
    using assms cut_append cut_absent by (auto simp: url_wf_def)
qed

lemma split_netloc_append:
  assumes "\<forall>c \<in> set n. \<not> netloc_end c" and "t = [] \<or> netloc_end (hd t)"
  shows "split_netloc (''//'' @ n @ t) = (n, t)"
proof -
  have "takeWhile (\<lambda>c. \<not> netloc_end c) (n @ t) = n" "dropWhile (\<lambda>c. \<not> netloc_end c) (n @ t) = t"
    using assms by (cases t; simp)+
  then show ?thesis by (simp add: split_netloc_def)
qed

lemma urlsplit_urlunsplit:
  assumes "url_wf ok u"
  shows "urlsplit ok (urlunsplit u) = Inr u"
proof -
  note wf = assms [unfolded url_wf_def]
  note sc = scheme_chars [of "su_scheme u"]
  have url: "urlunsplit u = su_scheme u @ '':'' @ ''//'' @ su_netloc u @ url_tail u"
    using urlunsplit_wf [OF assms] .
  have pl: "plain (urlunsplit u)"
    using wf sc by (auto simp: url url_tail_def unsafe_char_def)
  have "dropWhile (\<lambda>c. (of_char c :: nat) \<le> 32) (urlunsplit u) = urlunsplit u"
    using wf sc by (cases "su_scheme u") (auto simp: url)
  with pl have clean: "filter (\<lambda>c. \<not> unsafe_char c) (dropWhile (\<lambda>c. (of_char c :: nat) \<le> 32) (urlunsplit u))
      = urlunsplit u" by (simp add: plain_def filter_id_conv)
  have "split_scheme (urlunsplit u) = (su_scheme u, ''//'' @ su_netloc u @ url_tail u)"
    using wf sc split_once_append [of "CHR '':''" "su_scheme u"] by (simp add: url split_scheme_def)
  moreover have "url_tail u = [] \<or> netloc_end (hd (url_tail u))"
    using wf by (cases "su_path u") (auto simp: url_tail_def netloc_end_def)
  then have "split_netloc (''//'' @ su_netloc u @ url_tail u) = (su_netloc u, url_tail u)"
    using wf by (intro split_netloc_append) auto
  ultimately show ?thesis
    using wf by (simp add: urlsplit_def clean cut_tail [OF assms])
qed

text \<open>What \<^verbatim>\<open>urlsplit\<close> returns is well formed when it has a scheme and an authority.\<close>

lemma split_once_parts: "split_once c s = (p, q) \<Longrightarrow>
    set p \<subseteq> set s \<and> (\<forall>r. q = Some r \<longrightarrow> set r \<subseteq> set s) \<and> c \<notin> set p \<and> (p = [] \<or> (s \<noteq> [] \<and> hd p = hd s))"
proof (cases "c \<in> set s")
  case True
  then obtain u v where s: "s = u @ c # v" "c \<notin> set u" using split_list_first by metis
  assume "split_once c s = (p, q)"
  with split_once_append [OF s(2), of v] s show ?thesis by (cases u) auto
next
  case False
  assume "split_once c s = (p, q)"
  with split_once_absent [OF False] False show ?thesis by auto
qed

lemma cut_parts:
  "cut c s = (p, q) \<Longrightarrow> c \<notin> set p \<and> set p \<subseteq> set s \<and> set q \<subseteq> set s \<and> (p = [] \<or> (s \<noteq> [] \<and> hd p = hd s))"
  using split_once_parts [of c s] by (auto simp: cut_def split: prod.splits option.splits)

lemma lower_letter: "is_letter c \<Longrightarrow> 97 \<le> (of_char (char_lower c) :: nat) \<and> of_char (char_lower c) \<le> (122 :: nat)"
  by (auto simp: is_letter_def char_lower_def Let_def)

lemma lower_other: "\<not> is_letter c \<Longrightarrow> char_lower c = c"
  by (auto simp: is_letter_def char_lower_def Let_def)

lemma lower_fixed: "97 \<le> (of_char c :: nat) \<Longrightarrow> char_lower c = c"
  by (simp add: char_lower_def Let_def)

lemma char_lower_idem: "char_lower (char_lower c) = char_lower c"
  using lower_letter [of c] lower_other [of c] lower_fixed [of "char_lower c"] by (cases "is_letter c") auto

lemma lower_is_letter: "is_letter c \<Longrightarrow> is_letter (char_lower c)"
  using lower_letter [of c] by (simp add: is_letter_def)

lemma lower_scheme_char: "scheme_char c \<Longrightarrow> scheme_char (char_lower c)"
  by (cases "is_letter c") (simp_all add: scheme_char_def lower_is_letter lower_other)

lemma is_scheme_lower: "is_scheme s \<Longrightarrow> is_scheme (str_lower s)"
  by (cases s) (auto simp: is_scheme_def str_lower_def list_all_iff lower_is_letter lower_scheme_char)

lemma split_scheme_parts:
  assumes "split_scheme s = (sc, r)"
  shows "set r \<subseteq> set s" and "sc = [] \<or> is_scheme sc \<and> str_lower sc = sc"
proof -
  obtain p q where pq: "split_once (CHR '':'') s = (p, q)" by (cases "split_once (CHR '':'') s")
  have "str_lower (str_lower p) = str_lower p" by (simp add: str_lower_def char_lower_idem)
  with assms pq split_once_parts [OF pq] is_scheme_lower [of p]
  show "set r \<subseteq> set s" and "sc = [] \<or> is_scheme sc \<and> str_lower sc = sc"
    by (auto simp: split_scheme_def split: option.splits if_splits)
qed

lemma split_wf:
  assumes "urlsplit ok url = Inr u" and "su_scheme u \<noteq> []" and "su_netloc u \<noteq> []"
  shows "url_wf ok u"
proof -
  let ?url = "filter (\<lambda>c. \<not> unsafe_char c) (dropWhile (\<lambda>c. (of_char c :: nat) \<le> 32) url)"
  obtain sc r where sc: "split_scheme ?url = (sc, r)" by (cases "split_scheme ?url")
  obtain nl t where nl: "split_netloc r = (nl, t)" by (cases "split_netloc r")
  obtain t' f where f: "cut (CHR ''#'') t = (t', f)" by (cases "cut (CHR ''#'') t")
  obtain p q where q: "cut (CHR ''?'') t' = (p, q)" by (cases "cut (CHR ''?'') t'")
  from assms(1) sc nl f q have u: "u = \<lparr>su_scheme = sc, su_netloc = nl, su_path = p, su_query = q, su_fragment = f\<rparr>"
    and nv: "netloc_valid ok nl" by (auto simp: urlsplit_def split: if_splits)
  have "plain ?url" by (simp add: plain_def)
  moreover note split_scheme_parts [OF sc]
  ultimately have r: "plain r" "is_scheme sc" "str_lower sc = sc" using assms(2) u by (auto simp: plain_def)
  have t: "nl = takeWhile (\<lambda>c. \<not> netloc_end c) (drop 2 r)" "t = dropWhile (\<lambda>c. \<not> netloc_end c) (drop 2 r)"
    using nl assms(3) u by (auto simp: split_netloc_def split: if_splits)
  have n: "set nl \<subseteq> set r" "set t \<subseteq> set r" "\<forall>c \<in> set nl. \<not> netloc_end c"
    unfolding t by (auto dest!: set_takeWhileD set_dropWhileD in_set_dropD)
  have n4: "t = [] \<or> netloc_end (hd t)"
    using hd_dropWhile [of "\<lambda>c. \<not> netloc_end c" "drop 2 r"] unfolding t by blast
  have c: "set t' \<subseteq> set t" "set f \<subseteq> set t" "set p \<subseteq> set t'" "set q \<subseteq> set t'" "CHR ''#'' \<notin> set t'" "CHR ''?'' \<notin> set p"
    "p = [] \<or> hd p = hd t"
    using cut_parts [OF f] cut_parts [OF q] by auto
  have "p = [] \<or> hd p = CHR ''/''"
    using c n4 by (cases p; cases t) (auto simp: netloc_end_def)
  moreover have "plain nl" "plain t" using n(1,2) r(1) unfolding plain_def by blast+
  then have "plain p" "plain q" "plain f" using c(1-4) unfolding plain_def by blast+
  moreover have "CHR ''#'' \<notin> set p" "CHR ''#'' \<notin> set q" using c(3-5) by blast+
  ultimately show ?thesis using r(2,3) n(3) c(6) nv assms(3) u \<open>plain nl\<close> by (simp add: url_wf_def)
qed

lemma urlencode_chars: "c \<in> set (urlencode ps) \<Longrightarrow> c \<noteq> CHR ''#'' \<and> \<not> unsafe_char c"
proof -
  have q: "c \<noteq> CHR ''#'' \<and> \<not> unsafe_char c" if "c \<in> set (quote_plus s)" for s
    using quote_plus_chars [OF that] that quote_char_chars [of c]
    by (auto simp: quote_plus_def always_safe_def is_letter_def is_digit_def unsafe_char_def Let_def)
  have j: "c \<in> set (str_join ''&'' xs) \<Longrightarrow> c = CHR ''&'' \<or> (\<exists>x \<in> set xs. c \<in> set x)" for xs
    by (induction "''&''" xs rule: str_join.induct) auto
  show "c \<in> set (urlencode ps) \<Longrightarrow> ?thesis"
    unfolding urlencode_def using q by (auto dest!: j simp: unsafe_char_def)
qed

lemma async_scheme_wf:
  "is_scheme s \<Longrightarrow> str_lower s = s \<Longrightarrow> is_scheme (async_scheme s) \<and> str_lower (async_scheme s) = async_scheme s"
  by (simp add: async_scheme_def is_scheme_def is_letter_def scheme_char_def is_digit_def str_lower_def
      char_lower_def Let_def)

text \<open>
  What a reader of a URL finds under a name: the last value of the repeated ones. And when the
  parameters ask for SSL: by the four modes that do, or, under any other mode, by \<open>ssl\<close>.
\<close>

definition query_value :: "split_url \<Rightarrow> string \<Rightarrow> string option" where
  "query_value u k = map_of (rev (parse_qsl (su_query u))) k"

definition ssl_mode_asks :: "string option \<Rightarrow> bool" where
  "ssl_mode_asks mode \<longleftrightarrow>
     mode = Some ''require'' \<or> mode = Some ''verify-ca'' \<or> mode = Some ''verify-full'' \<or> mode = Some ''prefer''"

definition ssl_value_asks :: "string option \<Rightarrow> bool" where
  "ssl_value_asks x \<longleftrightarrow> (\<exists>v. x = Some v \<and> (str_lower v = ''true'' \<or> str_lower v = ''1'' \<or> str_lower v = ''require''))"

lemma map_of_fold_update:
  "map_of (fold (\<lambda>(k, v). AList.update k v) ps acc) = map_of acc ++ map_of (rev ps)"
  by (induction ps arbitrary: acc) (auto simp: update_conv' map_add_def fun_eq_iff split: option.split)

lemma distinct_fold_update:
  "distinct (map fst acc) \<Longrightarrow> distinct (map fst (fold (\<lambda>(k, v). AList.update k v) ps acc))"
  by (induction ps arbitrary: acc) (auto simp: distinct_update)

lemma dict_of_pairs_values: "map_of (dict_of_pairs ps) = map_of (rev ps)"
  using map_of_fold_update [of ps "[]"] by (simp add: dict_of_pairs_def)

lemma dict_of_pairs_keys: "distinct (map fst (dict_of_pairs ps))"
  unfolding dict_of_pairs_def by (rule distinct_fold_update) simp

lemma map_of_rev_distinct:
  assumes "distinct (map fst ps)"
  shows "map_of (rev ps) = map_of ps"
  by (rule map_of_inject_set [THEN iffD2]) (use assms in \<open>simp_all add: rev_map [symmetric]\<close>)

lemma take_ssl_values:
  assumes "distinct (map fst ps)"
  shows "map_of (rev (fst (take_ssl_params ps))) =
      (map_of ps)(''sslmode'' := None,
        ''ssl'' := if ssl_mode_asks (map_of ps ''sslmode'') then map_of ps ''ssl'' else None)"
    and "snd (take_ssl_params ps) =
      (if ssl_mode_asks (map_of ps ''sslmode'') \<or> ssl_value_asks (map_of ps ''ssl'')
       then [(''ssl'', JBool True)] else [])"
    and "distinct (map fst (fst (take_ssl_params ps)))"
proof -
  have other: "map_of (AList.delete ''sslmode'' ps) ''ssl'' = map_of ps ''ssl''" by (simp add: delete_conv')
  show d: "distinct (map fst (fst (take_ssl_params ps)))"
    using assms by (auto simp: take_ssl_params_def Let_def distinct_delete split: option.split)
  have "map_of (fst (take_ssl_params ps)) =
      (map_of ps)(''sslmode'' := None,
        ''ssl'' := if ssl_mode_asks (map_of ps ''sslmode'') then map_of ps ''ssl'' else None)"
    by (auto simp: take_ssl_params_def Let_def ssl_mode_asks_def delete_conv' other fun_eq_iff split: option.split)
  then show "map_of (rev (fst (take_ssl_params ps))) =
      (map_of ps)(''sslmode'' := None,
        ''ssl'' := if ssl_mode_asks (map_of ps ''sslmode'') then map_of ps ''ssl'' else None)"
    by (simp only: map_of_rev_distinct [OF d])
  show "snd (take_ssl_params ps) =
      (if ssl_mode_asks (map_of ps ''sslmode'') \<or> ssl_value_asks (map_of ps ''ssl'')
       then [(''ssl'', JBool True)] else [])"
    by (auto simp: take_ssl_params_def Let_def ssl_mode_asks_def ssl_value_asks_def other split: option.split)
qed

text \<open>
  C35: Normalising the database URL loses nothing but the SSL parameters. The URL handed to the
  driver has the same host, path and fragment; a \<open>postgres\<close>, \<open>postgresql\<close> or \<open>postgresql+psycopg2\<close>
  scheme became \<open>postgresql+asyncpg\<close> and any other is kept; under every name the driver reads the
  value the original URL gave it, except that \<open>sslmode\<close> is gone, and so is \<open>ssl\<close> unless the mode was
  one of the four that ask for SSL; and the connection asks for SSL exactly when the mode was one
  of these or \<open>ssl\<close> was \<open>true\<close>, \<open>1\<close> or \<open>require\<close> in any case.
\<close>
theorem normalized_url_reread:
  assumes "urlsplit ok url = Inr u" and "su_scheme u \<noteq> []" and "su_netloc u \<noteq> []"
    and "normalize_async_database_url ok url = Inr (v, connect_args)"
  shows "\<exists>u'. urlsplit ok v = Inr u'
    \<and> su_netloc u' = su_netloc u \<and> su_path u' = su_path u \<and> su_fragment u' = su_fragment u
    \<and> su_scheme u' = (if su_scheme u \<in> {''postgres'', ''postgresql'', ''postgresql+psycopg2''}
        then ''postgresql+asyncpg'' else su_scheme u)
    \<and> (\<forall>k. query_value u' k =
          (if k = ''sslmode'' \<or> k = ''ssl'' \<and> \<not> ssl_mode_asks (query_value u ''sslmode'') then None
           else query_value u k))
    \<and> distinct (map fst (parse_qsl (su_query u')))
    \<and> connect_args = (if ssl_mode_asks (query_value u ''sslmode'') \<or> ssl_value_asks (query_value u ''ssl'')
        then [(''ssl'', JBool True)] else [])"
proof -
  let ?ps = "dict_of_pairs (parse_qsl (su_query u))"
  obtain ps args where t: "take_ssl_params ?ps = (ps, args)" by (cases "take_ssl_params ?ps")
  let ?u = "u\<lparr>su_scheme := async_scheme (su_scheme u), su_query := urlencode ps\<rparr>"
  have v: "v = urlunsplit ?u" "connect_args = args"
    using assms(1,4) t by (simp_all add: normalize_async_database_url_def)
  have "url_wf ok ?u"
    using split_wf [OF assms(1-3)] async_scheme_wf urlencode_chars by (auto simp: url_wf_def plain_def)
  then have "urlsplit ok v = Inr ?u" unfolding v by (rule urlsplit_urlunsplit)
  moreover have "map_of ?ps k = query_value u k" for k by (simp add: query_value_def dict_of_pairs_values)
  note ssl = take_ssl_values [OF dict_of_pairs_keys, of "parse_qsl (su_query u)", unfolded t this]
  have "query_value ?u k = (if k = ''sslmode'' \<or> k = ''ssl'' \<and> \<not> ssl_mode_asks (query_value u ''sslmode'')
      then None else query_value u k)" for k
    using fun_cong [OF ssl(1), of k] \<open>\<And>k. map_of ?ps k = query_value u k\<close>
    by (simp add: query_value_def parse_urlencode)
  ultimately show ?thesis
    using ssl(2,3) v(2) by (intro exI [of _ ?u]) (simp add: async_scheme_def parse_urlencode)
qed

theorem normalized_url_reread_witness:
  "\<exists>v u'. normalize_async_database_url (\<lambda>_. True) ''postgres://u:p@db.render.com:5432/mandate?sslmode=require&app=a%20b''
      = Inr (v, [(''ssl'', JBool True)])
    \<and> urlsplit (\<lambda>_. True) v = Inr u' \<and> su_scheme u' = ''postgresql+asyncpg''
    \<and> su_netloc u' = ''u:p@db.render.com:5432'' \<and> su_path u' = ''/mandate''
    \<and> query_value u' ''app'' = Some ''a b'' \<and> query_value u' ''sslmode'' = None"
proof -
  let ?url = "''postgres://u:p@db.render.com:5432/mandate?sslmode=require&app=a%20b''"
  let ?u = "\<lparr>su_scheme = ''postgres'', su_netloc = ''u:p@db.render.com:5432'', su_path = ''/mandate'',
    su_query = ''sslmode=require&app=a%20b'', su_fragment = []\<rparr>"
  have split: "urlsplit (\<lambda>_. True) ?url = Inr ?u" by code_simp
  have "case normalize_async_database_url (\<lambda>_. True) ?url of Inl _ \<Rightarrow> False | Inr _ \<Rightarrow> True" by code_simp
  then obtain v args where v: "normalize_async_database_url (\<lambda>_. True) ?url = Inr (v, args)"
    by (auto split: sum.splits)
  have q: "query_value ?u ''sslmode'' = Some ''require''" "query_value ?u ''app'' = Some ''a b''" by code_simp+
  from normalized_url_reread [OF split _ _ v] v show ?thesis by (auto simp: q ssl_mode_asks_def)
qed

text \<open>
  The code's own test database shows what is lost without an authority: the URL of an in-memory
  SQLite database comes back without the slashes SQLAlchemy requires.
\<close>

lemma sqlite_url_broken:
  "normalize_async_database_url (\<lambda>_. True) ''sqlite+aiosqlite:///:memory:''
     = Inr (''sqlite+aiosqlite:/:memory:'', [])"
  by code_simp

text \<open>
  An \<open>sslmode\<close> of \<open>disable\<close> is dropped without asking the driver to avoid SSL, and an \<open>ssl\<close>
  parameter is passed on unread when \<open>sslmode\<close> asks for SSL.
\<close>

lemma ssl_parameters:
  "take_ssl_params [(''sslmode'', ''disable'')] = ([], [])"
  "take_ssl_params [(''sslmode'', ''require''), (''ssl'', ''true'')] = ([(''ssl'', ''true'')], [(''ssl'', JBool True)])"
  by code_simp+

end
