(* ===== verification/Startup.thy ===== *)
theory Startup
  imports Demo Database_Url
begin

text \<open>
  The life of the API process (\<^verbatim>\<open>apps/api/main.py\<close>): opening the database with its retries and
  the optional seeding, the embedded reconciliation task and the handler of uncaught exceptions.
  \<open>connect n\<close> is the outcome of opening the database at attempt \<open>n\<close> (creating missing tables and
  counting the agents included, none of which changes a row). Mounting the routers, the CORS
  middleware and the log lines are left out.
\<close>

section \<open>Opening the database\<close>

definition api_max_retries :: nat where "api_max_retries = 3"

text \<open>\<open>AUTO_SEED_DEMO\<close> seeds a database without agents, never in production.\<close>

definition seed_if_empty :: "env \<Rightarrow> world \<Rightarrow> (exn + unit) \<times> world" where
  "seed_if_empty E w =
     (if AUTO_SEED_DEMO (settings E) \<and> \<not> in_production E
      then
        let agent_count = length (agents w) in
        if agent_count = 0
        then (case reset_demo_dataset E w of (Inl e, v) \<Rightarrow> (Inl e, rollback w v) | (Inr _, v) \<Rightarrow> (Inr (), v))
        else (Inr (), w)
      else (Inr (), w))"

definition initialize_database ::
    "env \<Rightarrow> (nat \<Rightarrow> exn option) \<Rightarrow> nat \<Rightarrow> world \<Rightarrow> (exn + unit) \<times> world" where
  "initialize_database E connect attempt w =
     (case connect attempt of Some e \<Rightarrow> (Inl e, w) | None \<Rightarrow> seed_if_empty E w)"

text \<open>\<open>0.5 * 2 ** (attempt - 1)\<close> seconds, in milliseconds.\<close>

definition retry_delay_ms :: "nat \<Rightarrow> nat" where
  "retry_delay_ms attempt = 500 * 2 ^ (attempt - 1)"

text \<open>
  The result of a start: the exception that keeps the API from starting, or whether the database
  was initialised; the delays slept between the attempts.
\<close>

fun startup_from ::
    "env \<Rightarrow> (nat \<Rightarrow> exn option) \<Rightarrow> nat list \<Rightarrow> world \<Rightarrow> (exn + bool) \<times> nat list \<times> world" where
  "startup_from E connect [] w = (Inr False, [], w)"
| "startup_from E connect (attempt # later) w =
     (case initialize_database E connect attempt w of
        (Inr _, w) \<Rightarrow> (Inr True, [], w)
      | (Inl e, w) \<Rightarrow>
          if attempt < api_max_retries then
            (case startup_from E connect later w of
               (r, delays, w) \<Rightarrow> (r, retry_delay_ms attempt # delays, w))
          else if in_production E then
            (Inl (RuntimeError (''Fatal: Database unreachable on startup: '' @ exn_text E e)), [], w)
          else startup_from E connect later w)"

definition startup :: "env \<Rightarrow> (nat \<Rightarrow> exn option) \<Rightarrow> world \<Rightarrow> (exn + bool) \<times> nat list \<times> world" where
  "startup E connect w = startup_from E connect [1..<Suc api_max_retries] w"

section \<open>The embedded reconciliation task\<close>

text \<open>
  Each turn sleeps a minute, in which the rest of the system runs and the task may be cancelled,
  then sweeps; an exception of the sweep is logged and the loop goes on. The result says whether
  the task has ended.
\<close>

fun embedded_reconciliation_worker :: "tick list \<Rightarrow> worker_state \<Rightarrow> world \<Rightarrow> bool \<times> worker_state \<times> world" where
  "embedded_reconciliation_worker [] s w = (False, s, w)"
| "embedded_reconciliation_worker (tk # tks) s w =
     (let w = tk_others tk w in
      if tk_cancelled tk then (True, s, w)
      else
        case reconcile_stuck_reservations (tk_env tk) 120 (tk_locked tk) s w of
          (_, s, w) \<Rightarrow> embedded_reconciliation_worker tks s w)"

definition lifespan ::
    "env \<Rightarrow> (nat \<Rightarrow> exn option) \<Rightarrow> tick list \<Rightarrow> worker_state \<Rightarrow> world
       \<Rightarrow> (exn + bool) \<times> worker_state \<times> world" where
  "lifespan E connect ticks s w =
     (case startup E connect w of
        (Inl e, _, w) \<Rightarrow> (Inl e, s, w)
      | (Inr ready, _, w) \<Rightarrow>
          (case embedded_reconciliation_worker ticks s w of (_, s, w) \<Rightarrow> (Inr ready, s, w)))"

section \<open>Uncaught exceptions\<close>

text \<open>The body does not depend on the exception.\<close>

definition global_exception_handler :: "string \<Rightarrow> exn \<Rightarrow> int \<times> dict" where
  "global_exception_handler path exc =
     (500, [(''type'', JStr ''https://mandate.dev/errors/internal-server-error''),
        (''title'', JStr ''Internal Server Error''), (''status'', JInt 500),
        (''detail'', JStr ''An unexpected error occurred processing the request.''),
        (''instance'', JStr path)])"

section \<open>What a start does to the database\<close>

lemma seed_if_empty_cases:
  assumes "seed_if_empty E w = (r, w')"
  shows "r = Inr () \<and> (w' = w \<or> AUTO_SEED_DEMO (settings E) \<and> \<not> in_production E \<and> agents w = []
    \<and> w' = snd (reset_demo_dataset E w))"
proof (cases "AUTO_SEED_DEMO (settings E) \<and> \<not> in_production E \<and> agents w = []")
  case True
  then have "\<exists>x. fst (reset_demo_dataset E w) = Inr x" by (auto simp: reset_demo_dataset_def Let_def)
  with assms True show ?thesis
    by (cases "reset_demo_dataset E w") (auto simp: seed_if_empty_def)
qed (use assms in \<open>auto simp: seed_if_empty_def split: if_splits\<close>)

lemma startup_attempts_listed: "startup E connect w = startup_from E connect [1, 2, 3] w"
proof -
  have "[1..<Suc api_max_retries] = [1, 2, 3]" by (simp add: api_max_retries_def upt_rec)
  then show ?thesis by (simp only: startup_def)
qed

lemma startup_unfold:
  "startup E connect w =
     (if connect 1 = None then (Inr True, [], snd (seed_if_empty E w))
      else if connect 2 = None then (Inr True, [500], snd (seed_if_empty E w))
      else if connect 3 = None then (Inr True, [500, 1000], snd (seed_if_empty E w))
      else if in_production E
      then (Inl (RuntimeError (''Fatal: Database unreachable on startup: '' @ exn_text E (the (connect 3)))), [500, 1000], w)
      else (Inr False, [500, 1000], w))"
proof -
  have seed: "fst (seed_if_empty E w) = Inr ()"
    using seed_if_empty_cases [of E w] by (cases "seed_if_empty E w") auto
  then show ?thesis
    by (cases "seed_if_empty E w")
      (auto simp: startup_attempts_listed initialize_database_def api_max_retries_def retry_delay_ms_def split: option.split)
qed

text \<open>
  A start is bounded and honest: it gives up after exactly three failed attempts and 1.5 seconds
  of waiting, keeps the API from starting exactly when it runs in production, and otherwise reports
  the database as initialised exactly when one attempt succeeded; a start that never reached the
  database changes nothing.
\<close>
theorem startup_outcome:
  "case startup E connect w of (r, delays, w') \<Rightarrow>
     (isl r \<longleftrightarrow> in_production E \<and> list_all (\<lambda>n. connect n \<noteq> None) [1, 2, 3])
     \<and> (r = Inr True \<longleftrightarrow> list_ex (\<lambda>n. connect n = None) [1, 2, 3])
     \<and> sum_list delays \<le> 1500 \<and> (r = Inr True \<or> delays = [500, 1000] \<and> w' = w)"
  by (simp add: startup_unfold)

text \<open>
  Starting the API never damages data: the database is unchanged, or it held no agent, the process
  does not run in production, demo seeding is switched on, and what it holds afterwards are
  consistent books with a well-formed delegation tree.
\<close>
theorem startup_preserves_data:
  assumes "startup E connect w = (r, delays, w')"
  shows "w' = w \<or> agents w = [] \<and> \<not> in_production E \<and> AUTO_SEED_DEMO (settings E)
    \<and> books_ok w' \<and> delegation_ok (mandates w') \<and> operations w' = []"
proof -
  have "w' = w \<or> w' = snd (seed_if_empty E w)" using assms by (auto simp: startup_unfold split: if_splits)
  moreover have "snd (seed_if_empty E w) = w \<or> agents w = [] \<and> \<not> in_production E \<and> AUTO_SEED_DEMO (settings E)
      \<and> snd (seed_if_empty E w) = snd (reset_demo_dataset E w)"
    using seed_if_empty_cases [of E w "fst (seed_if_empty E w)" "snd (seed_if_empty E w)"] by auto
  ultimately show ?thesis
    using seeded_books [of E w] seeded_delegation [of E w] reset_tables(3) [of E w] by auto
qed

definition seeding_env :: env where
  "seeding_env = demo_env\<lparr>settings := (settings demo_env)\<lparr>AUTO_SEED_DEMO := True\<rparr>\<rparr>"

theorem startup_preserves_data_witness:
  "\<exists>r delays w'. startup seeding_env (\<lambda>n. if n = 1 then Some NetworkError else None)
      (demo_world\<lparr>agents := [], mandates := []\<rparr>) = (r, delays, w')
    \<and> delays = [500] \<and> length (agents w') = 3 \<and> books_ok w'"
proof -
  let ?w = "demo_world\<lparr>agents := [], mandates := []\<rparr>"
  let ?run = "startup seeding_env (\<lambda>n. if n = 1 then Some NetworkError else None) ?w"
  obtain r delays w' where run: "?run = (r, delays, w')" by (metis prod_cases3)
  have dev: "\<not> in_production seeding_env" by code_simp
  have on: "AUTO_SEED_DEMO (settings seeding_env)" by (simp add: seeding_env_def)
  have "snd (seed_if_empty seeding_env ?w) = snd (reset_demo_dataset seeding_env ?w)"
    using dev on by (cases "reset_demo_dataset seeding_env ?w")
      (auto simp: seed_if_empty_def reset_demo_dataset_def Let_def)
  then have w': "delays = [500]" "w' = snd (reset_demo_dataset seeding_env ?w)" using run by (auto simp: startup_unfold)
  have three: "length (agents w') = 3" unfolding w' reset_tables(2) [OF dev] by (simp add: seed_agents_def)
  then have "w' \<noteq> ?w" by auto
  with startup_preserves_data [OF run] run w'(1) three show ?thesis by blast
qed

section \<open>The embedded task is part of a sound run\<close>

text \<open>The events the rest of the system performs while the task sleeps.\<close>

definition tick_sound :: "tick \<Rightarrow> bool" where
  "tick_sound tk \<longleftrightarrow> (\<forall>w. \<exists>evs. run_events evs w = Some (tk_others tk w))"

lemma embedded_task_runs:
  assumes "\<forall>tk \<in> set ticks. tick_sound tk"
    and "embedded_reconciliation_worker ticks s w = (r, s', w')"
  shows "sys_step\<^sup>*\<^sup>* w w'"
  using assms
proof (induction ticks arbitrary: s w)
  case (Cons tk tks)
  from Cons.prems(1) have "tick_sound tk" by simp
  then obtain evs where "run_events evs w = Some (tk_others tk w)" unfolding tick_sound_def by blast
  then have first: "sys_step\<^sup>*\<^sup>* w (tk_others tk w)" by (rule run_events_steps)
  show ?case
  proof (cases "tk_cancelled tk")
    case True
    with first Cons.prems(2) show ?thesis by (simp add: Let_def)
  next
    case False
    obtain q s1 w1 where q: "reconcile_stuck_reservations (tk_env tk) 120 (tk_locked tk) s (tk_others tk w) = (q, s1, w1)"
      by (metis prod_cases3)
    have "sys_step (tk_others tk w) (perform (Ev_sweep (tk_env tk) 120 (tk_locked tk) s) (tk_others tk w))"
      by (rule sys_step.event) simp
    with q have "sys_step (tk_others tk w) w1" by simp
    moreover have "sys_step\<^sup>*\<^sup>* w1 w'"
      using Cons.IH [of s1 w1] Cons.prems q False by (simp add: Let_def)
    ultimately show ?thesis using first by (meson rtranclp.rtrancl_into_rtrancl rtranclp_trans)
  qed
qed simp

text \<open>
  C21: The whole life of the API process keeps every budget: from consistent books, with any start, any
  sweeps of the embedded task and any events of the system between them, committed plus reserved
  spend never exceeds a mandate's limit.
\<close>
theorem lifespan_keeps_budgets:
  assumes "books_ok w" and "\<forall>tk \<in> set ticks. tick_sound tk"
    and "lifespan E connect ticks s w = (r, s', w')" and "m \<in> set (mandates w')"
  shows "m_current_aggregate_spend m + m_reserved_spend m \<le> m_aggregate_spend_limit m"
proof -
  obtain q delays v where st: "startup E connect w = (q, delays, v)" by (metis prod_cases3)
  have "v = w \<or> v = snd (seed_if_empty E w)" using st by (auto simp: startup_unfold split: if_splits)
  then have v: "books_ok v"
    using assms(1) seeded_books [of E w] seed_if_empty_cases [of E w "fst (seed_if_empty E w)" "snd (seed_if_empty E w)"]
    by auto
  have "v = w' \<or> (\<exists>b t. embedded_reconciliation_worker ticks s v = (b, t, w'))"
    using assms(3) st by (auto simp: lifespan_def split: sum.splits prod.splits)
  then have "sys_step\<^sup>*\<^sup>* v w'" using embedded_task_runs [OF assms(2)] by blast
  then have "books_ok w'" using control_plane.run_ok v by (simp add: books_ok_def)
  with assms(4) show ?thesis by (auto dest: books_okD(4))
qed

definition quiet_tick :: tick where
  "quiet_tick = \<lparr>tk_env = demo_env, tk_locked = (\<lambda>_. False), tk_others = (\<lambda>w. w), tk_signal = False,
     tk_cancelled = False\<rparr>"

theorem lifespan_keeps_budgets_witness:
  "\<exists>r s' w'. lifespan seeding_env (\<lambda>_. None) [quiet_tick] initial_worker
      (crashed_world (stuck_tx None None)) = (r, s', w')
    \<and> list_all (\<lambda>m. m_current_aggregate_spend m + m_reserved_spend m \<le> m_aggregate_spend_limit m) (mandates w')"
proof -
  obtain r s' w' where run: "lifespan seeding_env (\<lambda>_. None) [quiet_tick] initial_worker
      (crashed_world (stuck_tx None None)) = (r, s', w')" by (metis prod_cases3)
  have "books_ok (crashed_world (stuck_tx None None))" by (rule crashed_books)
  moreover have "\<forall>tk \<in> set [quiet_tick]. tick_sound tk"
    by (auto simp: tick_sound_def quiet_tick_def intro: exI [of _ "[]"])
  ultimately show ?thesis
    using lifespan_keeps_budgets [OF _ _ run] run by (auto simp: list_all_iff)
qed

end
