(* ===== verification/Schemas.thy ===== *)
theory Schemas
  imports Domain
begin

text \<open>
  The response models of \<^verbatim>\<open>packages/core/schemas.py\<close>: the fields of a row that a route shows.
  Reading a model from a row (\<^verbatim>\<open>from_attributes\<close>) copies the fields of the same name; the JSON
  text pydantic makes of it is not modelled, and \<^verbatim>\<open>updated_at\<close> is left out as in the rows. The
  request bodies are with their routes, except two that no route reads.
\<close>

section \<open>Requests no route reads\<close>

record principal_create =
  pc_name :: string
  pc_email :: string
  pc_role :: principal_role

definition valid_principal_create :: "principal_create \<Rightarrow> bool" where
  "valid_principal_create p \<longleftrightarrow> 2 \<le> length (pc_name p) \<and> length (pc_name p) \<le> 128
     \<and> 5 \<le> length (pc_email p) \<and> length (pc_email p) \<le> 255"

record refund_create =
  rf_payment_id :: string
  rf_amount :: "int option"
  rf_notes :: dict

section \<open>Responses\<close>

record principal_response =
  pr_id :: string
  pr_name :: string
  pr_email :: string
  pr_role :: principal_role
  pr_is_active :: bool
  pr_created_at :: datetime

definition show_principal :: "principal \<Rightarrow> principal_response" where
  "show_principal r = \<lparr>pr_id = p_id r, pr_name = p_name r, pr_email = p_email r,
     pr_role = p_role r, pr_is_active = p_is_active r, pr_created_at = p_created_at r\<rparr>"

record agent_response =
  ar_id :: string
  ar_name :: string
  ar_description :: "string option"
  ar_owner_id :: string
  ar_status :: agent_status
  ar_agent_type :: string
  ar_metadata_json :: dict
  ar_created_at :: datetime

definition show_agent :: "agent \<Rightarrow> agent_response" where
  "show_agent r = \<lparr>ar_id = a_id r, ar_name = a_name r, ar_description = a_description r,
     ar_owner_id = a_owner_id r, ar_status = a_status r, ar_agent_type = a_agent_type r,
     ar_metadata_json = a_metadata_json r, ar_created_at = a_created_at r\<rparr>"

record mandate_response =
  mr_id :: string
  mr_agent_id :: string
  mr_granted_by_id :: string
  mr_parent_mandate_id :: "string option"
  mr_delegation_depth :: int
  mr_max_delegation_depth :: int
  mr_status :: mandate_status
  mr_currency :: string
  mr_max_amount_per_op :: int
  mr_aggregate_spend_limit :: int
  mr_current_aggregate_spend :: int
  mr_reserved_spend :: int
  mr_delegated_child_budget_allocated :: int
  mr_review_threshold_amount :: "int option"
  mr_allowed_operations :: "string list"
  mr_policy_config :: dict
  mr_suspension_reason :: "string option"
  mr_version :: int
  mr_valid_from :: datetime
  mr_valid_until :: datetime
  mr_created_at :: datetime

definition show_mandate :: "mandate \<Rightarrow> mandate_response" where
  "show_mandate r = \<lparr>mr_id = m_id r, mr_agent_id = m_agent_id r,
     mr_granted_by_id = m_granted_by_id r, mr_parent_mandate_id = m_parent_mandate_id r,
     mr_delegation_depth = m_delegation_depth r,
     mr_max_delegation_depth = m_max_delegation_depth r, mr_status = m_status r,
     mr_currency = m_currency r, mr_max_amount_per_op = m_max_amount_per_op r,
     mr_aggregate_spend_limit = m_aggregate_spend_limit r,
     mr_current_aggregate_spend = m_current_aggregate_spend r,
     mr_reserved_spend = m_reserved_spend r,
     mr_delegated_child_budget_allocated = m_delegated_child_budget_allocated r,
     mr_review_threshold_amount = m_review_threshold_amount r,
     mr_allowed_operations = m_allowed_operations r, mr_policy_config = m_policy_config r,
     mr_suspension_reason = m_suspension_reason r, mr_version = m_version r,
     mr_valid_from = m_valid_from r, mr_valid_until = m_valid_until r,
     mr_created_at = m_created_at r\<rparr>"

record operation_response =
  or_id :: string
  or_operation_id :: string
  or_idempotency_key :: string
  or_agent_id :: string
  or_mandate_id :: string
  or_operation_type :: operation_type
  or_status :: operation_status
  or_amount :: int
  or_currency :: string
  or_payload :: dict
  or_policy_evaluation_details :: "evaluation option"
  or_error_message :: "string option"
  or_approved_by_id :: "string option"
  or_trace_id :: string
  or_created_at :: datetime

definition show_operation :: "operation \<Rightarrow> operation_response" where
  "show_operation r = \<lparr>or_id = o_id r, or_operation_id = o_operation_id r,
     or_idempotency_key = o_idempotency_key r, or_agent_id = o_agent_id r,
     or_mandate_id = o_mandate_id r, or_operation_type = o_operation_type r,
     or_status = o_status r, or_amount = o_amount r, or_currency = o_currency r,
     or_payload = o_payload r, or_policy_evaluation_details = o_policy_evaluation_details r,
     or_error_message = o_error_message r, or_approved_by_id = o_approved_by_id r,
     or_trace_id = o_trace_id r, or_created_at = o_created_at r\<rparr>"

record transaction_response =
  xr_id :: string
  xr_operation_id :: string
  xr_gateway_name :: string
  xr_gateway_order_id :: "string option"
  xr_gateway_payment_id :: "string option"
  xr_gateway_refund_id :: "string option"
  xr_gateway_payment_link_id :: "string option"
  xr_gateway_payment_link_url :: "string option"
  xr_amount :: int
  xr_currency :: string
  xr_status :: transaction_status
  xr_gateway_response :: dict
  xr_error_code :: "string option"
  xr_error_description :: "string option"
  xr_created_at :: datetime

definition show_transaction :: "transaction \<Rightarrow> transaction_response" where
  "show_transaction r = \<lparr>xr_id = t_id r, xr_operation_id = t_operation_id r,
     xr_gateway_name = t_gateway_name r, xr_gateway_order_id = t_gateway_order_id r,
     xr_gateway_payment_id = t_gateway_payment_id r, xr_gateway_refund_id = t_gateway_refund_id r,
     xr_gateway_payment_link_id = t_gateway_payment_link_id r,
     xr_gateway_payment_link_url = t_gateway_payment_link_url r, xr_amount = t_amount r,
     xr_currency = t_currency r, xr_status = t_status r,
     xr_gateway_response = t_gateway_response r, xr_error_code = t_error_code r,
     xr_error_description = t_error_description r, xr_created_at = t_created_at r\<rparr>"

record webhook_response =
  wr_id :: string
  wr_event_id :: string
  wr_event_type :: string
  wr_status :: string
  wr_processed :: bool
  wr_processing_attempts :: int
  wr_error_message :: "string option"
  wr_received_at :: datetime
  wr_processed_at :: "datetime option"

definition show_webhook :: "webhook_event \<Rightarrow> webhook_response" where
  "show_webhook r = \<lparr>wr_id = wh_id r, wr_event_id = wh_event_id r,
     wr_event_type = wh_event_type r, wr_status = wh_status r, wr_processed = wh_processed r,
     wr_processing_attempts = wh_processing_attempts r, wr_error_message = wh_error_message r,
     wr_received_at = wh_received_at r, wr_processed_at = wh_processed_at r\<rparr>"

record audit_response =
  er_id :: string
  er_event_id :: string
  er_action :: audit_action
  er_actor_id :: string
  er_actor_type :: string
  er_resource_id :: string
  er_resource_type :: string
  er_payload :: dict
  er_previous_state :: "dict option"
  er_new_state :: "dict option"
  er_trace_id :: "string option"
  er_timestamp :: datetime

definition show_audit :: "audit_event \<Rightarrow> audit_response" where
  "show_audit r = \<lparr>er_id = au_id r, er_event_id = au_event_id r, er_action = au_action r,
     er_actor_id = au_actor_id r, er_actor_type = au_actor_type r,
     er_resource_id = au_resource_id r, er_resource_type = au_resource_type r,
     er_payload = au_payload r, er_previous_state = au_previous_state r,
     er_new_state = au_new_state r, er_trace_id = au_trace_id r,
     er_timestamp = au_timestamp r\<rparr>"

section \<open>What a response hides\<close>

text \<open>
  A stored key hash authenticates its agent, so it must not be shown: the response of an agent does
  not depend on it. The gateway's raw answer to a webhook and whether its signature was verified
  are hidden as well.
\<close>

lemma agent_response_hides_key: "show_agent (a\<lparr>a_api_key_hash := h\<rparr>) = show_agent a"
  by (simp add: show_agent_def)

lemma webhook_response_hides_payload:
  "show_webhook (e\<lparr>wh_raw_payload := d, wh_payload_hash := h, wh_signature_verified := b\<rparr>) = show_webhook e"
  by (simp add: show_webhook_def)

text \<open>An operation's response determines every field of its row, a mandate's likewise.\<close>

lemma show_operation_inj: "show_operation a = show_operation b \<Longrightarrow> a = b"
  by (cases a; cases b) (simp add: show_operation_def)

lemma show_mandate_inj: "show_mandate a = show_mandate b \<Longrightarrow> a = b"
  by (cases a; cases b) (simp add: show_mandate_def)

end
