(* ===== verification/Races.thy ===== *)
theory Races
  imports Control_Plane
begin

text \<open>
  What the events of the control plane assume: the financial request locks its mandate's row, the
  sweep the rows of its operations, but the approval route and the webhook handlers read the
  operation's row without a lock, so another transaction may commit between their reads and their
  writes. Here both handlers are split at that point. Run back to back the two halves are the
  handler of \<open>Operations\<close> and \<open>Webhooks\<close>; run apart, the second half acts on what it read.
\<close>

section \<open>A captured payment in two halves\<close>

text \<open>The rows the handler reads, \<open>None\<close> when it returns without writing.\<close>

record capture_snapshot =
  cs_order_id :: string
  cs_payment_id :: "string option"
  cs_tx :: transaction
  cs_op :: operation
  cs_mandate :: "mandate option"

definition capture_read :: "json \<Rightarrow> string \<Rightarrow> world \<Rightarrow> exn + capture_snapshot option" where
  "capture_read payload event_type w =
     (case captured_ids payload of
        Inl e \<Rightarrow> Inl e
      | Inr (None, _) \<Rightarrow> Inr None
      | Inr (Some order_id, payment_id) \<Rightarrow>
          (case tx_by_order w order_id of
             Inl e \<Rightarrow> Inl e
           | Inr None \<Rightarrow> Inr None
           | Inr (Some tx) \<Rightarrow>
               (case get_operation_row w (t_operation_id tx) of
                  None \<Rightarrow> Inr None
                | Some op \<Rightarrow>
                    if o_status op = Op_SUCCEEDED then Inr None
                    else bindE (validate_transition (o_status op) Op_SUCCEEDED (''Webhook event: '' @ event_type))
                      (\<lambda>_. Inr (Some \<lparr>cs_order_id = order_id, cs_payment_id = payment_id, cs_tx = tx,
                         cs_op = op, cs_mandate = get_mandate_row w (o_mandate_id op)\<rparr>)))))"

definition capture_write :: "env \<Rightarrow> string \<Rightarrow> capture_snapshot \<Rightarrow> world \<Rightarrow> world" where
  "capture_write E event_type s w =
     (let op = cs_op s;
          w = upd_operation (o_id op) op_succeed w;
          w = upd_transaction (t_id (cs_tx s)) (mark_captured (cs_payment_id s)) w;
          w = (case cs_mandate s of
                 None \<Rightarrow> w
               | Some mandate \<Rightarrow>
                   if o_amount op \<le> m_reserved_spend mandate
                   then commit_budget (m_id mandate) (o_amount op) True w
                   else commit_unreserved (m_id mandate) (o_amount op) w)
      in webhook_audit E BUDGET_COMMITTED event_type (cs_order_id s) op Op_SUCCEEDED w)"

lemma capture_phases:
  "handle_payment_captured_event E payload t w =
     (case capture_read payload t w of
        Inl e \<Rightarrow> (Inl e, w)
      | Inr None \<Rightarrow> (Inr (), w)
      | Inr (Some s) \<Rightarrow> (Inr (), capture_write E t s w))"
  unfolding handle_payment_captured_event_def capture_read_def
  by (auto simp: capture_write_def settle_capture_def bindE_def Let_def upd_transaction_def upd_operation_def
      split: sum.split option.split prod.split)

lemma capture_read_snapshot:
  assumes "capture_read payload t w = Inr (Some s)"
  shows "tget o_id (o_id (cs_op s)) (operations w) = Some (cs_op s)" and "in_flight (o_status (cs_op s))"
    and "cs_mandate s = get_mandate_row w (o_mandate_id (cs_op s))"
proof -
  from assms obtain tx op where
    r: "tx_by_order w (cs_order_id s) = Inr (Some tx)" "get_operation_row w (t_operation_id tx) = Some op"
      "cs_op s = op" "cs_mandate s = get_mandate_row w (o_mandate_id op)"
    and st: "o_status op \<noteq> Op_SUCCEEDED" "\<exists>u. validate_transition (o_status op) Op_SUCCEEDED (''Webhook event: '' @ t) = Inr u"
    by (auto simp: capture_read_def bindE_Inr_iff split: sum.splits option.splits prod.splits if_splits)
  have "o_id op = t_operation_id tx" using r(2) by (auto dest: tget_SomeD)
  with r show "tget o_id (o_id (cs_op s)) (operations w) = Some (cs_op s)"
    and "cs_mandate s = get_mandate_row w (o_mandate_id (cs_op s))" by simp_all
  from st to_succeeded_in_flight r(3) show "in_flight (o_status (cs_op s))" by blast
qed

text \<open>From consistent books the second half commits, whatever has happened since.\<close>

lemma capture_write_commits:
  assumes "books_ok w" and "capture_read payload t w = Inr (Some s)"
  shows "mandates (capture_write E t s v)
      = mandates (commit_budget (o_mandate_id (cs_op s)) (o_amount (cs_op s)) True v)"
    and "operations (capture_write E t s v) = tupd o_id (o_id (cs_op s)) op_succeed (operations v)"
proof -
  note snap = capture_read_snapshot [OF assms(2)]
  have op: "cs_op s \<in> set (operations w)" using snap(1) by (auto dest: tget_SomeD)
  obtain m where m: "get_mandate_row w (o_mandate_id (cs_op s)) = Some m" using mandate_present [OF assms(1) op] .
  have "o_amount (cs_op s) \<le> m_reserved_spend m" using reserved_covers [OF assms(1) op snap(2) m] .
  moreover have "m_id m = o_mandate_id (cs_op s)" using m by (auto dest: tget_SomeD)
  ultimately show "mandates (capture_write E t s v)
      = mandates (commit_budget (o_mandate_id (cs_op s)) (o_amount (cs_op s)) True v)"
    and "operations (capture_write E t s v) = tupd o_id (o_id (cs_op s)) op_succeed (operations v)"
    using snap(3) m
    by (simp_all add: capture_write_def Let_def commit_budget_def upd_mandate_def upd_operation_def upd_transaction_def)
qed

lemma held_succeed_free:
  assumes "\<And>op. op \<in> set ops \<Longrightarrow> o_id op = i \<Longrightarrow> \<not> in_flight (o_status op)"
  shows "map entry_of (tupd o_id i op_succeed ops) = map entry_of ops"
  using assms by (auto simp: tupd_def entry_of_def op_succeed_def in_flight_def)

text \<open>
  C22: A stale capture breaks the books: when the captured handler has read an operation that is still
  in flight and, before it writes, another transaction settles or releases that operation (a second
  delivery under another event id, a failed event, the worker's sweep), the handler still makes the
  operation SUCCEEDED and moves its amount from the mandate's reservation to its committed spend a
  second time, and the reservation no longer covers the operations in flight.
\<close>
theorem stale_capture_breaks_books:
  assumes "books_ok w" and "capture_read payload t w = Inr (Some s)"
    and "books_ok v" and "get_operation_row v (o_id (cs_op s)) = Some op" and "\<not> in_flight (o_status op)"
    and "get_mandate_row v (o_mandate_id (cs_op s)) = Some m"
  shows "get_mandate_row (capture_write E t s v) (o_mandate_id (cs_op s))
      = Some (m\<lparr>m_reserved_spend := m_reserved_spend m - o_amount (cs_op s),
          m_current_aggregate_spend := m_current_aggregate_spend m + o_amount (cs_op s),
          m_version := m_version m + 1\<rparr>)
    \<and> get_operation_row (capture_write E t s v) (o_id (cs_op s)) = Some (op\<lparr>o_status := Op_SUCCEEDED\<rparr>)
    \<and> \<not> books_ok (capture_write E t s v)"
proof -
  let ?v = "capture_write E t s v" and ?k = "o_mandate_id (cs_op s)" and ?n = "o_amount (cs_op s)"
  let ?m = "m\<lparr>m_reserved_spend := m_reserved_spend m - ?n,
    m_current_aggregate_spend := m_current_aggregate_spend m + ?n, m_version := m_version m + 1\<rparr>"
  note wr = capture_write_commits [OF assms(1,2), of E v]
  have row: "get_mandate_row ?v ?k = Some ?m"
    unfolding wr(1) using assms(6) by (simp add: commit_budget_def upd_mandate_def tget_tupd_key)
  have ops: "get_operation_row ?v (o_id (cs_op s)) = Some (op\<lparr>o_status := Op_SUCCEEDED\<rparr>)"
    unfolding wr(2) using assms(4) by (simp add: tget_tupd_key op_succeed_def)
  have n: "0 < ?n"
    using books_okD(3) [OF assms(1)] capture_read_snapshot(1) [OF assms(2)] by (auto dest: tget_SomeD)
  have es: "map entry_of (operations ?v) = map entry_of (operations v)"
    unfolding wr(2)
  proof (rule held_succeed_free)
    fix x assume "x \<in> set (operations v)" "o_id x = o_id (cs_op s)"
    with tget_in_set [OF books_okD(2) [OF assms(3)], of x] assms(4,5) show "\<not> in_flight (o_status x)" by simp
  qed
  have id: "m_id m = ?k" using assms(6) by (auto dest: tget_SomeD)
  have "\<not> books_ok ?v"
  proof
    assume ok: "books_ok ?v"
    have "?m \<in> set (mandates ?v)" "m \<in> set (mandates v)" using row assms(6) by (auto dest: tget_SomeD)
    then have "ac_reserved (account_of ?m) = held_sum (map entry_of (operations v)) ?k"
      and "ac_reserved (account_of m) = held_sum (map entry_of (operations v)) ?k"
      using ok assms(3) es id ledger_okD(5) [of "map account_of (mandates ?v)" "map entry_of (operations ?v)" "account_of ?m"]
        ledger_okD(5) [of "map account_of (mandates v)" "map entry_of (operations v)" "account_of m"]
      by (auto simp: books_ok_def lview_def)
    with n show False by (simp add: account_of_def)
  qed
  with row ops show ?thesis by blast
qed

text \<open>Two deliveries of one capture that both read before either writes.\<close>

definition twice_captured :: world where
  "twice_captured =
     (case capture_read (dget_or demo_event ''payload'' JNull) ''payment.captured'' waiting_world of
        Inr (Some s) \<Rightarrow> capture_write demo_env ''payment.captured'' s
          (capture_write demo_env ''payment.captured'' s waiting_world)
      | _ \<Rightarrow> waiting_world)"

theorem stale_capture_breaks_books_witness:
  "\<not> books_ok twice_captured
    \<and> map_option (\<lambda>m. (m_reserved_spend m, m_current_aggregate_spend m)) (get_mandate_row twice_captured ''root'')
      = Some (- 1500, 3000)"
proof -
  let ?p = "dget_or demo_event ''payload'' JNull" and ?t = "''payment.captured''"
  obtain s where s: "capture_read ?p ?t waiting_world = Inr (Some s)"
    and id: "o_id (cs_op s) = o_id (demo_op 1500)" "o_mandate_id (cs_op s) = ''root''" "o_amount (cs_op s) = 1500"
  proof -
    have "case capture_read ?p ?t waiting_world of Inr (Some s) \<Rightarrow> cs_op s = (demo_op 1500)\<lparr>o_status := Op_EXECUTING\<rparr>
      | _ \<Rightarrow> False" by code_simp
    then obtain x where "capture_read ?p ?t waiting_world = Inr (Some x)"
      "cs_op x = (demo_op 1500)\<lparr>o_status := Op_EXECUTING\<rparr>" by (auto split: sum.splits option.splits)
    then show ?thesis by (intro that [of x]) (simp_all add: demo_op_def)
  qed
  let ?v = "capture_write demo_env ?t s waiting_world"
  have v: "handle_payment_captured_event demo_env ?p ?t waiting_world = (Inr (), ?v)"
    using s by (simp add: capture_phases)
  have ok: "books_ok ?v"
    using captured_ledger [OF waiting_books v] waiting_books by (auto intro: books_ok_steps)
  note wr = capture_write_commits [OF waiting_books s, of demo_env waiting_world]
  have row: "get_mandate_row ?v ''root'' = Some (demo_root\<lparr>m_reserved_spend := 0, m_current_aggregate_spend := 1500,
      m_version := 2\<rparr>)"
    unfolding wr(1) id
    by (simp add: commit_budget_def upd_mandate_def waiting_world_def demo_root_def table_simps)
  have op: "get_operation_row ?v (o_id (cs_op s)) = Some ((demo_op 1500)\<lparr>o_status := Op_SUCCEEDED\<rparr>)"
    unfolding wr(2) id by (simp add: waiting_world_def op_succeed_def demo_op_def table_simps)
  have "twice_captured = capture_write demo_env ?t s ?v" using s by (simp add: twice_captured_def)
  with stale_capture_breaks_books [OF waiting_books s ok op _ row [folded id(2)], of demo_env] show ?thesis
    unfolding id by simp
qed

section \<open>A human approval in two halves\<close>

definition approve_read :: "string \<Rightarrow> world \<Rightarrow> exn + operation" where
  "approve_read operation_id w =
     (case operation_by_id w operation_id of
        None \<Rightarrow> Inl (HTTPException 404 ''Operation not found'')
      | Some op \<Rightarrow>
          if o_status op \<noteq> Op_REQUIRES_APPROVAL then
            Inl (HTTPException 400 (''Operation is in status ''
              @ operation_status_value (o_status op) @ '', cannot approve''))
          else if get_mandate_row w (o_mandate_id op) = None then
            Inl (HTTPException 404 ''Mandate not found'')
          else Inr op)"

definition approve_write ::
    "env \<Rightarrow> string \<Rightarrow> human_approval \<Rightarrow> operation \<Rightarrow> world \<Rightarrow> (exn + operation) \<times> world" where
  "approve_write E operation_id approval op w =
     (if \<not> ha_approved approval then
        let message = str_or (ha_reason approval) ''Human review rejected operation'';
            w = upd_operation (o_id op) (finish_with Op_POLICY_REJECTED message) w
        in operation_row (o_id op)
             (add_audit E HUMAN_APPROVAL_REJECTED (ha_approved_by_id approval) ''PRINCIPAL''
               operation_id ''FINANCIAL_OPERATION'' [(''reason'', JStr message)] None
               (Some [(''status'', JStr (operation_status_value Op_POLICY_REJECTED))]) w)
      else
        let (reserved, w) = reserve_budget (o_mandate_id op) (o_amount op) w in
        if \<not> reserved then
          operation_row (o_id op) (upd_operation (o_id op) (finish_with Op_POLICY_REJECTED
            ''Budget limit exhausted before approval could reserve funds'') w)
        else
          let w = upd_operation (o_id op) (approve_with (ha_approved_by_id approval)) w;
              w = add_audit E HUMAN_APPROVAL_GRANTED (ha_approved_by_id approval) ''PRINCIPAL''
                operation_id ''FINANCIAL_OPERATION''
                [(''approved_by'', JStr (ha_approved_by_id approval)),
                 (''amount'', JInt (o_amount op))] None
                (Some [(''status'', JStr (operation_status_value Op_RESERVED))]) w
          in operation_row (o_id op)
               (dispatch_reserved E (o_id op) (o_mandate_id op) (o_payload op) w))"

lemma approve_phases:
  "human_approve_operation E i h w =
     (case approve_read i w of Inl e \<Rightarrow> (Inl e, w) | Inr op \<Rightarrow> approve_write E i h op w)"
  by (simp add: human_approve_operation_def approve_read_def approve_write_def split: option.split)

text \<open>
  Two approvals of one pending operation: the second finds it EXECUTING when the handlers run one
  after the other, but dispatches it again when both have read it before either reserves.
\<close>

definition approved_twice :: "bool \<Rightarrow> world" where
  "approved_twice apart =
     (let w = demo_pending_world; second = (\<lambda>read_at v. case approve_read ''op_1'' read_at of
            Inl _ \<Rightarrow> v | Inr op \<Rightarrow> snd (approve_write demo_env ''op_1'' demo_approval op v));
          v = second w w
      in second (if apart then w else v) v)"

lemma stale_approval_dispatches_twice:
  "(let v = approved_twice True in
      (length (gateway_calls v), length (transactions v), length (operations v),
       map_option m_reserved_spend (get_mandate_row v ''root''))) = (2, 2, 1, Some 4200)"
  "(let v = approved_twice False in
      (length (gateway_calls v), length (transactions v), length (operations v),
       map_option m_reserved_spend (get_mandate_row v ''root''))) = (1, 1, 1, Some 2100)"
  by code_simp+

end
