(* ===== verification/Schema_Migration.thy ===== *)
theory Schema_Migration
  imports Operations
begin

text \<open>
  The database schema, declared twice: by the ORM classes of \<^verbatim>\<open>packages/core/models.py\<close>, from which
  start-up creates missing tables (\<^verbatim>\<open>Base.metadata.create_all\<close>), and by the statements of
  \<^verbatim>\<open>migrations/versions/001_initial_schema.py\<close>. The statements run on a catalogue of tables and
  indexes that refuses what PostgreSQL refuses: an existing table or index, a column or a
  referenced table that is missing, dropping a table another one references.
\<close>

section \<open>The catalogue\<close>

datatype sql_type =
    VARCHAR nat
  | TEXT
  | INTEGER
  | BIGINT
  | BOOLEAN
  | FLOAT
  | TIMESTAMPTZ
  | JSON_TYPE

record column_def =
  cd_name :: string
  cd_type :: sql_type
  cd_nullable :: bool
  cd_primary_key :: bool
  cd_references :: "(string \<times> string) option"
  cd_server_default :: "string option"

record index_def =
  ix_name :: string
  ix_table :: string
  ix_columns :: "string list"
  ix_unique :: bool

record schema =
  sch_tables :: "(string \<times> column_def list) list"
  sch_indexes :: "index_def list"

definition empty_schema :: schema where
  "empty_schema = \<lparr>sch_tables = [], sch_indexes = []\<rparr>"

datatype ddl =
    Create_table string "column_def list"
  | Create_index string string "string list" bool
  | Drop_table string

datatype ddl_error =
    Duplicate_table string
  | Duplicate_index string
  | Undefined_table string
  | Undefined_column string
  | Dependent_objects string

definition column_names :: "column_def list \<Rightarrow> string list" where
  "column_names cols = map cd_name cols"

text \<open>A foreign key names a column of an existing table or of the table being created.\<close>

definition reference_ok :: "schema \<Rightarrow> string \<Rightarrow> column_def list \<Rightarrow> column_def \<Rightarrow> bool" where
  "reference_ok s name cols c =
     (case cd_references c of
        None \<Rightarrow> True
      | Some (t, k) \<Rightarrow>
          if t = name then k \<in> set (column_names cols)
          else (case map_of (sch_tables s) t of None \<Rightarrow> False | Some cs \<Rightarrow> k \<in> set (column_names cs)))"

definition referenced_by_other :: "string \<Rightarrow> schema \<Rightarrow> bool" where
  "referenced_by_other name s =
     list_ex (\<lambda>(t, cols). t \<noteq> name
       \<and> list_ex (\<lambda>c. case cd_references c of None \<Rightarrow> False | Some (r, _) \<Rightarrow> r = name) cols) (sch_tables s)"

fun exec_ddl :: "ddl \<Rightarrow> schema \<Rightarrow> ddl_error + schema" where
  "exec_ddl (Create_table name cols) s =
     (if name \<in> fst ` set (sch_tables s) then Inl (Duplicate_table name)
      else if \<not> list_all (reference_ok s name cols) cols then Inl (Undefined_table name)
      else Inr (s\<lparr>sch_tables := sch_tables s @ [(name, cols)]\<rparr>))"
| "exec_ddl (Create_index name table cols unique) s =
     (if name \<in> ix_name ` set (sch_indexes s) then Inl (Duplicate_index name)
      else case map_of (sch_tables s) table of
        None \<Rightarrow> Inl (Undefined_table table)
      | Some cs \<Rightarrow>
          if \<not> list_all (\<lambda>c. c \<in> set (column_names cs)) cols then Inl (Undefined_column name)
          else Inr (s\<lparr>sch_indexes := sch_indexes s @
            [\<lparr>ix_name = name, ix_table = table, ix_columns = cols, ix_unique = unique\<rparr>]\<rparr>))"
| "exec_ddl (Drop_table name) s =
     (if name \<notin> fst ` set (sch_tables s) then Inl (Undefined_table name)
      else if referenced_by_other name s then Inl (Dependent_objects name)
      else Inr (s\<lparr>sch_tables := filter (\<lambda>t. fst t \<noteq> name) (sch_tables s),
        sch_indexes := filter (\<lambda>i. ix_table i \<noteq> name) (sch_indexes s)\<rparr>))"

fun run_ddl :: "ddl list \<Rightarrow> schema \<Rightarrow> ddl_error + schema" where
  "run_ddl [] s = Inr s"
| "run_ddl (d # ds) s = (case exec_ddl d s of Inl e \<Rightarrow> Inl e | Inr s \<Rightarrow> run_ddl ds s)"

section \<open>The ORM classes\<close>

text \<open>
  A mapped column with its type; a non-native enum is a text column as wide as its longest member.
  A unique column that is indexed gets a unique index. Defaults computed by Python are those of
  the records in \<open>Domain\<close>.
\<close>

datatype orm_type = Sql_type sql_type | Sql_enum "string list"

record orm_column =
  om_name :: string
  om_type :: orm_type
  om_nullable :: bool
  om_primary_key :: bool
  om_references :: "(string \<times> string) option"
  om_unique :: bool
  om_index :: bool

definition mapped_column ::
    "string \<Rightarrow> orm_type \<Rightarrow> bool \<Rightarrow> bool \<Rightarrow> (string \<times> string) option \<Rightarrow> bool \<Rightarrow> bool \<Rightarrow> orm_column" where
  "mapped_column name ty nullable primary_key references unique index =
     \<lparr>om_name = name, om_type = ty, om_nullable = nullable, om_primary_key = primary_key,
      om_references = references, om_unique = unique, om_index = index\<rparr>"

record orm_table =
  ot_name :: string
  ot_columns :: "orm_column list"
  ot_indexes :: "(string \<times> string list) list"

definition PrincipalRole_names :: "string list" where
  "PrincipalRole_names = [''ADMIN'', ''DEVELOPER'', ''AUDITOR'', ''SERVICE'']"

definition AgentStatus_names :: "string list" where
  "AgentStatus_names = [''ACTIVE'', ''SUSPENDED'', ''REVOKED'']"

definition MandateStatus_names :: "string list" where
  "MandateStatus_names = [''PENDING_APPROVAL'', ''ACTIVE'', ''SUSPENDED'', ''EXPIRED'', ''EXHAUSTED'',
     ''REVOKED'']"

definition OperationType_names :: "string list" where
  "OperationType_names = [''CREATE_ORDER'', ''CAPTURE_PAYMENT'', ''CREATE_REFUND'',
     ''CREATE_PAYMENT_LINK'', ''CANCEL_PAYMENT_LINK'']"

definition OperationStatus_names :: "string list" where
  "OperationStatus_names = [''INITIATED'', ''POLICY_CHECK_PENDING'', ''POLICY_APPROVED'',
     ''POLICY_REJECTED'', ''REQUIRES_APPROVAL'', ''RESERVED'', ''EXECUTING'', ''SUCCEEDED'',
     ''FAILED'', ''CANCELLED'']"

definition TransactionStatus_names :: "string list" where
  "TransactionStatus_names = [''CREATED'', ''AUTHORIZED'', ''CAPTURED'', ''REFUNDED'', ''FAILED'']"

definition AuditAction_names :: "string list" where
  "AuditAction_names = [''PRINCIPAL_CREATED'', ''AGENT_REGISTERED'', ''AGENT_STATUS_CHANGED'',
     ''MANDATE_CREATED'', ''MANDATE_ISSUED'', ''MANDATE_DELEGATED'', ''MANDATE_STATUS_CHANGED'',
     ''MANDATE_REVOKED'', ''MANDATE_SUSPENDED'', ''MANDATE_ACTIVATED'', ''OPERATION_REQUESTED'',
     ''POLICY_EVALUATED'', ''BUDGET_RESERVED'', ''BUDGET_COMMITTED'', ''BUDGET_RELEASED'',
     ''HUMAN_APPROVAL_GRANTED'', ''HUMAN_APPROVAL_REJECTED'', ''OPERATION_EXECUTED'',
     ''TRANSACTION_RECORDED'', ''WEBHOOK_RECEIVED'']"

definition Principal_model :: orm_table where
  "Principal_model = \<lparr>ot_name = ''principals'', ot_columns = [
     mapped_column ''id'' (Sql_type (VARCHAR 36)) False True (None) False False,
     mapped_column ''name'' (Sql_type (VARCHAR 128)) False False (None) False False,
     mapped_column ''email'' (Sql_type (VARCHAR 255)) False False (None) True True,
     mapped_column ''role'' (Sql_enum PrincipalRole_names) False False (None) False False,
     mapped_column ''is_active'' (Sql_type (BOOLEAN)) False False (None) False False,
     mapped_column ''created_at'' (Sql_type (TIMESTAMPTZ)) False False (None) False False,
     mapped_column ''updated_at'' (Sql_type (TIMESTAMPTZ)) False False (None) False False],
   ot_indexes = []\<rparr>"

definition Agent_model :: orm_table where
  "Agent_model = \<lparr>ot_name = ''agents'', ot_columns = [
     mapped_column ''id'' (Sql_type (VARCHAR 36)) False True (None) False False,
     mapped_column ''name'' (Sql_type (VARCHAR 128)) False False (None) False False,
     mapped_column ''description'' (Sql_type (TEXT)) True False (None) False False,
     mapped_column ''owner_id'' (Sql_type (VARCHAR 36)) False False (Some (''principals'',
     ''id'')) False True,
     mapped_column ''status'' (Sql_enum AgentStatus_names) False False (None) False False,
     mapped_column ''api_key_hash'' (Sql_type (VARCHAR 256)) False False (None) True True,
     mapped_column ''agent_type'' (Sql_type (VARCHAR 32)) False False (None) False False,
     mapped_column ''metadata_json'' (Sql_type (JSON_TYPE)) False False (None) False False,
     mapped_column ''created_at'' (Sql_type (TIMESTAMPTZ)) False False (None) False False,
     mapped_column ''updated_at'' (Sql_type (TIMESTAMPTZ)) False False (None) False False],
   ot_indexes = []\<rparr>"

definition Mandate_model :: orm_table where
  "Mandate_model = \<lparr>ot_name = ''mandates'', ot_columns = [
     mapped_column ''id'' (Sql_type (VARCHAR 36)) False True (None) False False,
     mapped_column ''agent_id'' (Sql_type (VARCHAR 36)) False False (Some (''agents'',
     ''id'')) False True,
     mapped_column ''granted_by_id'' (Sql_type (VARCHAR 36)) False False (Some (''principals'',
     ''id'')) False False,
     mapped_column ''parent_mandate_id'' (Sql_type (VARCHAR 36)) True False (Some (''mandates'',
     ''id'')) False True,
     mapped_column ''delegation_depth'' (Sql_type (INTEGER)) False False (None) False False,
     mapped_column ''max_delegation_depth'' (Sql_type (INTEGER)) False False (None) False False,
     mapped_column ''status'' (Sql_enum MandateStatus_names) False False (None) False False,
     mapped_column ''currency'' (Sql_type (VARCHAR 3)) False False (None) False False,
     mapped_column ''max_amount_per_op'' (Sql_type (BIGINT)) False False (None) False False,
     mapped_column ''aggregate_spend_limit'' (Sql_type (BIGINT)) False False (None) False False,
     mapped_column ''current_aggregate_spend'' (Sql_type (BIGINT)) False False (None) False False,
     mapped_column ''reserved_spend'' (Sql_type (BIGINT)) False False (None) False False,
     mapped_column ''delegated_child_budget_allocated'' (Sql_type (BIGINT)) False False (None) False False,
     mapped_column ''review_threshold_amount'' (Sql_type (BIGINT)) True False (None) False False,
     mapped_column ''allowed_operations'' (Sql_type (JSON_TYPE)) False False (None) False False,
     mapped_column ''policy_config'' (Sql_type (JSON_TYPE)) False False (None) False False,
     mapped_column ''suspension_reason'' (Sql_type (TEXT)) True False (None) False False,
     mapped_column ''version'' (Sql_type (INTEGER)) False False (None) False False,
     mapped_column ''valid_from'' (Sql_type (TIMESTAMPTZ)) False False (None) False False,
     mapped_column ''valid_until'' (Sql_type (TIMESTAMPTZ)) False False (None) False False,
     mapped_column ''created_at'' (Sql_type (TIMESTAMPTZ)) False False (None) False False,
     mapped_column ''updated_at'' (Sql_type (TIMESTAMPTZ)) False False (None) False False],
   ot_indexes = []\<rparr>"

definition FinancialOperation_model :: orm_table where
  "FinancialOperation_model = \<lparr>ot_name = ''financial_operations'', ot_columns = [
     mapped_column ''id'' (Sql_type (VARCHAR 36)) False True (None) False False,
     mapped_column ''operation_id'' (Sql_type (VARCHAR 64)) False False (None) True True,
     mapped_column ''idempotency_key'' (Sql_type (VARCHAR 128)) False False (None) True True,
     mapped_column ''agent_id'' (Sql_type (VARCHAR 36)) False False (Some (''agents'',
     ''id'')) False True,
     mapped_column ''mandate_id'' (Sql_type (VARCHAR 36)) False False (Some (''mandates'',
     ''id'')) False True,
     mapped_column ''operation_type'' (Sql_enum OperationType_names) False False (None) False False,
     mapped_column ''status'' (Sql_enum OperationStatus_names) False False (None) False False,
     mapped_column ''amount'' (Sql_type (BIGINT)) False False (None) False False,
     mapped_column ''currency'' (Sql_type (VARCHAR 3)) False False (None) False False,
     mapped_column ''payload'' (Sql_type (JSON_TYPE)) False False (None) False False,
     mapped_column ''policy_evaluation_details'' (Sql_type (JSON_TYPE)) False False (None) False False,
     mapped_column ''error_message'' (Sql_type (TEXT)) True False (None) False False,
     mapped_column ''approved_by_id'' (Sql_type (VARCHAR 36)) True False (None) False False,
     mapped_column ''trace_id'' (Sql_type (VARCHAR 64)) False False (None) False True,
     mapped_column ''created_at'' (Sql_type (TIMESTAMPTZ)) False False (None) False False,
     mapped_column ''updated_at'' (Sql_type (TIMESTAMPTZ)) False False (None) False False],
   ot_indexes = []\<rparr>"

definition Transaction_model :: orm_table where
  "Transaction_model = \<lparr>ot_name = ''transactions'', ot_columns = [
     mapped_column ''id'' (Sql_type (VARCHAR 36)) False True (None) False False,
     mapped_column ''operation_id'' (Sql_type (VARCHAR 36)) False False (Some (''financial_operations'', ''id'')) False True,
     mapped_column ''gateway_name'' (Sql_type (VARCHAR 32)) False False (None) False False,
     mapped_column ''gateway_order_id'' (Sql_type (VARCHAR 128)) True False (None) False True,
     mapped_column ''gateway_payment_id'' (Sql_type (VARCHAR 128)) True False (None) False True,
     mapped_column ''gateway_refund_id'' (Sql_type (VARCHAR 128)) True False (None) False True,
     mapped_column ''gateway_payment_link_id'' (Sql_type (VARCHAR 128)) True False (None) False True,
     mapped_column ''gateway_payment_link_url'' (Sql_type (VARCHAR 512)) True False (None) False False,
     mapped_column ''amount'' (Sql_type (BIGINT)) False False (None) False False,
     mapped_column ''currency'' (Sql_type (VARCHAR 3)) False False (None) False False,
     mapped_column ''status'' (Sql_enum TransactionStatus_names) False False (None) False False,
     mapped_column ''gateway_response'' (Sql_type (JSON_TYPE)) False False (None) False False,
     mapped_column ''error_code'' (Sql_type (VARCHAR 128)) True False (None) False False,
     mapped_column ''error_description'' (Sql_type (TEXT)) True False (None) False False,
     mapped_column ''created_at'' (Sql_type (TIMESTAMPTZ)) False False (None) False False,
     mapped_column ''updated_at'' (Sql_type (TIMESTAMPTZ)) False False (None) False False],
   ot_indexes = []\<rparr>"

definition DomainOutboxEvent_model :: orm_table where
  "DomainOutboxEvent_model = \<lparr>ot_name = ''domain_outbox_events'', ot_columns = [
     mapped_column ''id'' (Sql_type (VARCHAR 36)) False True (None) False False,
     mapped_column ''event_id'' (Sql_type (VARCHAR 64)) False False (None) True True,
     mapped_column ''topic'' (Sql_type (VARCHAR 128)) False False (None) False True,
     mapped_column ''event_type'' (Sql_type (VARCHAR 64)) False False (None) False True,
     mapped_column ''payload'' (Sql_type (JSON_TYPE)) False False (None) False False,
     mapped_column ''status'' (Sql_type (VARCHAR 32)) False False (None) False True,
     mapped_column ''retry_count'' (Sql_type (INTEGER)) False False (None) False False,
     mapped_column ''last_error'' (Sql_type (TEXT)) True False (None) False False,
     mapped_column ''created_at'' (Sql_type (TIMESTAMPTZ)) False False (None) False False,
     mapped_column ''published_at'' (Sql_type (TIMESTAMPTZ)) True False (None) False False],
   ot_indexes = []\<rparr>"

definition WebhookEvent_model :: orm_table where
  "WebhookEvent_model = \<lparr>ot_name = ''webhook_events'', ot_columns = [
     mapped_column ''id'' (Sql_type (VARCHAR 36)) False True (None) False False,
     mapped_column ''event_id'' (Sql_type (VARCHAR 128)) False False (None) True True,
     mapped_column ''event_type'' (Sql_type (VARCHAR 64)) False False (None) False True,
     mapped_column ''payload_hash'' (Sql_type (VARCHAR 64)) False False (None) False True,
     mapped_column ''raw_payload'' (Sql_type (JSON_TYPE)) False False (None) False False,
     mapped_column ''signature_verified'' (Sql_type (BOOLEAN)) False False (None) False False,
     mapped_column ''status'' (Sql_type (VARCHAR 32)) False False (None) False True,
     mapped_column ''processed'' (Sql_type (BOOLEAN)) False False (None) False True,
     mapped_column ''processing_attempts'' (Sql_type (INTEGER)) False False (None) False False,
     mapped_column ''max_retries'' (Sql_type (INTEGER)) False False (None) False False,
     mapped_column ''error_message'' (Sql_type (TEXT)) True False (None) False False,
     mapped_column ''trace_id'' (Sql_type (VARCHAR 64)) True False (None) False True,
     mapped_column ''received_at'' (Sql_type (TIMESTAMPTZ)) False False (None) False False,
     mapped_column ''processed_at'' (Sql_type (TIMESTAMPTZ)) True False (None) False False],
   ot_indexes = []\<rparr>"

definition ReconciliationReport_model :: orm_table where
  "ReconciliationReport_model = \<lparr>ot_name = ''reconciliation_reports'', ot_columns = [
     mapped_column ''id'' (Sql_type (VARCHAR 36)) False True (None) False False,
     mapped_column ''report_id'' (Sql_type (VARCHAR 64)) False False (None) True True,
     mapped_column ''total_audited'' (Sql_type (INTEGER)) False False (None) False False,
     mapped_column ''inconsistencies_detected'' (Sql_type (INTEGER)) False False (None) False False,
     mapped_column ''details'' (Sql_type (JSON_TYPE)) False False (None) False False,
     mapped_column ''created_at'' (Sql_type (TIMESTAMPTZ)) False False (None) False False],
   ot_indexes = []\<rparr>"

definition AgentExecutionTrace_model :: orm_table where
  "AgentExecutionTrace_model = \<lparr>ot_name = ''agent_execution_traces'', ot_columns = [
     mapped_column ''id'' (Sql_type (VARCHAR 36)) False True (None) False False,
     mapped_column ''session_id'' (Sql_type (VARCHAR 64)) False False (None) False True,
     mapped_column ''agent_id'' (Sql_type (VARCHAR 36)) False False (Some (''agents'',
     ''id'')) False True,
     mapped_column ''user_prompt'' (Sql_type (TEXT)) False False (None) False False,
     mapped_column ''model_provider'' (Sql_type (VARCHAR 32)) False False (None) False False,
     mapped_column ''model_name'' (Sql_type (VARCHAR 64)) False False (None) False False,
     mapped_column ''tool_name'' (Sql_type (VARCHAR 64)) True False (None) False False,
     mapped_column ''tool_arguments'' (Sql_type (JSON_TYPE)) False False (None) False False,
     mapped_column ''tool_result'' (Sql_type (JSON_TYPE)) False False (None) False False,
     mapped_column ''operation_id'' (Sql_type (VARCHAR 64)) True False (None) False True,
     mapped_column ''policy_decision'' (Sql_type (VARCHAR 32)) True False (None) False False,
     mapped_column ''agent_response_text'' (Sql_type (TEXT)) False False (None) False False,
     mapped_column ''latency_ms'' (Sql_type (FLOAT)) False False (None) False False,
     mapped_column ''created_at'' (Sql_type (TIMESTAMPTZ)) False False (None) False False],
   ot_indexes = []\<rparr>"

definition AuditEvent_model :: orm_table where
  "AuditEvent_model = \<lparr>ot_name = ''audit_events'', ot_columns = [
     mapped_column ''id'' (Sql_type (VARCHAR 36)) False True (None) False False,
     mapped_column ''event_id'' (Sql_type (VARCHAR 64)) False False (None) True True,
     mapped_column ''action'' (Sql_enum AuditAction_names) False False (None) False False,
     mapped_column ''actor_id'' (Sql_type (VARCHAR 128)) False False (None) False True,
     mapped_column ''actor_type'' (Sql_type (VARCHAR 32)) False False (None) False False,
     mapped_column ''resource_id'' (Sql_type (VARCHAR 128)) False False (None) False True,
     mapped_column ''resource_type'' (Sql_type (VARCHAR 32)) False False (None) False False,
     mapped_column ''payload'' (Sql_type (JSON_TYPE)) False False (None) False False,
     mapped_column ''previous_state'' (Sql_type (JSON_TYPE)) True False (None) False False,
     mapped_column ''new_state'' (Sql_type (JSON_TYPE)) True False (None) False False,
     mapped_column ''trace_id'' (Sql_type (VARCHAR 64)) True False (None) False True,
     mapped_column ''timestamp'' (Sql_type (TIMESTAMPTZ)) False False (None) False True],
   ot_indexes = [(''ix_audit_events_actor_timestamp'', [''actor_id'', ''timestamp'']),
     (''ix_audit_events_resource_timestamp'', [''resource_id'', ''timestamp''])]\<rparr>"

definition metadata_tables :: "orm_table list" where
  "metadata_tables = [Principal_model, Agent_model, Mandate_model, FinancialOperation_model,
     Transaction_model, DomainOutboxEvent_model, WebhookEvent_model, ReconciliationReport_model,
     AgentExecutionTrace_model, AuditEvent_model]"

section \<open>Creating the tables of the classes\<close>

definition orm_sql_type :: "orm_type \<Rightarrow> sql_type" where
  "orm_sql_type ty =
     (case ty of Sql_type t \<Rightarrow> t | Sql_enum names \<Rightarrow> VARCHAR (fold max (map length names) 0))"

definition column_of :: "orm_column \<Rightarrow> column_def" where
  "column_of c = \<lparr>cd_name = om_name c, cd_type = orm_sql_type (om_type c), cd_nullable = om_nullable c,
     cd_primary_key = om_primary_key c, cd_references = om_references c, cd_server_default = None\<rparr>"

definition table_ddl :: "orm_table \<Rightarrow> ddl list" where
  "table_ddl t =
     [Create_table (ot_name t) (map column_of (ot_columns t))]
     @ map (\<lambda>c. Create_index (''ix_'' @ ot_name t @ ''_'' @ om_name c) (ot_name t) [om_name c] (om_unique c))
         (filter om_index (ot_columns t))
     @ map (\<lambda>(n, cs). Create_index n (ot_name t) cs False) (ot_indexes t)"

text \<open>\<open>create_all\<close> leaves a table alone that exists, its indexes included.\<close>

fun create_tables :: "orm_table list \<Rightarrow> schema \<Rightarrow> ddl_error + schema" where
  "create_tables [] s = Inr s"
| "create_tables (t # ts) s =
     (if ot_name t \<in> fst ` set (sch_tables s) then create_tables ts s
      else case run_ddl (table_ddl t) s of Inl e \<Rightarrow> Inl e | Inr s \<Rightarrow> create_tables ts s)"

definition create_all :: "schema \<Rightarrow> ddl_error + schema" where
  "create_all s = create_tables metadata_tables s"

section \<open>The migration\<close>

definition sa_column ::
    "string \<Rightarrow> sql_type \<Rightarrow> bool \<Rightarrow> bool \<Rightarrow> (string \<times> string) option \<Rightarrow> string option \<Rightarrow> column_def" where
  "sa_column name ty nullable primary_key references server_default =
     \<lparr>cd_name = name, cd_type = ty, cd_nullable = nullable, cd_primary_key = primary_key,
      cd_references = references, cd_server_default = server_default\<rparr>"

definition upgrade_principals :: "ddl list" where
  "upgrade_principals =
    [Create_table ''principals'' [
     sa_column ''id'' (VARCHAR 36) False True (None) (None),
     sa_column ''name'' (VARCHAR 128) False False (None) (None),
     sa_column ''email'' (VARCHAR 255) False False (None) (None),
     sa_column ''role'' (VARCHAR 32) False False (None) (Some ''DEVELOPER''),
     sa_column ''is_active'' (BOOLEAN) False False (None) (Some ''true''),
     sa_column ''created_at'' (TIMESTAMPTZ) False False (None) (None),
     sa_column ''updated_at'' (TIMESTAMPTZ) False False (None) (None)],
     Create_index ''ix_principals_email'' ''principals'' [''email''] True]"

definition upgrade_agents :: "ddl list" where
  "upgrade_agents =
    [Create_table ''agents'' [
     sa_column ''id'' (VARCHAR 36) False True (None) (None),
     sa_column ''name'' (VARCHAR 128) False False (None) (None),
     sa_column ''description'' (TEXT) True False (None) (None),
     sa_column ''owner_id'' (VARCHAR 36) False False (Some (''principals'', ''id'')) (None),
     sa_column ''status'' (VARCHAR 32) False False (None) (Some ''ACTIVE''),
     sa_column ''api_key_hash'' (VARCHAR 256) False False (None) (None),
     sa_column ''agent_type'' (VARCHAR 32) False False (None) (Some ''SHOPPING''),
     sa_column ''metadata_json'' (JSON_TYPE) False False (None) (None),
     sa_column ''created_at'' (TIMESTAMPTZ) False False (None) (None),
     sa_column ''updated_at'' (TIMESTAMPTZ) False False (None) (None)],
     Create_index ''ix_agents_owner_id'' ''agents'' [''owner_id''] False,
     Create_index ''ix_agents_api_key_hash'' ''agents'' [''api_key_hash''] True]"

definition upgrade_mandates :: "ddl list" where
  "upgrade_mandates =
    [Create_table ''mandates'' [
     sa_column ''id'' (VARCHAR 36) False True (None) (None),
     sa_column ''agent_id'' (VARCHAR 36) False False (Some (''agents'', ''id'')) (None),
     sa_column ''granted_by_id'' (VARCHAR 36) False False (Some (''principals'', ''id'')) (None),
     sa_column ''parent_mandate_id'' (VARCHAR 36) True False (Some (''mandates'', ''id'')) (None),
     sa_column ''delegation_depth'' (INTEGER) False False (None) (Some ''0''),
     sa_column ''max_delegation_depth'' (INTEGER) False False (None) (Some ''2''),
     sa_column ''status'' (VARCHAR 32) False False (None) (Some ''ACTIVE''),
     sa_column ''currency'' (VARCHAR 3) False False (None) (Some ''INR''),
     sa_column ''max_amount_per_op'' (BIGINT) False False (None) (None),
     sa_column ''aggregate_spend_limit'' (BIGINT) False False (None) (None),
     sa_column ''current_aggregate_spend'' (BIGINT) False False (None) (Some ''0''),
     sa_column ''reserved_spend'' (BIGINT) False False (None) (Some ''0''),
     sa_column ''delegated_child_budget_allocated'' (BIGINT) False False (None) (Some ''0''),
     sa_column ''review_threshold_amount'' (BIGINT) True False (None) (None),
     sa_column ''allowed_operations'' (JSON_TYPE) False False (None) (None),
     sa_column ''policy_config'' (JSON_TYPE) False False (None) (None),
     sa_column ''suspension_reason'' (TEXT) True False (None) (None),
     sa_column ''version'' (INTEGER) False False (None) (Some ''1''),
     sa_column ''valid_from'' (TIMESTAMPTZ) False False (None) (None),
     sa_column ''valid_until'' (TIMESTAMPTZ) False False (None) (None),
     sa_column ''created_at'' (TIMESTAMPTZ) False False (None) (None),
     sa_column ''updated_at'' (TIMESTAMPTZ) False False (None) (None)],
     Create_index ''ix_mandates_agent_id'' ''mandates'' [''agent_id''] False,
     Create_index ''ix_mandates_parent_mandate_id'' ''mandates'' [''parent_mandate_id''] False]"

definition upgrade_financial_operations :: "ddl list" where
  "upgrade_financial_operations =
    [Create_table ''financial_operations'' [
     sa_column ''id'' (VARCHAR 36) False True (None) (None),
     sa_column ''operation_id'' (VARCHAR 64) False False (None) (None),
     sa_column ''idempotency_key'' (VARCHAR 128) False False (None) (None),
     sa_column ''agent_id'' (VARCHAR 36) False False (Some (''agents'', ''id'')) (None),
     sa_column ''mandate_id'' (VARCHAR 36) False False (Some (''mandates'', ''id'')) (None),
     sa_column ''operation_type'' (VARCHAR 32) False False (None) (None),
     sa_column ''status'' (VARCHAR 32) False False (None) (Some ''INITIATED''),
     sa_column ''amount'' (BIGINT) False False (None) (None),
     sa_column ''currency'' (VARCHAR 3) False False (None) (Some ''INR''),
     sa_column ''payload'' (JSON_TYPE) False False (None) (None),
     sa_column ''policy_evaluation_details'' (JSON_TYPE) False False (None) (None),
     sa_column ''error_message'' (TEXT) True False (None) (None),
     sa_column ''approved_by_id'' (VARCHAR 36) True False (None) (None),
     sa_column ''trace_id'' (VARCHAR 64) False False (None) (None),
     sa_column ''created_at'' (TIMESTAMPTZ) False False (None) (None),
     sa_column ''updated_at'' (TIMESTAMPTZ) False False (None) (None)],
     Create_index ''ix_financial_operations_operation_id'' ''financial_operations'' [''operation_id''] True,
     Create_index ''ix_financial_operations_idempotency_key'' ''financial_operations'' [''idempotency_key''] True,
     Create_index ''ix_financial_operations_agent_id'' ''financial_operations'' [''agent_id''] False,
     Create_index ''ix_financial_operations_mandate_id'' ''financial_operations'' [''mandate_id''] False,
     Create_index ''ix_financial_operations_trace_id'' ''financial_operations'' [''trace_id''] False]"

definition upgrade_transactions :: "ddl list" where
  "upgrade_transactions =
    [Create_table ''transactions'' [
     sa_column ''id'' (VARCHAR 36) False True (None) (None),
     sa_column ''operation_id'' (VARCHAR 36) False False (Some (''financial_operations'',
     ''id'')) (None),
     sa_column ''gateway_name'' (VARCHAR 32) False False (None) (Some ''RAZORPAY''),
     sa_column ''gateway_order_id'' (VARCHAR 128) True False (None) (None),
     sa_column ''gateway_payment_id'' (VARCHAR 128) True False (None) (None),
     sa_column ''gateway_refund_id'' (VARCHAR 128) True False (None) (None),
     sa_column ''gateway_payment_link_id'' (VARCHAR 128) True False (None) (None),
     sa_column ''gateway_payment_link_url'' (VARCHAR 512) True False (None) (None),
     sa_column ''amount'' (BIGINT) False False (None) (None),
     sa_column ''currency'' (VARCHAR 3) False False (None) (Some ''INR''),
     sa_column ''status'' (VARCHAR 32) False False (None) (Some ''CREATED''),
     sa_column ''gateway_response'' (JSON_TYPE) False False (None) (None),
     sa_column ''error_code'' (VARCHAR 128) True False (None) (None),
     sa_column ''error_description'' (TEXT) True False (None) (None),
     sa_column ''created_at'' (TIMESTAMPTZ) False False (None) (None),
     sa_column ''updated_at'' (TIMESTAMPTZ) False False (None) (None)],
     Create_index ''ix_transactions_operation_id'' ''transactions'' [''operation_id''] False,
     Create_index ''ix_transactions_gateway_order_id'' ''transactions'' [''gateway_order_id''] False,
     Create_index ''ix_transactions_gateway_payment_id'' ''transactions'' [''gateway_payment_id''] False,
     Create_index ''ix_transactions_gateway_refund_id'' ''transactions'' [''gateway_refund_id''] False,
     Create_index ''ix_transactions_gateway_payment_link_id'' ''transactions'' [''gateway_payment_link_id''] False]"

definition upgrade_domain_outbox_events :: "ddl list" where
  "upgrade_domain_outbox_events =
    [Create_table ''domain_outbox_events'' [
     sa_column ''id'' (VARCHAR 36) False True (None) (None),
     sa_column ''event_id'' (VARCHAR 64) False False (None) (None),
     sa_column ''topic'' (VARCHAR 128) False False (None) (None),
     sa_column ''event_type'' (VARCHAR 64) False False (None) (None),
     sa_column ''payload'' (JSON_TYPE) False False (None) (None),
     sa_column ''status'' (VARCHAR 32) False False (None) (Some ''PENDING''),
     sa_column ''retry_count'' (INTEGER) False False (None) (Some ''0''),
     sa_column ''last_error'' (TEXT) True False (None) (None),
     sa_column ''created_at'' (TIMESTAMPTZ) False False (None) (None),
     sa_column ''published_at'' (TIMESTAMPTZ) True False (None) (None)],
     Create_index ''ix_domain_outbox_events_event_id'' ''domain_outbox_events'' [''event_id''] True,
     Create_index ''ix_domain_outbox_events_topic'' ''domain_outbox_events'' [''topic''] False,
     Create_index ''ix_domain_outbox_events_event_type'' ''domain_outbox_events'' [''event_type''] False,
     Create_index ''ix_domain_outbox_events_status'' ''domain_outbox_events'' [''status''] False]"

definition upgrade_webhook_events :: "ddl list" where
  "upgrade_webhook_events =
    [Create_table ''webhook_events'' [
     sa_column ''id'' (VARCHAR 36) False True (None) (None),
     sa_column ''event_id'' (VARCHAR 128) False False (None) (None),
     sa_column ''event_type'' (VARCHAR 64) False False (None) (None),
     sa_column ''payload_hash'' (VARCHAR 64) False False (None) (None),
     sa_column ''raw_payload'' (JSON_TYPE) False False (None) (None),
     sa_column ''signature_verified'' (BOOLEAN) False False (None) (Some ''false''),
     sa_column ''status'' (VARCHAR 32) False False (None) (Some ''RECEIVED''),
     sa_column ''processed'' (BOOLEAN) False False (None) (Some ''false''),
     sa_column ''processing_attempts'' (INTEGER) False False (None) (Some ''0''),
     sa_column ''max_retries'' (INTEGER) False False (None) (Some ''3''),
     sa_column ''error_message'' (TEXT) True False (None) (None),
     sa_column ''trace_id'' (VARCHAR 64) True False (None) (None),
     sa_column ''received_at'' (TIMESTAMPTZ) False False (None) (None),
     sa_column ''processed_at'' (TIMESTAMPTZ) True False (None) (None)],
     Create_index ''ix_webhook_events_event_id'' ''webhook_events'' [''event_id''] True,
     Create_index ''ix_webhook_events_event_type'' ''webhook_events'' [''event_type''] False,
     Create_index ''ix_webhook_events_payload_hash'' ''webhook_events'' [''payload_hash''] False,
     Create_index ''ix_webhook_events_status'' ''webhook_events'' [''status''] False,
     Create_index ''ix_webhook_events_processed'' ''webhook_events'' [''processed''] False,
     Create_index ''ix_webhook_events_trace_id'' ''webhook_events'' [''trace_id''] False]"

definition upgrade_reconciliation_reports :: "ddl list" where
  "upgrade_reconciliation_reports =
    [Create_table ''reconciliation_reports'' [
     sa_column ''id'' (VARCHAR 36) False True (None) (None),
     sa_column ''report_id'' (VARCHAR 64) False False (None) (None),
     sa_column ''total_audited'' (INTEGER) False False (None) (Some ''0''),
     sa_column ''inconsistencies_detected'' (INTEGER) False False (None) (Some ''0''),
     sa_column ''details'' (JSON_TYPE) False False (None) (None),
     sa_column ''created_at'' (TIMESTAMPTZ) False False (None) (None)],
     Create_index ''ix_reconciliation_reports_report_id'' ''reconciliation_reports'' [''report_id''] True]"

definition upgrade_agent_execution_traces :: "ddl list" where
  "upgrade_agent_execution_traces =
    [Create_table ''agent_execution_traces'' [
     sa_column ''id'' (VARCHAR 36) False True (None) (None),
     sa_column ''session_id'' (VARCHAR 64) False False (None) (None),
     sa_column ''agent_id'' (VARCHAR 36) False False (Some (''agents'', ''id'')) (None),
     sa_column ''user_prompt'' (TEXT) False False (None) (None),
     sa_column ''model_provider'' (VARCHAR 32) False False (None) (Some ''openai''),
     sa_column ''model_name'' (VARCHAR 64) False False (None) (None),
     sa_column ''tool_name'' (VARCHAR 64) True False (None) (None),
     sa_column ''tool_arguments'' (JSON_TYPE) False False (None) (None),
     sa_column ''tool_result'' (JSON_TYPE) False False (None) (None),
     sa_column ''operation_id'' (VARCHAR 64) True False (None) (None),
     sa_column ''policy_decision'' (VARCHAR 32) True False (None) (None),
     sa_column ''agent_response_text'' (TEXT) False False (None) (None),
     sa_column ''latency_ms'' (FLOAT) False False (None) (Some ''0.0''),
     sa_column ''created_at'' (TIMESTAMPTZ) False False (None) (None)],
     Create_index ''ix_agent_execution_traces_session_id'' ''agent_execution_traces'' [''session_id''] False,
     Create_index ''ix_agent_execution_traces_agent_id'' ''agent_execution_traces'' [''agent_id''] False,
     Create_index ''ix_agent_execution_traces_operation_id'' ''agent_execution_traces'' [''operation_id''] False]"

definition upgrade_audit_events :: "ddl list" where
  "upgrade_audit_events =
    [Create_table ''audit_events'' [
     sa_column ''id'' (VARCHAR 36) False True (None) (None),
     sa_column ''event_id'' (VARCHAR 64) False False (None) (None),
     sa_column ''action'' (VARCHAR 64) False False (None) (None),
     sa_column ''actor_id'' (VARCHAR 128) False False (None) (None),
     sa_column ''actor_type'' (VARCHAR 32) False False (None) (None),
     sa_column ''resource_id'' (VARCHAR 128) False False (None) (None),
     sa_column ''resource_type'' (VARCHAR 32) False False (None) (None),
     sa_column ''payload'' (JSON_TYPE) False False (None) (None),
     sa_column ''previous_state'' (JSON_TYPE) True False (None) (None),
     sa_column ''new_state'' (JSON_TYPE) True False (None) (None),
     sa_column ''trace_id'' (VARCHAR 64) True False (None) (None),
     sa_column ''timestamp'' (TIMESTAMPTZ) False False (None) (None)],
     Create_index ''ix_audit_events_event_id'' ''audit_events'' [''event_id''] True,
     Create_index ''ix_audit_events_actor_id'' ''audit_events'' [''actor_id''] False,
     Create_index ''ix_audit_events_resource_id'' ''audit_events'' [''resource_id''] False,
     Create_index ''ix_audit_events_trace_id'' ''audit_events'' [''trace_id''] False,
     Create_index ''ix_audit_events_timestamp'' ''audit_events'' [''timestamp''] False,
     Create_index ''ix_audit_events_actor_timestamp'' ''audit_events'' [''actor_id'',
     ''timestamp''] False,
     Create_index ''ix_audit_events_resource_timestamp'' ''audit_events'' [''resource_id'',
     ''timestamp''] False]"

definition upgrade :: "ddl list" where
  "upgrade = upgrade_principals @ upgrade_agents @ upgrade_mandates @ upgrade_financial_operations
     @ upgrade_transactions @ upgrade_domain_outbox_events @ upgrade_webhook_events
     @ upgrade_reconciliation_reports @ upgrade_agent_execution_traces @ upgrade_audit_events"

definition downgrade :: "ddl list" where
  "downgrade = map Drop_table [''audit_events'', ''agent_execution_traces'',
     ''reconciliation_reports'', ''webhook_events'', ''domain_outbox_events'', ''transactions'',
     ''financial_operations'', ''mandates'', ''agents'', ''principals'']"

text \<open>
  The environment runs the migration in a transaction, once: the applied revision is stored, and
  a failing statement leaves schema and revision as they were.
\<close>

record migrated =
  mg_schema :: schema
  mg_revision :: "string option"

definition revision :: string where "revision = ''001_initial_schema''"

definition do_run_migrations :: "migrated \<Rightarrow> (ddl_error + unit) \<times> migrated" where
  "do_run_migrations m =
     (if mg_revision m = Some revision then (Inr (), m)
      else case run_ddl upgrade (mg_schema m) of
        Inl e \<Rightarrow> (Inl e, m)
      | Inr s \<Rightarrow> (Inr (), \<lparr>mg_schema = s, mg_revision = Some revision\<rparr>))"

section \<open>The two schemas agree\<close>

text \<open>A column covers another when it stores every value of it.\<close>

definition type_covers :: "sql_type \<Rightarrow> sql_type \<Rightarrow> bool" where
  "type_covers a b = (case (a, b) of (VARCHAR m, VARCHAR n) \<Rightarrow> n \<le> m | _ \<Rightarrow> a = b)"

definition column_covers :: "column_def \<Rightarrow> column_def \<Rightarrow> bool" where
  "column_covers a b \<longleftrightarrow> cd_name a = cd_name b \<and> type_covers (cd_type a) (cd_type b)
     \<and> cd_nullable a = cd_nullable b \<and> cd_primary_key a = cd_primary_key b
     \<and> cd_references a = cd_references b"

definition schema_covers :: "schema \<Rightarrow> schema \<Rightarrow> bool" where
  "schema_covers a b \<longleftrightarrow>
     list_all2 (\<lambda>(n, cs) (n', cs'). n = n' \<and> list_all2 column_covers cs cs') (sch_tables a) (sch_tables b)
     \<and> set (sch_indexes a) = set (sch_indexes b)"

text \<open>The statements' own names, and a schema that shares none of them.\<close>

fun ddl_names :: "ddl \<Rightarrow> string list" where
  "ddl_names (Create_table n cols) = [n]"
| "ddl_names (Create_index n t cols u) = [n, t]"
| "ddl_names (Drop_table n) = [n]"

definition migration_names :: "string list" where
  "migration_names = concat (map ddl_names upgrade)"

definition apart :: "string set \<Rightarrow> schema \<Rightarrow> bool" where
  "apart N s \<longleftrightarrow>
     (\<forall>(t, cols) \<in> set (sch_tables s). t \<notin> N
        \<and> (\<forall>c \<in> set cols. \<forall>r k. cd_references c = Some (r, k) \<longrightarrow> r \<notin> N))
     \<and> (\<forall>i \<in> set (sch_indexes s). ix_name i \<notin> N \<and> ix_table i \<notin> N)"

definition extend :: "schema \<Rightarrow> schema \<Rightarrow> schema" where
  "extend s r = \<lparr>sch_tables = sch_tables s @ sch_tables r, sch_indexes = sch_indexes s @ sch_indexes r\<rparr>"

definition tables_in :: "string set \<Rightarrow> schema \<Rightarrow> bool" where
  "tables_in N r \<longleftrightarrow> (\<forall>t \<in> set (sch_tables r). fst t \<in> N)"

lemma extend_empty [simp]: "extend s empty_schema = s"
  by (simp add: extend_def empty_schema_def)

lemma tables_in_empty [simp]: "tables_in N empty_schema"
  by (simp add: tables_in_def empty_schema_def)

lemma apart_table: "apart N s \<Longrightarrow> t \<in> N \<Longrightarrow> t \<notin> fst ` set (sch_tables s)"
  by (fastforce simp: apart_def)

lemma lookup_extend:
  assumes "apart N s" and "tables_in N r" and "map_of (sch_tables r) t = Some cs"
  shows "map_of (sch_tables (extend s r)) t = Some cs"
proof -
  have "t \<in> N" using assms(2,3) map_of_SomeD by (fastforce simp: tables_in_def)
  from apart_table [OF assms(1) this] have "map_of (sch_tables s) t = None" by (simp add: map_of_eq_None_iff)
  with assms(3) show ?thesis by (simp add: extend_def map_add_def)
qed

lemma reference_ok_extend:
  assumes "apart N s" and "tables_in N r" and "reference_ok r n cols c"
  shows "reference_ok (extend s r) n cols c"
proof (cases "cd_references c")
  case (Some p)
  obtain t k where p: "p = (t, k)" by (cases p)
  show ?thesis
  proof (cases "t = n")
    case False
    with assms(3) Some p obtain cs where "map_of (sch_tables r) t = Some cs" "k \<in> set (column_names cs)"
      by (auto simp: reference_ok_def split: option.splits)
    with lookup_extend [OF assms(1,2)] False Some p show ?thesis by (simp add: reference_ok_def)
  qed (use assms(3) Some p in \<open>simp add: reference_ok_def\<close>)
qed (simp add: reference_ok_def)

text \<open>What runs on a schema runs the same beside another.\<close>

lemma exec_ddl_frame:
  assumes "apart N s" and "tables_in N r" and "set (ddl_names d) \<subseteq> N" and "exec_ddl d r = Inr r'"
  shows "exec_ddl d (extend s r) = Inr (extend s r') \<and> tables_in N r'"
proof (cases d)
  case (Create_table n cols)
  have n: "n \<notin> fst ` set (sch_tables s)" "n \<notin> fst ` set (sch_tables r)"
    using assms Create_table apart_table [OF assms(1)] by (auto split: if_splits)
  have refs: "list_all (reference_ok r n cols) cols" using assms(4) Create_table by (simp split: if_splits)
  have "reference_ok (extend s r) n cols c" if "c \<in> set cols" for c
    using reference_ok_extend [OF assms(1,2)] refs that by (simp add: list_all_iff)
  then have "list_all (reference_ok (extend s r) n cols) cols" by (simp add: list_all_iff)
  with n refs assms(2-4) Create_table show ?thesis
    by (auto simp: extend_def tables_in_def)
next
  case (Create_index n t cols u)
  then obtain cs where cs: "map_of (sch_tables r) t = Some cs" "list_all (\<lambda>c. c \<in> set (column_names cs)) cols"
    "n \<notin> ix_name ` set (sch_indexes r)"
    "r' = r\<lparr>sch_indexes := sch_indexes r @ [\<lparr>ix_name = n, ix_table = t, ix_columns = cols, ix_unique = u\<rparr>]\<rparr>"
    using assms(4) by (auto split: option.splits if_splits)
  moreover have "n \<notin> ix_name ` set (sch_indexes s)" using assms(1,3) Create_index by (auto simp: apart_def)
  ultimately show ?thesis
    using lookup_extend [OF assms(1,2) cs(1)] assms(2) Create_index
    by (simp add: extend_def tables_in_def image_Un)
next
  case (Drop_table n)
  have n: "n \<in> N" "n \<in> fst ` set (sch_tables r)" "\<not> referenced_by_other n r"
    using assms(3,4) Drop_table by (auto split: if_splits)
  have "\<not> referenced_by_other n s"
    using assms(1) n(1) unfolding referenced_by_other_def list_ex_iff apart_def
    by (fastforce split: option.splits)
  with n(3) have "\<not> referenced_by_other n (extend s r)"
    by (simp add: referenced_by_other_def extend_def)
  moreover have "filter (\<lambda>t. fst t \<noteq> n) (sch_tables s) = sch_tables s"
    "filter (\<lambda>i. ix_table i \<noteq> n) (sch_indexes s) = sch_indexes s"
    using assms(1) n(1) by (auto simp: apart_def filter_id_conv)
  ultimately show ?thesis
    using n assms(2,4) Drop_table by (auto simp: extend_def tables_in_def)
qed

lemma run_ddl_frame:
  "apart N s \<Longrightarrow> tables_in N r \<Longrightarrow> \<forall>d \<in> set ds. set (ddl_names d) \<subseteq> N \<Longrightarrow> run_ddl ds r = Inr r'
     \<Longrightarrow> run_ddl ds (extend s r) = Inr (extend s r') \<and> tables_in N r'"
proof (induction ds arbitrary: r)
  case (Cons d ds)
  then obtain r1 where r1: "exec_ddl d r = Inr r1" "run_ddl ds r1 = Inr r'" by (auto split: sum.splits)
  with exec_ddl_frame [OF Cons.prems(1,2) _ r1(1)] Cons.prems Cons.IH [of r1] show ?case by simp
qed simp

lemma run_ddl_append:
  "run_ddl (ds @ es) s = (case run_ddl ds s of Inl e \<Rightarrow> Inl e | Inr s \<Rightarrow> run_ddl es s)"
  by (induction ds arbitrary: s) (auto split: sum.split)

lemma upgrade_runs: "\<exists>r. run_ddl upgrade empty_schema = Inr r \<and> run_ddl downgrade r = Inr empty_schema"
proof -
  have "run_ddl (upgrade @ downgrade) empty_schema = Inr empty_schema" by code_simp
  then show ?thesis by (auto simp: run_ddl_append split: sum.splits)
qed

lemma upgrade_names: "list_all (\<lambda>d. list_all (\<lambda>n. n \<in> set migration_names) (ddl_names d)) (upgrade @ downgrade)"
  by code_simp

text \<open>
  C36: The migration can be undone: on any database whose tables and indexes share no name with it and
  refer to none of its tables, the upgrade succeeds, and the downgrade after it succeeds and gives
  back exactly the schema that was there.
\<close>
theorem migration_roundtrip:
  assumes "apart (set migration_names) s"
  shows "\<exists>s'. run_ddl upgrade s = Inr s' \<and> s' \<noteq> s \<and> run_ddl downgrade s' = Inr s"
proof -
  obtain r where r: "run_ddl upgrade empty_schema = Inr r" "run_ddl downgrade r = Inr empty_schema"
    using upgrade_runs by blast
  have names: "\<forall>d \<in> set upgrade. set (ddl_names d) \<subseteq> set migration_names"
    "\<forall>d \<in> set downgrade. set (ddl_names d) \<subseteq> set migration_names"
    using upgrade_names unfolding list_all_iff by (auto simp: list_all_iff)
  from run_ddl_frame [OF assms tables_in_empty names(1) r(1)]
  have up: "run_ddl upgrade s = Inr (extend s r)" "tables_in (set migration_names) r" by simp_all
  have "run_ddl downgrade (extend s r) = Inr s"
    using run_ddl_frame [OF assms up(2) names(2) r(2)] by simp
  moreover have "extend s r \<noteq> s"
  proof
    assume "extend s r = s"
    then have "sch_tables s @ sch_tables r = sch_tables s" by (cases s) (simp add: extend_def)
    then have "sch_tables r = []" by simp
    with r(2) show False by (simp add: downgrade_def)
  qed
  ultimately show ?thesis using up(1) by blast
qed

text \<open>A database that holds alembic's own table only.\<close>

definition alembic_schema :: schema where
  "alembic_schema = \<lparr>sch_tables = [(''alembic_version'', [sa_column ''version_num'' (VARCHAR 32) False True None None])],
     sch_indexes = []\<rparr>"

theorem migration_roundtrip_witness:
  "\<exists>s'. run_ddl upgrade alembic_schema = Inr s' \<and> run_ddl downgrade s' = Inr alembic_schema"
proof -
  have "''alembic_version'' \<notin> set migration_names" by code_simp
  then have "apart (set migration_names) alembic_schema"
    by (simp add: apart_def alembic_schema_def sa_column_def)
  from migration_roundtrip [OF this] show ?thesis by blast
qed

text \<open>
  The migration creates the schema the program expects: run on an empty database it succeeds, and
  table by table and column by column it has the names, keys, foreign keys and nullability of the
  ORM classes, a type that stores every value of theirs, and exactly their indexes, unique ones
  included; start-up then finds nothing left to create.
\<close>
lemma migration_matches_models:
  "case (run_ddl upgrade empty_schema, create_all empty_schema) of
     (Inr migrated_schema, Inr model_schema) \<Rightarrow>
       schema_covers migrated_schema model_schema \<and> create_all migrated_schema = Inr migrated_schema
   | _ \<Rightarrow> False"
  by code_simp

text \<open>
  The other order fails: once start-up has created the tables, the migration stops at its first
  statement and records no revision.
\<close>

lemma migration_after_create_all:
  "case create_all empty_schema of
     Inl _ \<Rightarrow> False
   | Inr s \<Rightarrow> do_run_migrations \<lparr>mg_schema = s, mg_revision = None\<rparr>
       = (Inl (Duplicate_table ''principals''), \<lparr>mg_schema = s, mg_revision = None\<rparr>)"
  by code_simp

lemma migrations_run_once:
  "do_run_migrations m = (Inr (), m') \<Longrightarrow> do_run_migrations m' = (Inr (), m')"
  by (auto simp: do_run_migrations_def split: if_splits sum.splits)

section \<open>What fits a row\<close>

text \<open>The cells of an operation's row, in the order of its columns.\<close>

datatype cell = Cell_text string | Cell_int int | Cell_null | Cell_other

definition opt_cell :: "string option \<Rightarrow> cell" where
  "opt_cell x = (case x of None \<Rightarrow> Cell_null | Some s \<Rightarrow> Cell_text s)"

definition operation_cells :: "operation \<Rightarrow> cell list" where
  "operation_cells op =
     [Cell_text (o_id op), Cell_text (o_operation_id op), Cell_text (o_idempotency_key op),
      Cell_text (o_agent_id op), Cell_text (o_mandate_id op),
      Cell_text (operation_type_value (o_operation_type op)),
      Cell_text (operation_status_value (o_status op)), Cell_int (o_amount op), Cell_text (o_currency op),
      Cell_other, Cell_other, opt_cell (o_error_message op), opt_cell (o_approved_by_id op),
      Cell_text (o_trace_id op), Cell_other, Cell_other]"

definition cell_fits :: "column_def \<Rightarrow> cell \<Rightarrow> bool" where
  "cell_fits c x =
     (case (x, cd_type c) of
        (Cell_null, _) \<Rightarrow> cd_nullable c
      | (Cell_text s, VARCHAR n) \<Rightarrow> length s \<le> n
      | (Cell_text s, TEXT) \<Rightarrow> True
      | (Cell_int i, INTEGER) \<Rightarrow> - (2 ^ 31) \<le> i \<and> i < 2 ^ 31
      | (Cell_int i, BIGINT) \<Rightarrow> - (2 ^ 63) \<le> i \<and> i < 2 ^ 63
      | (Cell_other, BOOLEAN) \<Rightarrow> True
      | (Cell_other, FLOAT) \<Rightarrow> True
      | (Cell_other, TIMESTAMPTZ) \<Rightarrow> True
      | (Cell_other, JSON_TYPE) \<Rightarrow> True
      | _ \<Rightarrow> False)"

definition operation_columns :: "column_def list" where
  "operation_columns = map column_of (ot_columns FinancialOperation_model)"

text \<open>
  C37: What a request of ASCII text stores fits its row exactly when its currency has at most three letters and its
  amount fits 64 bits, neither of which the request schema checks: every other column is wide
  enough for every valid request of a stored agent on a stored mandate.
\<close>
theorem request_row_fits:
  assumes "valid_operation_create p" and "length (oc_agent_id p) \<le> 36" and "length (oc_mandate_id p) \<le> 36"
    and "\<And>n. length (uuid_hex E n) = 32"
    and "flush_operation E (new_operation E p (''op_'' @ take 16 (uuid_hex E k))) w = (Inr op, w')"
  shows "list_all2 cell_fits operation_columns (operation_cells op)
    \<longleftrightarrow> length (oc_currency p) \<le> 3 \<and> oc_amount p < 2 ^ 63"
proof -
  have len: "length (uuid_text (uuid_hex E n)) = 36" for n by (rule uuid_text_length [OF assms(4)])
  from assms(5) obtain n m where op: "op = (new_operation E p (''op_'' @ take 16 (uuid_hex E k)))
      \<lparr>o_id := uuid_text (uuid_hex E n), o_trace_id := ''tr_'' @ take 16 (uuid_hex E m)\<rparr>"
    by (auto simp: flush_operation_def generate_uuid_def draw_uuid_def Let_def split: if_splits)
  have cols: "map (\<lambda>c. (cd_type c, cd_nullable c)) operation_columns =
    [(VARCHAR 36, False), (VARCHAR 64, False), (VARCHAR 128, False), (VARCHAR 36, False), (VARCHAR 36, False),
     (VARCHAR 19, False), (VARCHAR 20, False), (BIGINT, False), (VARCHAR 3, False), (JSON_TYPE, False),
     (JSON_TYPE, False), (TEXT, True), (VARCHAR 36, True), (VARCHAR 64, False), (TIMESTAMPTZ, False),
     (TIMESTAMPTZ, False)]" by code_simp
  define fits where "fits = (\<lambda>(t, b). cell_fits \<lparr>cd_name = [], cd_type = t, cd_nullable = b,
    cd_primary_key = False, cd_references = None, cd_server_default = None\<rparr>)"
  have "cell_fits c = fits (cd_type c, cd_nullable c)" for c
    by (rule ext) (simp add: fits_def cell_fits_def split: cell.split sql_type.split)
  then have eq: "cell_fits = (\<lambda>c. fits (cd_type c, cd_nullable c))" by (rule ext)
  have "list_all2 cell_fits operation_columns (operation_cells op)
      = list_all2 fits (map (\<lambda>c. (cd_type c, cd_nullable c)) operation_columns) (operation_cells op)"
    by (simp add: eq list_all2_map1)
  also have "\<dots> \<longleftrightarrow> length (oc_currency p) \<le> 3 \<and> oc_amount p < 2 ^ 63"
    unfolding cols using assms(1-4) len
    by (cases "oc_operation_type p")
      (auto simp: operation_cells_def op new_operation_def fits_def cell_fits_def opt_cell_def str_upper_def
        valid_operation_create_def)
  finally show ?thesis .
qed

theorem request_row_fits_witness:
  "\<exists>op w'. flush_operation demo_env (new_operation demo_env ((demo_request CREATE_ORDER 100)\<lparr>oc_currency := ''rupees''\<rparr>)
      (''op_'' @ take 16 (uuid_hex demo_env 0))) demo_world = (Inr op, w')
    \<and> \<not> list_all2 cell_fits operation_columns (operation_cells op)"
proof -
  let ?p = "(demo_request CREATE_ORDER 100)\<lparr>oc_currency := ''rupees''\<rparr>"
  let ?run = "flush_operation demo_env (new_operation demo_env ?p (''op_'' @ take 16 (uuid_hex demo_env 0))) demo_world"
  have "\<exists>x. fst ?run = Inr x"
    by (simp add: flush_operation_def generate_uuid_def draw_uuid_def demo_world_def table_simps Let_def)
  then obtain op w' where run: "?run = (Inr op, w')" by (cases ?run) auto
  have "valid_operation_create ?p" by (simp add: valid_operation_create_def demo_request_def)
  moreover have "length (uuid_hex demo_env n) = 32" for n by (simp add: demo_env_def)
  ultimately have "list_all2 cell_fits operation_columns (operation_cells op)
      \<longleftrightarrow> length (oc_currency ?p) \<le> 3 \<and> oc_amount ?p < 2 ^ 63"
    by (intro request_row_fits [OF _ _ _ _ run]) (simp_all add: demo_request_def)
  with run show ?thesis by (simp add: demo_request_def)
qed

end
