(* ===== verification/Routing.thy ===== *)
theory Routing
  imports Database_Url
begin

text \<open>
  The routes of the application: what the decorators of each module of \<^verbatim>\<open>apps/api/routes\<close> declare and
  \<^verbatim>\<open>create_app\<close> of \<^verbatim>\<open>apps/api/main.py\<close> mounts, in its order, and the router's choice: the first route
  whose path and method match, otherwise 405 when a path matches, otherwise no route. A path
  parameter stands for one non-empty segment. Left out are the routes FastAPI adds for its
  documentation, the redirection of a trailing slash and the CORS headers.
\<close>

datatype http_method = GET | POST

datatype path_part = Lit string | Param string

record route =
  rt_method :: http_method
  rt_path :: "path_part list"
  rt_endpoint :: string

definition route :: "http_method \<Rightarrow> path_part list \<Rightarrow> string \<Rightarrow> route" where
  "route m p e = \<lparr>rt_method = m, rt_path = p, rt_endpoint = e\<rparr>"

definition mount :: "path_part list \<Rightarrow> route \<Rightarrow> route" where
  "mount prefix r = r\<lparr>rt_path := prefix @ rt_path r\<rparr>"

definition agent_chat_router :: "route list" where
  "agent_chat_router =
     [route POST [Lit ''agents'', Param ''agent_id'', Lit ''chat''] ''agent_chat.chat_with_agent'',
      route GET [Lit ''agents'', Param ''agent_id'', Lit ''traces''] ''agent_chat.list_agent_traces'']"

definition agents_router :: "route list" where
  "agents_router =
     [route GET [Lit ''agents''] ''agents.list_agents'',
      route GET [Lit ''agents'', Param ''agent_id''] ''agents.get_agent'',
      route POST [Lit ''agents''] ''agents.register_agent'',
      route POST [Lit ''agents'', Param ''agent_id'', Lit ''status''] ''agents.update_agent_status'']"

definition audit_router :: "route list" where
  "audit_router =
     [route GET [Lit ''audit''] ''audit.list_audit_events'',
      route GET [Lit ''audit'', Lit ''resources'', Param ''resource_type'', Param ''resource_id''] ''audit.get_audit_trail_for_resource'']"

definition demo_router :: "route list" where
  "demo_router =
     [route POST [Lit ''demo'', Lit ''reset''] ''demo.reset_demo_dataset'',
      route POST [Lit ''demo'', Lit ''run-scenario''] ''demo.run_scripted_demo_scenario'',
      route POST [Lit ''demo'', Lit ''run-journey''] ''demo.run_full_five_minute_journey'']"

definition evaluation_router :: "route list" where
  "evaluation_router =
     [route GET [Lit ''evaluation'', Lit ''scenarios''] ''evaluation.list_adversarial_scenarios'',
      route POST [Lit ''evaluation'', Lit ''run''] ''evaluation.execute_adversarial_benchmark'',
      route GET [Lit ''evaluation'', Lit ''baselines''] ''evaluation.get_comparative_baselines'']"

definition health_router :: "route list" where
  "health_router =
     [route GET [Lit ''health''] ''health.health_check'',
      route GET [Lit ''ready''] ''health.readiness_check'']"

definition mandates_router :: "route list" where
  "mandates_router =
     [route POST [Lit ''mandates''] ''mandates.create_mandate'',
      route POST [Lit ''mandates'', Param ''parent_id'', Lit ''delegate''] ''mandates.delegate_child_mandate'',
      route GET [Lit ''mandates''] ''mandates.list_mandates'',
      route GET [Lit ''mandates'', Param ''mandate_id''] ''mandates.get_mandate'',
      route POST [Lit ''mandates'', Param ''mandate_id'', Lit ''suspend''] ''mandates.suspend_mandate_cascade'',
      route POST [Lit ''mandates'', Param ''mandate_id'', Lit ''activate''] ''mandates.activate_mandate'',
      route POST [Lit ''mandates'', Param ''mandate_id'', Lit ''revoke''] ''mandates.revoke_mandate_cascade'',
      route GET [Lit ''mandates'', Lit ''graph'', Lit ''tree''] ''mandates.get_delegation_tree'']"

definition mcp_gateway_router :: "route list" where
  "mcp_gateway_router =
     [route GET [Lit ''mcp'', Lit ''registry''] ''mcp_gateway.get_mcp_registry'',
      route POST [Lit ''mcp''] ''mcp_gateway.handle_mcp_jsonrpc_gateway'']"

definition metrics_router :: "route list" where
  "metrics_router =
     [route GET [Lit ''metrics''] ''metrics.metrics_endpoint'']"

definition operations_router :: "route list" where
  "operations_router =
     [route GET [Lit ''operations''] ''operations.list_operations'',
      route GET [Lit ''operations'', Param ''operation_id''] ''operations.get_operation'',
      route POST [Lit ''operations''] ''operations.request_financial_operation'',
      route POST [Lit ''operations'', Param ''operation_id'', Lit ''approve''] ''operations.human_approve_operation'',
      route POST [Lit ''operations'', Param ''operation_id'', Lit ''verify-payment''] ''operations.verify_payment'']"

definition policies_router :: "route list" where
  "policies_router =
     [route GET [Lit ''policies'', Lit ''rules''] ''policies.list_policy_rules'',
      route POST [Lit ''policies'', Lit ''test-evaluate''] ''policies.test_evaluate_policy'']"

definition telemetry_router :: "route list" where
  "telemetry_router =
     [route GET [Lit ''telemetry'', Lit ''metrics''] ''telemetry.get_system_metrics'',
      route POST [Lit ''telemetry'', Lit ''reconcile-now''] ''telemetry.trigger_reconciliation'',
      route POST [Lit ''telemetry'', Lit ''inject-failure''] ''telemetry.inject_simulated_failure'']"

definition webhooks_router :: "route list" where
  "webhooks_router =
     [route POST [Lit ''webhooks'', Lit ''razorpay''] ''webhooks.handle_razorpay_webhook'']"

definition app_routes :: "route list" where
  "app_routes =
     health_router
     @ metrics_router
     @ map (mount [Lit ''api'', Lit ''v1'']) agents_router
     @ map (mount [Lit ''api'', Lit ''v1'']) agent_chat_router
     @ map (mount [Lit ''api'', Lit ''v1'']) mandates_router
     @ map (mount [Lit ''api'', Lit ''v1'']) audit_router
     @ map (mount [Lit ''api'', Lit ''v1'']) operations_router
     @ map (mount [Lit ''api'', Lit ''v1'']) webhooks_router
     @ map (mount [Lit ''api'', Lit ''v1'']) telemetry_router
     @ map (mount [Lit ''api'', Lit ''v1'']) evaluation_router
     @ map (mount [Lit ''api'', Lit ''v1'']) policies_router
     @ map (mount [Lit ''api'', Lit ''v1'']) mcp_gateway_router
     @ map (mount [Lit ''api'', Lit ''v1'']) demo_router"

section \<open>The router\<close>

fun match_path :: "path_part list \<Rightarrow> string list \<Rightarrow> (string \<times> string) list option" where
  "match_path [] [] = Some []"
| "match_path (Lit l # ps) (s # ss) = (if s = l then match_path ps ss else None)"
| "match_path (Param n # ps) (s # ss) =
     (if s = [] then None else map_option (\<lambda>vs. (n, s) # vs) (match_path ps ss))"
| "match_path _ _ = None"

datatype routed = Endpoint string "(string \<times> string) list" | Method_not_allowed | No_route

definition request_segments :: "string \<Rightarrow> string list option" where
  "request_segments path =
     (case path of
        [] \<Rightarrow> None
      | c # s \<Rightarrow> if c = CHR ''/'' then Some (str_split (CHR ''/'') s) else None)"

definition route_request :: "route list \<Rightarrow> http_method \<Rightarrow> string \<Rightarrow> routed" where
  "route_request routes m path =
     (case request_segments path of
        None \<Rightarrow> No_route
      | Some ss \<Rightarrow>
          (let partial = filter (\<lambda>r. match_path (rt_path r) ss \<noteq> None) routes in
           case filter (\<lambda>r. rt_method r = m) partial of
             r # _ \<Rightarrow> Endpoint (rt_endpoint r) (the (match_path (rt_path r) ss))
           | [] \<Rightarrow> if partial = [] then No_route else Method_not_allowed))"

section \<open>Every route is reached\<close>

text \<open>The request path of a route for given parameter values.\<close>

definition fill :: "path_part list \<Rightarrow> (string \<Rightarrow> string) \<Rightarrow> string list" where
  "fill p f = map (\<lambda>x. case x of Lit l \<Rightarrow> l | Param n \<Rightarrow> f n) p"

fun params :: "path_part list \<Rightarrow> (string \<Rightarrow> string) \<Rightarrow> (string \<times> string) list" where
  "params [] f = []"
| "params (Lit l # p) f = params p f"
| "params (Param n # p) f = (n, f n) # params p f"

definition path_text :: "string list \<Rightarrow> string" where
  "path_text ss = ''/'' @ str_join ''/'' ss"

text \<open>Two patterns overlap when some path may match both.\<close>

fun overlap :: "path_part list \<Rightarrow> path_part list \<Rightarrow> bool" where
  "overlap [] [] = True"
| "overlap (Lit a # p) (Lit b # q) = (a = b \<and> overlap p q)"
| "overlap (x # p) (y # q) = overlap p q"
| "overlap _ _ = False"

lemma match_fill: "\<forall>n. f n \<noteq> [] \<Longrightarrow> match_path p (fill p f) = Some (params p f)"
  by (induction p) (auto simp: fill_def split: path_part.split)

lemma match_tail: "match_path (x # p) (s # ss) = Some vs \<Longrightarrow> \<exists>vs'. match_path p ss = Some vs'"
  by (cases x) (auto split: if_splits)

lemma all_same_head: "r \<in> set xs \<Longrightarrow> (\<And>x. x \<in> set xs \<Longrightarrow> x = r) \<Longrightarrow> \<exists>rs. xs = r # rs"
  by (metis empty_iff list.exhaust list.set(1) list.set_intros(1))

lemma match_overlap: "match_path q (fill p f) = Some vs \<Longrightarrow> overlap q p"
proof (induction q arbitrary: p vs)
  case Nil
  then show ?case by (cases p) (simp_all add: fill_def)
next
  case (Cons x q)
  show ?case
  proof (cases p)
    case Nil
    with Cons.prems show ?thesis by (cases x) (simp_all add: fill_def)
  next
    case (Cons y p')
    with Cons.prems have m: "match_path (x # q) ((case y of Lit l \<Rightarrow> l | Param n \<Rightarrow> f n) # fill p' f) = Some vs"
      by (simp add: fill_def)
    then have "overlap q p'" using match_tail Cons.IH by blast
    with m Cons show ?thesis by (cases x; cases y) (simp_all split: if_splits)
  qed
qed

definition well_formed_part :: "path_part \<Rightarrow> bool" where
  "well_formed_part x = (case x of Lit l \<Rightarrow> CHR ''/'' \<notin> set l | Param _ \<Rightarrow> True)"

lemma app_routes_well_formed: "list_all (\<lambda>r. rt_path r \<noteq> [] \<and> list_all well_formed_part (rt_path r)) app_routes"
  by code_simp

lemma app_routes_apart:
  "list_all (\<lambda>r. list_all (\<lambda>r'. rt_method r' = rt_method r \<and> overlap (rt_path r') (rt_path r)
     \<longrightarrow> rt_endpoint r' = rt_endpoint r) app_routes) app_routes"
  by code_simp

lemma app_endpoints_distinct: "distinct (map rt_endpoint app_routes)"
  by code_simp

lemma segments_of_fill:
  assumes "p \<noteq> []" and "list_all well_formed_part p" and "\<forall>n. CHR ''/'' \<notin> set (f n)"
  shows "request_segments (path_text (fill p f)) = Some (fill p f)"
proof -
  have "str_split (CHR ''/'') (str_join ''/'' (fill p f)) = fill p f"
    using assms by (intro str_split_join) (auto simp: fill_def list_all_iff well_formed_part_def split: path_part.splits)
  then show ?thesis by (simp add: request_segments_def path_text_def)
qed

text \<open>
  No route shadows another: for every route the application declares and all non-empty parameter
  values without a slash, the request with its method and path is answered by that route's own
  endpoint, with exactly these parameters.
\<close>
theorem every_route_reached:
  assumes "r \<in> set app_routes" and "\<forall>n. f n \<noteq> [] \<and> CHR ''/'' \<notin> set (f n)"
  shows "route_request app_routes (rt_method r) (path_text (fill (rt_path r) f))
    = Endpoint (rt_endpoint r) (params (rt_path r) f)"
proof -
  let ?hit = "\<lambda>r'. match_path (rt_path r') (fill (rt_path r) f) \<noteq> None"
  let ?hits = "filter (\<lambda>r'. rt_method r' = rt_method r) (filter ?hit app_routes)"
  have segs: "request_segments (path_text (fill (rt_path r) f)) = Some (fill (rt_path r) f)"
    using app_routes_well_formed assms by (intro segments_of_fill) (auto simp: list_all_iff)
  have own: "match_path (rt_path r) (fill (rt_path r) f) = Some (params (rt_path r) f)"
    using assms(2) by (intro match_fill) simp
  have same: "r' = r" if "r' \<in> set ?hits" for r'
  proof -
    from that have "overlap (rt_path r') (rt_path r)" "r' \<in> set app_routes" "rt_method r' = rt_method r"
      using match_overlap by auto
    with app_routes_apart assms(1) have "rt_endpoint r' = rt_endpoint r" unfolding list_all_iff by blast
    with app_endpoints_distinct \<open>r' \<in> set app_routes\<close> assms(1) show "r' = r"
      by (auto simp: distinct_map dest: inj_onD)
  qed
  have "r \<in> set ?hits" using assms(1) own by simp
  from all_same_head [OF this same] obtain rs where "?hits = r # rs" by blast
  then show ?thesis using segs own by (simp add: route_request_def)
qed

text \<open>The other way round, an endpoint answers only requests of its own route.\<close>

lemma route_request_sound:
  assumes "route_request routes m path = Endpoint e vs"
  shows "\<exists>r \<in> set routes. rt_endpoint r = e \<and> rt_method r = m
    \<and> (\<exists>ss. request_segments path = Some ss \<and> match_path (rt_path r) ss = Some vs)"
proof -
  obtain ss where ss: "request_segments path = Some ss"
    using assms by (auto simp: route_request_def split: option.splits)
  let ?hits = "filter (\<lambda>r. rt_method r = m) (filter (\<lambda>r. match_path (rt_path r) ss \<noteq> None) routes)"
  obtain r rs where r: "?hits = r # rs" "rt_endpoint r = e" "the (match_path (rt_path r) ss) = vs"
    using assms ss by (auto simp: route_request_def Let_def split: list.splits if_splits)
  then have "r \<in> set ?hits" by simp
  then have "r \<in> set routes" "rt_method r = m" "match_path (rt_path r) ss = Some vs" using r(3) by auto
  with r(2) ss show ?thesis by blast
qed

end
