(* ===== verification/Concurrency_Benchmark.thy ===== *)
theory Concurrency_Benchmark
  imports Operations
begin

text \<open>
  The contention benchmark of \<^verbatim>\<open>scripts/benchmark_concurrency.py\<close>: concurrent transactions that each
  insert an operation and reserve its amount, on one mandate each or all on one mandate that has
  room for half of them. The database serialises the updates of a mandate's row, so a trial runs
  its attempts in an arbitrary order, a parameter, as is which of them fail. Measured latencies,
  the two rates derived from the counts and the written files are left out.
\<close>

section \<open>A trial\<close>

definition AMOUNT :: int where "AMOUNT = 100"

definition bench_name :: "string \<Rightarrow> string" where
  "bench_name run_id = ''benchmark-'' @ run_id"

definition bench_principal :: "env \<Rightarrow> string \<Rightarrow> string \<Rightarrow> principal" where
  "bench_principal E run_id i =
     \<lparr>p_id = i, p_name = bench_name run_id, p_email = run_id @ ''@benchmark.local'', p_role = Role_ADMIN,
      p_is_active = True, p_created_at = utc_now E\<rparr>"

definition bench_agent :: "env \<Rightarrow> string \<Rightarrow> string \<Rightarrow> string \<Rightarrow> agent" where
  "bench_agent E run_id owner_id i =
     \<lparr>a_id = i, a_name = bench_name run_id, a_description = None, a_owner_id = owner_id,
      a_status = Agent_ACTIVE, a_api_key_hash = bench_name run_id, a_agent_type = ''SHOPPING'',
      a_metadata_json = [], a_created_at = utc_now E\<rparr>"

definition bench_limit :: "string \<Rightarrow> nat \<Rightarrow> int" where
  "bench_limit workload concurrency =
     (if workload = ''low_contention'' then AMOUNT else AMOUNT * (int concurrency div 2))"

definition bench_mandate :: "env \<Rightarrow> int \<Rightarrow> string \<Rightarrow> string \<Rightarrow> string \<Rightarrow> mandate" where
  "bench_mandate E limit agent_id granted_by_id i =
     \<lparr>m_id = i, m_agent_id = agent_id, m_granted_by_id = granted_by_id, m_parent_mandate_id = None,
      m_delegation_depth = 0, m_max_delegation_depth = 2, m_status = Mandate_ACTIVE, m_currency = ''INR'',
      m_max_amount_per_op = AMOUNT, m_aggregate_spend_limit = limit, m_current_aggregate_spend = 0,
      m_reserved_spend = 0, m_delegated_child_budget_allocated = 0, m_review_threshold_amount = None,
      m_allowed_operations = [operation_type_value CREATE_ORDER], m_policy_config = [],
      m_suspension_reason = None, m_version = 1, m_valid_from = utc_now E,
      m_valid_until = Aware (now_us E + 3600 * sec) 0, m_created_at = utc_now E\<rparr>"

fun add_mandates :: "env \<Rightarrow> (string \<Rightarrow> mandate) \<Rightarrow> nat \<Rightarrow> world \<Rightarrow> (exn + string list) \<times> world" where
  "add_mandates E mk 0 w = (Inr [], w)"
| "add_mandates E mk (Suc n) w =
     (let (i, w) = generate_uuid E w in
      if get_mandate_row w i \<noteq> None then (Inl DatabaseError, w)
      else case add_mandates E mk n (w\<lparr>mandates := mandates w @ [mk i]\<rparr>) of
        (Inl e, w) \<Rightarrow> (Inl e, w)
      | (Inr is, w) \<Rightarrow> (Inr (i # is), w))"

record trial_rows =
  tb_run_id :: string
  tb_principal_id :: string
  tb_agent_id :: string
  tb_mandate_ids :: "string list"

definition set_up_trial :: "env \<Rightarrow> string \<Rightarrow> nat \<Rightarrow> world \<Rightarrow> (exn + trial_rows) \<times> world" where
  "set_up_trial E workload concurrency w0 =
     (let (run_id, w) = draw_uuid E w0;
          (pid, w) = generate_uuid E w;
          owner = bench_principal E run_id pid
      in if pid \<in> p_id ` set (principals w) \<or> p_email owner \<in> p_email ` set (principals w)
         then (Inl DatabaseError, rollback w0 w)
         else
           let w = w\<lparr>principals := principals w @ [owner]\<rparr>;
               (aid, w) = generate_uuid E w;
               agent = bench_agent E run_id pid aid
           in if aid \<in> a_id ` set (agents w) \<or> a_api_key_hash agent \<in> a_api_key_hash ` set (agents w)
              then (Inl DatabaseError, rollback w0 w)
              else case add_mandates E (bench_mandate E (bench_limit workload concurrency) aid pid)
                     (if workload = ''low_contention'' then concurrency else 1)
                     (w\<lparr>agents := agents w @ [agent]\<rparr>) of
                (Inl e, w) \<Rightarrow> (Inl e, rollback w0 w)
              | (Inr ids, w) \<Rightarrow> (Inr \<lparr>tb_run_id = run_id, tb_principal_id = pid, tb_agent_id = aid,
                  tb_mandate_ids = ids\<rparr>, w))"

definition bench_operation :: "env \<Rightarrow> string \<Rightarrow> string \<Rightarrow> string \<Rightarrow> nat \<Rightarrow> operation" where
  "bench_operation E run_id agent_id mandate_id index =
     (let key = ''bench_'' @ run_id @ ''_'' @ str_int (int index) in
      \<lparr>o_id = [], o_operation_id = key, o_idempotency_key = key, o_agent_id = agent_id,
       o_mandate_id = mandate_id, o_operation_type = CREATE_ORDER, o_status = Op_INITIATED,
       o_amount = AMOUNT, o_currency = ''INR'', o_payload = [], o_policy_evaluation_details = None,
       o_error_message = None, o_approved_by_id = None, o_trace_id = [], o_created_at = utc_now E\<rparr>)"

text \<open>
  One attempt is one transaction; \<open>fails\<close> is the exception that ends it, if one does. A failing attempt
  leaves nothing: an exception after a commit that took effect (a connection lost before the
  database's acknowledgement arrives) is not represented.
\<close>

definition attempt ::
    "env \<Rightarrow> string \<Rightarrow> string \<Rightarrow> (nat \<Rightarrow> exn option) \<Rightarrow> string \<Rightarrow> nat \<Rightarrow> world \<Rightarrow> (exn + bool) \<times> world" where
  "attempt E run_id agent_id fails mandate_id index w0 =
     (case flush_operation E (bench_operation E run_id agent_id mandate_id index) w0 of
        (Inl e, w) \<Rightarrow> (Inl e, rollback w0 w)
      | (Inr op, w) \<Rightarrow>
          let (reserved, w) = reserve_budget mandate_id AMOUNT w;
              w = upd_operation (o_id op) (set_status (if reserved then Op_RESERVED else Op_POLICY_REJECTED)) w
          in (case fails index of
                Some e \<Rightarrow> (Inl e, rollback w0 w)
              | None \<Rightarrow> (Inr reserved, w)))"

fun run_attempts ::
    "env \<Rightarrow> string \<Rightarrow> string \<Rightarrow> (nat \<Rightarrow> exn option) \<Rightarrow> (nat \<Rightarrow> string) \<Rightarrow> nat list \<Rightarrow> world
       \<Rightarrow> (exn + bool) list \<times> world" where
  "run_attempts E run_id agent_id fails own [] w = ([], w)"
| "run_attempts E run_id agent_id fails own (i # is) w =
     (let (r, w) = attempt E run_id agent_id fails (own i) i w;
          (rs, w) = run_attempts E run_id agent_id fails own is w
      in (r # rs, w))"

text \<open>\<open>LIKE\<close>: an underscore stands for any character, a percent sign for any text.\<close>

fun sql_like :: "string \<Rightarrow> string \<Rightarrow> bool" where
  "sql_like [] s = (s = [])"
| "sql_like (p # ps) [] = (p = CHR ''%'' \<and> sql_like ps [])"
| "sql_like (p # ps) (c # s) =
     (if p = CHR ''%'' then sql_like ps (c # s) \<or> sql_like (p # ps) s
      else (p = CHR ''_'' \<or> p = c) \<and> sql_like ps s)"

definition bench_pattern :: "string \<Rightarrow> string" where
  "bench_pattern run_id = ''bench_'' @ run_id @ ''_%''"

definition of_trial :: "trial_rows \<Rightarrow> operation \<Rightarrow> bool" where
  "of_trial b op \<longleftrightarrow> sql_like (bench_pattern (tb_run_id b)) (o_operation_id op)"

definition clean_up_trial :: "trial_rows \<Rightarrow> world \<Rightarrow> world" where
  "clean_up_trial b w =
     w\<lparr>operations := filter (\<lambda>op. \<not> of_trial b op) (operations w),
       mandates := filter (\<lambda>m. m_id m \<notin> set (tb_mandate_ids b)) (mandates w),
       agents := filter (\<lambda>a. a_id a \<noteq> tb_agent_id b) (agents w),
       principals := filter (\<lambda>p. p_id p \<noteq> tb_principal_id b) (principals w)\<rparr>"

record trial_result =
  tl_run_id :: string
  tl_workload :: string
  tl_concurrency :: nat
  tl_successes :: nat
  tl_rejections :: nat
  tl_failures :: nat
  tl_committed :: int
  tl_reserved :: int
  tl_limit :: int
  tl_operation_rows :: nat
  tl_ledger_entries :: nat
  tl_overspend :: int
  tl_pass :: bool

definition ledger_entries :: "(operation \<Rightarrow> bool) \<Rightarrow> world \<Rightarrow> nat" where
  "ledger_entries P w =
     length (filter (\<lambda>(t, op). t_operation_id t = o_id op \<and> P op) (List.product (transactions w) (operations w)))"

definition trial_result_of :: "trial_rows \<Rightarrow> string \<Rightarrow> nat \<Rightarrow> (exn + bool) list \<Rightarrow> world \<Rightarrow> trial_result" where
  "trial_result_of b workload concurrency outcomes w =
     (let rows = filter (\<lambda>m. m_id m \<in> set (tb_mandate_ids b)) (mandates w);
          failures = length (filter isl outcomes);
          rejections = length (filter (\<lambda>r. r = Inr False) outcomes);
          committed = sum_list (map m_current_aggregate_spend rows);
          reserved = sum_list (map m_reserved_spend rows);
          limit = sum_list (map m_aggregate_spend_limit rows);
          overspend = max 0 (committed + reserved - limit)
      in \<lparr>tl_run_id = tb_run_id b, tl_workload = workload, tl_concurrency = concurrency,
          tl_successes = length (filter (\<lambda>r. r = Inr True) outcomes), tl_rejections = rejections,
          tl_failures = failures, tl_committed = committed, tl_reserved = reserved, tl_limit = limit,
          tl_operation_rows = length (filter (of_trial b) (operations w)),
          tl_ledger_entries = ledger_entries (of_trial b) w, tl_overspend = overspend,
          tl_pass = (overspend = 0 \<and> failures = 0)\<rparr>)"

datatype trial_error = Trial_exn exn | ZeroDivisionError

definition run_trial ::
    "env \<Rightarrow> (nat \<Rightarrow> exn option) \<Rightarrow> nat list \<Rightarrow> string \<Rightarrow> nat \<Rightarrow> world \<Rightarrow> (trial_error + trial_result) \<times> world" where
  "run_trial E fails schedule workload concurrency w0 =
     (case set_up_trial E workload concurrency w0 of
        (Inl e, w) \<Rightarrow> (Inl (Trial_exn e), w)
      | (Inr b, w) \<Rightarrow>
          let own = (\<lambda>i. if workload = ''low_contention'' then tb_mandate_ids b ! i else tb_mandate_ids b ! 0);
              (outcomes, w) = run_attempts E (tb_run_id b) (tb_agent_id b) fails own schedule w;
              result = trial_result_of b workload concurrency outcomes w;
              w = clean_up_trial b w
          in if concurrency = 0 then (Inl ZeroDivisionError, w) else (Inr result, w))"

section \<open>The whole benchmark\<close>

type_synonym trial_id = "string \<times> nat \<times> nat"

definition trial_plan :: "nat list \<Rightarrow> nat \<Rightarrow> trial_id list" where
  "trial_plan concurrencies trials =
     concat (map (\<lambda>workload. concat (map (\<lambda>c. map (\<lambda>t. (workload, c, t)) [1..<trials + 1]) concurrencies))
       [''low_contention'', ''high_contention''])"

fun run_trials ::
    "env \<Rightarrow> (trial_id \<Rightarrow> nat \<Rightarrow> exn option) \<Rightarrow> (trial_id \<Rightarrow> nat list) \<Rightarrow> trial_id list \<Rightarrow> world
       \<Rightarrow> (trial_error + trial_result list) \<times> world" where
  "run_trials E fails schedule [] w = (Inr [], w)"
| "run_trials E fails schedule (x # xs) w =
     (case run_trial E (fails x) (schedule x) (fst x) (fst (snd x)) w of
        (Inl e, w) \<Rightarrow> (Inl e, w)
      | (Inr r, w) \<Rightarrow>
          (case run_trials E fails schedule xs w of
             (Inl e, w) \<Rightarrow> (Inl e, w)
           | (Inr rs, w) \<Rightarrow> (Inr (r # rs), w)))"

definition main_async ::
    "string \<Rightarrow> env \<Rightarrow> (trial_id \<Rightarrow> nat \<Rightarrow> exn option) \<Rightarrow> (trial_id \<Rightarrow> nat list) \<Rightarrow> nat list \<Rightarrow> nat \<Rightarrow> world
       \<Rightarrow> (trial_error + trial_result list) \<times> world" where
  "main_async backend E fails schedule concurrencies trials w =
     (if backend \<noteq> ''postgresql''
      then (Inl (Trial_exn (RuntimeError
        ''This benchmark requires PostgreSQL; SQLite is intentionally rejected.'')), w)
      else run_trials E fails schedule (trial_plan concurrencies trials) w)"

text \<open>The exit status; the header of the CSV file is read from the first result.\<close>

definition benchmark_main ::
    "string \<Rightarrow> env \<Rightarrow> (trial_id \<Rightarrow> nat \<Rightarrow> exn option) \<Rightarrow> (trial_id \<Rightarrow> nat list) \<Rightarrow> nat list \<Rightarrow> nat \<Rightarrow> world
       \<Rightarrow> (trial_error + int) \<times> world" where
  "benchmark_main backend E fails schedule concurrencies trials w =
     (case main_async backend E fails schedule concurrencies trials w of
        (Inl e, w) \<Rightarrow> (Inl e, w)
      | (Inr [], w) \<Rightarrow> (Inl (Trial_exn IndexError), w)
      | (Inr results, w) \<Rightarrow> (Inr (if list_ex (\<lambda>r. \<not> tl_pass r) results then 1 else 0), w))"

section \<open>What a trial finds\<close>

lemma AMOUNT_pos: "0 < AMOUNT"
  by (simp add: AMOUNT_def)

lemma attempt_frame:
  assumes "attempt E run aid fails k i w = (r, w')"
  shows "w' = w\<lparr>mandates := mandates w', operations := operations w', uuid_count := uuid_count w',
    metric_incs := metric_incs w'\<rparr>"
proof -
  obtain q v where f: "flush_operation E (bench_operation E run aid k i) w = (q, v)" by fastforce
  then have "v = w\<lparr>operations := operations v, uuid_count := uuid_count v\<rparr>"
    by (auto simp: flush_operation_def generate_uuid_def draw_uuid_def Let_def split: if_splits)
  then obtain ops c where v: "v = w\<lparr>operations := ops, uuid_count := c\<rparr>" by blast
  obtain b u where res: "reserve_budget k AMOUNT v = (b, u)" by fastforce
  from reserve_budget_tables [OF this] obtain ms x where "u = v\<lparr>mandates := ms, metric_incs := x\<rparr>" by blast
  then have u: "u = w\<lparr>mandates := ms, operations := ops, uuid_count := c, metric_incs := x\<rparr>" using v by simp
  show ?thesis
    using assms f res u v
    by (cases q; cases "fails i") (auto simp: attempt_def rollback_def upd_operation_def)
qed

lemma attempt_cases:
  assumes run: "attempt E run aid fails k i w = (r, w')"
    and w: "distinct (map m_id (mandates w))" "tget m_id k (mandates w) = Some m"
  obtains (failed) e where "r = Inl e" "mandates w' = mandates w" "operations w' = operations w"
    | (decided) op where "r = Inr (fits_budget k AMOUNT m)"
      "mandates w' = (if fits_budget k AMOUNT m then tupd m_id k (add_reserved AMOUNT) (mandates w) else mandates w)"
      "operations w' = operations w @ [op]" "o_operation_id op = ''bench_'' @ run @ ''_'' @ str_int (int i)"
proof -
  let ?op = "bench_operation E run aid k i"
  obtain q v where f: "flush_operation E ?op w = (q, v)" by fastforce
  show thesis
  proof (cases q)
    case (Inl e)
    with run f failed show thesis by (auto simp: attempt_def rollback_def)
  next
    case (Inr op)
    with f have v: "mandates v = mandates w" "operations v = operations w @ [op]"
      "tget o_id (o_id op) (operations w) = None" "o_operation_id op = o_operation_id ?op"
      by (auto simp: flush_operation_def generate_uuid_def draw_uuid_def Let_def split: if_splits)
    let ?s = "set_status (if fits_budget k AMOUNT m then Op_RESERVED else Op_POLICY_REJECTED)"
    have spec: "reserve_budget k AMOUNT v = (fits_budget k AMOUNT m, snd (reserve_budget k AMOUNT v))"
      "mandates (snd (reserve_budget k AMOUNT v))
        = (if fits_budget k AMOUNT m then tupd m_id k (add_reserved AMOUNT) (mandates w) else mandates w)"
      "operations (snd (reserve_budget k AMOUNT v)) = operations v"
      using reserve_budget_spec [of v k m AMOUNT] w v(1)
      by (simp_all add: inc_metric_def upd_mandate_def)
    have ops: "tupd o_id (o_id op) ?s (operations w @ [op]) = operations w @ [?s op]"
      using v(3) by (simp add: table_simps tupd_absent tget_None_iff)
    show thesis
    proof (cases "fails i")
      case None
      with run f Inr spec ops v have "r = Inr (fits_budget k AMOUNT m)"
        "mandates w' = (if fits_budget k AMOUNT m then tupd m_id k (add_reserved AMOUNT) (mandates w) else mandates w)"
        "operations w' = operations w @ [?s op]"
        by (auto simp: attempt_def upd_operation_def split: prod.splits)
      moreover have "o_operation_id (?s op) = ''bench_'' @ run @ ''_'' @ str_int (int i)"
        using v(4) by (simp add: set_status_def bench_operation_def Let_def)
      ultimately show thesis by (rule decided)
    next
      case (Some e)
      with run f Inr failed show thesis by (auto simp: attempt_def rollback_def split: prod.splits)
    qed
  qed
qed

text \<open>How many attempts on a mandate ended, and how many of them reserved.\<close>

definition counts :: "(exn + bool \<Rightarrow> bool) \<Rightarrow> (nat \<Rightarrow> string) \<Rightarrow> string \<Rightarrow> nat list \<Rightarrow> (exn + bool) list \<Rightarrow> nat" where
  "counts P own k is rs = length (filter (\<lambda>z. own (fst z) = k \<and> P (snd z)) (zip is rs))"

lemma counts_simps [simp]:
  "counts P own k [] rs = 0"
  "counts P own k (i # is) (r # rs) = (if own i = k \<and> P r then 1 else 0) + counts P own k is rs"
  by (simp_all add: counts_def)

abbreviation wins where "wins \<equiv> counts (\<lambda>r. r = Inr True)"
abbreviation ended where "ended \<equiv> counts (\<lambda>r. \<not> isl r)"

lemma run_attempts_length: "run_attempts E run aid fails own is w = (rs, w') \<Longrightarrow> length rs = length is"
  by (induction "is" arbitrary: w rs) (auto split: prod.splits)

text \<open>The state of one mandate: what it has reserved counts the attempts that ended, up to its room.\<close>

definition benched :: "int \<Rightarrow> nat \<Rightarrow> mandate \<Rightarrow> bool" where
  "benched c x m \<longleftrightarrow> m_current_aggregate_spend m = 0 \<and> m_aggregate_spend_limit m = AMOUNT * c
     \<and> m_reserved_spend m = AMOUNT * int x"

lemma benched_fits: "benched c x m \<Longrightarrow> m_id m = k \<Longrightarrow> fits_budget k AMOUNT m \<longleftrightarrow> int x < c"
  by (auto simp: benched_def fits_budget_def AMOUNT_def)

lemma benched_add: "benched c x m \<Longrightarrow> benched c (Suc x) (add_reserved AMOUNT m)"
  by (simp add: benched_def add_reserved_def AMOUNT_def)

lemma run_attempts_row:
  assumes "run_attempts E run aid fails own is w = (rs, w')" and "distinct (map m_id (mandates w))"
    and "own ` set is \<subseteq> m_id ` set (mandates w)"
    and "tget m_id k (mandates w) = Some m" and "benched (int c) x m" and "x \<le> c"
  shows "map m_id (mandates w') = map m_id (mandates w)
    \<and> (\<exists>m'. tget m_id k (mandates w') = Some m' \<and> benched (int c) (min c (x + ended own k is rs)) m')
    \<and> x + wins own k is rs = min c (x + ended own k is rs)"
  using assms
proof (induction "is" arbitrary: w rs m x)
  case Nil
  then show ?case by auto
next
  case (Cons i js)
  obtain r v where a: "attempt E run aid fails (own i) i w = (r, v)" by fastforce
  obtain qs where q: "run_attempts E run aid fails own js v = (qs, w')" and rs: "rs = r # qs"
    using Cons.prems(1) a by (auto split: prod.splits)
  from Cons.prems(3) obtain n where n: "tget m_id (own i) (mandates w) = Some n"
    by (force simp: tget_None_iff not_None_eq [symmetric])
  have id: "m_id n = own i" "m_id m = k" using n Cons.prems(4) by (auto dest: tget_SomeD)
  from a Cons.prems(2) n show ?case
  proof (cases rule: attempt_cases)
    case (failed e)
    with Cons.IH [OF q, of m x] Cons.prems rs show ?thesis by simp
  next
    case (decided op)
    have keys: "map m_id (mandates v) = map m_id (mandates w)"
      using decided(2) by (simp add: reserve_row.keys_tupd)
    then have img: "m_id ` set (mandates v) = m_id ` set (mandates w)" by (metis set_map)
    show ?thesis
    proof (cases "own i = k")
      case False
      then have "tget m_id k (mandates v) = Some m"
        using decided(2) Cons.prems(4) by (simp add: reserve_row.tget_tupd)
      from Cons.IH [OF q _ _ this Cons.prems(5,6)] Cons.prems(2,3) keys img rs False show ?thesis by simp
    next
      case True
      with n Cons.prems(4) have [simp]: "n = m" by simp
      have fits: "fits_budget (own i) AMOUNT n \<longleftrightarrow> x < c"
        using benched_fits [OF Cons.prems(5)] True id by simp
      show ?thesis
      proof (cases "x < c")
        case less: True
        then have "tget m_id k (mandates v) = Some (add_reserved AMOUNT m)"
          using decided(2) Cons.prems(4) fits True by (simp add: reserve_row.tget_tupd_same)
        from Cons.IH [OF q _ _ this benched_add [OF Cons.prems(5)]] less Cons.prems(2,3) keys img rs True
          decided(1) fits
        show ?thesis by simp
      next
        case full: False
        then have "tget m_id k (mandates v) = Some m" using decided(2) Cons.prems(4) fits by simp
        from Cons.IH [OF q _ _ this Cons.prems(5,6)] full Cons.prems(2,3) keys img rs True decided(1) fits
        show ?thesis by simp
      qed
    qed
  qed
qed

lemma add_mandates_spec:
  assumes "add_mandates E mk n w = (Inr is, w')" and "\<And>i. m_id (mk i) = i" and "distinct (map m_id (mandates w))"
  shows "\<exists>c. w' = w\<lparr>mandates := mandates w @ map mk is, uuid_count := c\<rparr> \<and> length is = n
    \<and> distinct (map m_id (mandates w @ map mk is))"
  using assms(1,3)
proof (induction n arbitrary: w "is")
  case (Suc n)
  define i where "i = uuid_text (uuid_hex E (uuid_count w))"
  define v where "v = w\<lparr>uuid_count := uuid_count w + 1, mandates := mandates w @ [mk i]\<rparr>"
  have gen: "generate_uuid E w = (i, w\<lparr>uuid_count := uuid_count w + 1\<rparr>)"
    by (simp add: generate_uuid_def draw_uuid_def i_def)
  from Suc.prems(1) obtain js where js: "is = i # js" "add_mandates E mk n v = (Inr js, w')"
    and new: "tget m_id i (mandates w) = None"
    by (auto simp: gen v_def split: if_splits prod.splits sum.splits)
  have "distinct (map m_id (mandates v))"
    using Suc.prems(2) new assms(2) by (simp add: v_def tget_None_iff)
  from Suc.IH [OF js(2) this] js(1) show ?case by (auto simp: v_def)
qed (auto intro: exI [of _ "uuid_count w'"])

text \<open>What the set-up leaves: the new rows at the end of their tables, under new keys.\<close>

lemma set_up_spec:
  assumes "set_up_trial E wl n w = (Inr b, v)" and "distinct (map m_id (mandates w))"
  shows "mandates v = mandates w @ map (bench_mandate E (bench_limit wl n) (tb_agent_id b) (tb_principal_id b))
      (tb_mandate_ids b)"
    and "length (tb_mandate_ids b) = (if wl = ''low_contention'' then n else 1)"
    and "distinct (map m_id (mandates v))"
    and "operations v = operations w"
    and "filter (\<lambda>a. a_id a \<noteq> tb_agent_id b) (agents v) = agents w"
    and "filter (\<lambda>p. p_id p \<noteq> tb_principal_id b) (principals v) = principals w"
    and "v = w\<lparr>principals := principals v, agents := agents v, mandates := mandates v, uuid_count := uuid_count v\<rparr>"
proof -
  let ?run = "uuid_hex E (uuid_count w)" and ?pid = "uuid_text (uuid_hex E (Suc (uuid_count w)))"
    and ?aid = "uuid_text (uuid_hex E (Suc (Suc (uuid_count w))))"
  define x where "x = w\<lparr>principals := principals w @ [bench_principal E ?run ?pid],
    uuid_count := Suc (Suc (Suc (uuid_count w))), agents := agents w @ [bench_agent E ?run ?pid ?aid]\<rparr>"
  let ?mk = "bench_mandate E (bench_limit wl n) ?aid ?pid"
  from assms(1) obtain ids where add: "add_mandates E ?mk (if wl = ''low_contention'' then n else 1) x = (Inr ids, v)"
    and b: "b = \<lparr>tb_run_id = ?run, tb_principal_id = ?pid, tb_agent_id = ?aid, tb_mandate_ids = ids\<rparr>"
    and new: "?pid \<notin> p_id ` set (principals w)" "?aid \<notin> a_id ` set (agents w)"
    by (auto simp: set_up_trial_def generate_uuid_def draw_uuid_def Let_def x_def
        split: if_splits prod.splits sum.splits)
  have "m_id (?mk i) = i" for i by (simp add: bench_mandate_def)
  from add_mandates_spec [OF add this] assms(2) obtain c where
    "v = x\<lparr>mandates := mandates x @ map ?mk ids, uuid_count := c\<rparr>"
    "length ids = (if wl = ''low_contention'' then n else 1)" "distinct (map m_id (mandates x @ map ?mk ids))"
    by (auto simp: x_def)
  then have v: "mandates v = mandates x @ map ?mk ids" "length ids = (if wl = ''low_contention'' then n else 1)"
    "distinct (map m_id (mandates v))" "v = x\<lparr>mandates := mandates v, uuid_count := uuid_count v\<rparr>"
    and fields: "principals v = principals x" "agents v = agents x" "operations v = operations x"
    by simp_all
  show "mandates v = mandates w @ map (bench_mandate E (bench_limit wl n) (tb_agent_id b) (tb_principal_id b))
      (tb_mandate_ids b)"
    and "length (tb_mandate_ids b) = (if wl = ''low_contention'' then n else 1)"
    and "distinct (map m_id (mandates v))" and "operations v = operations w"
    using v(1-3) fields b by (simp_all add: x_def)
  show "filter (\<lambda>a. a_id a \<noteq> tb_agent_id b) (agents v) = agents w"
    and "filter (\<lambda>p. p_id p \<noteq> tb_principal_id b) (principals v) = principals w"
    using new [unfolded image_iff] fields b by (auto simp: x_def bench_agent_def bench_principal_def filter_id_conv)
  show "v = w\<lparr>principals := principals v, agents := agents v, mandates := mandates v, uuid_count := uuid_count v\<rparr>"
    using v(4) fields by (simp add: x_def)
qed

lemma run_attempts_frame:
  assumes "run_attempts E run aid fails own is w = (rs, w')"
  shows "w' = w\<lparr>mandates := mandates w', operations := operations w', uuid_count := uuid_count w',
    metric_incs := metric_incs w'\<rparr>"
  using assms
proof (induction "is" arbitrary: w rs)
  case (Cons i js)
  obtain r v where a: "attempt E run aid fails (own i) i w = (r, v)" by fastforce
  with Cons.prems obtain qs where "run_attempts E run aid fails own js v = (qs, w')" by (auto split: prod.splits)
  from Cons.IH [OF this] attempt_frame [OF a] show ?case by (cases w; cases v; cases w') simp
qed simp

text \<open>The attempts touch the mandates of the trial and add operations of its name.\<close>

lemma sql_like_all: "sql_like ''%'' s"
  by (induction s) simp_all

lemma sql_like_prefix: "sql_like q s \<Longrightarrow> sql_like (p @ q) (p @ s)"
proof (induction p)
  case (Cons c p)
  then show ?case by (cases "p @ s") auto
qed simp

lemma bench_pattern_matches: "sql_like (bench_pattern run) (''bench_'' @ run @ ''_'' @ s)"
  using sql_like_prefix [of "''%''" s "''bench_'' @ run @ ''_''"] sql_like_all by (simp add: bench_pattern_def)

lemma run_attempts_others:
  assumes "run_attempts E (tb_run_id b) aid fails own is w = (rs, w')" and "distinct (map m_id (mandates w))"
    and "own ` set is \<subseteq> m_id ` set (mandates w)" and "own ` set is \<subseteq> K"
  shows "filter (\<lambda>m. m_id m \<notin> K) (mandates w') = filter (\<lambda>m. m_id m \<notin> K) (mandates w)
    \<and> filter (\<lambda>op. \<not> of_trial b op) (operations w') = filter (\<lambda>op. \<not> of_trial b op) (operations w)"
  using assms
proof (induction "is" arbitrary: w rs)
  case (Cons i js)
  obtain r v where a: "attempt E (tb_run_id b) aid fails (own i) i w = (r, v)" by fastforce
  obtain qs where q: "run_attempts E (tb_run_id b) aid fails own js v = (qs, w')"
    using Cons.prems(1) a by (auto split: prod.splits)
  from Cons.prems(3) obtain n where n: "tget m_id (own i) (mandates w) = Some n"
    by (force simp: tget_None_iff not_None_eq [symmetric])
  from a Cons.prems(2) n show ?case
  proof (cases rule: attempt_cases)
    case (failed e)
    with Cons.IH [OF q] Cons.prems show ?thesis by simp
  next
    case (decided op)
    have keys: "map m_id (mandates v) = map m_id (mandates w)"
      using decided(2) by (simp add: reserve_row.keys_tupd)
    then have img: "m_id ` set (mandates v) = m_id ` set (mandates w)" by (metis set_map)
    have "filter (\<lambda>m. m_id m \<notin> K) (tupd m_id (own i) (add_reserved AMOUNT) t) = filter (\<lambda>m. m_id m \<notin> K) t" for t
      using Cons.prems(4) by (induction t) (auto simp: table_simps add_reserved_def)
    moreover have "of_trial b op" using decided(4) bench_pattern_matches by (simp add: of_trial_def)
    ultimately show ?thesis
      using Cons.IH [OF q] keys img Cons.prems(2-4) decided(2,3) by simp
  qed
qed simp

lemma sum_keys:
  assumes "distinct ks" and "\<And>z. z \<in> set zs \<Longrightarrow> g z \<in> set ks"
  shows "sum_list (map (\<lambda>k. length (filter (\<lambda>z. g z = k \<and> P z) zs)) ks) = length (filter P zs)"
  using assms(2)
proof (induction zs)
  case (Cons z zs)
  have one: "sum_list (map (\<lambda>k. if g z = k \<and> Q then 1 else 0) ks) = (if Q then 1 else (0::nat))" for Q
    using assms(1) Cons.prems [of z] sum_list_map_eq_sum_count
    by (cases Q) (simp_all add: sum_list_distinct_conv_sum_set)
  have "sum_list (map (\<lambda>k. length (filter (\<lambda>z. g z = k \<and> P z) (z # zs))) ks)
      = sum_list (map (\<lambda>k. (if g z = k \<and> P z then 1 else 0) + length (filter (\<lambda>z. g z = k \<and> P z) zs)) ks)"
    by (intro arg_cong [where f = sum_list] map_cong) auto
  also have "\<dots> = length (filter P (z # zs))"
    using Cons one [of "P z"] by (simp add: sum_list_addf)
  finally show ?case .
qed simp

text \<open>The rows of a suffix of a table, found by their keys.\<close>

lemma filter_suffix:
  assumes "distinct (map key t)" and "map key t = xs @ ks"
  shows "filter (\<lambda>r. key r \<in> set ks) t = map (\<lambda>k. the (tget key k t)) ks"
    and "length (filter (\<lambda>r. key r \<notin> set ks) t) = length xs"
proof -
  from assms(2) obtain t1 t2 where t: "t = t1 @ t2" "map key t1 = xs" "map key t2 = ks"
    by (auto simp: map_eq_append_conv)
  have disj: "key r \<notin> set ks" if "r \<in> set t1" for r using assms(1) t that by (auto simp: disjoint_iff)
  have "set ks = key ` set t2" using t(3) by auto
  then have f: "filter (\<lambda>r. key r \<in> set ks) t1 = []" "filter (\<lambda>r. key r \<in> set ks) t2 = t2"
    "filter (\<lambda>r. key r \<notin> set ks) t1 = t1" "filter (\<lambda>r. key r \<notin> set ks) t2 = []"
    using disj by (auto simp: filter_empty_conv filter_id_conv)
  have "map (\<lambda>k. the (tget key k t)) (map key t2) = t2"
    using tget_in_set [OF assms(1)] t(1) by (auto intro!: map_idI simp: comp_def)
  with f t show "filter (\<lambda>r. key r \<in> set ks) t = map (\<lambda>k. the (tget key k t)) ks" by simp
  show "length (filter (\<lambda>r. key r \<notin> set ks) t) = length xs" using f t by simp (metis length_map)
qed

text \<open>A trial from a database with unique mandate keys: its rows afterwards, mandate by mandate.\<close>

definition bench_own :: "string \<Rightarrow> trial_rows \<Rightarrow> nat \<Rightarrow> string" where
  "bench_own workload b i = (if workload = ''low_contention'' then tb_mandate_ids b ! i else tb_mandate_ids b ! 0)"

definition bench_room :: "string \<Rightarrow> nat \<Rightarrow> nat" where
  "bench_room workload n = (if workload = ''low_contention'' then 1 else n div 2)"

lemma run_trial_Inr:
  assumes "run_trial E fails schedule wl n w = (Inr t, w')"
  obtains b v rs u where "set_up_trial E wl n w = (Inr b, v)"
    "run_attempts E (tb_run_id b) (tb_agent_id b) fails (bench_own wl b) schedule v = (rs, u)"
    "t = trial_result_of b wl n rs u" "w' = clean_up_trial b u" "0 < n"
  using assms
  by (auto simp: run_trial_def bench_own_def [abs_def] Let_def split: prod.splits sum.splits if_splits)

lemma own_in_ids:
  assumes "set_up_trial E wl n w = (Inr b, v)" and "distinct (map m_id (mandates w))" and "0 < n"
    and "set schedule = {0..<n}"
  shows "bench_own wl b ` set schedule \<subseteq> set (tb_mandate_ids b)"
  using set_up_spec(2) [OF assms(1,2)] assms(3,4) by (auto simp: bench_own_def)

lemma set_up_keys:
  assumes "set_up_trial E wl n w = (Inr b, v)" and "distinct (map m_id (mandates w))"
  shows "map m_id (mandates v) = map m_id (mandates w) @ tb_mandate_ids b"
  unfolding set_up_spec(1) [OF assms] by (simp add: bench_mandate_def comp_def)

lemma bench_limit_room: "bench_limit wl n = AMOUNT * int (bench_room wl n)"
  by (simp add: bench_limit_def bench_room_def AMOUNT_def zdiv_int)

lemma trial_rows_after:
  assumes "set_up_trial E wl n w = (Inr b, v)" and "distinct (map m_id (mandates w))"
    and "run_attempts E run aid fails own schedule v = (rs, u)" and "own ` set schedule \<subseteq> set (tb_mandate_ids b)"
    and "k \<in> set (tb_mandate_ids b)"
  shows "map m_id (mandates u) = map m_id (mandates v)
    \<and> benched (int (bench_room wl n)) (wins own k schedule rs) (the (tget m_id k (mandates u)))
    \<and> wins own k schedule rs = min (bench_room wl n) (ended own k schedule rs)"
proof -
  let ?mk = "bench_mandate E (bench_limit wl n) (tb_agent_id b) (tb_principal_id b)"
  note keys = set_up_keys [OF assms(1,2)]
  then have img: "m_id ` set (mandates v) = m_id ` set (mandates w) \<union> set (tb_mandate_ids b)"
    by (metis set_append set_map)
  have "?mk k \<in> set (mandates v)" using set_up_spec(1) [OF assms(1,2)] assms(5) by simp
  then have row: "tget m_id k (mandates v) = Some (?mk k)"
    using tget_in_set [OF set_up_spec(3) [OF assms(1,2)]] by (force simp: bench_mandate_def)
  have "benched (int (bench_room wl n)) 0 (?mk k)"
    by (simp add: benched_def bench_mandate_def bench_limit_room)
  moreover have "own ` set schedule \<subseteq> m_id ` set (mandates v)" using assms(4) img by auto
  ultimately show ?thesis
    using run_attempts_row [OF assms(3) set_up_spec(3) [OF assms(1,2)] _ row] by fastforce
qed

lemma int_sum_list: "int (sum_list xs) = sum_list (map int xs)"
  by (induction xs) simp_all

lemma trial_sums:
  assumes "set_up_trial E wl n w = (Inr b, v)" and "distinct (map m_id (mandates w))"
    and "run_attempts E run aid fails own schedule v = (rs, u)" and "own ` set schedule \<subseteq> set (tb_mandate_ids b)"
  defines "rows \<equiv> filter (\<lambda>m. m_id m \<in> set (tb_mandate_ids b)) (mandates u)" and "won \<equiv> length (filter (\<lambda>r. r = Inr True) rs)"
  shows "sum_list (map m_current_aggregate_spend rows) = 0"
    and "sum_list (map m_reserved_spend rows) = AMOUNT * int won"
    and "sum_list (map m_aggregate_spend_limit rows)
      = AMOUNT * int (bench_room wl n) * int (length (tb_mandate_ids b))"
    and "int won \<le> int (bench_room wl n) * int (length (tb_mandate_ids b))"
proof -
  let ?ids = "tb_mandate_ids b"
  note after = trial_rows_after [OF assms(1-4)]
  have ids: "distinct ?ids" using set_up_spec(3) [OF assms(1,2)] set_up_keys [OF assms(1,2)] by simp
  have rows: "rows = map (\<lambda>k. the (tget m_id k (mandates u))) ?ids" unfolding rows_def
  proof (cases "?ids = []")
    case False
    then have "map m_id (mandates u) = map m_id (mandates v)" using after by (metis list.set_intros(1) neq_Nil_conv)
    with filter_suffix(1) [of m_id "mandates u"] set_up_spec(3) [OF assms(1,2)] set_up_keys [OF assms(1,2)]
    show "filter (\<lambda>m. m_id m \<in> set ?ids) (mandates u) = map (\<lambda>k. the (tget m_id k (mandates u))) ?ids" by metis
  qed simp
  have len: "length rs = length schedule" using run_attempts_length [OF assms(3)] .
  have own: "own (fst z) \<in> set ?ids" if "z \<in> set (zip schedule rs)" for z
    using assms(4) that by (cases z) (auto dest: set_zip_leftD)
  have "sum_list (map (\<lambda>k. wins own k schedule rs) ?ids) = length (filter (\<lambda>z. snd z = Inr True) (zip schedule rs))"
    using sum_keys [OF ids, of "zip schedule rs" "\<lambda>z. own (fst z)" "\<lambda>z. snd z = Inr True"] own
    by (simp add: counts_def)
  also have "\<dots> = length (filter (\<lambda>r. r = Inr True) (map snd (zip schedule rs)))"
    by (simp add: filter_map comp_def)
  finally have won: "won = sum_list (map (\<lambda>k. wins own k schedule rs) ?ids)" using len by (simp add: won_def)
  have sum0: "sum_list (map f ?ids) = sum_list (map g ?ids)" if "\<And>k. k \<in> set ?ids \<Longrightarrow> f k = g k"
    for f g :: "string \<Rightarrow> int" using that by (simp cong: map_cong)
  show "sum_list (map m_current_aggregate_spend rows) = 0"
    unfolding rows map_map comp_def using after sum0 [where g = "\<lambda>_. 0"] by (simp add: benched_def)
  show "sum_list (map m_reserved_spend rows) = AMOUNT * int won"
    unfolding rows map_map comp_def won
    using after sum0 [where g = "\<lambda>k. AMOUNT * int (wins own k schedule rs)"]
    by (simp add: benched_def sum_list_const_mult int_sum_list comp_def)
  show "sum_list (map m_aggregate_spend_limit rows) = AMOUNT * int (bench_room wl n) * int (length ?ids)"
    unfolding rows map_map comp_def
    using after sum0 [where g = "\<lambda>_. AMOUNT * int (bench_room wl n)"]
    by (simp add: benched_def sum_list_triv algebra_simps)
  have "won \<le> sum_list (map (\<lambda>_. bench_room wl n) ?ids)"
    unfolding won using after by (intro sum_list_mono) auto
  then have "won \<le> bench_room wl n * length ?ids" by (simp add: sum_list_triv mult.commute)
  then show "int won \<le> int (bench_room wl n) * int (length ?ids)" by (metis of_nat_le_iff of_nat_mult)
qed

lemma outcome_counts:
  "length (filter (\<lambda>r. r = Inr True) rs) + length (filter (\<lambda>r. r = Inr False) rs) + length (filter isl rs) = length rs"
proof (induction rs)
  case (Cons r rs)
  then show ?case by (cases r) auto
qed simp

lemma ended_outcomes: "length (filter (\<lambda>r. \<not> isl r) rs) = length rs - length (filter isl rs)"
  using sum_length_filter_compl [of isl rs] by simp

lemma ended_all: "length rs = length is \<Longrightarrow> ended (\<lambda>_. k) k is rs = length (filter (\<lambda>r. \<not> isl r) rs)"
  by (induction "is" rs rule: list_induct2') auto

lemma ended_once:
  assumes "distinct is" and "inj_on own (set is)"
  shows "ended own k is rs \<le> 1"
  using assms
proof (induction "is" arbitrary: rs)
  case (Cons i js)
  have none: "ended own k js qs = 0" if "own i = k" for qs
    using Cons.prems that unfolding counts_def
    by (auto simp: filter_empty_conv inj_on_def dest!: set_zip_leftD)
  from Cons none show ?case by (cases rs) (auto simp: counts_def)
qed (simp add: counts_def)

lemma trial_wins:
  assumes "set_up_trial E wl n w = (Inr b, v)" and "distinct (map m_id (mandates w))" and "0 < n"
    and "run_attempts E run aid fails (bench_own wl b) schedule v = (rs, u)"
    and "distinct schedule" and "set schedule = {0..<n}"
  shows "length (filter (\<lambda>r. r = Inr True) rs)
    = (if wl = ''low_contention'' then length (filter (\<lambda>r. \<not> isl r) rs) else min (n div 2) (length (filter (\<lambda>r. \<not> isl r) rs)))"
proof -
  let ?ids = "tb_mandate_ids b"
  note own = own_in_ids [OF assms(1-3,6)]
  note after = trial_rows_after [OF assms(1,2,4) own]
  note len = run_attempts_length [OF assms(4)]
  note ids = set_up_spec(2,3) [OF assms(1,2)]
  show ?thesis
  proof (cases "wl = ''low_contention''")
    case False
    then obtain k where k: "?ids = [k]" using ids(1) by (auto simp: length_Suc_conv)
    then have o: "bench_own wl b = (\<lambda>_. k)" using False by (auto simp: bench_own_def)
    have "wins (\<lambda>_. k) k schedule rs = length (filter (\<lambda>r. r = Inr True) rs)"
      using len by (induction schedule rs rule: list_induct2') auto
    moreover have "wins (\<lambda>_. k) k schedule rs = min (n div 2) (ended (\<lambda>_. k) k schedule rs)"
      using after [of k] k o False by (simp add: bench_room_def)
    ultimately show ?thesis using ended_all [OF len] False by simp
  next
    case True
    have dist: "distinct ?ids" using ids(2) set_up_keys [OF assms(1,2)] by simp
    have inj: "inj_on (bench_own wl b) (set schedule)"
      using True dist ids(1) assms(6) by (auto simp: inj_on_def bench_own_def nth_eq_iff_index_eq)
    have eq: "wins (bench_own wl b) k schedule rs = ended (bench_own wl b) k schedule rs" if "k \<in> set ?ids" for k
      using after [OF that] ended_once [OF assms(5) inj, of k rs] True by (simp add: bench_room_def)
    have snd: "length (filter (\<lambda>z. P (snd z)) (zip schedule rs)) = length (filter P rs)" for P
    proof -
      have "length (filter (\<lambda>z. P (snd z)) (zip schedule rs)) = length (filter P (map snd (zip schedule rs)))"
        by (simp add: filter_map comp_def)
      then show ?thesis using len by simp
    qed
    have total: "sum_list (map (\<lambda>k. counts P (bench_own wl b) k schedule rs) ?ids) = length (filter P rs)" for P
    proof -
      have mem: "bench_own wl b (fst z) \<in> set ?ids" if "z \<in> set (zip schedule rs)" for z
        using own that by (cases z) (auto dest: set_zip_leftD)
      show ?thesis
        using sum_keys [OF dist, of "zip schedule rs" "\<lambda>z. bench_own wl b (fst z)" "\<lambda>z. P (snd z)"] mem snd [of P]
        by (simp add: counts_def)
    qed
    have "length (filter (\<lambda>r. r = Inr True) rs) = sum_list (map (\<lambda>k. ended (bench_own wl b) k schedule rs) ?ids)"
      using total [of "\<lambda>r. r = Inr True", symmetric] eq by (simp cong: map_cong)
    then show ?thesis using True total [of "\<lambda>r. \<not> isl r"] by simp
  qed
qed

text \<open>
  C23: Whatever the order in which the database serves the attempts and whichever of them fail, a
  trial finds no overspend and reserves exactly the amount of its successes. All attempts that do
  not fail succeed under low contention; under high contention as many do as the smaller of half
  the concurrency and the attempts that do not fail. It passes exactly when no attempt failed.
\<close>
theorem trial_result_exact:
  assumes "run_trial E fails schedule workload n w = (Inr t, w')"
    and "distinct (map m_id (mandates w))" and "distinct schedule" and "set schedule = {0..<n}"
  shows "tl_overspend t = 0 \<and> tl_committed t = 0 \<and> tl_reserved t = AMOUNT * int (tl_successes t)
    \<and> tl_successes t + tl_rejections t + tl_failures t = n
    \<and> tl_successes t = (if workload = ''low_contention'' then n - tl_failures t else min (n div 2) (n - tl_failures t))
    \<and> (tl_pass t \<longleftrightarrow> tl_failures t = 0)"
  using assms(1)
proof (rule run_trial_Inr)
  fix b v rs u
  assume run: "set_up_trial E workload n w = (Inr b, v)"
    "run_attempts E (tb_run_id b) (tb_agent_id b) fails (bench_own workload b) schedule v = (rs, u)"
    and t: "t = trial_result_of b workload n rs u" and "w' = clean_up_trial b u" and n: "0 < n"
  note own = own_in_ids [OF run(1) assms(2) n assms(4)]
  note sums = trial_sums [OF run(1) assms(2) run(2) own]
  have "length rs = n"
    using run_attempts_length [OF run(2)] distinct_card [OF assms(3)] assms(4) by simp
  moreover have "AMOUNT * int (length (filter (\<lambda>r. r = Inr True) rs))
      \<le> AMOUNT * (int (bench_room workload n) * int (length (tb_mandate_ids b)))"
    using sums(4) AMOUNT_pos by (intro mult_left_mono) auto
  ultimately show ?thesis
    using outcome_counts [of rs] ended_outcomes [of rs] trial_wins [OF run(1) assms(2) n run(2) assms(3,4)]
    unfolding t trial_result_of_def Let_def sums by (simp add: mult.assoc)
qed

lemma sql_like_literal:
  "sql_like (p @ q) s \<Longrightarrow> list_all (\<lambda>c. c \<noteq> CHR ''%'' \<and> c \<noteq> CHR ''_'') p \<Longrightarrow> take (length p) s = p"
proof (induction p arbitrary: s)
  case (Cons c p)
  then show ?case by (cases s) auto
qed simp

text \<open>Three attempts on a mandate with room for one; the second attempt times out.\<close>

definition demo_trial :: "(trial_error + trial_result) \<times> world" where
  "demo_trial = run_trial demo_env (\<lambda>i. if i = 1 then Some TimeoutException else None) [2, 0, 1] ''high_contention'' 3
     demo_world"

lemma demo_trial_runs: "map_sum (\<lambda>_. ()) tl_failures (fst demo_trial) = Inr 1"
  by code_simp

theorem trial_result_exact_witness:
  "\<exists>t w'. demo_trial = (Inr t, w') \<and> tl_failures t = 1 \<and> tl_successes t = 1 \<and> tl_rejections t = 1
    \<and> tl_overspend t = 0 \<and> \<not> tl_pass t"
proof -
  obtain r w' where d: "demo_trial = (r, w')" by (rule prod.exhaust)
  from demo_trial_runs obtain t where "r = Inr t" "tl_failures t = 1" unfolding d by (cases r) auto
  with d have t: "demo_trial = (Inr t, w')" "tl_failures t = 1" by simp_all
  have "distinct (map m_id (mandates demo_world))"
    by (simp add: demo_world_def demo_root_def demo_child_def demo_support_def)
  moreover have "set [2, 0, 1] = {0..<3::nat}" by auto
  ultimately show ?thesis
    using trial_result_exact [OF t(1) [unfolded demo_trial_def]] t by (intro exI [of _ t] exI [of _ w']) auto
qed

text \<open>
  C24: A trial of the contention benchmark leaves no trace: when it returns, whatever the order of its
  attempts and whichever of them failed, every table of the database is what it was before, row by
  row, provided no operation stored before has an id that starts with \<open>bench\<close>; nothing was sent to
  the gateway.
\<close>
theorem trial_leaves_no_trace:
  assumes "run_trial E fails schedule workload n w = (Inr t, w')"
    and "distinct (map m_id (mandates w))" and "set schedule = {0..<n}"
    and "\<And>op. op \<in> set (operations w) \<Longrightarrow> take 5 (o_operation_id op) \<noteq> ''bench''"
  shows "database.truncate w' = database.truncate w \<and> gateway_calls w' = gateway_calls w \<and> http_log w' = http_log w"
  using assms(1)
proof (rule run_trial_Inr)
  fix b v rs u
  assume run: "set_up_trial E workload n w = (Inr b, v)"
    "run_attempts E (tb_run_id b) (tb_agent_id b) fails (bench_own workload b) schedule v = (rs, u)"
    and "t = trial_result_of b workload n rs u" and w': "w' = clean_up_trial b u" and n: "0 < n"
  note own = own_in_ids [OF run(1) assms(2) n assms(3)]
  note spec = set_up_spec [OF run(1) assms(2)]
  note keys = set_up_keys [OF run(1) assms(2)]
  have "m_id ` set (mandates v) = m_id ` set (mandates w) \<union> set (tb_mandate_ids b)" using keys by (metis set_append set_map)
  then have mem: "bench_own workload b ` set schedule \<subseteq> m_id ` set (mandates v)" using own by auto
  have others: "filter (\<lambda>m. m_id m \<notin> set (tb_mandate_ids b)) (mandates u)
      = filter (\<lambda>m. m_id m \<notin> set (tb_mandate_ids b)) (mandates v)"
    "filter (\<lambda>op. \<not> of_trial b op) (operations u) = filter (\<lambda>op. \<not> of_trial b op) (operations v)"
    using run_attempts_others [OF run(2) spec(3) mem own] by simp_all
  have "filter (\<lambda>m. m_id m \<notin> set (tb_mandate_ids b)) (mandates v) = mandates w"
    unfolding spec(1) using spec(3) [unfolded keys] by (auto simp: filter_id_conv filter_empty_conv bench_mandate_def)
  moreover have "\<not> of_trial b op" if "op \<in> set (operations w)" for op
  proof
    assume "of_trial b op"
    then have "sql_like (''bench'' @ ''_'' @ tb_run_id b @ ''_%'') (o_operation_id op)"
      by (simp add: of_trial_def bench_pattern_def)
    from sql_like_literal [OF this] have "take 5 (o_operation_id op) = ''bench''" by (simp add: eval_nat_numeral)
    with assms(4) [OF that] show False by simp
  qed
  ultimately have tables: "mandates w' = mandates w" "operations w' = operations w"
    using others spec(4) by (auto simp: w' clean_up_trial_def filter_id_conv)
  from run_attempts_frame [OF run(2)] obtain ms ops c x
    where u: "u = v\<lparr>mandates := ms, operations := ops, uuid_count := c, metric_incs := x\<rparr>" by blast
  from spec(7) obtain ps as ms' c'
    where v: "v = w\<lparr>principals := ps, agents := as, mandates := ms', uuid_count := c'\<rparr>" by blast
  have "agents w' = agents w" "principals w' = principals w"
    using spec(5,6) by (simp_all add: w' clean_up_trial_def u)
  with tables show ?thesis by (simp add: database.defs) (simp add: w' clean_up_trial_def u v)
qed

theorem trial_leaves_no_trace_witness:
  "\<exists>t w'. demo_trial = (Inr t, w') \<and> mandates w' = mandates demo_world \<and> operations w' = []
    \<and> agents w' = agents demo_world \<and> gateway_calls w' = []"
proof -
  obtain r w' where d: "demo_trial = (r, w')" by (rule prod.exhaust)
  from demo_trial_runs obtain t where t: "r = Inr t" unfolding d by (cases r) auto
  have "distinct (map m_id (mandates demo_world))"
    by (simp add: demo_world_def demo_root_def demo_child_def demo_support_def)
  moreover have "set [2, 0, 1] = {0..<3::nat}" by auto
  ultimately have "database.truncate w' = database.truncate demo_world \<and> gateway_calls w' = gateway_calls demo_world
      \<and> http_log w' = http_log demo_world"
    using trial_leaves_no_trace [OF d [unfolded t demo_trial_def]] by (simp add: demo_world_def)
  then show ?thesis using d t
    by (intro exI [of _ t] exI [of _ w']) (simp add: database.defs demo_world_def)
qed

end
