(* ===== verification/Deployment_Check.thy ===== *)
theory Deployment_Check
  imports Telemetry Agent_Routes Webhooks
begin

text \<open>
  The two scripts that judge a deployment from outside, \<^verbatim>\<open>scripts/verify_deployment.py\<close> and
  \<^verbatim>\<open>scripts/verify.py\<close>: which requests they send, which answers they accept and the exit status.
  The HTTP client, the child processes and the connections are parameters; a client may keep a
  state, so that an answer can depend on the requests before it. What is printed is left out.
\<close>

section \<open>Probing a deployment\<close>

record probe =
  pr_method :: string
  pr_url :: string
  pr_headers :: "(string \<times> string) list"
  pr_json :: "dict option"

text \<open>A body that is not JSON is \<open>None\<close>; a client that raises answers \<open>None\<close>.\<close>

record response =
  rs_status :: int
  rs_headers :: "(string \<times> string) list"
  rs_body :: "json option"

type_synonym 's client = "'s \<Rightarrow> probe \<Rightarrow> response option \<times> 's"

definition test_endpoint :: "'s client \<Rightarrow> probe \<Rightarrow> int \<Rightarrow> 's \<Rightarrow> (bool \<times> response option) \<times> 's" where
  "test_endpoint client p expected_status s =
     (case client s p of
        (None, s) \<Rightarrow> ((False, None), s)
      | (Some resp, s) \<Rightarrow> ((rs_status resp = expected_status, Some resp), s))"

definition response_json :: "response \<Rightarrow> exn + json" where
  "response_json resp = (case rs_body resp of None \<Rightarrow> Inl JSONDecodeError | Some j \<Rightarrow> Inr j)"

text \<open>
  A step returns the failures it appends, or the exception that ends the script. Most steps send
  one request and look at the answer when the status is 200.
\<close>

type_synonym 's step = "'s \<Rightarrow> (exn + string list) \<times> 's"

definition probe_step ::
    "'s client \<Rightarrow> probe \<Rightarrow> string list \<Rightarrow> (response \<Rightarrow> exn + string list) \<Rightarrow> 's step" where
  "probe_step client p otherwise look s =
     (case test_endpoint client p 200 s of
        ((True, Some resp), s) \<Rightarrow> (look resp, s)
      | (_, s) \<Rightarrow> (Inr otherwise, s))"

definition get_probe :: "string \<Rightarrow> probe" where
  "get_probe url = \<lparr>pr_method = ''GET'', pr_url = url, pr_headers = [], pr_json = None\<rparr>"

definition check_health :: "'s client \<Rightarrow> string \<Rightarrow> 's step" where
  "check_health client backend_url =
     (let failed = [''Backend Liveness (/health)''] in
      probe_step client (get_probe (backend_url @ ''/health'')) failed
        (\<lambda>resp. bindE (response_json resp) (\<lambda>j. bindE (jget j ''status'' JNull) (\<lambda>v.
           Inr (if v = JStr ''ok'' then [] else failed)))))"

definition check_ready :: "env \<Rightarrow> 's client \<Rightarrow> string \<Rightarrow> 's step" where
  "check_ready E client backend_url =
     probe_step client (get_probe (backend_url @ ''/ready'')) [''Backend Readiness (/ready)'']
       (\<lambda>resp. bindE (response_json resp) (\<lambda>data. bindE (jget data ''status'' JNull) (\<lambda>status_val.
          bindE (jget data ''dependencies'' (JObj [])) (\<lambda>deps. bindE (jget deps ''database'' JNull) (\<lambda>_.
          Inr (if status_val \<in> {JStr ''ready'', JStr ''degraded''} then []
               else [''Backend Readiness (/ready returned '' @ py_str E status_val @ '')'']))))))"

definition check_docs :: "'s client \<Rightarrow> string \<Rightarrow> 's step" where
  "check_docs client backend_url =
     probe_step client (get_probe (backend_url @ ''/docs'')) [''Swagger Specs (/docs)''] (\<lambda>_. Inr [])"

definition check_page :: "'s client \<Rightarrow> string \<Rightarrow> string \<Rightarrow> 's step" where
  "check_page client url failure = probe_step client (get_probe url) [failure] (\<lambda>_. Inr [])"

text \<open>A preflight that is not answered with 200 counts as no failure, and nothing else is tried.\<close>

definition check_cors :: "'s client \<Rightarrow> string \<Rightarrow> string \<Rightarrow> 's step" where
  "check_cors client backend_url frontend_url =
     probe_step client
       \<lparr>pr_method = ''OPTIONS'', pr_url = backend_url @ ''/api/v1/demo/run-scenario'',
        pr_headers = [(''Origin'', frontend_url), (''Access-Control-Request-Method'', ''POST''),
          (''Access-Control-Request-Headers'', ''Content-Type,X-Agent-Id'')], pr_json = None\<rparr> []
       (\<lambda>resp. let allow_origin = (case map_of (rs_headers resp) ''access-control-allow-origin'' of
                  None \<Rightarrow> [] | Some v \<Rightarrow> v)
               in Inr (if allow_origin \<in> {frontend_url, ''*''} then [] else [''CORS Headers'']))"

text \<open>Python's \<open>v >= 8\<close> on a JSON value.\<close>

definition at_least_eight :: "json \<Rightarrow> exn + bool" where
  "at_least_eight v =
     (case v of
        JInt i \<Rightarrow> Inr (8 \<le> i)
      | JFloat r \<Rightarrow> Inr (8 \<le> r)
      | JBool _ \<Rightarrow> Inr False
      | _ \<Rightarrow> Inl TypeError)"

definition check_rules :: "'s client \<Rightarrow> string \<Rightarrow> 's step" where
  "check_rules client backend_url =
     (let failed = [''Policy Engine Rules''] in
      probe_step client (get_probe (backend_url @ ''/api/v1/policies/rules'')) failed
        (\<lambda>resp. bindE (response_json resp) (\<lambda>data. bindE (jget data ''rule_count'' (JInt 0)) (\<lambda>rule_count.
           bindE (jget data ''zero_gateway_dispatch_invariant'' (JBool False)) (\<lambda>invariant.
           bindE (at_least_eight rule_count) (\<lambda>enough.
           Inr (if enough \<and> jtruthy invariant then [] else failed)))))))"

definition equals_one :: "json \<Rightarrow> bool" where
  "equals_one v = (v = JInt 1 \<or> v = JFloat 1 \<or> v = JBool True)"

definition post_probe :: "string \<Rightarrow> dict option \<Rightarrow> probe" where
  "post_probe url body = \<lparr>pr_method = ''POST'', pr_url = url, pr_headers = [], pr_json = body\<rparr>"

definition act_one_probe :: "string \<Rightarrow> probe" where
  "act_one_probe backend_url =
     post_probe (backend_url @ ''/api/v1/demo/run-scenario'') (Some [(''step_number'', JInt 1)])"

definition reset_probe :: "string \<Rightarrow> probe" where
  "reset_probe backend_url = post_probe (backend_url @ ''/api/v1/demo/reset'') None"

definition check_act_one :: "'s client \<Rightarrow> string \<Rightarrow> 's step" where
  "check_act_one client backend_url s =
     (let failed = [''Demo Scenario Act 1 Execution''] in
      case test_endpoint client (act_one_probe backend_url) 200 s of
        ((True, Some resp), s) \<Rightarrow>
          (bindE (response_json resp) (\<lambda>r. bindE (jget r ''decision'' JNull) (\<lambda>decision.
             bindE (jget r ''gateway_calls_dispatched'' JNull) (\<lambda>gw_calls.
             Inr (if decision = JStr ''ALLOW'' \<and> equals_one gw_calls then [] else failed)))), s)
      | (_, s) \<Rightarrow>
          (case test_endpoint client (reset_probe backend_url) 200 s of
             ((True, _), s) \<Rightarrow>
               probe_step client (act_one_probe backend_url) failed
                 (\<lambda>resp. bindE (response_json resp) (\<lambda>r. bindE (jget r ''decision'' JNull) (\<lambda>decision.
                    Inr (if decision = JStr ''ALLOW'' then [] else failed)))) s
           | (_, s) \<Rightarrow> (Inr [''Demo Dataset Reset''], s)))"

fun run_steps :: "'s step list \<Rightarrow> 's step" where
  "run_steps [] s = (Inr [], s)"
| "run_steps (f # fs) s =
     (case f s of
        (Inl e, s) \<Rightarrow> (Inl e, s)
      | (Inr xs, s) \<Rightarrow>
          (case run_steps fs s of
             (Inl e, s) \<Rightarrow> (Inl e, s)
           | (Inr ys, s) \<Rightarrow> (Inr (xs @ ys), s)))"

record deployment_args =
  da_backend :: "string option"
  da_frontend :: "string option"
  da_local :: bool
  da_skip_demo_exec :: bool

definition deployment_urls :: "deployment_args \<Rightarrow> (string \<times> string) option" where
  "deployment_urls args =
     (if da_local args then Some (''http://localhost:8000'', ''http://localhost:3000'')
      else if \<not> truthy_str (da_backend args) then None
      else Some (rstrip_char (CHR ''/'') (str_or (da_backend args) []),
                 rstrip_char (CHR ''/'') (str_or (da_frontend args) [])))"

definition deployment_steps :: "env \<Rightarrow> 's client \<Rightarrow> string \<Rightarrow> string \<Rightarrow> bool \<Rightarrow> 's step list" where
  "deployment_steps E client backend_url frontend_url skip_demo_exec =
     [check_health client backend_url, check_ready E client backend_url, check_docs client backend_url]
     @ (if frontend_url = [] then []
        else [check_page client (frontend_url @ ''/'') ''Frontend Landing Page'',
              check_page client (frontend_url @ ''/demo'') ''Frontend /demo route'',
              check_cors client backend_url frontend_url])
     @ [check_rules client backend_url]
     @ (if skip_demo_exec then [] else [check_act_one client backend_url])"

text \<open>The exit status, or the exception that ends the script (with status 1).\<close>

definition verify_deployment_main :: "env \<Rightarrow> deployment_args \<Rightarrow> 's client \<Rightarrow> 's \<Rightarrow> (exn + int) \<times> 's" where
  "verify_deployment_main E args client s =
     (case deployment_urls args of
        None \<Rightarrow> (Inr 1, s)
      | Some (backend_url, frontend_url) \<Rightarrow>
          (case run_steps (deployment_steps E client backend_url frontend_url (da_skip_demo_exec args)) s of
             (Inl e, s) \<Rightarrow> (Inl e, s)
           | (Inr failures, s) \<Rightarrow> (Inr (if failures = [] then 0 else 1), s)))"

section \<open>Verifying a working copy\<close>

text \<open>
  What the authoritative check observes of its surroundings: which modules import, the settings,
  the two connections, the exit statuses and outputs of its commands, the benchmark report and the
  answers of the two probes.
\<close>

record surroundings =
  su_missing :: "string list"
  su_settings :: "string + settings"
  su_database :: "string option"
  su_redis_pong :: "bool option"
  su_command :: "string list \<Rightarrow> string \<Rightarrow> exn + (int \<times> string)"
  su_benchmark_report :: "string option"
  su_health :: "string + response"
  su_ready :: "string + response"

text \<open>A command with its directory; a command that cannot be started raises.\<close>

definition run_command :: "surroundings \<Rightarrow> string list \<Rightarrow> string \<Rightarrow> exn + (bool \<times> string)" where
  "run_command S cmd cwd = bindE (su_command S cmd cwd) (\<lambda>(returncode, output). Inr (returncode = 0, output))"

definition check_dependencies_and_config :: "surroundings \<Rightarrow> bool" where
  "check_dependencies_and_config S \<longleftrightarrow> su_missing S = [] \<and> \<not> isl (su_settings S)"

definition check_database_readiness_probe :: "surroundings \<Rightarrow> bool \<times> bool \<times> string" where
  "check_database_readiness_probe S =
     (su_database S = None, su_redis_pong S = Some True, str_or (su_database S) [])"

definition run_mypy_type_checking :: "string \<Rightarrow> surroundings \<Rightarrow> exn + bool" where
  "run_mypy_type_checking executable S =
     bindE (run_command S [executable, ''-m'', ''ruff'', ''check'', ''packages/core'', ''packages/policy'',
       ''packages/shared'', ''--ignore'', ''C901''] ''.'') (\<lambda>(lint_passed, _).
     bindE (run_command S [executable, ''-m'', ''mypy'', ''apps'', ''packages'', ''services''] ''.'')
       (\<lambda>(type_passed, _). Inr (lint_passed \<and> type_passed)))"

text \<open>
  The counts of the test run, found by searching its output for digits, white space and a word:
  the digits from the first position where these three follow each other.
\<close>

fun search_count :: "string \<Rightarrow> string \<Rightarrow> string option" where
  "search_count word [] = None"
| "search_count word (c # s) =
     (let rest = dropWhile is_digit (c # s)
      in if is_digit c \<and> takeWhile is_space rest \<noteq> [] \<and> starts_with (dropWhile is_space rest) word
         then Some (takeWhile is_digit (c # s)) else search_count word s)"

definition count_of :: "string \<Rightarrow> string \<Rightarrow> nat" where
  "count_of word output =
     (case search_count word output of None \<Rightarrow> 0 | Some ds \<Rightarrow> foldl (\<lambda>n d. 10 * n + digit_val d) 0 ds)"

definition run_pytest_suite :: "string \<Rightarrow> surroundings \<Rightarrow> exn + (bool \<times> nat \<times> nat)" where
  "run_pytest_suite executable S =
     bindE (run_command S [executable, ''-m'', ''pytest'', ''-v'', ''--tb=short''] ''.'') (\<lambda>(passed, output).
       Inr (passed, count_of ''passed'' output, count_of ''skipped'' output))"

text \<open>The report is read as UTF-8; the dash of the second token is three bytes.\<close>

definition required_tokens :: "string list" where
  "required_tokens =
     [''PostgreSQL concurrency evaluation'',
      ''PASS '' @ [CHR 0xE2, CHR 0x80, CHR 0x94] @ '' ZERO OVERSPEND'', ''Reproduction commands'']"

definition validate_benchmark_artifact :: "surroundings \<Rightarrow> bool" where
  "validate_benchmark_artifact S \<longleftrightarrow>
     (case su_benchmark_report S of
        None \<Rightarrow> False
      | Some content \<Rightarrow> list_all (contains content) required_tokens)"

definition build_nextjs_frontend :: "string \<Rightarrow> surroundings \<Rightarrow> exn + bool" where
  "build_nextjs_frontend npm_cmd S =
     bindE (run_command S [npm_cmd, ''run'', ''build''] ''apps/web'') (\<lambda>(passed, _). Inr passed)"

text \<open>Any exception of the two probes is caught and counts as a failed connection.\<close>

definition probe_status :: "response \<Rightarrow> json \<Rightarrow> exn + json" where
  "probe_status resp missing = bindE (response_json resp) (\<lambda>j. jget j ''status'' missing)"

definition verify_api_probes :: "surroundings \<Rightarrow> bool" where
  "verify_api_probes S \<longleftrightarrow>
     (case su_health S of
        Inl _ \<Rightarrow> False
      | Inr h_res \<Rightarrow> rs_status h_res = 200 \<and> probe_status h_res JNull = Inr (JStr ''ok'')
          \<and> (case su_ready S of
                Inl _ \<Rightarrow> False
              | Inr r_res \<Rightarrow> rs_status r_res = 200
                  \<and> probe_status r_res (JStr ''unknown'') = Inr (JStr ''ready'')))"

text \<open>The failed steps in their order, under their names, and the exit status.\<close>

definition verify_steps :: "string \<Rightarrow> string \<Rightarrow> surroundings \<Rightarrow> exn + (string \<times> bool) list" where
  "verify_steps executable npm_cmd S =
     (let (db_connected, redis_connected, db_err) = check_database_readiness_probe S in
      bindE (run_mypy_type_checking executable S) (\<lambda>typed.
      bindE (run_pytest_suite executable S) (\<lambda>(tests_passed, passed_count, skipped_count).
      bindE (build_nextjs_frontend npm_cmd S) (\<lambda>built.
      Inr [(''Dependencies & Config'', check_dependencies_and_config S),
           (''PostgreSQL Database Connection ('' @ db_err @ '')'', db_connected),
           (''MyPy Static Type Safety'', typed),
           (''Pytest Test Suite ('' @ str_nat passed_count @ '' passed, '' @ str_nat skipped_count @ '' skipped)'',
            tests_passed),
           (''Benchmark Artifact'', validate_benchmark_artifact S),
           (''Next.js Frontend Build'', built),
           (''FastAPI Probes'', verify_api_probes S)]))))"

definition verify_main :: "string \<Rightarrow> string \<Rightarrow> surroundings \<Rightarrow> exn + int" where
  "verify_main executable npm_cmd S =
     bindE (verify_steps executable npm_cmd S) (\<lambda>steps.
       Inr (if filter (\<lambda>(_, ok). \<not> ok) steps = [] then 0 else 1))"

section \<open>What the scripts send and accept\<close>

text \<open>A client that records the requests an arbitrary server answers.\<close>

definition recording :: "'s client \<Rightarrow> (probe list \<times> 's) client" where
  "recording server rs p = (let (resp, s) = server (snd rs) p in (resp, (fst rs @ [p], s)))"

definition sends_only :: "probe set \<Rightarrow> (probe list \<times> 's) step \<Rightarrow> bool" where
  "sends_only A f \<longleftrightarrow> (\<forall>rs r rs'. f rs = (r, rs') \<longrightarrow> (\<exists>ps. fst rs' = fst rs @ ps \<and> set ps \<subseteq> A))"

lemma sends_onlyI:
  "(\<And>rs r rs'. f rs = (r, rs') \<Longrightarrow> \<exists>ps. fst rs' = fst rs @ ps \<and> set ps \<subseteq> A) \<Longrightarrow> sends_only A f"
  by (simp add: sends_only_def)

lemma test_endpoint_sends:
  "test_endpoint (recording server) p n rs = (x, rs') \<Longrightarrow> fst rs' = fst rs @ [p]"
  by (auto simp: test_endpoint_def recording_def split: prod.splits option.splits)

lemma probe_step_sends: "p \<in> A \<Longrightarrow> sends_only A (probe_step (recording server) p otherwise look)"
  by (rule sends_onlyI)
    (auto simp: probe_step_def dest!: test_endpoint_sends split: prod.splits bool.splits option.splits)

lemma run_steps_sends:
  assumes "\<And>f. f \<in> set fs \<Longrightarrow> sends_only A f"
  shows "sends_only A (run_steps fs)"
  using assms
proof (induction fs)
  case Nil
  then show ?case by (simp add: sends_only_def)
next
  case (Cons f fs)
  have f: "sends_only A f" and fs: "sends_only A (run_steps fs)" using Cons by simp_all
  show ?case
  proof (rule sends_onlyI)
    fix rs r rs'
    assume run: "run_steps (f # fs) rs = (r, rs')"
    obtain x v where x: "f rs = (x, v)" by (cases "f rs")
    then obtain ps where ps: "fst v = fst rs @ ps" "set ps \<subseteq> A" using f unfolding sends_only_def by blast
    show "\<exists>ps. fst rs' = fst rs @ ps \<and> set ps \<subseteq> A"
    proof (cases x)
      case (Inl e)
      with run x ps show ?thesis by auto
    next
      case (Inr xs)
      obtain y u where y: "run_steps fs v = (y, u)" by (cases "run_steps fs v")
      then obtain qs where "fst u = fst v @ qs" "set qs \<subseteq> A" using fs unfolding sends_only_def by blast
      moreover have "rs' = u" using run x y Inr by (auto split: sum.splits)
      ultimately show ?thesis using ps by (intro exI [of _ "ps @ qs"]) simp
    qed
  qed
qed

lemma act_one_sends:
  "sends_only {act_one_probe b, reset_probe b} (check_act_one (recording server) b)"
  by (rule sends_onlyI)
    (auto simp: check_act_one_def probe_step_def Let_def dest!: test_endpoint_sends
      split: prod.splits bool.splits option.splits)

definition reads :: "probe set" where
  "reads = {p. pr_method p = ''GET'' \<or> pr_method p = ''OPTIONS''}"

text \<open>
  Judging a deployment only reads, unless the demo is executed: whatever the server answers, with
  --skip-demo-exec every request is a GET or an OPTIONS; otherwise the only requests that write
  are the first act and the reset of the demo data, which deletes every row of the database.
\<close>
theorem deployment_check_reads_only:
  assumes "verify_deployment_main E args (recording server) ([], s) = (r, (sent, s'))" and "p \<in> set sent"
    and "deployment_urls args = Some (backend, frontend)"
  shows "pr_method p = ''GET'' \<or> pr_method p = ''OPTIONS''
    \<or> \<not> da_skip_demo_exec args \<and> (p = act_one_probe backend \<or> p = reset_probe backend)"
proof -
  define A where "A = reads \<union> (if da_skip_demo_exec args then {} else {act_one_probe backend, reset_probe backend})"
  have mono: "sends_only A f" if "sends_only B f" "B \<subseteq> A" for B and f :: "(probe list \<times> 'a) step"
    using that unfolding sends_only_def by (meson subset_trans)
  have look: "sends_only A (probe_step (recording server) p x l)" if "p \<in> reads" for p x l
    using that by (intro probe_step_sends) (simp add: A_def)
  have "sends_only A (run_steps (deployment_steps E (recording server) backend frontend (da_skip_demo_exec args)))"
  proof (rule run_steps_sends)
    fix f assume "f \<in> set (deployment_steps E (recording server) backend frontend (da_skip_demo_exec args))"
    moreover have "\<not> da_skip_demo_exec args \<Longrightarrow> sends_only A (check_act_one (recording server) backend)"
      by (rule mono [OF act_one_sends]) (simp add: A_def)
    ultimately show "sends_only A f"
      by (auto simp: deployment_steps_def check_health_def check_ready_def check_docs_def check_page_def
          check_cors_def check_rules_def get_probe_def reads_def Let_def intro!: look split: if_splits)
  qed
  then have "set sent \<subseteq> A"
    using assms(1,3) unfolding sends_only_def verify_deployment_main_def
    by (fastforce split: prod.splits sum.splits)
  with assms(2) show ?thesis by (auto simp: A_def reads_def split: if_splits)
qed

text \<open>The backend of this program under the checks of its own handlers.\<close>

definition own_backend :: "env \<Rightarrow> exn option \<Rightarrow> exn option \<Rightarrow> string \<Rightarrow> unit client" where
  "own_backend E database_failure redis_failure url s p =
     (let answer = (\<lambda>(status, body). Some \<lparr>rs_status = status, rs_headers = [], rs_body = Some (JObj body)\<rparr>) in
      ((if pr_url p = url @ ''/health'' then answer (200, health_check)
        else if pr_url p = url @ ''/ready'' then answer (readiness_check E database_failure redis_failure)
        else if pr_url p = url @ ''/api/v1/policies/rules'' then answer (200, list_policy_rules)
        else None), s))"

lemma own_backend_passes:
  "fst (run_steps [check_health (own_backend E d r url) url, check_ready E (own_backend E d r url) url,
      check_rules (own_backend E d r url) url] ())
    = Inr (if d = None then [] else [''Backend Readiness (/ready)''])"
  by (cases d)
    (simp_all add: check_health_def check_ready_def check_rules_def probe_step_def test_endpoint_def own_backend_def
      get_probe_def health_check_def readiness_check_def list_policy_rules_def response_json_def jget_def
      dget_or_def dict_simps at_least_eight_def POLICY_RULES_METADATA_def Let_def)

text \<open>A preflight that is refused is no failure, whatever origin the backend allows.\<close>

lemma refused_preflight_passes:
  "client s p = (Some resp, s') \<Longrightarrow> rs_status resp \<noteq> 200 \<Longrightarrow>
     p = \<lparr>pr_method = ''OPTIONS'', pr_url = b @ ''/api/v1/demo/run-scenario'',
        pr_headers = [(''Origin'', f), (''Access-Control-Request-Method'', ''POST''),
          (''Access-Control-Request-Headers'', ''Content-Type,X-Agent-Id'')], pr_json = None\<rparr> \<Longrightarrow>
     check_cors client b f s = (Inr [], s')"
  by (simp add: check_cors_def probe_step_def test_endpoint_def)

text \<open>The authoritative check never looks at what it found out about Redis.\<close>

lemma redis_is_ignored: "verify_main py npm (S\<lparr>su_redis_pong := x\<rparr>) = verify_main py npm S"
proof -
  let ?S = "S\<lparr>su_redis_pong := x\<rparr>"
  have "run_command ?S = run_command S" by (intro ext) (simp add: run_command_def)
  then have "run_mypy_type_checking py ?S = run_mypy_type_checking py S" "run_pytest_suite py ?S = run_pytest_suite py S"
    "build_nextjs_frontend npm ?S = build_nextjs_frontend npm S"
    by (simp_all only: run_mypy_type_checking_def run_pytest_suite_def build_nextjs_frontend_def)
  moreover have "check_dependencies_and_config ?S = check_dependencies_and_config S"
    "validate_benchmark_artifact ?S = validate_benchmark_artifact S" "verify_api_probes ?S = verify_api_probes S"
    by (simp_all add: check_dependencies_and_config_def validate_benchmark_artifact_def verify_api_probes_def
        split: sum.split)
  ultimately show ?thesis
    by (simp add: verify_main_def verify_steps_def check_database_readiness_probe_def split_def)
qed

lemma verify_main_passes:
  assumes "verify_main py npm S = Inr 0"
  shows "su_database S = None" and "su_missing S = []" and "validate_benchmark_artifact S" and "verify_api_probes S"
    and "run_mypy_type_checking py S = Inr True" and "build_nextjs_frontend npm S = Inr True"
    and "\<exists>n. run_pytest_suite py S = Inr (True, n)"
  using assms
  by (auto simp: verify_main_def verify_steps_def check_database_readiness_probe_def
      check_dependencies_and_config_def bindE_Inr_iff split: if_splits)

section \<open>The live gateway script\<close>

text \<open>
  \<^verbatim>\<open>services/demo_live_razorpay.py\<close>: one order and one payment link on the real gateway, whatever the
  mock setting. The result is the exception it catches and prints, if any.
\<close>

definition live_order :: order_request where
  "live_order = \<lparr>orq_amount = 50000, orq_currency = ''INR'', orq_receipt = Some ''rcpt_live_demo_01'',
     orq_notes = [(''purpose'', ''Mandate Phase 1 Live Verification'')],
     orq_partial_payment = False\<rparr>"

definition live_link :: payment_link_request where
  "live_link = \<lparr>lrq_amount = 25000, lrq_currency = ''INR'', lrq_description = ''Mandate Agent Authorized Spend'',
     lrq_customer_name = Some ''Test AI User'', lrq_customer_email = Some ''agent.test@mandate.dev'',
     lrq_customer_contact = None, lrq_notes = []\<rparr>"

definition run_live_test :: "env \<Rightarrow> world \<Rightarrow> exn option \<times> world" where
  "run_live_test E w =
     (let client = RazorpayClient_init (settings E) None None None (Some False) in
      case create_order E client live_order w of
        (Inl e, w) \<Rightarrow> (Some e, w)
      | (Inr _, w) \<Rightarrow>
          (case create_payment_link E client live_link w of
             (Inl e, w) \<Rightarrow> (Some e, w)
           | (Inr _, w) \<Rightarrow> (None, w)))"

lemma live_test_sends_at_most_two:
  assumes "run_live_test E w = (r, w')"
  shows "length (http_log w') \<le> length (http_log w) + 2"
proof -
  let ?c = "RazorpayClient_init (settings E) None None None (Some False)"
  obtain x v where x: "create_order E ?c live_order w = (x, v)" by (cases "create_order E ?c live_order w")
  obtain y u where y: "create_payment_link E ?c live_link v = (y, u)" by (cases "create_payment_link E ?c live_link v")
  have "length (http_log v) \<le> Suc (length (http_log w))" using order_api.http_bound [of E ?c live_order w] x by simp
  moreover have "length (http_log u) \<le> Suc (length (http_log v))" using link_api.http_bound [of E ?c live_link v] y by simp
  moreover have "w' = v \<or> w' = u" using assms x y by (cases x; cases y) (auto simp: run_live_test_def)
  ultimately show ?thesis by auto
qed

end
