(* ===== verification/Spec2Isabelle.thy ===== *)
theory Spec2Isabelle
  imports Evaluation Event_Bus Startup Schemas Races Schema_Migration
    Routing Concurrency_Benchmark Deployment_Check
begin

text \<open>
  Verification development of Mandate, a financial authorization and control plane between AI
  agents and the Razorpay APIs (Python, FastAPI and SQLAlchemy). An agent's request passes the
  policy engine, reserves its amount on the agent's mandate, is dispatched to the gateway, and is
  settled by a webhook or by the background worker; agents act through the routes, through a
  JSON-RPC tool gateway or through a chat with a language model.

  Every handler of the program is a function from the environment (settings, clock, UUIDs, hash
  functions, JSON parser, HTTP transport, Redis) and the state \<open>world\<close> (the database tables and what
  was sent to the outside) to a result or exception and the new state. Exceptions are values of
  \<open>exn\<close>; a handler that raises rolls the tables back but not what was sent. A table is the list
  of its rows in insertion order. A handler reads the clock once.

  Theories, in the order of the program's layers:
  \<^item> \<open>Prelude\<close>, \<open>Py_Values\<close>: Python strings, JSON, timestamps, tables with keys (locale
    \<open>keyed_update\<close>); the text of values, binary64 floats as rationals with the rounding written
    out, \<open>int(x)\<close> and \<open>float(x)\<close>, rupee amounts.
  \<^item> \<open>Config\<close>, \<open>Domain\<close>, \<open>Schemas\<close>, \<open>Witness_Data\<close>: packages/shared/config.py, packages/core/enums.py,
    models.py and schemas.py, and the concrete data of the witnesses.
  \<^item> \<open>State_Machine\<close>: packages/core/state_machine.py.
  \<^item> \<open>Ledger_Spec\<close>: the abstract contract of the budget accounting (accounts, entries, moves) and
    the locale \<open>ledger_system\<close> of systems that refine it.
  \<^item> \<open>Razorpay_Client\<close>: packages/razorpay/client.py, with the locale \<open>gateway_method\<close> of its methods.
  \<^item> \<open>Rate_Limiter\<close>, \<open>Auth\<close>, \<open>Policy_Engine\<close>: packages/shared/rate_limiter.py, auth.py and
    packages/policy/engine.py.
  \<^item> \<open>Budget\<close>: packages/core/concurrency.py and the accounting statements of the routes; \<open>lview\<close>
    reads a database as a ledger.
  \<^item> \<open>Mandates\<close>, \<open>Operations\<close>, \<open>Webhooks\<close>: the routes of apps/api/routes for mandates, financial
    requests and gateway events.
  \<^item> \<open>Worker\<close>, \<open>Reconciliation\<close>: services/worker/main.py and reconciliation.py.
  \<^item> \<open>Mcp_Catalog\<close>, \<open>Mcp_Gateway\<close>: packages/mcp/catalog.py and apps/api/routes/mcp_gateway.py.
  \<^item> \<open>Amount_Pattern\<close>, \<open>Agent_Tools\<close>, \<open>Agent_Adapter\<close>, \<open>Agent_Runner\<close>: packages/agents (the regular
    expression of a refund's amount, the tool schemas and prompts, the deterministic and the
    OpenAI adapter, the runner) and apps/api/routes/agent_chat.py. What the language model
    answers is arbitrary.
  \<^item> \<open>Agent_Routes\<close>, \<open>Telemetry\<close>: the routes agents.py, audit.py, policies.py, health.py,
    metrics.py and telemetry.py, and packages/shared/observability.py.
  \<^item> \<open>Event_Bus\<close>: packages/events/bus.py, with the locale \<open>subscription\<close> of its contract.
  \<^item> \<open>Control_Plane\<close>: the routes, the webhooks, the worker and the audits as events on one state,
    and the interpretation of \<open>ledger_system\<close> on their step relation.
  \<^item> \<open>Races\<close>: the human approval and the captured webhook split between their reads and their writes.
  \<^item> \<open>Demo\<close>, \<open>Evaluation\<close>: apps/api/routes/demo.py, evaluation.py and packages/eval.
  \<^item> \<open>Database_Url\<close>, \<open>Startup\<close>: packages/shared/database.py with the parts of \<^verbatim>\<open>urllib.parse\<close> it uses,
    and the life of the process in apps/api/main.py.
  \<^item> \<open>Routing\<close>: the routes mounted by apps/api/main.py and the router's choice between them.
  \<^item> \<open>Schema_Migration\<close>: the tables declared by models.py and those created by migrations/, run on a
    catalogue of tables and indexes.
  \<^item> \<open>Concurrency_Benchmark\<close>, \<open>Deployment_Check\<close>: scripts/benchmark_concurrency.py, verify_deployment.py
    and verify.py, and services/demo_live_razorpay.py.

  What the lemmas show. Each component has lemmas on every branch of its operations, the
  invariants they keep (\<open>books_ok\<close> of the accounting, \<open>delegation_ok\<close> of the mandate tree) and the
  tables they leave alone (\<open>quiet\<close>, \<open>only_meters\<close>, \<open>only_gets\<close>). The handlers that move money are
  refined to moves of the abstract ledger, so the properties of whole runs follow from those of
  the ledger once. Where the code does not do what it means to, a lemma states what it does.
  Where a property says what a route answers, its specification is written apart from the code's
  helpers: \<open>cascaded_to\<close> of \<open>Mandates\<close>, \<open>presented\<close> and \<open>credential_of\<close> of \<open>Auth\<close>, \<open>recent_rows\<close> and
  \<open>discrepancy\<close> of \<open>Reconciliation\<close>, \<open>query_value\<close> of \<open>Database_Url\<close>, \<open>counted\<close> and the label names of
  \<open>Telemetry\<close>, \<open>attacks\<close>, \<open>legitimate\<close> and \<open>reported_share\<close> of \<open>Evaluation\<close>, \<open>terms_of\<close> of \<open>Agent_Runner\<close>.

  Termination. Recursion is structural or has a measure; the cascade down the delegation tree is
  bounded by the mandates not yet visited, also when a table has a cycle, and the gateway's retry
  loop by its attempts. Two loops may run for ever and are partial functions to an option:
  \<open>ancestor_walk\<close> of the policy engine follows parents and ends on every table whose delegation
  depths decrease upward, which \<open>delegation_ok\<close> gives; \<open>deliver_from\<close> of the event bus ends unless a
  handler keeps subscribing, and the properties say when it returns. No fuel is used.

  Interleaving is between the events of \<open>Control_Plane\<close>, among them the three phases of a request;
  every other handler runs as one event. For the two handlers that read a row without a lock,
  \<open>Races\<close> shows what happens when another transaction commits in between: the guarantee on whole
  runs does not extend to such interleavings. In \<open>Concurrency_Benchmark\<close> the order is arbitrary.

  Not modelled: the configuration of logging and the Redis connection (handles of libraries),
  scripts/generate_og.py (it draws a picture), CORS headers, the JSON text of responses, printed
  and logged lines, measured latencies and \<^verbatim>\<open>updated_at\<close>. Outside \<open>Schema_Migration\<close>, foreign keys and
  column widths are not enforced; primary keys and unique columns are.
\<close>

section \<open>Properties of the whole control plane\<close>

lemma held_sum_operations:
  "held_sum (map entry_of ops) k
     = sum_list (map o_amount (filter (\<lambda>op. o_mandate_id op = k \<and> in_flight (o_status op)) ops))"
  by (induction ops) (simp_all add: held_sum_def entry_of_def)

lemma books_ok_reserved:
  assumes "books_ok w" and "m \<in> set (mandates w)"
  shows "m_reserved_spend m = sum_list (map o_amount
    (filter (\<lambda>op. o_mandate_id op = m_id m \<and> in_flight (o_status op)) (operations w)))"
  using ledger_okD(5) [of "map account_of (mandates w)" "map entry_of (operations w)" "account_of m"] assms
  by (simp add: books_ok_def lview_def held_sum_operations account_of_def)

text \<open>
  C1: No mandate is ever overspent: from consistent books, after any sequence of events of the
  control plane (requests interleaved between their phases, approvals, verifications of in-flight
  payments, webhooks, worker sweeps, audits, MCP calls, chats, mandate and administrative routes),
  with any gateway
  answers and any failures, every mandate's committed and reserved spend together stay within its
  limit, and its reservation is exactly the sum of the amounts of its operations in flight.
\<close>
theorem no_overspend_in_any_run:
  assumes "books_ok w" and "run_events evs w = Some w'" and "m \<in> set (mandates w')"
  shows "m_current_aggregate_spend m + m_reserved_spend m \<le> m_aggregate_spend_limit m
    \<and> m_reserved_spend m = sum_list (map o_amount
        (filter (\<lambda>op. o_mandate_id op = m_id m \<and> in_flight (o_status op)) (operations w')))"
proof -
  have "books_ok w'"
    using control_plane.run_ok [OF run_events_steps [OF assms(2)]] assms(1) by (simp add: books_ok_def)
  then show ?thesis using assms(3) books_okD(4) books_ok_reserved by blast
qed

definition tight_world :: world where
  "tight_world = demo_world\<lparr>mandates := [demo_root\<lparr>m_aggregate_spend_limit := 2000\<rparr>]\<rparr>"

definition rival_request :: operation_create where
  "rival_request = (demo_request CREATE_ORDER 1400)\<lparr>oc_idempotency_key := ''key-0002''\<rparr>"

definition demo_evaluation :: evaluation where
  "demo_evaluation = \<lparr>r_decision = ALLOW, r_approved = True, r_requires_human_review = False,
     r_operation_id = [], r_agent_id = [], r_mandate_id = [], r_rejection_reasons = [],
     r_review_reasons = [], r_rule_diagnostics = []\<rparr>"

text \<open>Two requests that both pass the policy, then race for the budget that is left for one.\<close>

definition racing_events :: "event list" where
  "racing_events =
     (let first = uuid_text (demo_uuid 1); second = uuid_text (demo_uuid 6) in
     [Ev_admit demo_env (demo_request CREATE_ORDER 1500) HNone HNone HNone,
      Ev_admit demo_env rival_request HNone HNone HNone,
      Ev_reserve demo_env (demo_request CREATE_ORDER 1500) first demo_evaluation,
      Ev_reserve demo_env rival_request second demo_evaluation, Ev_dispatch demo_env first []])"

lemma racing_run:
  "map_option (\<lambda>w. (map o_status (operations w), map m_reserved_spend (mandates w)))
     (run_events racing_events tight_world) = Some ([Op_EXECUTING, Op_POLICY_REJECTED], [1500])"
  by code_simp

lemma tight_books: "books_ok tight_world"
  by (simp add: books_ok_def lview_def ledger_ok_def tight_world_def demo_world_def demo_root_def
      account_of_def held_sum_def)

theorem no_overspend_in_any_run_witness:
  "\<exists>w'. run_events racing_events tight_world = Some w'
    \<and> map o_status (operations w') = [Op_EXECUTING, Op_POLICY_REJECTED]
    \<and> (\<forall>m \<in> set (mandates w'). m_current_aggregate_spend m + m_reserved_spend m \<le> m_aggregate_spend_limit m)"
proof -
  from racing_run obtain w' where run: "run_events racing_events tight_world = Some w'"
    and st: "map o_status (operations w') = [Op_EXECUTING, Op_POLICY_REJECTED]" by auto
  have "m_current_aggregate_spend m + m_reserved_spend m \<le> m_aggregate_spend_limit m"
    if "m \<in> set (mandates w')" for m
    using no_overspend_in_any_run [OF tight_books run that] by (rule conjunct1)
  with run st show ?thesis by (intro exI [of _ w'] conjI ballI)
qed

text \<open>
  C2: The control plane refines the ledger: a run of its events is, on the ledger view of the
  database (mandates as accounts, operations in flight as holding entries), a run of the
  ledger's moves: opening an account, adding an entry, holding, settling, releasing, refunding.
\<close>
theorem control_plane_refines_ledger:
  assumes "books_ok w" and "run_events evs w = Some w'"
  shows "ledger_steps (lview w) (lview w')"
  using control_plane.run_simulates [OF run_events_steps [OF assms(2)]] assms(1)
  by (simp add: books_ok_def)

theorem control_plane_refines_ledger_witness:
  "\<exists>w'. run_events racing_events tight_world = Some w' \<and> map m_reserved_spend (mandates w') = [1500]
    \<and> ledger_steps (lview tight_world) (lview w')"
proof -
  from racing_run obtain w' where "run_events racing_events tight_world = Some w'"
    and "map m_reserved_spend (mandates w') = [1500]" by auto
  with control_plane_refines_ledger [OF tight_books this(1)] show ?thesis
    by (intro exI [of _ w'] conjI)
qed

end
